(* ===== verification/Prelude.thy ===== *)
theory Prelude
  imports Main "HOL-Library.Word"
begin

text \<open>
  Shared vocabulary of the development.

  A Go method that mutates the chain state and may return an error is a function
  \<open>'s \<Rightarrow> (error + 'a) \<times> 's\<close>: the state is returned on the error branch too, because the
  engines persist as they go and a later error does not undo an earlier write. Go's
  \<^verbatim>\<open>if err := f(); err != nil { return err }\<close> is \<open>bindE\<close>. An error is its message (the
  format string of \<^verbatim>\<open>fmt.Errorf\<close> or the text of the sentinel).

  Conventions: \<^verbatim>\<open>[20]byte\<close> is \<open>address\<close> and \<^verbatim>\<open>[32]byte\<close> is \<open>hash32\<close> (a fixed-size byte
  array is the word with those big-endian bytes, the zero array is \<open>0\<close>); \<^verbatim>\<open>uint8\<close>,
  \<^verbatim>\<open>uint32\<close> and \<^verbatim>\<open>uint64\<close> are words of that width; \<^verbatim>\<open>int64\<close> is \<open>int\<close> with the
  wrap-around of an addition written as \<open>wrap64\<close>; \<^verbatim>\<open>*big.Int\<close> is \<open>int\<close>, or \<open>int option\<close>
  where the code tells \<^verbatim>\<open>nil\<close> from zero; a Go string is its bytes, with the case and
  white-space functions on ASCII.
\<close>

section \<open>Types\<close>

type_synonym address = "160 word"
type_synonym hash32 = "256 word"
type_synonym u8 = "8 word"
type_synonym u32 = "32 word"
type_synonym u64 = "64 word"
type_synonym error = string
type_synonym ('s, 'a) op = "'s \<Rightarrow> (error + 'a) \<times> 's"

named_theorems run_simps "what a run of a state operation with a given outcome means"
named_theorems frame_rules "operations that leave a part of the state alone"
named_theorems keeps_rules "operations that keep a predicate of the state"
named_theorems wp_simps "what an operation must start from to end in a given postcondition"

section \<open>State operations with errors\<close>

definition retE :: "'a \<Rightarrow> ('s, 'a) op" where
  "retE x s = (Inr x, s)"

definition throwE :: "error \<Rightarrow> ('s, 'a) op" where
  "throwE e s = (Inl e, s)"

definition bindE :: "('s, 'a) op \<Rightarrow> ('a \<Rightarrow> ('s, 'b) op) \<Rightarrow> ('s, 'b) op" where
  "bindE m f s = (case m s of (Inl e, t) \<Rightarrow> (Inl e, t) | (Inr x, t) \<Rightarrow> f x t)"

definition failIf :: "bool \<Rightarrow> error \<Rightarrow> ('s, unit) op" where
  "failIf b e = (if b then throwE e else retE ())"

definition getsE :: "('s \<Rightarrow> 'a) \<Rightarrow> ('s, 'a) op" where
  "getsE f s = (Inr (f s), s)"

definition modifyE :: "('s \<Rightarrow> 's) \<Rightarrow> ('s, unit) op" where
  "modifyE f s = (Inr (), f s)"

text \<open>\<^verbatim>\<open>fmt.Errorf("...: %w", err)\<close>.\<close>

definition wrapE :: "string \<Rightarrow> ('s, 'a) op \<Rightarrow> ('s, 'a) op" where
  "wrapE msg m s = (case m s of (Inl e, t) \<Rightarrow> (Inl (msg @ '': '' @ e), t) | (Inr a, t) \<Rightarrow> (Inr a, t))"

definition liftE :: "error + 'a \<Rightarrow> ('s, 'a) op" where
  "liftE r s = (r, s)"

text \<open>Pure fallible code: the same sequencing on \<open>error + 'a\<close>.\<close>

definition bindS :: "error + 'a \<Rightarrow> ('a \<Rightarrow> error + 'b) \<Rightarrow> error + 'b" where
  "bindS r f = (case r of Inl e \<Rightarrow> Inl e | Inr x \<Rightarrow> f x)"

definition checkS :: "bool \<Rightarrow> error \<Rightarrow> error + unit" where
  "checkS b e = (if b then Inl e else Inr ())"

text \<open>The weakest precondition of an operation for a postcondition of its result and one of its
  error.\<close>

definition wp ::
  "('s, 'a) op \<Rightarrow> ('a \<Rightarrow> 's \<Rightarrow> bool) \<Rightarrow> (error \<Rightarrow> 's \<Rightarrow> bool) \<Rightarrow> 's \<Rightarrow> bool" where
  "wp m Q R s = (case m s of (Inr x, t) \<Rightarrow> Q x t | (Inl e, t) \<Rightarrow> R e t)"

section \<open>Integers\<close>

text \<open>
  \<^verbatim>\<open>big.Int.Quo\<close> truncates towards zero. \<^verbatim>\<open>big.Int.Div\<close> is Euclidean and coincides with
  \<open>div\<close> at the positive divisors the code uses.
\<close>

definition bigQuo :: "int \<Rightarrow> int \<Rightarrow> int" where
  "bigQuo a b = sgn a * sgn b * (\<bar>a\<bar> div \<bar>b\<bar>)"

definition wrap64 :: "int \<Rightarrow> int" where
  "wrap64 x = (x + 2 ^ 63) mod 2 ^ 64 - 2 ^ 63"

definition maxUint32 :: u32 where
  "maxUint32 = -1"

definition maxUint64 :: u64 where
  "maxUint64 = -1"

section \<open>Strings and bytes\<close>

definition isSpace :: "char \<Rightarrow> bool" where
  "isSpace c = (let n = of_char c :: nat in n = 32 \<or> (9 \<le> n \<and> n \<le> 13))"

definition trimSpace :: "string \<Rightarrow> string" where
  "trimSpace s = rev (dropWhile isSpace (rev (dropWhile isSpace s)))"

definition upperChar :: "char \<Rightarrow> char" where
  "upperChar c = (let n = of_char c :: nat in
     if 97 \<le> n \<and> n \<le> 122 then char_of (n - 32) else c)"

definition lowerChar :: "char \<Rightarrow> char" where
  "lowerChar c = (let n = of_char c :: nat in
     if 65 \<le> n \<and> n \<le> 90 then char_of (n + 32) else c)"

definition toUpper :: "string \<Rightarrow> string" where
  "toUpper s = map upperChar s"

definition toLower :: "string \<Rightarrow> string" where
  "toLower s = map lowerChar s"

definition trimPrefix :: "string \<Rightarrow> string \<Rightarrow> string" where
  "trimPrefix p s = (if take (length p) s = p then drop (length p) s else s)"

text \<open>The \<open>n\<close> big-endian bytes of a number.\<close>

fun beBytes :: "nat \<Rightarrow> nat \<Rightarrow> string" where
  "beBytes 0 v = []"
| "beBytes (Suc n) v = beBytes n (v div 256) @ [char_of (v mod 256)]"

definition addrBytes :: "address \<Rightarrow> string" where
  "addrBytes a = beBytes 20 (unat a)"

definition hashBytes :: "hash32 \<Rightarrow> string" where
  "hashBytes h = beBytes 32 (unat h)"

definition beValue :: "string \<Rightarrow> nat" where
  "beValue bs = foldl (\<lambda>v c. v * 256 + of_char c) 0 bs"

text \<open>\<^verbatim>\<open>encoding/hex\<close> and \<^verbatim>\<open>strconv\<close>, base 10.\<close>

definition hexDigit :: "nat \<Rightarrow> char" where
  "hexDigit n = char_of (if n < 10 then 48 + n else 87 + n)"

definition hexEncode :: "string \<Rightarrow> string" where
  "hexEncode bs = concat (map (\<lambda>c. [hexDigit (of_char c div 16), hexDigit (of_char c mod 16)]) bs)"

definition hexValue :: "char \<Rightarrow> nat option" where
  "hexValue c = (let n = of_char c :: nat in
     if 48 \<le> n \<and> n \<le> 57 then Some (n - 48)
     else if 97 \<le> n \<and> n \<le> 102 then Some (n - 87)
     else if 65 \<le> n \<and> n \<le> 70 then Some (n - 55)
     else None)"

fun hexDecode :: "string \<Rightarrow> error + string" where
  "hexDecode [] = Inr []"
| "hexDecode [c] = Inl ''encoding/hex: odd length hex string''"
| "hexDecode (a # b # cs) =
     (case (hexValue a, hexValue b) of
        (Some x, Some y) \<Rightarrow> bindS (hexDecode cs) (\<lambda>bs. Inr (char_of (16 * x + y) # bs))
      | _ \<Rightarrow> Inl ''encoding/hex: invalid byte'')"

fun formatNat :: "nat \<Rightarrow> string" where
  "formatNat n = (if n < 10 then [char_of (48 + n)]
     else formatNat (n div 10) @ [char_of (48 + n mod 10)])"

declare formatNat.simps [simp del]

definition formatInt :: "int \<Rightarrow> string" where
  "formatInt i = (if i < 0 then ''-'' @ formatNat (nat (- i)) else formatNat (nat i))"

definition digitValue :: "char \<Rightarrow> nat option" where
  "digitValue c = (let n = of_char c :: nat in if 48 \<le> n \<and> n \<le> 57 then Some (n - 48) else None)"

fun parseDigits :: "nat \<Rightarrow> string \<Rightarrow> nat option" where
  "parseDigits v [] = Some v"
| "parseDigits v (c # cs) =
     (case digitValue c of None \<Rightarrow> None | Some d \<Rightarrow> parseDigits (v * 10 + d) cs)"

text \<open>\<^verbatim>\<open>strconv.ParseUint(text, 10, bits)\<close>.\<close>

definition parseUint :: "nat \<Rightarrow> string \<Rightarrow> error + nat" where
  "parseUint bits s =
     (if s = [] then Inl ''strconv.ParseUint: invalid syntax''
      else case parseDigits 0 s of
        None \<Rightarrow> Inl ''strconv.ParseUint: invalid syntax''
      | Some v \<Rightarrow> if v < 2 ^ bits then Inr v else Inl ''strconv.ParseUint: value out of range'')"

text \<open>\<^verbatim>\<open>new(big.Int).SetString(s, 10)\<close>: an optional sign and decimal digits.\<close>

definition parseBigInt :: "string \<Rightarrow> int option" where
  "parseBigInt s =
     (let (neg, ds) = (case s of [] \<Rightarrow> (False, []) | c # cs \<Rightarrow>
            if c = CHR ''-'' then (True, cs) else if c = CHR ''+'' then (False, cs) else (False, s))
      in if ds = [] then None
         else case parseDigits 0 ds of None \<Rightarrow> None | Some n \<Rightarrow> Some (if neg then - int n else int n))"

section \<open>Decimal text\<close>

lemma digitValue_char: "d < 10 \<Longrightarrow> digitValue (char_of (48 + d)) = Some d"
  by (simp add: digitValue_def)

lemma parseDigits_append:
  "parseDigits v (xs @ ys) = (case parseDigits v xs of None \<Rightarrow> None | Some w \<Rightarrow> parseDigits w ys)"
  by (induction xs arbitrary: v) (auto split: option.splits)

lemma parseDigits_formatNat: "parseDigits 0 (formatNat n) = Some n"
proof (induction n rule: formatNat.induct)
  case (1 n)
  then show ?case
    by (subst formatNat.simps) (simp add: parseDigits_append digitValue_char)
qed

lemma formatNat_inj: "formatNat m = formatNat n \<longleftrightarrow> m = n"
  by (metis option.inject parseDigits_formatNat)

lemma formatNat_nonempty: "formatNat n \<noteq> []"
  by (subst formatNat.simps) simp

lemma formatNat_digits: "c \<in> set (formatNat n) \<Longrightarrow> 48 \<le> (of_char c :: nat) \<and> (of_char c :: nat) \<le> 57"
proof (induction n rule: formatNat.induct)
  case (1 n)
  then show ?case by (subst (asm) (2) formatNat.simps) (auto split: if_splits)
qed

lemma formatNat_no_slash: "CHR ''/'' \<notin> set (formatNat n)"
  by (auto dest: formatNat_digits)

lemma parseBigInt_formatNat: "parseBigInt (formatNat n) = Some (int n)"
proof -
  obtain c cs where c: "formatNat n = c # cs" by (meson formatNat_nonempty neq_Nil_conv)
  then have "c \<noteq> CHR ''-''" "c \<noteq> CHR ''+''" using formatNat_digits [of c n] by auto
  with c parseDigits_formatNat [of n] show ?thesis by (simp add: parseBigInt_def)
qed

lemma trimSpace_id: "(\<And>c. c \<in> set s \<Longrightarrow> \<not> isSpace c) \<Longrightarrow> trimSpace s = s"
proof -
  have id: "dropWhile isSpace t = t" if "\<And>c. c \<in> set t \<Longrightarrow> \<not> isSpace c" for t
    using that by (cases t) auto
  assume "\<And>c. c \<in> set s \<Longrightarrow> \<not> isSpace c"
  with id [of s] id [of "rev s"] show ?thesis by (simp add: trimSpace_def)
qed

lemma trimSpace_formatNat: "trimSpace (formatNat n) = formatNat n"
  by (rule trimSpace_id) (use formatNat_digits in \<open>fastforce simp: isSpace_def\<close>)

section \<open>Lemmas on state operations\<close>

lemma bindE_ok [run_simps]:
  "bindE m f s = (Inr y, t) \<longleftrightarrow> (\<exists>x u. m s = (Inr x, u) \<and> f x u = (Inr y, t))"
  by (auto simp: bindE_def split: prod.splits sum.splits)

lemma bindE_err [run_simps]:
  "bindE m f s = (Inl e, t) \<longleftrightarrow>
     m s = (Inl e, t) \<or> (\<exists>x u. m s = (Inr x, u) \<and> f x u = (Inl e, t))"
  by (auto simp: bindE_def split: prod.splits sum.splits)

lemma retE_ok [run_simps]: "retE x s = (Inr y, t) \<longleftrightarrow> y = x \<and> t = s"
  by (auto simp: retE_def)

lemma retE_err [run_simps]: "retE x s \<noteq> (Inl e, t)"
  by (simp add: retE_def)

lemma throwE_ok [run_simps]: "throwE e s \<noteq> (Inr y, t)"
  by (simp add: throwE_def)

lemma throwE_err [run_simps]: "throwE e s = (Inl e', t) \<longleftrightarrow> e' = e \<and> t = s"
  by (auto simp: throwE_def)

lemma failIf_ok [run_simps]: "failIf b e s = (Inr y, t) \<longleftrightarrow> \<not> b \<and> t = s"
  by (auto simp: failIf_def retE_def throwE_def)

lemma failIf_err [run_simps]: "failIf b e s = (Inl e', t) \<longleftrightarrow> b \<and> e' = e \<and> t = s"
  by (auto simp: failIf_def retE_def throwE_def)

lemma getsE_ok [run_simps]: "getsE f s = (Inr y, t) \<longleftrightarrow> y = f s \<and> t = s"
  by (auto simp: getsE_def)

lemma getsE_err [run_simps]: "getsE f s \<noteq> (Inl e, t)"
  by (simp add: getsE_def)

lemma modifyE_ok [run_simps]: "modifyE f s = (Inr y, t) \<longleftrightarrow> t = f s"
  by (auto simp: modifyE_def)

lemma modifyE_err [run_simps]: "modifyE f s \<noteq> (Inl e, t)"
  by (simp add: modifyE_def)

lemma liftE_ok [run_simps]: "liftE r s = (Inr y, t) \<longleftrightarrow> r = Inr y \<and> t = s"
  by (auto simp: liftE_def)

lemma liftE_err [run_simps]: "liftE r s = (Inl e, t) \<longleftrightarrow> r = Inl e \<and> t = s"
  by (auto simp: liftE_def)

lemma bindS_Inr [simp]: "bindS r f = Inr y \<longleftrightarrow> (\<exists>x. r = Inr x \<and> f x = Inr y)"
  by (cases r) (auto simp: bindS_def)

lemma bindS_Inl: "bindS r f = Inl e \<longleftrightarrow> r = Inl e \<or> (\<exists>x. r = Inr x \<and> f x = Inl e)"
  by (cases r) (auto simp: bindS_def)

lemma bindS_simps [simp]: "bindS (Inl e) f = Inl e" "bindS (Inr x) f = f x"
  by (simp_all add: bindS_def)

lemma checkS_Inr [simp]: "checkS b e = Inr u \<longleftrightarrow> \<not> b"
  by (simp add: checkS_def)

lemma checkS_Inl [simp]: "checkS b e = Inl e' \<longleftrightarrow> b \<and> e' = e"
  by (auto simp: checkS_def)

text \<open>Running an operation forwards, for evaluation.\<close>

lemma run_bindE:
  "m s = (Inr x, t) \<Longrightarrow> bindE m f s = f x t"
  "m s = (Inl e, t) \<Longrightarrow> bindE m f s = (Inl e, t)"
  by (simp_all add: bindE_def)

lemma bindE_simps [simp]:
  "bindE (retE x) f = f x" "bindE (liftE (Inr x)) f = f x" "failIf False e = retE ()"
  "failIf True e = throwE e" "bindE (throwE e) g = throwE e"
  by (simp_all add: bindE_def retE_def liftE_def failIf_def throwE_def fun_eq_iff)

text \<open>The definitions a concrete run unfolds.\<close>

lemmas run_defs = bindE_def failIf_def retE_def throwE_def getsE_def modifyE_def liftE_def wrapE_def

lemma wrapE_ok [run_simps]: "wrapE msg m s = (Inr a, t) \<longleftrightarrow> m s = (Inr a, t)"
  by (auto simp: wrapE_def split: prod.splits sum.splits)

lemma wp_retE [wp_simps]: "wp (retE x) Q R s = Q x s"
  by (simp add: wp_def retE_def)

lemma wp_throwE [wp_simps]: "wp (throwE e) Q R s = R e s"
  by (simp add: wp_def throwE_def)

lemma wp_failIf [wp_simps]: "wp (failIf b e) Q R s = (if b then R e s else Q () s)"
  by (simp add: failIf_def wp_retE wp_throwE)

lemma wp_getsE [wp_simps]: "wp (getsE f) Q R s = Q (f s) s"
  by (simp add: wp_def getsE_def)

lemma wp_modifyE [wp_simps]: "wp (modifyE f) Q R s = Q () (f s)"
  by (simp add: wp_def modifyE_def)

lemma wp_liftE [wp_simps]: "wp (liftE r) Q R s = (case r of Inl e \<Rightarrow> R e s | Inr x \<Rightarrow> Q x s)"
  by (simp add: wp_def liftE_def split: sum.splits)

lemma wp_bindE [wp_simps]: "wp (bindE m f) Q R s = wp m (\<lambda>x. wp (f x) Q R) R s"
  by (auto simp: wp_def bindE_def split: prod.splits sum.splits)

lemma wp_wrapE [wp_simps]: "wp (wrapE msg m) Q R s = wp m Q (\<lambda>e. R (msg @ '': '' @ e)) s"
  by (auto simp: wp_def wrapE_def split: prod.splits sum.splits)

lemma wp_if [wp_simps]: "wp (if b then m else n) Q R s = (if b then wp m Q R s else wp n Q R s)"
  by simp

lemma wpI: "(\<And>x t. m s = (Inr x, t) \<Longrightarrow> Q x t) \<Longrightarrow> (\<And>e t. m s = (Inl e, t) \<Longrightarrow> R e t) \<Longrightarrow> wp m Q R s"
  by (auto simp: wp_def split: prod.splits sum.splits)

lemma wp_mono:
  "wp m Q' R' s \<Longrightarrow> (\<And>x t. Q' x t \<Longrightarrow> Q x t) \<Longrightarrow> (\<And>e t. R' e t \<Longrightarrow> R e t) \<Longrightarrow> wp m Q R s"
  by (auto simp: wp_def split: prod.splits sum.splits)

lemma wp_conj:
  "wp m Q R s \<Longrightarrow> wp m Q' R' s \<Longrightarrow> wp m (\<lambda>x t. Q x t \<and> Q' x t) (\<lambda>e t. R e t \<and> R' e t) s"
  by (auto simp: wp_def split: prod.splits sum.splits)

lemma wp_ok: "wp m Q R s \<Longrightarrow> m s = (Inr x, t) \<Longrightarrow> Q x t"
  by (simp add: wp_def)

lemma wp_err: "wp m Q R s \<Longrightarrow> m s = (Inl e, t) \<Longrightarrow> R e t"
  by (simp add: wp_def)

text \<open>A predicate kept by an operation whatever its outcome.\<close>

definition keeps :: "('s \<Rightarrow> bool) \<Rightarrow> ('s, 'a) op \<Rightarrow> bool" where
  "keeps P m \<longleftrightarrow> (\<forall>s. P s \<longrightarrow> wp m (\<lambda>_. P) (\<lambda>_. P) s)"

lemma keepsI: "(\<And>s. P s \<Longrightarrow> wp m (\<lambda>_. P) (\<lambda>_. P) s) \<Longrightarrow> keeps P m"
  by (simp add: keeps_def)

lemma keeps_snd: "keeps P m \<Longrightarrow> P s \<Longrightarrow> P (snd (m s))"
  by (cases "m s") (auto simp: keeps_def wp_def split: prod.splits sum.splits)

lemma keepsD: "keeps P m \<Longrightarrow> P s \<Longrightarrow> wp m (\<lambda>_. P) (\<lambda>_. P) s"
  by (simp add: keeps_def)

lemma keeps_run: "keeps P m \<Longrightarrow> P s \<Longrightarrow> m s = (r, t) \<Longrightarrow> P t"
  using keeps_snd [of P m s] by simp

lemma keeps_basic [keeps_rules]:
  "keeps P (retE x)" "keeps P (throwE e)" "keeps P (failIf b e)" "keeps P (getsE g)" "keeps P (liftE r)"
  by (simp_all add: keeps_def wp_simps split: sum.splits)

lemma keeps_bindE [keeps_rules]: "keeps P m \<Longrightarrow> (\<And>x. keeps P (f x)) \<Longrightarrow> keeps P (bindE m f)"
  unfolding keeps_def wp_bindE by (auto elim!: wp_mono)

lemma keeps_if [keeps_rules]: "(b \<Longrightarrow> keeps P m) \<Longrightarrow> (\<not> b \<Longrightarrow> keeps P n) \<Longrightarrow> keeps P (if b then m else n)"
  by simp

lemma keeps_option [keeps_rules]:
  "keeps P m \<Longrightarrow> (\<And>x. keeps P (g x)) \<Longrightarrow> keeps P (case v of None \<Rightarrow> m | Some x \<Rightarrow> g x)"
  by (cases v) simp_all

lemma keeps_prod [keeps_rules]: "(\<And>a b. keeps P (g a b)) \<Longrightarrow> keeps P (case p of (a, b) \<Rightarrow> g a b)"
  by (cases p) simp

lemma keeps_let [keeps_rules]: "(\<And>y. keeps P (g y)) \<Longrightarrow> keeps P (let y = x in g y)"
  by simp

text \<open>A part of the state that an operation leaves alone whatever its outcome.\<close>

definition frame :: "('s \<Rightarrow> 'b) \<Rightarrow> ('s, 'a) op \<Rightarrow> bool" where
  "frame f m \<longleftrightarrow> (\<forall>s. f (snd (m s)) = f s)"

lemma frameD: "frame f m \<Longrightarrow> m s = (r, t) \<Longrightarrow> f t = f s"
  unfolding frame_def by (metis snd_conv)

lemma frame_basic [frame_rules]:
  "frame f (retE x)" "frame f (throwE e)" "frame f (failIf b e)" "frame f (getsE g)" "frame f (liftE r)"
  by (simp_all add: frame_def run_defs)

lemma frame_modifyE: "(\<And>s. f (g s) = f s) \<Longrightarrow> frame f (modifyE g)"
  by (simp add: frame_def modifyE_def)

lemma frame_bindE [frame_rules]:
  assumes "frame f m" and "\<And>x. frame f (g x)"
  shows "frame f (bindE m g)"
  unfolding frame_def
proof
  fix s
  obtain r t where "m s = (r, t)" by fastforce
  with assms show "f (snd (bindE m g s)) = f s"
    by (cases r) (auto simp: frame_def bindE_def dest: spec [of _ s])
qed

lemma frame_wrapE [frame_rules]:
  assumes "frame f m"
  shows "frame f (wrapE msg m)"
  unfolding frame_def
proof
  fix s
  obtain r t where "m s = (r, t)" by fastforce
  with assms show "f (snd (wrapE msg m s)) = f s"
    by (cases r) (auto simp: frame_def wrapE_def dest: spec [of _ s])
qed

lemma frame_if [frame_rules]: "frame f m \<Longrightarrow> frame f n \<Longrightarrow> frame f (if b then m else n)"
  by simp

lemma frame_prod [frame_rules]: "(\<And>a b. frame f (g a b)) \<Longrightarrow> frame f (case p of (a, b) \<Rightarrow> g a b)"
  by (cases p) simp

lemma frame_option [frame_rules]:
  "frame f m \<Longrightarrow> (\<And>x. frame f (g x)) \<Longrightarrow> frame f (case v of None \<Rightarrow> m | Some x \<Rightarrow> g x)"
  by (cases v) simp_all

lemma frame_let [frame_rules]: "(\<And>y. frame f (g y)) \<Longrightarrow> frame f (let y = x in g y)"
  by simp

lemma wp_frame:
  assumes "frame f m" and "\<And>x t. f t = f s \<Longrightarrow> Q x t" and "\<And>e t. f t = f s \<Longrightarrow> R e t"
  shows "wp m Q R s"
  using assms by (intro wpI) (auto dest: frameD)

section \<open>Lemmas on integers and strings\<close>

lemma bigQuo_nonneg: "0 \<le> a \<Longrightarrow> 0 < b \<Longrightarrow> bigQuo a b = a div b"
  by (cases "a = 0") (auto simp: bigQuo_def)

lemma bigQuo_ge_0: "0 \<le> a \<Longrightarrow> 0 < b \<Longrightarrow> 0 \<le> bigQuo a b"
  by (simp add: bigQuo_nonneg pos_imp_zdiv_nonneg_iff)

lemma wrap64_id: "- (2 ^ 63) \<le> x \<Longrightarrow> x < 2 ^ 63 \<Longrightarrow> wrap64 x = x"
  by (simp add: wrap64_def)

lemma dropWhile_head: "dropWhile P xs = [] \<or> \<not> P (hd (dropWhile P xs))"
  using hd_dropWhile [of P xs] by (auto simp: dropWhile_eq_Nil_conv)

lemma dropWhile_fix: "xs = [] \<or> \<not> P (hd xs) \<Longrightarrow> dropWhile P xs = xs"
  by (cases xs) auto

lemma last_dropWhile: "dropWhile P xs \<noteq> [] \<Longrightarrow> last (dropWhile P xs) = last xs"
  by (induction xs) auto

lemma trimSpace_empty [simp]: "trimSpace [] = []"
  by (simp add: trimSpace_def)

lemma trimSpace_idem [simp]: "trimSpace (trimSpace s) = trimSpace s"
proof -
  let ?a = "dropWhile isSpace s"
  let ?b = "dropWhile isSpace (rev ?a)"
  have last_b: "?b = [] \<or> last ?b = hd ?a"
    by (metis last_dropWhile last_rev dropWhile.simps(1) rev_is_Nil_conv)
  have "rev ?b = [] \<or> \<not> isSpace (hd (rev ?b))"
  proof (cases "?b = []")
    case False
    then have "hd (rev ?b) = hd ?a"
      using last_b by (metis hd_rev)
    moreover from False have "?a \<noteq> []" by (metis dropWhile.simps(1) rev.simps(1))
    ultimately show ?thesis using dropWhile_head [of isSpace s] by metis
  qed simp
  then have "dropWhile isSpace (rev ?b) = rev ?b" by (rule dropWhile_fix)
  moreover have "dropWhile isSpace ?b = ?b"
    by (rule dropWhile_fix) (rule dropWhile_head)
  ultimately show ?thesis by (simp add: trimSpace_def)
qed

lemma length_beBytes [simp]: "length (beBytes n v) = n"
  by (induction n arbitrary: v) auto

lemma beValue_snoc [simp]: "beValue (bs @ [c]) = beValue bs * 256 + of_char c"
  by (simp add: beValue_def)

lemma beValue_beBytes [simp]: "beValue (beBytes n v) = v mod 256 ^ n"
proof (induction n arbitrary: v)
  case 0
  then show ?case by (simp add: beValue_def)
next
  case (Suc n)
  have "v mod 256 ^ Suc n = v mod (256 * 256 ^ n)" by simp
  also have "\<dots> = 256 * (v div 256 mod 256 ^ n) + v mod 256" by (rule mod_mult2_eq)
  finally show ?case using Suc by simp
qed

lemma beBytes_beValue: "length bs = n \<Longrightarrow> beBytes n (beValue bs) = bs"
proof (induction n arbitrary: bs)
  case (Suc n)
  then obtain cs c where bs: "bs = cs @ [c]" by (cases bs rule: rev_cases) auto
  with Suc.prems have "length cs = n" by simp
  have "of_char c < (256 :: nat)" using of_char_mod_256 [of c] by (metis mod_less_divisor zero_less_numeral)
  then show ?case using Suc.IH [OF \<open>length cs = n\<close>] bs by simp
qed simp

lemma beBytes_inj: "v < 256 ^ n \<Longrightarrow> w < 256 ^ n \<Longrightarrow> beBytes n v = beBytes n w \<Longrightarrow> v = w"
proof (induction n arbitrary: v w)
  case 0
  then show ?case by simp
next
  case (Suc n)
  from Suc.prems(3) have eq: "beBytes n (v div 256) = beBytes n (w div 256)"
    and byte: "(char_of (v mod 256) :: char) = char_of (w mod 256)"
    by auto
  from Suc.prems have "v div 256 < 256 ^ n" "w div 256 < 256 ^ n"
    by (auto simp: div_less_iff_less_mult mult.commute)
  with Suc.IH eq have d: "v div 256 = w div 256" by blast
  from byte have "(of_char (char_of (v mod 256) :: char) :: nat) = of_char (char_of (w mod 256) :: char)"
    by simp
  then have "v mod 256 = w mod 256" by simp
  with d show ?case by (metis div_mult_mod_eq)
qed

lemma word_suc_less:
  fixes a b :: u64
  assumes "a < maxUint64"
  shows "b \<le> a + 1 \<longleftrightarrow> b \<le> a \<or> b = a + 1" and "a < a + 1"
proof -
  have u: "uint (a + 1) = uint a + 1" and a: "uint a < 2 ^ 64 - 1"
    using assms by (simp_all add: maxUint64_def word_less_def uint_word_ariths word_uint_eq_iff)
  show "b \<le> a + 1 \<longleftrightarrow> b \<le> a \<or> b = a + 1" "a < a + 1"
    using u by (auto simp: word_le_def word_less_def word_uint_eq_iff)
qed

section \<open>Sums over a map\<close>

definition msum :: "('k \<Rightarrow> 'v \<Rightarrow> int) \<Rightarrow> ('k \<rightharpoonup> 'v) \<Rightarrow> int" where
  "msum f m = (\<Sum>k\<in>dom m. f k (the (m k)))"

abbreviation oval :: "('k \<Rightarrow> 'v \<Rightarrow> int) \<Rightarrow> ('k \<rightharpoonup> 'v) \<Rightarrow> 'k \<Rightarrow> int" where
  "oval f m k \<equiv> (case m k of None \<Rightarrow> 0 | Some v \<Rightarrow> f k v)"

lemma msum_upd:
  assumes "finite (dom m)"
  shows "msum f (m(k \<mapsto> v)) = msum f m - oval f m k + f k v"
proof -
  have rest: "(\<Sum>x\<in>dom m - {k}. f x (the ((m(k \<mapsto> v)) x))) = (\<Sum>x\<in>dom m - {k}. f x (the (m x)))"
    by (intro sum.cong) auto
  have "msum f (m(k \<mapsto> v)) = f k v + (\<Sum>x\<in>dom m - {k}. f x (the (m x)))"
    using assms by (simp add: msum_def sum.insert_remove rest)
  moreover have "msum f m = oval f m k + (\<Sum>x\<in>dom m - {k}. f x (the (m x)))"
    using assms by (cases "m k") (auto simp: msum_def sum.remove [of "dom m" k] domIff)
  ultimately show ?thesis by simp
qed

lemma msum_empty [simp]: "msum f Map.empty = 0"
  by (simp add: msum_def)

lemma msum_single_le:
  assumes "finite (dom m)" and "\<And>k v. m k = Some v \<Longrightarrow> 0 \<le> f k v" and "m k = Some v"
  shows "f k v \<le> msum f m"
  using member_le_sum [of k "dom m" "\<lambda>k. f k (the (m k))"] assms
  by (force simp: msum_def dom_def)

end
