(* ===== verification/Common.thy ===== *)
theory Common
  imports Prelude
begin

text \<open>
  \<^verbatim>\<open>native/common\<close>: the module pause guard every engine runs first and the per-address
  quota counters, with their key-value store \<^verbatim>\<open>native/system/quotas\<close>.

  \<open>Guard\<close>, \<open>CheckQuota\<close> and \<open>Apply\<close> follow the functions of the same names; \<open>Load\<close>, \<open>Save\<close>
  and \<open>PruneEpoch\<close> are the methods of \<^verbatim>\<open>quotas.Store\<close> over a key-value space whose keys
  are the strings the code formats. The contract \<^verbatim>\<open>common.Store\<close> that \<^verbatim>\<open>Apply\<close> relies on is
  the locale \<open>quota_contract\<close>; the store's model interprets it.
\<close>

section \<open>Pauses\<close>

text \<open>A \<^verbatim>\<open>PauseView\<close> that may be nil.\<close>

type_synonym pause_view = "(string \<Rightarrow> bool) option"

definition Guard :: "pause_view \<Rightarrow> string \<Rightarrow> error + unit" where
  "Guard p module =
     (case p of
        None \<Rightarrow> Inr ()
      | Some isPaused \<Rightarrow>
          if module = '''' then Inr ()
          else if isPaused module then Inl ''module paused''
          else Inr ())"

section \<open>Quota counters\<close>

record QuotaNow =
  ReqCount :: u32
  NHBUsed :: u64
  EpochID :: u64

record Quota =
  MaxRequestsPerMin :: u32
  MaxNHBPerEpoch :: u64
  EpochSeconds :: u32

abbreviation "ErrQuotaRequestsExceeded \<equiv> ''quota requests exceeded''"
abbreviation "ErrQuotaNHBCapExceeded \<equiv> ''quota nhb cap exceeded''"
abbreviation "ErrQuotaCounterOverflow \<equiv> ''quota counter overflow''"

text \<open>The Go functions return a value beside the error; both are kept.\<close>

definition CheckQuota ::
  "Quota \<Rightarrow> u64 \<Rightarrow> QuotaNow \<Rightarrow> u32 \<Rightarrow> u64 \<Rightarrow> QuotaNow \<times> error option" where
  "CheckQuota q nowEpoch prev addReq addNHB =
     (let next0 = (if EpochID prev \<noteq> nowEpoch
                   then \<lparr>ReqCount = 0, NHBUsed = 0, EpochID = nowEpoch\<rparr> else prev)
      in if addReq > 0 \<and> ReqCount next0 > maxUint32 - addReq
         then (prev, Some ErrQuotaCounterOverflow)
         else let next1 = (if addReq > 0 then next0\<lparr>ReqCount := ReqCount next0 + addReq\<rparr> else next0)
      in if MaxRequestsPerMin q > 0 \<and> ReqCount next1 > MaxRequestsPerMin q
         then (prev, Some ErrQuotaRequestsExceeded)
         else if addNHB > 0 \<and> NHBUsed next1 > maxUint64 - addNHB
         then (prev, Some ErrQuotaCounterOverflow)
         else let next2 = (if addNHB > 0 then next1\<lparr>NHBUsed := NHBUsed next1 + addNHB\<rparr> else next1)
      in if MaxNHBPerEpoch q > 0 \<and> NHBUsed next2 > MaxNHBPerEpoch q
         then (prev, Some ErrQuotaNHBCapExceeded)
         else (next2, None))"

abbreviation zeroQuota :: QuotaNow where
  "zeroQuota \<equiv> \<lparr>ReqCount = 0, NHBUsed = 0, EpochID = 0\<rparr>"

definition Apply ::
  "(string \<Rightarrow> u64 \<Rightarrow> string \<Rightarrow> ('s, QuotaNow \<times> bool) op) \<Rightarrow>
   (string \<Rightarrow> u64 \<Rightarrow> string \<Rightarrow> QuotaNow \<Rightarrow> ('s, unit) op) \<Rightarrow>
   string \<Rightarrow> u64 \<Rightarrow> string \<Rightarrow> Quota \<Rightarrow> u32 \<Rightarrow> u64 \<Rightarrow> 's \<Rightarrow> (QuotaNow \<times> error option) \<times> 's" where
  "Apply load save module nowEpoch addr q addReq addNHB s =
     (if addr = [] then ((zeroQuota, Some ''quota: address required''), s)
      else case load module nowEpoch addr s of
        (Inl e, s1) \<Rightarrow> ((zeroQuota, Some e), s1)
      | (Inr (prev, _), s1) \<Rightarrow>
          (case CheckQuota q nowEpoch prev addReq addNHB of
             (_, Some e) \<Rightarrow> ((prev, Some e), s1)
           | (next, None) \<Rightarrow>
               (case save module nowEpoch addr next s1 of
                  (Inl e, s2) \<Rightarrow> ((zeroQuota, Some e), s2)
                | (Inr _, s2) \<Rightarrow> ((next, None), s2))))"

section \<open>The quota store\<close>

record counterRecord =
  recReqCount :: u32
  recNHBUsed :: u64

text \<open>A stored value decodes only at the type it was written with.\<close>

datatype quota_value = QCounter counterRecord | QIndex "string list"

type_synonym quota_kv = "string \<rightharpoonup> quota_value"

definition normaliseModule :: "string \<Rightarrow> string" where
  "normaliseModule module = toLower (trimSpace module)"

definition counterKey :: "string \<Rightarrow> u64 \<Rightarrow> string \<Rightarrow> string" where
  "counterKey module epoch addr =
     ''quotas/'' @ normaliseModule module @ ''/'' @ formatNat (unat epoch) @ ''/'' @ hexEncode addr"

definition epochIndexKey :: "string \<Rightarrow> u64 \<Rightarrow> string" where
  "epochIndexKey module epoch =
     ''quotas/'' @ normaliseModule module @ ''/'' @ formatNat (unat epoch) @ ''/'' @ ''index''"

definition Load :: "string \<Rightarrow> u64 \<Rightarrow> string \<Rightarrow> (quota_kv, QuotaNow \<times> bool) op" where
  "Load module epoch addr =
     bindE (failIf (addr = []) ''quota: address required'') (\<lambda>_.
     bindE (getsE (\<lambda>kv. kv (counterKey module epoch addr))) (\<lambda>v.
     case v of
       None \<Rightarrow> retE (\<lparr>ReqCount = 0, NHBUsed = 0, EpochID = epoch\<rparr>, False)
     | Some (QIndex _) \<Rightarrow> throwE ''quota: load counters: rlp: decode''
     | Some (QCounter r) \<Rightarrow>
         retE (\<lparr>ReqCount = recReqCount r, NHBUsed = recNHBUsed r, EpochID = epoch\<rparr>, True)))"

text \<open>\<^verbatim>\<open>Manager.KVGetList\<close> and \<^verbatim>\<open>Manager.KVAppend\<close> on this key-value space.\<close>

definition KVGetList :: "string \<Rightarrow> (quota_kv, string list) op" where
  "KVGetList key =
     bindE (failIf (key = []) ''kv: key must not be empty'') (\<lambda>_.
     bindE (getsE (\<lambda>kv. kv key)) (\<lambda>v.
     case v of
       None \<Rightarrow> retE []
     | Some (QIndex l) \<Rightarrow> retE l
     | Some (QCounter _) \<Rightarrow> throwE ''rlp: decode''))"

definition KVAppend :: "string \<Rightarrow> string \<Rightarrow> (quota_kv, unit) op" where
  "KVAppend key value =
     bindE (KVGetList key) (\<lambda>l.
     modifyE (\<lambda>kv. kv(key \<mapsto> QIndex (if value \<in> set l then l else l @ [value]))))"

definition Save :: "string \<Rightarrow> u64 \<Rightarrow> string \<Rightarrow> QuotaNow \<Rightarrow> (quota_kv, unit) op" where
  "Save module epoch addr counters =
     bindE (failIf (addr = []) ''quota: address required'') (\<lambda>_.
     bindE (modifyE (\<lambda>kv. kv(counterKey module epoch addr \<mapsto>
        QCounter \<lparr>recReqCount = ReqCount counters, recNHBUsed = NHBUsed counters\<rparr>))) (\<lambda>_.
     bindE (wrapE ''quota: load epoch index'' (KVGetList (epochIndexKey module epoch))) (\<lambda>indexed.
     if addr \<in> set indexed then retE ()
     else wrapE ''quota: update epoch index'' (KVAppend (epochIndexKey module epoch) addr))))"

fun pruneCounters :: "string \<Rightarrow> u64 \<Rightarrow> string list \<Rightarrow> quota_kv \<Rightarrow> quota_kv" where
  "pruneCounters module epoch [] kv = kv"
| "pruneCounters module epoch (a # as) kv =
     pruneCounters module epoch as (kv(counterKey module epoch a := None))"

definition PruneEpoch :: "string \<Rightarrow> u64 \<Rightarrow> (quota_kv, unit) op" where
  "PruneEpoch module epoch =
     bindE (wrapE ''quota: load epoch index'' (KVGetList (epochIndexKey module epoch))) (\<lambda>addrs.
     bindE (modifyE (pruneCounters module epoch addrs)) (\<lambda>_.
     modifyE (\<lambda>kv. kv(epochIndexKey module epoch := None))))"

text \<open>A list of requests of one address in one epoch, run one after another; the counters
  the accepted ones add up to.\<close>

fun applyAll ::
  "(u32 \<Rightarrow> u64 \<Rightarrow> 's \<Rightarrow> (QuotaNow \<times> error option) \<times> 's) \<Rightarrow> (u32 \<times> u64) list \<Rightarrow> 's \<Rightarrow>
   (u32 \<times> u64) list \<times> 's" where
  "applyAll f [] s = ([], s)"
| "applyAll f ((r, n) # rs) s =
     (case f r n s of
        ((_, None), s1) \<Rightarrow> (let (acc, s2) = applyAll f rs s1 in ((r, n) # acc, s2))
      | ((_, Some _), s1) \<Rightarrow> applyAll f rs s1)"

section \<open>Lemmas\<close>

lemma Guard_ok: "Guard p m = Inr u \<longleftrightarrow> (case p of None \<Rightarrow> True | Some f \<Rightarrow> m = '''' \<or> \<not> f m)"
  by (auto simp: Guard_def split: option.splits)

text \<open>An accepted request adds exactly, without wrap-around, and stays within the limits.\<close>

lemma unat_plus_no_wrap:
  fixes a b :: "'a::len word"
  assumes "a \<le> - 1 - b"
  shows "unat (a + b) = unat a + unat b"
proof -
  have "unat a \<le> unat (- 1 - b)" using assms by (simp add: word_le_nat_alt)
  also have "\<dots> = 2 ^ LENGTH('a) - 1 - unat b"
    by (simp add: unat_sub word_order.extremum unsigned_minus_1_eq_mask mask_eq_exp_minus_1)
  finally have "unat a \<le> 2 ^ LENGTH('a) - 1 - unat b" .
  moreover have "unat b < 2 ^ LENGTH('a)" by (rule unsigned_less)
  ultimately have "unat a + unat b < 2 ^ LENGTH('a)" by linarith
  then show ?thesis by (simp add: unat_word_ariths)
qed

lemma CheckQuota_accept:
  assumes "CheckQuota q e prev r n = (nx, None)"
  shows "EpochID nx = e"
    and "EpochID prev = e \<Longrightarrow> unat (ReqCount nx) = unat (ReqCount prev) + unat r"
    and "EpochID prev = e \<Longrightarrow> unat (NHBUsed nx) = unat (NHBUsed prev) + unat n"
    and "MaxRequestsPerMin q > 0 \<Longrightarrow> ReqCount nx \<le> MaxRequestsPerMin q"
    and "MaxNHBPerEpoch q > 0 \<Longrightarrow> NHBUsed nx \<le> MaxNHBPerEpoch q"
  using assms
  by (auto simp: CheckQuota_def Let_def maxUint32_def maxUint64_def not_less word_gt_0
      unat_plus_no_wrap split: if_splits)

lemma CheckQuota_reject: "CheckQuota q e prev r n = (nx, Some err) \<Longrightarrow> nx = prev"
  by (auto simp: CheckQuota_def Let_def split: if_splits)

text \<open>What \<^verbatim>\<open>Apply\<close> relies on of a \<^verbatim>\<open>common.Store\<close>.\<close>

locale quota_contract =
  fixes load :: "string \<Rightarrow> u64 \<Rightarrow> string \<Rightarrow> ('s, QuotaNow \<times> bool) op"
    and save :: "string \<Rightarrow> u64 \<Rightarrow> string \<Rightarrow> QuotaNow \<Rightarrow> ('s, unit) op"
    and view :: "string \<Rightarrow> u64 \<Rightarrow> string \<Rightarrow> 's \<Rightarrow> QuotaNow"
    and norm :: "string \<Rightarrow> string"
    and good :: "string \<Rightarrow> u64 \<Rightarrow> 's \<Rightarrow> bool"
  assumes load_ok: "good m e s \<Longrightarrow> a \<noteq> [] \<Longrightarrow> \<exists>b. load m e a s = (Inr (view m e a s, b), s)"
    and view_epoch: "EpochID (view m e a s) = e"
    and save_ok: "good m e s \<Longrightarrow> a \<noteq> [] \<Longrightarrow> EpochID c = e \<Longrightarrow>
      \<exists>t. save m e a c s = (Inr (), t) \<and> good m e t \<and> view m e a t = c
        \<and> (\<forall>m' e' a'. (norm m', e', a') \<noteq> (norm m, e, a) \<longrightarrow> view m' e' a' t = view m' e' a' s)"
begin

lemma apply_cases:
  assumes "good m e s" and "a \<noteq> []"
  shows "(\<exists>t nx. Apply load save m e a q r n s = ((nx, None), t) \<and> good m e t
            \<and> CheckQuota q e (view m e a s) r n = (nx, None) \<and> view m e a t = nx
            \<and> (\<forall>m' e' a'. (norm m', e', a') \<noteq> (norm m, e, a) \<longrightarrow> view m' e' a' t = view m' e' a' s))
       \<or> (\<exists>err. Apply load save m e a q r n s = ((view m e a s, Some err), s)
            \<and> CheckQuota q e (view m e a s) r n = (view m e a s, Some err))"
proof -
  obtain b where load: "load m e a s = (Inr (view m e a s, b), s)"
    using load_ok [OF assms] by blast
  obtain nx err where check: "CheckQuota q e (view m e a s) r n = (nx, err)"
    by fastforce
  show ?thesis
  proof (cases err)
    case None
    with check have "EpochID nx = e" using CheckQuota_accept(1) by blast
    then obtain t where "save m e a nx s = (Inr (), t)" "good m e t" "view m e a t = nx"
        "\<forall>m' e' a'. (norm m', e', a') \<noteq> (norm m, e, a) \<longrightarrow> view m' e' a' t = view m' e' a' s"
      using save_ok [OF assms, of nx] by blast
    with None check load assms(2) show ?thesis by (auto simp: Apply_def)
  next
    case (Some x)
    with check have "nx = view m e a s" using CheckQuota_reject by blast
    with Some check load assms(2) show ?thesis by (auto simp: Apply_def)
  qed
qed

text \<open>A run of requests leaves exactly the sums of the accepted ones.\<close>

lemma applyAll_sums:
  assumes "good m e s" and "a \<noteq> []"
    and "applyAll (\<lambda>r n. Apply load save m e a q r n) rs s = (acc, t)"
  shows "good m e t
    \<and> unat (ReqCount (view m e a t)) = unat (ReqCount (view m e a s)) + (\<Sum>(r, n)\<leftarrow>acc. unat r)
    \<and> unat (NHBUsed (view m e a t)) = unat (NHBUsed (view m e a s)) + (\<Sum>(r, n)\<leftarrow>acc. unat n)
    \<and> (MaxNHBPerEpoch q > 0 \<longrightarrow> NHBUsed (view m e a s) \<le> MaxNHBPerEpoch q \<longrightarrow>
         NHBUsed (view m e a t) \<le> MaxNHBPerEpoch q)
    \<and> (MaxRequestsPerMin q > 0 \<longrightarrow> ReqCount (view m e a s) \<le> MaxRequestsPerMin q \<longrightarrow>
         ReqCount (view m e a t) \<le> MaxRequestsPerMin q)
    \<and> (\<forall>m' e' a'. (norm m', e', a') \<noteq> (norm m, e, a) \<longrightarrow> view m' e' a' t = view m' e' a' s)"
  using assms(1,3)
proof (induction rs arbitrary: s acc)
  case Nil
  then show ?case by simp
next
  case (Cons rn rs)
  obtain r n where rn: "rn = (r, n)" by fastforce
  from apply_cases [OF Cons.prems(1) assms(2), of q r n] show ?case
  proof (elim disjE exE conjE)
    fix u nx
    assume step: "Apply load save m e a q r n s = ((nx, None), u)" and gu: "good m e u"
      and check: "CheckQuota q e (view m e a s) r n = (nx, None)" and vu: "view m e a u = nx"
      and other: "\<forall>m' e' a'. (norm m', e', a') \<noteq> (norm m, e, a) \<longrightarrow> view m' e' a' u = view m' e' a' s"
    obtain acc' where rest: "applyAll (\<lambda>r n. Apply load save m e a q r n) rs u = (acc', t)"
      and acc: "acc = (r, n) # acc'"
      using Cons.prems(2) step rn by (auto split: prod.splits)
    note IH = Cons.IH [OF gu rest]
    have sums: "unat (ReqCount nx) = unat (ReqCount (view m e a s)) + unat r"
      "unat (NHBUsed nx) = unat (NHBUsed (view m e a s)) + unat n"
      using CheckQuota_accept(2,3) [OF check] view_epoch by auto
    show ?thesis
      using IH sums acc vu other CheckQuota_accept(4,5) [OF check] by auto
  next
    fix err
    assume "Apply load save m e a q r n s = ((view m e a s, Some err), s)"
    then have "applyAll (\<lambda>r n. Apply load save m e a q r n) rs s = (acc, t)"
      using Cons.prems(2) rn by simp
    then show ?thesis using Cons.IH [OF Cons.prems(1)] by blast
  qed
qed

end

text \<open>The keys of one module and epoch are distinct.\<close>

lemma hexDigit_inj: "m < 16 \<Longrightarrow> n < 16 \<Longrightarrow> hexDigit m = hexDigit n \<Longrightarrow> m = n"
  unfolding hexDigit_def
  by (drule arg_cong [where f = "of_char :: char \<Rightarrow> nat"]) (auto split: if_splits)

lemma hexEncode_simps [simp]:
  "hexEncode [] = []"
  "hexEncode (c # cs) = hexDigit (of_char c div 16) # hexDigit (of_char c mod 16) # hexEncode cs"
  by (simp_all add: hexEncode_def)

lemma length_hexEncode: "length (hexEncode bs) = 2 * length bs"
  by (induction bs) auto

lemma of_char_div_16: "of_char (c :: char) div (16 :: nat) < 16"
proof -
  have "of_char c < (256 :: nat)" using of_char_mod_256 [of c] by (metis mod_less_divisor zero_less_numeral)
  then show ?thesis by linarith
qed

lemma hexEncode_inj: "hexEncode bs = hexEncode cs \<Longrightarrow> bs = cs"
proof (induction bs arbitrary: cs)
  case Nil
  then show ?case by (cases cs) auto
next
  case (Cons b bs)
  then obtain c cs' where cs: "cs = c # cs'" by (cases cs) auto
  from Cons.prems cs have "of_char b div (16 :: nat) = of_char c div 16"
    and "of_char b mod (16 :: nat) = of_char c mod 16"
    by (auto intro: hexDigit_inj simp: of_char_div_16)
  then have "(of_char b :: nat) = of_char c" by (metis div_mult_mod_eq)
  then have "b = c" by simp
  with Cons cs show ?case by simp
qed

lemma hexEncode_no_slash: "CHR ''/'' \<notin> set (hexEncode bs)"
proof (induction bs)
  case (Cons b bs)
  have "hexDigit n \<noteq> CHR ''/''" if "n < 16" for n
    using that by (auto simp: hexDigit_def dest!: arg_cong [where f = "of_char :: char \<Rightarrow> nat"] split: if_splits)
  with Cons show ?case using of_char_div_16 [of b] by (auto dest: sym)
qed simp

text \<open>A module name may contain slashes, but the last two parts of a key do not.\<close>

lemma append_last_sep:
  assumes "xs @ c # ys = xs' @ c # ys'" and "c \<notin> set ys" and "c \<notin> set ys'"
  shows "xs = xs'" and "ys = ys'"
proof -
  have take: "takeWhile (\<lambda>x. x \<noteq> c) (rev zs @ c # ws) = rev zs" if "c \<notin> set zs" for zs ws
    using that by (subst takeWhile_append2) auto
  from arg_cong [OF assms(1), of rev] have "rev ys @ c # rev xs = rev ys' @ c # rev xs'" by simp
  then show "ys = ys'" using take [OF assms(2)] take [OF assms(3)] by (metis rev_is_rev_conv)
  with assms(1) show "xs = xs'" by simp
qed

lemma counterKey_eq:
  "counterKey m e a = counterKey m' e' a' \<longleftrightarrow> (normaliseModule m, e, a) = (normaliseModule m', e', a')"
proof
  assume eq: "counterKey m e a = counterKey m' e' a'"
  let ?p = "\<lambda>m e. ''quotas/'' @ normaliseModule m @ ''/'' @ formatNat (unat (e :: u64))"
  have "?p m e @ CHR ''/'' # hexEncode a = ?p m' e' @ CHR ''/'' # hexEncode a'"
    using eq by (simp add: counterKey_def)
  from append_last_sep [OF this hexEncode_no_slash hexEncode_no_slash]
  have "?p m e = ?p m' e'" and a: "a = a'" using hexEncode_inj by blast+
  then have "(''quotas/'' @ normaliseModule m) @ CHR ''/'' # formatNat (unat e)
      = (''quotas/'' @ normaliseModule m') @ CHR ''/'' # formatNat (unat e')" by simp
  from append_last_sep [OF this formatNat_no_slash formatNat_no_slash]
  have "normaliseModule m = normaliseModule m'" and "formatNat (unat e) = formatNat (unat e')" by simp_all
  with a show "(normaliseModule m, e, a) = (normaliseModule m', e', a')"
    by (simp add: formatNat_inj word_unat_eq_iff)
qed (simp add: counterKey_def)

lemma counterKey_inj [simp]: "counterKey m e a = counterKey m e b \<longleftrightarrow> a = b"
  by (simp add: counterKey_eq)

lemma counterKey_index [simp]: "counterKey m e a \<noteq> epochIndexKey m' e'"
proof
  assume "counterKey m e a = epochIndexKey m' e'"
  then have "(''quotas/'' @ normaliseModule m @ ''/'' @ formatNat (unat e)) @ CHR ''/'' # hexEncode a
      = (''quotas/'' @ normaliseModule m' @ ''/'' @ formatNat (unat e')) @ CHR ''/'' # ''index''"
    by (simp add: counterKey_def epochIndexKey_def)
  from append_last_sep(2) [OF this hexEncode_no_slash] have "length (hexEncode a) = length ''index''" by simp
  then have "2 * length a = 5" by (simp add: length_hexEncode)
  then show False by presburger
qed

lemmas index_counterKey [simp] = counterKey_index [symmetric]

lemma epochIndexKey_nonempty [simp]: "epochIndexKey m e \<noteq> []"
  by (simp add: epochIndexKey_def)

text \<open>Every counter of the epoch is listed in the epoch's index.\<close>

definition quota_wf :: "string \<Rightarrow> u64 \<Rightarrow> quota_kv \<Rightarrow> bool" where
  "quota_wf m e kv \<longleftrightarrow>
     (\<forall>r. kv (epochIndexKey m e) \<noteq> Some (QCounter r)) \<and>
     (\<forall>a v. a \<noteq> [] \<longrightarrow> kv (counterKey m e a) = Some v \<longrightarrow>
        (\<exists>r. v = QCounter r) \<and> (\<exists>l. kv (epochIndexKey m e) = Some (QIndex l) \<and> a \<in> set l))"

definition quota_view :: "string \<Rightarrow> u64 \<Rightarrow> string \<Rightarrow> quota_kv \<Rightarrow> QuotaNow" where
  "quota_view m e a kv =
     (case kv (counterKey m e a) of
        Some (QCounter r) \<Rightarrow> \<lparr>ReqCount = recReqCount r, NHBUsed = recNHBUsed r, EpochID = e\<rparr>
      | _ \<Rightarrow> \<lparr>ReqCount = 0, NHBUsed = 0, EpochID = e\<rparr>)"

lemma Load_view:
  assumes "quota_wf m e kv" and "a \<noteq> []"
  shows "\<exists>b. Load m e a kv = (Inr (quota_view m e a kv, b), kv)"
  using assms unfolding quota_wf_def
  by (auto simp: Load_def quota_view_def bindE_def failIf_def retE_def getsE_def
      split: option.splits quota_value.splits)

lemma KVGetList_wf:
  "quota_wf m e kv \<Longrightarrow> KVGetList (epochIndexKey m e) kv =
     (Inr (case kv (epochIndexKey m e) of Some (QIndex l) \<Rightarrow> l | _ \<Rightarrow> []), kv)"
  by (auto simp: quota_wf_def KVGetList_def bindE_def failIf_def retE_def getsE_def
      split: option.splits quota_value.splits)

lemma Save_view:
  assumes wf: "quota_wf m e kv" and "a \<noteq> []" and "EpochID c = e"
  shows "\<exists>t. Save m e a c kv = (Inr (), t) \<and> quota_wf m e t \<and> quota_view m e a t = c
    \<and> (\<forall>m' e' a'. (normaliseModule m', e', a') \<noteq> (normaliseModule m, e, a) \<longrightarrow> quota_view m' e' a' t = quota_view m' e' a' kv)"
proof -
  let ?rec = "\<lparr>recReqCount = ReqCount c, recNHBUsed = NHBUsed c\<rparr>"
  let ?kv = "kv(counterKey m e a \<mapsto> QCounter ?rec)"
  define l where "l = (case kv (epochIndexKey m e) of Some (QIndex l) \<Rightarrow> l | _ \<Rightarrow> [])"
  let ?t = "if a \<in> set l then ?kv else ?kv(epochIndexKey m e \<mapsto> QIndex (l @ [a]))"
  from wf have get: "KVGetList (epochIndexKey m e) ?kv = (Inr l, ?kv)"
    by (auto simp: l_def quota_wf_def KVGetList_def bindE_def failIf_def retE_def getsE_def
        split: option.splits quota_value.splits)
  have "Save m e a c kv = (Inr (), ?t)"
    using get assms(2) by (simp add: Save_def KVAppend_def wrapE_def bindE_def failIf_def retE_def modifyE_def)
  moreover have "quota_wf m e ?t"
    using wf unfolding quota_wf_def l_def
    by (cases "kv (epochIndexKey m e)"; cases "the (kv (epochIndexKey m e))") auto
  moreover have "quota_view m e a ?t = c" using assms(3) by (simp add: quota_view_def)
  moreover have "\<forall>m' e' a'. (normaliseModule m', e', a') \<noteq> (normaliseModule m, e, a) \<longrightarrow>
      quota_view m' e' a' ?t = quota_view m' e' a' kv"
    by (simp add: quota_view_def counterKey_eq)
  ultimately show ?thesis by blast
qed

interpretation qs: quota_contract Load Save quota_view normaliseModule quota_wf
proof
  show "quota_wf m e s \<Longrightarrow> a \<noteq> [] \<Longrightarrow> \<exists>b. Load m e a s = (Inr (quota_view m e a s, b), s)"
    for m e s a by (rule Load_view)
  show "EpochID (quota_view m e a s) = e" for m e s a
    by (auto simp: quota_view_def split: option.splits quota_value.splits)
  show "quota_wf m e s \<Longrightarrow> a \<noteq> [] \<Longrightarrow> EpochID c = e \<Longrightarrow>
      \<exists>t. Save m e a c s = (Inr (), t) \<and> quota_wf m e t \<and> quota_view m e a t = c
        \<and> (\<forall>m' e' a'. (normaliseModule m', e', a') \<noteq> (normaliseModule m, e, a) \<longrightarrow> quota_view m' e' a' t = quota_view m' e' a' s)" for m e s a c
    by (rule Save_view)
qed

lemma pruneCounters_other:
  "(\<forall>a \<in> set as. k \<noteq> counterKey m e a) \<Longrightarrow> pruneCounters m e as kv k = kv k"
  by (induction as arbitrary: kv) auto

lemma pruneCounters_gone: "a \<in> set as \<Longrightarrow> pruneCounters m e as kv (counterKey m e a) = None"
proof (induction as arbitrary: kv)
  case (Cons b bs)
  show ?case
  proof (cases "a \<in> set bs")
    case True
    then show ?thesis using Cons.IH by simp
  next
    case False
    with Cons.prems have "a = b" by simp
    with False have "\<forall>a' \<in> set bs. counterKey m e b \<noteq> counterKey m e a'" by auto
    from pruneCounters_other [OF this] \<open>a = b\<close> show ?thesis by simp
  qed
qed simp

text \<open>
  Property C11 (quota counters). Start with the counters of an address in an epoch at zero and run
  any list of its requests against the store through \<^verbatim>\<open>Apply\<close>: the stored counters end up as the exact
  sums of the accepted requests (no 32- or 64-bit wrap-around), they never pass the configured caps, and
  the counters of every other address, epoch and module (up to case and surrounding spaces of
  its name) are unchanged.
\<close>

theorem quota_run_within_caps:
  assumes "quota_wf m e kv" and "a \<noteq> []"
    and "applyAll (\<lambda>r n. Apply Load Save m e a q r n) rs kv = (acc, kv')"
    and "quota_view m e a kv = \<lparr>ReqCount = 0, NHBUsed = 0, EpochID = e\<rparr>"
  shows "unat (ReqCount (quota_view m e a kv')) = (\<Sum>(r, n)\<leftarrow>acc. unat r)
    \<and> unat (NHBUsed (quota_view m e a kv')) = (\<Sum>(r, n)\<leftarrow>acc. unat n)
    \<and> (MaxNHBPerEpoch q > 0 \<longrightarrow> (\<Sum>(r, n)\<leftarrow>acc. unat n) \<le> unat (MaxNHBPerEpoch q))
    \<and> (MaxRequestsPerMin q > 0 \<longrightarrow> (\<Sum>(r, n)\<leftarrow>acc. unat r) \<le> unat (MaxRequestsPerMin q))
    \<and> (\<forall>m' e' a'. (normaliseModule m', e', a') \<noteq> (normaliseModule m, e, a) \<longrightarrow>
         quota_view m' e' a' kv' = quota_view m' e' a' kv)"
  using qs.applyAll_sums [OF assms(1-3)] assms(4) by (auto simp: word_le_nat_alt)

theorem quota_run_within_caps_witness:
  "(\<Sum>(r, n)\<leftarrow>[(1 :: u32, 40 :: u64)]. unat n) \<le> unat (60 :: u64) \<and>
   unat (NHBUsed (quota_view ''swap'' 7 ''A'' (snd (applyAll (\<lambda>r n. Apply Load Save ''swap'' 7 ''A''
     \<lparr>MaxRequestsPerMin = 0, MaxNHBPerEpoch = 60, EpochSeconds = 60\<rparr> r n) [(1, 40), (1, 30)]
     Map.empty)))) = 40"
proof -
  let ?q = "\<lparr>MaxRequestsPerMin = 0, MaxNHBPerEpoch = 60, EpochSeconds = 60\<rparr>"
  let ?run = "applyAll (\<lambda>r n. Apply Load Save ''swap'' 7 ''A'' ?q r n) [(1, 40), (1, 30)] Map.empty"
  have acc: "fst ?run = [(1, 40)]"
    by (simp add: Apply_def Load_def Save_def CheckQuota_def KVGetList_def KVAppend_def run_defs
        maxUint32_def maxUint64_def)
  have wf: "quota_wf ''swap'' 7 Map.empty" by (simp add: quota_wf_def)
  have view: "quota_view ''swap'' 7 ''A'' Map.empty = \<lparr>ReqCount = 0, NHBUsed = 0, EpochID = 7\<rparr>"
    by (simp add: quota_view_def)
  obtain t where run: "?run = ([(1, 40)], t)" using acc by (cases ?run) (simp only: fst_conv)
  show ?thesis unfolding run snd_conv using quota_run_within_caps [OF wf _ run view] by simp
qed

text \<open>
  Pruning. \<^verbatim>\<open>PruneEpoch\<close> deletes the counters of every address that was ever
  saved in the epoch and touches no key of another module or epoch.
\<close>

theorem prune_epoch_complete:
  assumes "quota_wf m e kv"
  shows "\<exists>kv'. PruneEpoch m e kv = (Inr (), kv')
    \<and> (\<forall>a. a \<noteq> [] \<longrightarrow> kv' (counterKey m e a) = None) \<and> kv' (epochIndexKey m e) = None
    \<and> (\<forall>k. (\<forall>a. k \<noteq> counterKey m e a) \<longrightarrow> k \<noteq> epochIndexKey m e \<longrightarrow> kv' k = kv k)"
proof -
  let ?l = "case kv (epochIndexKey m e) of Some (QIndex l) \<Rightarrow> l | _ \<Rightarrow> []"
  let ?t = "(pruneCounters m e ?l kv)(epochIndexKey m e := None)"
  have run: "PruneEpoch m e kv = (Inr (), ?t)"
    using KVGetList_wf [OF assms] by (simp add: PruneEpoch_def wrapE_def bindE_def modifyE_def)
  have "pruneCounters m e ?l kv (counterKey m e a) = None" if "a \<noteq> []" for a
  proof (cases "a \<in> set ?l")
    case True
    then show ?thesis by (rule pruneCounters_gone)
  next
    case False
    have "kv (counterKey m e a) = None"
    proof (rule ccontr)
      assume "kv (counterKey m e a) \<noteq> None"
      with assms that obtain l where "kv (epochIndexKey m e) = Some (QIndex l)" and "a \<in> set l"
        unfolding quota_wf_def by blast
      with False show False by simp
    qed
    moreover have "\<forall>a' \<in> set ?l. counterKey m e a \<noteq> counterKey m e a'" using False by auto
    ultimately show ?thesis by (metis pruneCounters_other)
  qed
  moreover have "pruneCounters m e ?l kv k = kv k" if "\<forall>a. k \<noteq> counterKey m e a" for k
    using that by (simp add: pruneCounters_other)
  ultimately show ?thesis by (intro exI [of _ ?t]) (simp add: run)
qed

theorem prune_epoch_complete_witness:
  "\<exists>kv'. PruneEpoch ''swap'' 7 (snd (Save ''swap'' 7 ''A''
      \<lparr>ReqCount = 1, NHBUsed = 40, EpochID = 7\<rparr> Map.empty)) = (Inr (), kv')
    \<and> kv' (counterKey ''swap'' 7 ''A'') = None"
proof -
  have wf: "quota_wf ''swap'' 7 Map.empty" by (simp add: quota_wf_def)
  obtain t where t: "Save ''swap'' 7 ''A'' \<lparr>ReqCount = 1, NHBUsed = 40, EpochID = 7\<rparr> Map.empty = (Inr (), t)"
    and wf': "quota_wf ''swap'' 7 t"
    using Save_view [OF wf, of "''A''" "\<lparr>ReqCount = 1, NHBUsed = 40, EpochID = 7\<rparr>"] by auto
  obtain kv' where "PruneEpoch ''swap'' 7 t = (Inr (), kv')"
    and "\<forall>a. a \<noteq> [] \<longrightarrow> kv' (counterKey ''swap'' 7 a) = None"
    using prune_epoch_complete [OF wf'] by blast
  then show ?thesis unfolding t snd_conv by blast
qed

end
