(* ===== verification/Accounts.thy ===== *)
theory Accounts
  imports Prelude
begin

text \<open>
  The account store of \<^verbatim>\<open>core/state/accounts.go\<close> over the account type of
  \<^verbatim>\<open>core/types/account.go\<close>. An account is kept in three records: the EVM account (nonce, NHB
  balance, roots), the metadata (every other balance, identity, engagement, lending) and the
  staking snapshot. \<open>GetAccount\<close> and \<open>PutAccount\<close> assemble and split it.

  A \<^verbatim>\<open>*big.Int\<close> field is an \<^typ>\<open>int\<close>: both operations replace nil by zero before the value is
  used. Addresses are 20 bytes, so the test for an empty address has no counterpart. What
  the code takes from go-ethereum and \<^verbatim>\<open>uint256\<close> is the record \<open>deps\<close>; \<open>deps_ok\<close> states the
  documented behaviour of those functions.

  The locale \<open>account_ledger\<close> is what an engine needs of an account store; it is interpreted
  on \<open>GetAccount\<close> and \<open>PutAccount\<close>.
\<close>

section \<open>Library functions the store calls\<close>

record deps =
  uint256FromBig :: "int \<Rightarrow> int \<times> bool"
  rlpBigInt :: "int \<Rightarrow> bool"
  emptyRootHash :: hash32
  emptyCodeHash :: hash32

text \<open>\<^verbatim>\<open>uint256.FromBig\<close> returns the value and whether it overflowed 256 bits; RLP encodes
  exactly the non-negative integers.\<close>

definition deps_ok :: "'d deps_scheme \<Rightarrow> bool" where
  "deps_ok D \<longleftrightarrow>
     (\<forall>x. 0 \<le> x \<longrightarrow> x < 2 ^ 256 \<longrightarrow> uint256FromBig D x = (x, False)) \<and>
     (\<forall>x. 2 ^ 256 \<le> x \<longrightarrow> snd (uint256FromBig D x)) \<and>
     (\<forall>x. rlpBigInt D x \<longleftrightarrow> 0 \<le> x)"

text \<open>RLP refuses a structure with a negative integer in it.\<close>

definition rlpFails :: "'d deps_scheme \<Rightarrow> int list \<Rightarrow> bool" where
  "rlpFails D xs \<longleftrightarrow> \<not> list_all (rlpBigInt D) xs"

abbreviation "errRlp \<equiv> ''rlp: cannot encode negative big.Int''"

section \<open>Accounts\<close>

record StakingRewards =
  AccruedZNHB :: int
  LastIndexUQ128x128 :: hash32
  LastPayoutUnix :: int

record StakeUnbond =
  unbondID :: u64
  unbondValidator :: string
  unbondAmount :: int
  unbondReleaseTime :: u64

record LendingIndexSnapshot =
  snapSupplyIndex :: int
  snapBorrowIndex :: int

record LendingBreakerFlags =
  CollateralDisabled :: bool
  BorrowDisabled :: bool

record Account =
  acctNonce :: u64
  BalanceNHB :: int
  BalanceZNHB :: int
  Stake :: int
  StakeShares :: int
  StakeLastIndex :: int
  StakeLastPayoutTs :: u64
  LockedZNHB :: int
  acctRewards :: StakingRewards
  DelegatedValidator :: string
  PendingUnbonds :: "StakeUnbond list"
  NextUnbondingID :: u64
  Username :: string
  EngagementScore :: u64
  EngagementDay :: string
  EngagementMinutes :: u64
  EngagementTxCount :: u64
  EngagementEscrowEvents :: u64
  EngagementGovEvents :: u64
  EngagementLastHeartbeat :: u64
  CollateralBalance :: int
  DebtPrincipal :: int
  acctSupplyShares :: int
  LendingSnapshot :: LendingIndexSnapshot
  LendingBreaker :: LendingBreakerFlags
  CodeHash :: string
  StorageRoot :: string

record StateAccount =
  saNonce :: u64
  saBalance :: int
  saRoot :: hash32
  saCodeHash :: string

record SlimAccount =
  slimNonce :: u64
  slimBalance :: int
  slimRoot :: string
  slimCodeHash :: string

text \<open>The bytes under an account key decode as one of the two encodings.\<close>

datatype stored_account = Full StateAccount | Slim SlimAccount

record accountMetadata =
  mBalanceZNHB :: int
  mStake :: int
  mStakeShares :: int
  mStakeLastIndex :: int
  mStakeLastPayoutTs :: u64
  mLockedZNHB :: int
  mCollateralBalance :: int
  mDebtPrincipal :: int
  mSupplyShares :: int
  mLendingSupplyIndex :: int
  mLendingBorrowIndex :: int
  mDelegatedValidator :: string
  mUnbonding :: "StakeUnbond list"
  mUnbondingSeq :: u64
  mUsername :: string
  mEngagementScore :: u64
  mEngagementDay :: string
  mEngagementMinutes :: u64
  mEngagementTxCount :: u64
  mEngagementEscrowEvents :: u64
  mEngagementGovEvents :: u64
  mEngagementLastHeartbeat :: u64
  mLendingCollateralDisabled :: bool
  mLendingBorrowDisabled :: bool

record AccountSnap =
  snapAccruedZNHB :: int
  snapLastIndex :: string
  snapLastPayoutUnix :: int

text \<open>An event is a type and its attributes.\<close>

record event =
  evType :: string
  evAttributes :: "string \<rightharpoonup> string"

text \<open>The part of the world state that every native module shares: the three account
  key spaces and the log of emitted events. The modules extend it.\<close>

record chain =
  stateAccounts :: "address \<rightharpoonup> stored_account"
  accountMetas :: "address \<rightharpoonup> accountMetadata"
  stakingSnaps :: "address \<rightharpoonup> AccountSnap"
  events :: "event list"

definition emitEvent :: "event \<Rightarrow> ('x chain_scheme, unit) op" where
  "emitEvent ev = modifyE (\<lambda>s. s\<lparr>events := events s @ [ev]\<rparr>)"

definition BytesToHash :: "string \<Rightarrow> hash32" where
  "BytesToHash b = of_nat (beValue b)"

definition normalizeHash :: "hash32 \<Rightarrow> string \<Rightarrow> string" where
  "normalizeHash dflt b =
     (if b = [] then hashBytes dflt
      else if length b \<noteq> 32 then hashBytes (BytesToHash b) else b)"

definition ensureAccountDefaults :: "'d deps_scheme \<Rightarrow> Account \<Rightarrow> Account" where
  "ensureAccountDefaults D account =
     account\<lparr>StorageRoot := normalizeHash (emptyRootHash D) (StorageRoot account),
             CodeHash := normalizeHash (emptyCodeHash D) (CodeHash account)\<rparr>"

definition emptyMetadata :: accountMetadata where
  "emptyMetadata = \<lparr>mBalanceZNHB = 0, mStake = 0, mStakeShares = 0, mStakeLastIndex = 0,
     mStakeLastPayoutTs = 0, mLockedZNHB = 0, mCollateralBalance = 0, mDebtPrincipal = 0,
     mSupplyShares = 0, mLendingSupplyIndex = 0, mLendingBorrowIndex = 0,
     mDelegatedValidator = '''', mUnbonding = [], mUnbondingSeq = 0, mUsername = '''',
     mEngagementScore = 0, mEngagementDay = '''', mEngagementMinutes = 0,
     mEngagementTxCount = 0, mEngagementEscrowEvents = 0, mEngagementGovEvents = 0,
     mEngagementLastHeartbeat = 0, mLendingCollateralDisabled = False,
     mLendingBorrowDisabled = False\<rparr>"

definition loadStateAccount ::
  "'d deps_scheme \<Rightarrow> address \<Rightarrow> ('x chain_scheme, StateAccount option) op" where
  "loadStateAccount D addr = getsE (\<lambda>s.
     case stateAccounts s addr of
       None \<Rightarrow> None
     | Some (Full sa) \<Rightarrow> Some sa
     | Some (Slim sl) \<Rightarrow> Some \<lparr>saNonce = slimNonce sl, saBalance = slimBalance sl,
         saRoot = (if slimRoot sl \<noteq> [] then BytesToHash (slimRoot sl) else emptyRootHash D),
         saCodeHash = (if slimCodeHash sl = [] then hashBytes (emptyCodeHash D)
                       else slimCodeHash sl)\<rparr>)"

definition writeStateAccount :: "address \<Rightarrow> StateAccount \<Rightarrow> ('x chain_scheme, unit) op" where
  "writeStateAccount addr sa =
     modifyE (\<lambda>s. s\<lparr>stateAccounts := (stateAccounts s)(addr \<mapsto> Full sa)\<rparr>)"

definition loadAccountMetadata :: "address \<Rightarrow> ('x chain_scheme, accountMetadata) op" where
  "loadAccountMetadata addr = getsE (\<lambda>s.
     case accountMetas s addr of None \<Rightarrow> emptyMetadata | Some meta \<Rightarrow> meta)"

definition metaBigInts :: "accountMetadata \<Rightarrow> int list" where
  "metaBigInts meta =
     [mBalanceZNHB meta, mStake meta, mStakeShares meta, mStakeLastIndex meta, mLockedZNHB meta,
      mCollateralBalance meta, mDebtPrincipal meta, mSupplyShares meta,
      mLendingSupplyIndex meta, mLendingBorrowIndex meta] @ map unbondAmount (mUnbonding meta)"

definition writeAccountMetadata ::
  "'d deps_scheme \<Rightarrow> address \<Rightarrow> accountMetadata \<Rightarrow> ('x chain_scheme, unit) op" where
  "writeAccountMetadata D addr meta =
     bindE (failIf (\<not> list_all (rlpBigInt D) (metaBigInts meta))
       ''rlp: cannot encode negative big.Int'') (\<lambda>_.
     modifyE (\<lambda>s. s\<lparr>accountMetas := (accountMetas s)(addr \<mapsto> meta)\<rparr>))"

definition GetAccountStakingRewards :: "address \<Rightarrow> ('x chain_scheme, StakingRewards) op" where
  "GetAccountStakingRewards addr = getsE (\<lambda>s.
     case stakingSnaps s addr of
       None \<Rightarrow> \<lparr>AccruedZNHB = 0, LastIndexUQ128x128 = 0, LastPayoutUnix = 0\<rparr>
     | Some snap \<Rightarrow> \<lparr>AccruedZNHB = snapAccruedZNHB snap,
         LastIndexUQ128x128 =
           (if snapLastIndex snap \<noteq> [] then BytesToHash (snapLastIndex snap) else 0),
         LastPayoutUnix = snapLastPayoutUnix snap\<rparr>)"

text \<open>\<^verbatim>\<open>GetAccount\<close> once the three records are loaded.\<close>

definition assembleAccount ::
  "'d deps_scheme \<Rightarrow> StateAccount option \<Rightarrow> accountMetadata \<Rightarrow> StakingRewards \<Rightarrow> Account" where
  "assembleAccount D stateAcc meta rewards = ensureAccountDefaults D
     \<lparr>acctNonce = (case stateAcc of None \<Rightarrow> 0 | Some sa \<Rightarrow> saNonce sa),
      BalanceNHB = (case stateAcc of None \<Rightarrow> 0 | Some sa \<Rightarrow> saBalance sa),
      BalanceZNHB = mBalanceZNHB meta,
      Stake = mStake meta, StakeShares = mStakeShares meta,
      StakeLastIndex = mStakeLastIndex meta, StakeLastPayoutTs = mStakeLastPayoutTs meta,
      LockedZNHB = mLockedZNHB meta, acctRewards = rewards,
      DelegatedValidator = mDelegatedValidator meta,
      PendingUnbonds = mUnbonding meta, NextUnbondingID = mUnbondingSeq meta,
      Username = mUsername meta, EngagementScore = mEngagementScore meta,
      EngagementDay = mEngagementDay meta, EngagementMinutes = mEngagementMinutes meta,
      EngagementTxCount = mEngagementTxCount meta,
      EngagementEscrowEvents = mEngagementEscrowEvents meta,
      EngagementGovEvents = mEngagementGovEvents meta,
      EngagementLastHeartbeat = mEngagementLastHeartbeat meta,
      CollateralBalance = mCollateralBalance meta, DebtPrincipal = mDebtPrincipal meta,
      acctSupplyShares = mSupplyShares meta,
      LendingSnapshot = \<lparr>snapSupplyIndex = mLendingSupplyIndex meta,
                         snapBorrowIndex = mLendingBorrowIndex meta\<rparr>,
      LendingBreaker = \<lparr>CollateralDisabled = mLendingCollateralDisabled meta,
                        BorrowDisabled = mLendingBorrowDisabled meta\<rparr>,
      CodeHash = (case stateAcc of None \<Rightarrow> hashBytes (emptyCodeHash D) | Some sa \<Rightarrow> saCodeHash sa),
      StorageRoot = (case stateAcc of None \<Rightarrow> hashBytes (emptyRootHash D)
                     | Some sa \<Rightarrow> hashBytes (saRoot sa))\<rparr>"

definition GetAccount :: "'d deps_scheme \<Rightarrow> address \<Rightarrow> ('x chain_scheme, Account) op" where
  "GetAccount D addr =
     bindE (loadStateAccount D addr) (\<lambda>stateAcc.
     bindE (loadAccountMetadata addr) (\<lambda>meta.
     bindE (GetAccountStakingRewards addr) (\<lambda>rewards.
     retE (assembleAccount D stateAcc meta rewards))))"

definition accountMeta :: "Account \<Rightarrow> accountMetadata" where
  "accountMeta account =
     \<lparr>mBalanceZNHB = BalanceZNHB account, mStake = Stake account,
      mStakeShares = StakeShares account, mStakeLastIndex = StakeLastIndex account,
      mStakeLastPayoutTs = StakeLastPayoutTs account, mLockedZNHB = LockedZNHB account,
      mCollateralBalance = CollateralBalance account, mDebtPrincipal = DebtPrincipal account,
      mSupplyShares = acctSupplyShares account,
      mLendingSupplyIndex = snapSupplyIndex (LendingSnapshot account),
      mLendingBorrowIndex = snapBorrowIndex (LendingSnapshot account),
      mDelegatedValidator = DelegatedValidator account, mUnbonding = PendingUnbonds account,
      mUnbondingSeq = NextUnbondingID account, mUsername = Username account,
      mEngagementScore = EngagementScore account, mEngagementDay = EngagementDay account,
      mEngagementMinutes = EngagementMinutes account,
      mEngagementTxCount = EngagementTxCount account,
      mEngagementEscrowEvents = EngagementEscrowEvents account,
      mEngagementGovEvents = EngagementGovEvents account,
      mEngagementLastHeartbeat = EngagementLastHeartbeat account,
      mLendingCollateralDisabled = CollateralDisabled (LendingBreaker account),
      mLendingBorrowDisabled = BorrowDisabled (LendingBreaker account)\<rparr>"

definition PutAccount :: "'d deps_scheme \<Rightarrow> address \<Rightarrow> Account \<Rightarrow> ('x chain_scheme, unit) op" where
  "PutAccount D addr account0 =
     (let account = ensureAccountDefaults D account0;
          (balance, overflow) = uint256FromBig D (BalanceNHB account);
          root = BytesToHash (StorageRoot account);
          codeHash = (if CodeHash account = [] then hashBytes (emptyCodeHash D)
                      else CodeHash account)
      in bindE (failIf overflow ''balance overflow'') (\<lambda>_.
         bindE (writeStateAccount addr
           \<lparr>saNonce = acctNonce account, saBalance = balance,
            saRoot = (if root = 0 then emptyRootHash D else root), saCodeHash = codeHash\<rparr>) (\<lambda>_.
         writeAccountMetadata D addr (accountMeta account))))"

definition PutAccountMetadata ::
  "'d deps_scheme \<Rightarrow> address \<Rightarrow> Account \<Rightarrow> ('x chain_scheme, unit) op" where
  "PutAccountMetadata D addr account =
     writeAccountMetadata D addr (accountMeta (ensureAccountDefaults D account))"

text \<open>\<^verbatim>\<open>MustSubBalance\<close> and \<^verbatim>\<open>MustAddBalance\<close>: the new balance, or the error. \<^verbatim>\<open>None\<close> is a
  nil pointer. The rollback closure restores the balance that was passed in.\<close>

definition MustSubBalance :: "int option \<Rightarrow> int option \<Rightarrow> error + int" where
  "MustSubBalance balance amt =
     (case amt of None \<Rightarrow> Inl ''state: invalid amount'' | Some a \<Rightarrow>
      if a < 0 then Inl ''state: invalid amount''
      else case balance of None \<Rightarrow> Inl ''state: nil balance pointer'' | Some b \<Rightarrow>
      if a = 0 then Inr b
      else if b < a then Inl ''state: insufficient balance''
      else Inr (b - a))"

definition MustAddBalance :: "int option \<Rightarrow> int option \<Rightarrow> error + int" where
  "MustAddBalance balance amt =
     (case amt of None \<Rightarrow> Inl ''state: invalid amount'' | Some a \<Rightarrow>
      if a < 0 then Inl ''state: invalid amount''
      else case balance of None \<Rightarrow> Inl ''state: nil balance pointer'' | Some b \<Rightarrow>
      if a = 0 then Inr b else Inr (b + a))"

section \<open>The contract of an account store\<close>

definition acct_nonneg :: "Account \<Rightarrow> bool" where
  "acct_nonneg acc \<longleftrightarrow> 0 \<le> BalanceNHB acc \<and> list_all (\<lambda>x. 0 \<le> x) (metaBigInts (accountMeta acc))"

definition acct_fits :: "Account \<Rightarrow> bool" where
  "acct_fits acc \<longleftrightarrow> acct_nonneg acc \<and> BalanceNHB acc < 2 ^ 256"

text \<open>Two accounts that differ at most in the fields \<^verbatim>\<open>PutAccount\<close> normalises or does not write.\<close>

definition acct_eq :: "Account \<Rightarrow> Account \<Rightarrow> bool" where
  "acct_eq acc acc' \<longleftrightarrow>
     acc\<lparr>StorageRoot := [], CodeHash := [], acctRewards := undefined\<rparr>
     = acc'\<lparr>StorageRoot := [], CodeHash := [], acctRewards := undefined\<rparr>"

lemma acct_eq_fields:
  assumes "acct_eq acc acc'"
  shows "BalanceNHB acc = BalanceNHB acc'" and "BalanceZNHB acc = BalanceZNHB acc'"
    and "accountMeta acc = accountMeta acc'"
  using assms by (cases acc; cases acc'; simp add: acct_eq_def accountMeta_def)+

lemma acct_fits_eq: "acct_eq acc acc' \<Longrightarrow> acct_fits acc' \<Longrightarrow> acct_fits acc"
  by (simp add: acct_fits_def acct_nonneg_def acct_eq_fields)

text \<open>The two tokens an account holds.\<close>

datatype coin = NHB | ZNHB

primrec coinOf :: "coin \<Rightarrow> Account \<Rightarrow> int" where
  "coinOf NHB = BalanceNHB"
| "coinOf ZNHB = BalanceZNHB"

primrec setCoin :: "coin \<Rightarrow> int \<Rightarrow> Account \<Rightarrow> Account" where
  "setCoin NHB v acc = acc\<lparr>BalanceNHB := v\<rparr>"
| "setCoin ZNHB v acc = acc\<lparr>BalanceZNHB := v\<rparr>"

lemma coinOf_setCoin [simp]: "coinOf c (setCoin c' v acc) = (if c = c' then v else coinOf c acc)"
  by (cases c; cases c') auto

lemma acct_eq_coin: "acct_eq acc acc' \<Longrightarrow> coinOf c acc = coinOf c acc'"
  by (cases c) (auto simp: acct_eq_fields)

lemma metaBigInts_setCoin:
  "set (metaBigInts (accountMeta (setCoin c v acc))) \<subseteq> insert v (set (metaBigInts (accountMeta acc)))"
  by (cases c) (auto simp: metaBigInts_def accountMeta_def)

lemma acct_nonneg_setCoin: "acct_nonneg acc \<Longrightarrow> 0 \<le> v \<Longrightarrow> acct_nonneg (setCoin c v acc)"
  using metaBigInts_setCoin [of c v acc]
  by (cases c) (auto simp: acct_nonneg_def list_all_iff)

lemma acct_nonneg_coin: "acct_nonneg acc \<Longrightarrow> 0 \<le> coinOf c acc"
  by (cases c) (auto simp: acct_nonneg_def metaBigInts_def accountMeta_def)

locale account_ledger =
  fixes get :: "address \<Rightarrow> ('s, Account) op"
    and put :: "address \<Rightarrow> Account \<Rightarrow> ('s, unit) op"
    and view :: "'s \<Rightarrow> address \<Rightarrow> Account"
    and inv :: "'s \<Rightarrow> bool"
  assumes get_view: "get a s = (Inr (view s a), s)"
    and inv_fits: "inv s \<Longrightarrow> acct_fits (view s a)"
    and put_ok: "inv s \<Longrightarrow> acct_fits acc \<Longrightarrow>
      \<exists>t. put a acc s = (Inr (), t) \<and> inv t \<and> acct_eq (view t a) acc
        \<and> (\<forall>b. b \<noteq> a \<longrightarrow> view t b = view s b)"
    and put_overflow: "inv s \<Longrightarrow> acct_nonneg acc \<Longrightarrow> \<not> acct_fits acc \<Longrightarrow>
      put a acc s = (Inl ''balance overflow'', s)"
begin

definition bal :: "coin \<Rightarrow> 's \<Rightarrow> address \<Rightarrow> int" where
  "bal c s a = coinOf c (view s a)"

lemma bal_nonneg: "inv s \<Longrightarrow> 0 \<le> bal c s a"
  using inv_fits [of s a] by (auto simp: bal_def acct_fits_def intro: acct_nonneg_coin)

lemma put_cases:
  assumes "inv s" and "acct_nonneg acc" and "put a acc s = (r, t)"
  obtains (ok) "r = Inr ()" "inv t" "acct_eq (view t a) acc" "\<And>b. b \<noteq> a \<Longrightarrow> view t b = view s b"
      "\<And>c. bal c t = (bal c s)(a := coinOf c acc)"
    | (err) "r = Inl ''balance overflow''" "t = s"
proof (cases "acct_fits acc")
  case True
  from put_ok [OF assms(1) True, of a] assms(3)
  have t: "r = Inr ()" "inv t" "acct_eq (view t a) acc" "\<And>b. b \<noteq> a \<Longrightarrow> view t b = view s b" by auto
  then have "bal c t = (bal c s)(a := coinOf c acc)" for c
    by (auto simp: bal_def fun_eq_iff acct_eq_coin)
  with t show ?thesis by (rule ok)
next
  case False
  with put_overflow [OF assms(1,2) False, of a] assms(3) show ?thesis by (auto intro: err)
qed

end

section \<open>The store's model satisfies the contract\<close>

definition acctOf :: "'d deps_scheme \<Rightarrow> 'x chain_scheme \<Rightarrow> address \<Rightarrow> Account" where
  "acctOf D s a = (case fst (GetAccount D a s) of Inr acc \<Rightarrow> acc | Inl _ \<Rightarrow> undefined)"

definition chain_inv :: "'d deps_scheme \<Rightarrow> 'x chain_scheme \<Rightarrow> bool" where
  "chain_inv D s \<longleftrightarrow> deps_ok D \<and> (\<forall>a. acct_fits (acctOf D s a))"

lemmas account_defs = GetAccount_def loadStateAccount_def loadAccountMetadata_def
  GetAccountStakingRewards_def

lemma GetAccount_acctOf: "GetAccount D a s = (Inr (acctOf D s a), s)"
  by (simp add: acctOf_def account_defs run_defs)

text \<open>What is stored for an account that fits.\<close>

definition storedState :: "'d deps_scheme \<Rightarrow> Account \<Rightarrow> StateAccount" where
  "storedState D acc = (let a = ensureAccountDefaults D acc; root = BytesToHash (StorageRoot a) in
     \<lparr>saNonce = acctNonce acc, saBalance = BalanceNHB acc,
      saRoot = (if root = 0 then emptyRootHash D else root), saCodeHash = CodeHash a\<rparr>)"

lemma normalizeHash_nonempty [simp]: "normalizeHash h b \<noteq> []"
  by (auto simp: normalizeHash_def hashBytes_def dest: arg_cong [where f = length])

lemma accountMeta_defaults [simp]: "accountMeta (ensureAccountDefaults D acc) = accountMeta acc"
  by (simp add: accountMeta_def ensureAccountDefaults_def)

lemma ensureAccountDefaults_fields [simp]:
  "BalanceNHB (ensureAccountDefaults D acc) = BalanceNHB acc"
  "acctNonce (ensureAccountDefaults D acc) = acctNonce acc"
  "CodeHash (ensureAccountDefaults D acc) \<noteq> []"
  by (simp_all add: ensureAccountDefaults_def)

lemma PutAccount_fits:
  assumes "deps_ok D" and "acct_fits acc"
  shows "PutAccount D a acc s = (Inr (),
    s\<lparr>stateAccounts := (stateAccounts s)(a \<mapsto> Full (storedState D acc)),
      accountMetas := (accountMetas s)(a \<mapsto> accountMeta acc)\<rparr>)"
proof -
  have "uint256FromBig D (BalanceNHB acc) = (BalanceNHB acc, False)"
    using assms by (auto simp: deps_ok_def acct_fits_def acct_nonneg_def)
  moreover have "list_all (rlpBigInt D) (metaBigInts (accountMeta acc))"
    using assms by (auto simp: deps_ok_def acct_fits_def acct_nonneg_def list_all_iff)
  ultimately show ?thesis
    by (simp add: PutAccount_def writeStateAccount_def writeAccountMetadata_def run_defs
        storedState_def Let_def)
qed

lemma PutAccount_overflow:
  assumes "deps_ok D" and "acct_nonneg acc" and "\<not> acct_fits acc"
  shows "PutAccount D a acc s = (Inl ''balance overflow'', s)"
proof -
  obtain v where "uint256FromBig D (BalanceNHB acc) = (v, True)"
    using assms by (cases "uint256FromBig D (BalanceNHB acc)")
      (auto simp: deps_ok_def acct_fits_def not_less dest!: spec [of _ "BalanceNHB acc"])
  then show ?thesis
    by (simp add: PutAccount_def run_defs Let_def)
qed

text \<open>The account that reads back after a successful \<^verbatim>\<open>PutAccount\<close>: every field is the one
  written, except the roots, which are normalised (an all-zero storage root becomes the
  empty root), and the staking rewards, which live in their own record.\<close>

definition readBack :: "'d deps_scheme \<Rightarrow> Account \<Rightarrow> StakingRewards \<Rightarrow> Account" where
  "readBack D acc rewards = (let a = ensureAccountDefaults D acc in
     a\<lparr>StorageRoot := (if BytesToHash (StorageRoot a) = 0 then hashBytes (emptyRootHash D)
                        else StorageRoot a),
       acctRewards := rewards\<rparr>)"

lemma length_hashBytes [simp]: "length (hashBytes h) = 32"
  by (simp add: hashBytes_def)

lemma hashBytes_ne [simp]: "hashBytes h \<noteq> []"
  using length_hashBytes [of h] by force

lemma length_normalizeHash [simp]: "length (normalizeHash h b) = 32"
  by (simp add: normalizeHash_def)

lemma normalizeHash_32: "length b = 32 \<Longrightarrow> normalizeHash h b = b"
  by (auto simp: normalizeHash_def)

lemma hashBytes_BytesToHash:
  assumes "length b = 32"
  shows "hashBytes (BytesToHash b) = b"
proof -
  have "beValue b = beValue (beBytes 32 (beValue b))" using beBytes_beValue [OF assms] by simp
  then have "beValue b mod 256 ^ 32 = beValue b" by simp
  moreover have "(256 :: nat) ^ 32 = 2 ^ 256" by simp
  ultimately have "unat (BytesToHash b) = beValue b"
    unfolding BytesToHash_def unat_of_nat by simp
  then show ?thesis using beBytes_beValue [OF assms] by (simp add: hashBytes_def)
qed

lemma assemble_stored:
  "assembleAccount D (Some (storedState D acc)) (accountMeta acc) rewards = readBack D acc rewards"
  by (simp add: assembleAccount_def storedState_def accountMeta_def readBack_def Let_def
      ensureAccountDefaults_def normalizeHash_32 hashBytes_BytesToHash)

text \<open>The three records of an account.\<close>

definition loadedState :: "'d deps_scheme \<Rightarrow> 'x chain_scheme \<Rightarrow> address \<Rightarrow> StateAccount option" where
  "loadedState D s a = projr (fst (loadStateAccount D a s))"

definition loadedMeta :: "'x chain_scheme \<Rightarrow> address \<Rightarrow> accountMetadata" where
  "loadedMeta s a = projr (fst (loadAccountMetadata a s))"

definition loadedRewards :: "'x chain_scheme \<Rightarrow> address \<Rightarrow> StakingRewards" where
  "loadedRewards s a = projr (fst (GetAccountStakingRewards a s))"

lemma acctOf_eq: "acctOf D s a = assembleAccount D (loadedState D s a) (loadedMeta s a) (loadedRewards s a)"
  by (simp add: acctOf_def loadedState_def loadedMeta_def loadedRewards_def account_defs run_defs)

lemma acctRewards_acctOf: "acctRewards (acctOf D s a) = loadedRewards s a"
  by (simp add: acctOf_eq assembleAccount_def ensureAccountDefaults_def)

lemma acctOf_PutAccount:
  assumes "PutAccount D a acc s = (Inr (), t)" and "deps_ok D" and "acct_fits acc"
  shows "acctOf D t b = (if b = a then readBack D acc (acctRewards (acctOf D s a)) else acctOf D s b)"
proof -
  from assms(1) have t: "t = s\<lparr>stateAccounts := (stateAccounts s)(a \<mapsto> Full (storedState D acc)),
      accountMetas := (accountMetas s)(a \<mapsto> accountMeta acc)\<rparr>"
    by (simp add: PutAccount_fits [OF assms(2,3)])
  have "loadedState D t b = (if b = a then Some (storedState D acc) else loadedState D s b)"
    by (simp add: t loadedState_def loadStateAccount_def getsE_def)
  moreover have "loadedMeta t b = (if b = a then accountMeta acc else loadedMeta s b)"
    by (simp add: t loadedMeta_def loadAccountMetadata_def getsE_def)
  moreover have "loadedRewards t b = loadedRewards s b"
    by (simp add: t loadedRewards_def GetAccountStakingRewards_def getsE_def)
  ultimately show ?thesis
    by (cases "b = a") (simp_all add: acctRewards_acctOf, simp_all add: acctOf_eq assemble_stored)
qed

lemma readBack_eq: "acct_eq (readBack D acc r) acc"
  by (simp add: acct_eq_def readBack_def ensureAccountDefaults_def Let_def)

interpretation al: account_ledger "GetAccount D" "PutAccount D" "acctOf D" "chain_inv D" for D
proof
  show "GetAccount D a s = (Inr (acctOf D s a), s)" for a s by (rule GetAccount_acctOf)
  show "chain_inv D s \<Longrightarrow> acct_fits (acctOf D s a)" for s a by (simp add: chain_inv_def)
  show "\<exists>t. PutAccount D a acc s = (Inr (), t) \<and> chain_inv D t \<and> acct_eq (acctOf D t a) acc
      \<and> (\<forall>b. b \<noteq> a \<longrightarrow> acctOf D t b = acctOf D s b)"
    if "chain_inv D s" and "acct_fits acc" for s acc a
  proof -
    note fits = that(2)
    from that have D: "deps_ok D" by (simp add: chain_inv_def)
    obtain t where t: "PutAccount D a acc s = (Inr (), t)" using PutAccount_fits [OF D fits] by blast
    note view = acctOf_PutAccount [OF t D fits]
    have "chain_inv D t"
      using that D acct_fits_eq [OF readBack_eq] by (auto simp: chain_inv_def view)
    with t view show ?thesis by (auto simp: readBack_eq)
  qed
  show "PutAccount D a acc s = (Inl ''balance overflow'', s)"
    if "chain_inv D s" and "acct_nonneg acc" and "\<not> acct_fits acc" for s acc a
    using that by (simp add: PutAccount_overflow chain_inv_def)
qed

section \<open>Balances\<close>

definition coinBalance :: "'d deps_scheme \<Rightarrow> coin \<Rightarrow> 'x chain_scheme \<Rightarrow> address \<Rightarrow> int" where
  "coinBalance D c s a = coinOf c (acctOf D s a)"

definition totalSupply :: "'d deps_scheme \<Rightarrow> coin \<Rightarrow> 'x chain_scheme \<Rightarrow> int" where
  "totalSupply D c s = (\<Sum>a\<in>UNIV. coinBalance D c s a)"

lemma al_bal_fun: "account_ledger.bal (acctOf D) = coinBalance D"
  by (simp add: fun_eq_iff al.bal_def coinBalance_def)

text \<open>The sum of all balances.\<close>

definition allOf :: "(address \<Rightarrow> int) \<Rightarrow> int" where
  "allOf b = (\<Sum>a\<in>UNIV. b a)"

lemma allOf_upd: "allOf (g(a := x)) = allOf g - g a + x"
  by (simp add: allOf_def sum.remove [of UNIV a])

lemma totalSupply_allOf: "totalSupply D c s = allOf (coinBalance D c s)"
  by (simp add: totalSupply_def allOf_def)

text \<open>Operations that only touch accounts and events.\<close>

abbreviation chainOnly :: "('x chain_scheme, 'a) op \<Rightarrow> bool" where
  "chainOnly \<equiv> frame chain.more"

lemma chainOnly_emitEvent [frame_rules]: "chainOnly (emitEvent ev)"
  unfolding emitEvent_def by (rule frame_modifyE) simp

lemma frame_GetAccount [frame_rules]: "frame f (GetAccount D a)"
  by (simp add: frame_def GetAccount_acctOf)

lemma chainOnly_PutAccount [frame_rules]: "chainOnly (PutAccount D a acc)"
  unfolding PutAccount_def writeStateAccount_def writeAccountMetadata_def
  by (rule frame_rules frame_modifyE | simp)+

lemma wp_GetAccount: "wp (GetAccount D a) Q R s = Q (acctOf D s a) s"
  by (simp add: wp_def GetAccount_acctOf)

text \<open>\<open>PutAccount\<close> of encodable numbers either stores the account or, on a balance that does not fit
  256 bits, changes nothing.\<close>

lemma wp_PutAccount:
  assumes "chain_inv D s" and "acct_nonneg acc"
    and "\<And>t. chain_inv D t \<Longrightarrow> (\<And>c. coinBalance D c t = (coinBalance D c s)(a := coinOf c acc)) \<Longrightarrow>
      chain.more t = chain.more s \<Longrightarrow> Q () t"
    and "R ''balance overflow'' s"
  shows "wp (PutAccount D a acc) Q R s"
proof -
  obtain r t where run: "PutAccount D a acc s = (r, t)" by fastforce
  from assms(1,2) run show ?thesis
  proof (cases rule: al.put_cases)
    case ok
    with run assms(3) [of t] frameD [OF chainOnly_PutAccount run] show ?thesis
      by (simp add: wp_def al_bal_fun)
  next
    case err
    with run assms(4) show ?thesis by (simp add: wp_def)
  qed
qed

text \<open>
  Account round trip. Storing an account whose numbers are encodable succeeds;
  reading it back gives every field as written, the two roots in their 32-byte form, and the
  staking rewards of the staking record; no other account changes.
\<close>

theorem account_put_get:
  assumes "deps_ok D" and "acct_fits acc"
  shows "\<exists>t. PutAccount D a acc s = (Inr (), t)
    \<and> GetAccount D a t = (Inr (readBack D acc (acctRewards (acctOf D s a))), t)
    \<and> (\<forall>b. b \<noteq> a \<longrightarrow> fst (GetAccount D b t) = fst (GetAccount D b s))"
proof -
  obtain t where t: "PutAccount D a acc s = (Inr (), t)" using PutAccount_fits [OF assms] by blast
  show ?thesis
    by (intro exI [of _ t]) (simp add: t GetAccount_acctOf acctOf_PutAccount [OF t assms])
qed

text \<open>A concrete choice of the library functions and an empty account.\<close>

definition refDeps :: deps where
  "refDeps = \<lparr>uint256FromBig = (\<lambda>x. (x mod 2 ^ 256, x < 0 \<or> 2 ^ 256 \<le> x)),
     rlpBigInt = (\<lambda>x. 0 \<le> x), emptyRootHash = 1, emptyCodeHash = 2\<rparr>"

lemma refDeps_ok: "deps_ok refDeps"
  by (auto simp: deps_ok_def refDeps_def)

definition emptyChain :: chain where
  "emptyChain = \<lparr>stateAccounts = Map.empty, accountMetas = Map.empty, stakingSnaps = Map.empty,
     events = []\<rparr>"

theorem account_put_get_witness:
  "\<exists>t. PutAccount refDeps 7 (acctOf refDeps emptyChain 7\<lparr>BalanceNHB := 5\<rparr>) emptyChain = (Inr (), t)
    \<and> (\<exists>acc. GetAccount refDeps 7 t = (Inr acc, t) \<and> BalanceNHB acc = 5)"
proof -
  let ?acc = "acctOf refDeps emptyChain 7\<lparr>BalanceNHB := 5\<rparr>"
  have "acct_fits ?acc"
    by (simp add: acct_fits_def acct_nonneg_def metaBigInts_def accountMeta_def acctOf_def
        account_defs run_defs assembleAccount_def ensureAccountDefaults_def emptyChain_def
        emptyMetadata_def)
  from account_put_get [OF refDeps_ok this] show ?thesis
    by (fastforce simp: readBack_def ensureAccountDefaults_def Let_def)
qed

end
