(* ===== verification/EscrowTypes.thy ===== *)
theory EscrowTypes
  imports Accounts
begin

text \<open>
  The data of \<^verbatim>\<open>native/escrow\<close> (\<^verbatim>\<open>types.go\<close>): escrows, arbitration realms and frozen
  policies, with the functions that normalise them before they are stored, and the events of
  \<^verbatim>\<open>events.go\<close> built from them.

  An enum is a datatype with one more constructor for the byte values the code does not name.
  A pointer that may be nil is an option; \<^verbatim>\<open>Clone\<close> is the identity on values. The libraries
  the escrow code calls extend \<open>deps\<close>: keccak-256, signature recovery (\<^verbatim>\<open>SigToPub\<close> followed by
  \<^verbatim>\<open>PubkeyToAddress\<close>), bech32, and the JSON decoder at the three types it is used with.
  Nothing is assumed of them except where a property says so.
\<close>

section \<open>Enumerations\<close>

datatype ArbitrationScheme =
  ArbitrationSchemeUnspecified | ArbitrationSchemeSingle | ArbitrationSchemeCommittee
  | ArbitrationSchemeOther u8

fun schemeValid :: "ArbitrationScheme \<Rightarrow> bool" where
  "schemeValid ArbitrationSchemeSingle = True"
| "schemeValid ArbitrationSchemeCommittee = True"
| "schemeValid _ = False"

fun schemeByte :: "ArbitrationScheme \<Rightarrow> u8" where
  "schemeByte ArbitrationSchemeUnspecified = 0"
| "schemeByte ArbitrationSchemeSingle = 1"
| "schemeByte ArbitrationSchemeCommittee = 2"
| "schemeByte (ArbitrationSchemeOther b) = b"

definition schemeOfByte :: "u8 \<Rightarrow> ArbitrationScheme" where
  "schemeOfByte b = (if b = 0 then ArbitrationSchemeUnspecified
     else if b = 1 then ArbitrationSchemeSingle
     else if b = 2 then ArbitrationSchemeCommittee else ArbitrationSchemeOther b)"

datatype EscrowRealmScope =
  EscrowRealmScopeUnspecified | EscrowRealmScopePlatform | EscrowRealmScopeMarketplace
  | EscrowRealmScopeOther u8

fun scopeValid :: "EscrowRealmScope \<Rightarrow> bool" where
  "scopeValid EscrowRealmScopePlatform = True"
| "scopeValid EscrowRealmScopeMarketplace = True"
| "scopeValid _ = False"

fun scopeByte :: "EscrowRealmScope \<Rightarrow> u8" where
  "scopeByte EscrowRealmScopeUnspecified = 0"
| "scopeByte EscrowRealmScopePlatform = 1"
| "scopeByte EscrowRealmScopeMarketplace = 2"
| "scopeByte (EscrowRealmScopeOther b) = b"

definition scopeOfByte :: "u8 \<Rightarrow> EscrowRealmScope" where
  "scopeOfByte b = (if b = 0 then EscrowRealmScopeUnspecified
     else if b = 1 then EscrowRealmScopePlatform
     else if b = 2 then EscrowRealmScopeMarketplace else EscrowRealmScopeOther b)"

datatype EscrowStatus =
  EscrowInit | EscrowFunded | EscrowReleased | EscrowRefunded | EscrowExpired | EscrowDisputed
  | EscrowStatusOther u8

fun statusValid :: "EscrowStatus \<Rightarrow> bool" where
  "statusValid (EscrowStatusOther _) = False"
| "statusValid _ = True"

fun statusByte :: "EscrowStatus \<Rightarrow> u8" where
  "statusByte EscrowInit = 0"
| "statusByte EscrowFunded = 1"
| "statusByte EscrowReleased = 2"
| "statusByte EscrowRefunded = 3"
| "statusByte EscrowExpired = 4"
| "statusByte EscrowDisputed = 5"
| "statusByte (EscrowStatusOther b) = b"

definition statusOfByte :: "u8 \<Rightarrow> EscrowStatus" where
  "statusOfByte b = (if b = 0 then EscrowInit else if b = 1 then EscrowFunded
     else if b = 2 then EscrowReleased else if b = 3 then EscrowRefunded
     else if b = 4 then EscrowExpired else if b = 5 then EscrowDisputed
     else EscrowStatusOther b)"

datatype DecisionOutcome =
  DecisionOutcomeUnknown | DecisionOutcomeRelease | DecisionOutcomeRefund

fun outcomeValid :: "DecisionOutcome \<Rightarrow> bool" where
  "outcomeValid DecisionOutcomeRelease = True"
| "outcomeValid DecisionOutcomeRefund = True"
| "outcomeValid _ = False"

fun outcomeString :: "DecisionOutcome \<Rightarrow> string" where
  "outcomeString DecisionOutcomeRelease = ''release''"
| "outcomeString DecisionOutcomeRefund = ''refund''"
| "outcomeString _ = ''unknown''"

definition ParseDecisionOutcome :: "string \<Rightarrow> error + DecisionOutcome" where
  "ParseDecisionOutcome outcome =
     (let normalized = toLower (trimSpace outcome) in
      if normalized = ''release'' then Inr DecisionOutcomeRelease
      else if normalized = ''refund'' then Inr DecisionOutcomeRefund
      else Inl ''escrow: invalid resolution outcome %s'')"

section \<open>Records\<close>

record ArbitratorSet =
  setScheme :: ArbitrationScheme
  setThreshold :: u32
  setMembers :: "address list"

record RealmFeeSchedule =
  schedFeeBps :: u32
  schedRecipient :: address

record EscrowRealmMetadata =
  Scope :: EscrowRealmScope
  ProviderProfile :: string
  ArbitrationFeeBps :: u32
  FeeRecipientBech32 :: string

record EscrowRealm =
  realmID :: string
  realmVersion :: u64
  NextPolicyNonce :: u64
  realmCreatedAt :: int
  realmUpdatedAt :: int
  Arbitrators :: "ArbitratorSet option"
  realmFeeSchedule :: "RealmFeeSchedule option"
  realmMetadata :: "EscrowRealmMetadata option"

record FrozenArb =
  arbRealmID :: string
  arbRealmVersion :: u64
  PolicyNonce :: u64
  arbScheme :: ArbitrationScheme
  arbThreshold :: u32
  arbMembers :: "address list"
  FrozenAt :: int
  arbFeeSchedule :: "RealmFeeSchedule option"
  arbMetadata :: "EscrowRealmMetadata option"

record Escrow =
  escID :: hash32
  Payer :: address
  Payee :: address
  Mediator :: address
  escToken :: string
  escAmount :: int
  escFeeBps :: u32
  escDeadline :: int
  escCreatedAt :: int
  escNonce :: u64
  MetaHash :: hash32
  escStatus :: EscrowStatus
  escRealmID :: string
  escFrozenArb :: "FrozenArb option"
  ResolutionHash :: hash32
  DisputeReason :: string

record decisionEnvelope =
  envEscrowID :: string
  envOutcome :: string
  envMetadata :: string
  envPolicyNonce :: u64

record edeps = deps +
  keccak256 :: "string \<Rightarrow> hash32"
  sigToAddr :: "hash32 \<Rightarrow> string \<Rightarrow> error + address"
  bech32Decode :: "string \<Rightarrow> error + (string \<times> string)"
  bech32ConvertBits :: "string \<Rightarrow> error + string"
  jsonDecision :: "string \<Rightarrow> error + decisionEnvelope"
  jsonStrings :: "string \<Rightarrow> error + string list"
  jsonString :: "string \<Rightarrow> error + string"

section \<open>Normalisation\<close>

definition newTokenRegistry :: "string list \<Rightarrow> string set" where
  "newTokenRegistry tokens = set (filter (\<lambda>t. t \<noteq> []) (map (\<lambda>t. toUpper (trimSpace t)) tokens))"

definition normalizeSymbol :: "string set \<Rightarrow> string \<Rightarrow> error + string" where
  "normalizeSymbol allowed symbol =
     (let trimmed = toUpper (trimSpace symbol) in
      if trimmed = [] \<or> trimmed \<notin> allowed then Inl ''unsupported escrow token: %s''
      else Inr trimmed)"

definition defaultTokenRegistry :: "string set" where
  "defaultTokenRegistry = newTokenRegistry [''NHB'', ''ZNHB'']"

definition NormalizeToken :: "string \<Rightarrow> error + string" where
  "NormalizeToken symbol = normalizeSymbol defaultTokenRegistry symbol"

text \<open>\<^verbatim>\<open>utf8.RuneCountInString\<close>: the width of the first rune, one byte where the encoding is
  invalid, and the number of runes.\<close>

definition contByte :: "nat \<Rightarrow> nat \<Rightarrow> string \<Rightarrow> nat \<Rightarrow> bool" where
  "contByte lo hi s i \<longleftrightarrow> i < length s \<and> lo \<le> of_char (s ! i) \<and> of_char (s ! i) \<le> hi"

definition runeWidth :: "string \<Rightarrow> nat" where
  "runeWidth s = (let b = of_char (hd s) :: nat; c = contByte 128 191 s in
     if 194 \<le> b \<and> b \<le> 223 \<and> c 1 then 2
     else if b = 224 \<and> contByte 160 191 s 1 \<and> c 2 then 3
     else if b = 237 \<and> contByte 128 159 s 1 \<and> c 2 then 3
     else if 225 \<le> b \<and> b \<le> 239 \<and> b \<noteq> 237 \<and> c 1 \<and> c 2 then 3
     else if b = 240 \<and> contByte 144 191 s 1 \<and> c 2 \<and> c 3 then 4
     else if 241 \<le> b \<and> b \<le> 243 \<and> c 1 \<and> c 2 \<and> c 3 then 4
     else if b = 244 \<and> contByte 128 143 s 1 \<and> c 2 \<and> c 3 then 4
     else 1)"

fun runeCountFrom :: "nat \<Rightarrow> string \<Rightarrow> nat" where
  "runeCountFrom k [] = 0"
| "runeCountFrom (Suc k) (c # cs) = runeCountFrom k cs"
| "runeCountFrom 0 (c # cs) = Suc (runeCountFrom (runeWidth (c # cs) - 1) cs)"

definition RuneCountInString :: "string \<Rightarrow> nat" where
  "RuneCountInString s = runeCountFrom 0 s"

definition validateBech32Account :: "'d edeps_scheme \<Rightarrow> string \<Rightarrow> error + unit" where
  "validateBech32Account D addr =
     bindS (bech32Decode D addr) (\<lambda>(hrp, data).
     bindS (checkS (hrp \<noteq> ''nhb'' \<and> hrp \<noteq> ''znhb'') ''unsupported hrp %q'') (\<lambda>_.
     bindS (bech32ConvertBits D data) (\<lambda>decoded.
     checkS (length decoded \<noteq> 20) ''invalid address length %d'')))"

definition SanitizeArbitratorSet :: "ArbitratorSet option \<Rightarrow> error + ArbitratorSet" where
  "SanitizeArbitratorSet set0 =
     (case set0 of None \<Rightarrow> Inl ''nil arbitrator set'' | Some sanitized \<Rightarrow>
      bindS (checkS (\<not> schemeValid (setScheme sanitized)) ''unsupported arbitration scheme'') (\<lambda>_.
      bindS (checkS (setThreshold sanitized = 0) ''arbitrator threshold must be positive'') (\<lambda>_.
      bindS (checkS (setMembers sanitized = []) ''arbitrator set requires members'') (\<lambda>_.
      bindS (checkS (unat (setThreshold sanitized) > length (setMembers sanitized))
        ''arbitrator threshold exceeds member count'') (\<lambda>_.
      bindS (checkS (list_ex (\<lambda>m. m = 0) (setMembers sanitized))
        ''arbitrator member %d is zero address'') (\<lambda>_.
      Inr sanitized))))))"

definition SanitizeRealmFeeSchedule :: "RealmFeeSchedule \<Rightarrow> error + RealmFeeSchedule" where
  "SanitizeRealmFeeSchedule schedule =
     bindS (checkS (schedFeeBps schedule > 10000)
       ''realm arbitration fee bps out of range: %d'') (\<lambda>_.
     bindS (checkS (schedFeeBps schedule > 0 \<and> schedRecipient schedule = 0)
       ''realm arbitration fee recipient required'') (\<lambda>_.
     Inr schedule))"

text \<open>The optional schedule of a realm or a policy.\<close>

definition sanitizeScheduleOpt :: "RealmFeeSchedule option \<Rightarrow> error + RealmFeeSchedule option" where
  "sanitizeScheduleOpt sched =
     (case sched of None \<Rightarrow> Inr None
      | Some sc \<Rightarrow> bindS (SanitizeRealmFeeSchedule sc) (\<lambda>sc'. Inr (Some sc')))"

definition EscrowRealmMaxProviderProfileLength :: nat where
  "EscrowRealmMaxProviderProfileLength = 512"

definition SanitizeEscrowRealmMetadata ::
  "'d edeps_scheme \<Rightarrow> EscrowRealmMetadata option \<Rightarrow> error + EscrowRealmMetadata" where
  "SanitizeEscrowRealmMetadata D meta =
     (case meta of None \<Rightarrow> Inl ''nil realm metadata'' | Some m \<Rightarrow>
      bindS (checkS (\<not> scopeValid (Scope m)) ''unsupported realm scope'') (\<lambda>_.
      let profile = trimSpace (ProviderProfile m) in
      bindS (checkS (profile = []) ''realm provider profile required'') (\<lambda>_.
      bindS (checkS (RuneCountInString profile > EscrowRealmMaxProviderProfileLength)
        ''realm provider profile too long'') (\<lambda>_.
      let m1 = m\<lparr>ProviderProfile := profile\<rparr> in
      bindS (checkS (ArbitrationFeeBps m1 > 10000) ''realm arbitration fee bps out of range'') (\<lambda>_.
      let trimmedRecipient = trimSpace (FeeRecipientBech32 m1) in
      if trimmedRecipient \<noteq> [] then
        (case validateBech32Account D trimmedRecipient of
           Inl e \<Rightarrow> Inl (''realm fee recipient invalid: '' @ e)
         | Inr _ \<Rightarrow> Inr (m1\<lparr>FeeRecipientBech32 := trimmedRecipient\<rparr>))
      else if ArbitrationFeeBps m1 > 0
        then Inl ''realm fee recipient required when fee bps > 0''
        else Inr m1)))))"

definition SanitizeEscrowRealm :: "'d edeps_scheme \<Rightarrow> EscrowRealm \<Rightarrow> error + EscrowRealm" where
  "SanitizeEscrowRealm D realm =
     (let clone = realm\<lparr>realmID := trimSpace (realmID realm)\<rparr> in
      bindS (checkS (realmID clone = []) ''realm id must not be empty'') (\<lambda>_.
      bindS (checkS (NextPolicyNonce clone = 0) ''realm policy nonce must be positive'') (\<lambda>_.
      bindS (checkS (Arbitrators clone = None) ''realm requires arbitrators'') (\<lambda>_.
      bindS (SanitizeArbitratorSet (Arbitrators clone)) (\<lambda>sanitized.
      bindS (sanitizeScheduleOpt (realmFeeSchedule clone)) (\<lambda>schedule.
      bindS (checkS (realmMetadata clone = None) ''realm metadata required'') (\<lambda>_.
      bindS (SanitizeEscrowRealmMetadata D (realmMetadata clone)) (\<lambda>meta.
      bindS (checkS (realmUpdatedAt clone \<noteq> 0 \<and> realmUpdatedAt clone < realmCreatedAt clone)
        ''realm updatedAt before createdAt'') (\<lambda>_.
      Inr (clone\<lparr>Arbitrators := Some sanitized, realmFeeSchedule := schedule,
                 realmMetadata := Some meta\<rparr>))))))))))"

definition SanitizeFrozenArb :: "'d edeps_scheme \<Rightarrow> FrozenArb \<Rightarrow> error + FrozenArb" where
  "SanitizeFrozenArb D frozen =
     (let clone = frozen\<lparr>arbRealmID := trimSpace (arbRealmID frozen)\<rparr> in
      bindS (checkS (arbRealmID clone = []) ''frozen policy missing realm id'') (\<lambda>_.
      bindS (checkS (arbRealmVersion clone = 0)
        ''frozen policy realm version must be positive'') (\<lambda>_.
      bindS (checkS (PolicyNonce clone = 0) ''frozen policy nonce must be positive'') (\<lambda>_.
      bindS (checkS (\<not> schemeValid (arbScheme clone)) ''frozen policy scheme invalid'') (\<lambda>_.
      bindS (checkS (arbThreshold clone = 0) ''frozen policy threshold must be positive'') (\<lambda>_.
      bindS (checkS (arbMembers clone = []) ''frozen policy requires members'') (\<lambda>_.
      bindS (checkS (unat (arbThreshold clone) > length (arbMembers clone))
        ''frozen policy threshold exceeds members'') (\<lambda>_.
      bindS (checkS (list_ex (\<lambda>m. m = 0) (arbMembers clone))
        ''frozen policy member %d is zero address'') (\<lambda>_.
      bindS (sanitizeScheduleOpt (arbFeeSchedule clone)) (\<lambda>schedule.
      bindS (checkS (arbMetadata clone = None) ''frozen policy metadata required'') (\<lambda>_.
      bindS (SanitizeEscrowRealmMetadata D (arbMetadata clone)) (\<lambda>meta.
      Inr (clone\<lparr>arbFeeSchedule := schedule, arbMetadata := Some meta\<rparr>)))))))))))))"

definition SanitizeEscrow :: "'d edeps_scheme \<Rightarrow> Escrow \<Rightarrow> error + Escrow" where
  "SanitizeEscrow D e =
     bindS (NormalizeToken (escToken e)) (\<lambda>token.
     let c1 = e\<lparr>escToken := token\<rparr> in
     bindS (checkS (escAmount c1 < 0) ''escrow amount must be non-negative'') (\<lambda>_.
     bindS (checkS (escNonce c1 = 0) ''escrow nonce must be > 0'') (\<lambda>_.
     bindS (checkS (escFeeBps c1 > 10000) ''escrow fee bps out of range: %d'') (\<lambda>_.
     bindS (checkS (\<not> statusValid (escStatus c1)) ''invalid escrow status: %d'') (\<lambda>_.
     let c2 = c1\<lparr>escRealmID := trimSpace (escRealmID c1)\<rparr>;
         frozen0 = (if escRealmID c2 = [] then None else escFrozenArb c2)
     in bindS (case frozen0 of
            None \<Rightarrow> Inr None
          | Some f \<Rightarrow> bindS (SanitizeFrozenArb D f) (\<lambda>sanitized.
              bindS (checkS (arbRealmID sanitized \<noteq> escRealmID c2)
                ''frozen policy realm mismatch'') (\<lambda>_.
              Inr (Some sanitized)))) (\<lambda>frozen.
     Inr (c2\<lparr>escFrozenArb := frozen, DisputeReason := trimSpace (DisputeReason c2)\<rparr>)))))))"

section \<open>Events\<close>

definition setAttr :: "string \<Rightarrow> string \<Rightarrow> (string \<rightharpoonup> string) \<Rightarrow> (string \<rightharpoonup> string)" where
  "setAttr k v attrs = attrs(k \<mapsto> v)"

definition setAttrIf :: "bool \<Rightarrow> string \<Rightarrow> string \<Rightarrow> (string \<rightharpoonup> string) \<Rightarrow> (string \<rightharpoonup> string)" where
  "setAttrIf b k v attrs = (if b then attrs(k \<mapsto> v) else attrs)"

definition formatWord :: "'a::len word \<Rightarrow> string" where
  "formatWord w = formatNat (unat w)"

text \<open>\<^verbatim>\<open>strings.Join(parts, ",")\<close>.\<close>

fun joinComma :: "string list \<Rightarrow> string" where
  "joinComma [] = []"
| "joinComma [p] = p"
| "joinComma (p # q # ps) = p @ '','' @ joinComma (q # ps)"

definition formatArbitratorMembers :: "address list \<Rightarrow> string" where
  "formatArbitratorMembers members =
     joinComma (map (\<lambda>m. hexEncode (addrBytes m)) (filter (\<lambda>m. m \<noteq> 0) members))"

definition metadataAttrs ::
  "EscrowRealmMetadata option \<Rightarrow> (string \<rightharpoonup> string) \<Rightarrow> (string \<rightharpoonup> string)" where
  "metadataAttrs meta attrs =
     (case meta of None \<Rightarrow> attrs | Some m \<Rightarrow>
      (let profile = trimSpace (ProviderProfile m);
           recipient = trimSpace (FeeRecipientBech32 m)
       in setAttrIf (recipient \<noteq> []) ''realmFeeRecipient'' recipient
         (setAttr ''realmFeeBps'' (formatWord (ArbitrationFeeBps m))
         (setAttrIf (profile \<noteq> []) ''realmProfile'' profile
         (setAttr ''realmScope'' (formatWord (scopeByte (Scope m))) attrs)))))"

definition newEscrowEvent :: "'d edeps_scheme \<Rightarrow> string \<Rightarrow> Escrow \<Rightarrow> event" where
  "newEscrowEvent D eventType e =
     (case SanitizeEscrow D e of
        Inl _ \<Rightarrow> \<lparr>evType = eventType, evAttributes = Map.empty\<rparr>
      | Inr sz \<Rightarrow>
          (let reason = trimSpace (DisputeReason sz);
               a1 = [''id'' \<mapsto> hexEncode (hashBytes (escID sz)),
                     ''payer'' \<mapsto> hexEncode (addrBytes (Payer sz)),
                     ''payee'' \<mapsto> hexEncode (addrBytes (Payee sz)),
                     ''token'' \<mapsto> escToken sz,
                     ''amount'' \<mapsto> formatInt (escAmount sz),
                     ''feeBps'' \<mapsto> formatWord (escFeeBps sz),
                     ''createdAt'' \<mapsto> formatInt (escCreatedAt sz),
                     ''nonce'' \<mapsto> formatWord (escNonce sz)];
               a2 = setAttrIf (Mediator sz \<noteq> 0) ''mediator'' (hexEncode (addrBytes (Mediator sz))) a1;
               a3 = setAttrIf (reason \<noteq> []) ''disputeReason'' reason a2;
               a4 = setAttrIf (trimSpace (escRealmID sz) \<noteq> []) ''realmId'' (escRealmID sz) a3;
               a5 = (case escFrozenArb sz of None \<Rightarrow> a4 | Some f \<Rightarrow>
                      (let members = formatArbitratorMembers (arbMembers f) in
                       metadataAttrs (arbMetadata f)
                        (setAttrIf (members \<noteq> []) ''arbitrators'' members
                        (a4(''realmVersion'' \<mapsto> formatWord (arbRealmVersion f),
                            ''policyNonce'' \<mapsto> formatWord (PolicyNonce f),
                            ''arbScheme'' \<mapsto> formatWord (schemeByte (arbScheme f)),
                            ''arbThreshold'' \<mapsto> formatWord (arbThreshold f))))))
           in \<lparr>evType = eventType, evAttributes = a5\<rparr>))"

definition NewCreatedEvent :: "'d edeps_scheme \<Rightarrow> Escrow \<Rightarrow> event" where
  "NewCreatedEvent D = newEscrowEvent D ''escrow.created''"

definition NewFundedEvent :: "'d edeps_scheme \<Rightarrow> Escrow \<Rightarrow> event" where
  "NewFundedEvent D = newEscrowEvent D ''escrow.funded''"

definition NewReleasedEvent :: "'d edeps_scheme \<Rightarrow> Escrow \<Rightarrow> event" where
  "NewReleasedEvent D = newEscrowEvent D ''escrow.released''"

definition NewRefundedEvent :: "'d edeps_scheme \<Rightarrow> Escrow \<Rightarrow> event" where
  "NewRefundedEvent D = newEscrowEvent D ''escrow.refunded''"

definition NewExpiredEvent :: "'d edeps_scheme \<Rightarrow> Escrow \<Rightarrow> event" where
  "NewExpiredEvent D = newEscrowEvent D ''escrow.expired''"

definition NewDisputedEvent :: "'d edeps_scheme \<Rightarrow> Escrow \<Rightarrow> event" where
  "NewDisputedEvent D = newEscrowEvent D ''escrow.disputed''"

definition NewResolvedEvent ::
  "'d edeps_scheme \<Rightarrow> Escrow \<Rightarrow> DecisionOutcome \<Rightarrow> hash32 \<Rightarrow> address list \<Rightarrow> event" where
  "NewResolvedEvent D e outcome metaHash signers =
     (let evt = newEscrowEvent D ''escrow.resolved'' e in
      evt\<lparr>evAttributes :=
        setAttrIf (signers \<noteq> []) ''decisionSigners'' (formatArbitratorMembers signers)
        (setAttrIf (metaHash \<noteq> 0) ''decisionMetadata'' (hexEncode (hashBytes metaHash))
        (setAttrIf (outcomeValid outcome) ''decision'' (outcomeString outcome)
        (evAttributes evt)))\<rparr>)"

definition newRealmEvent :: "'d edeps_scheme \<Rightarrow> string \<Rightarrow> EscrowRealm \<Rightarrow> event" where
  "newRealmEvent D eventType r =
     (case SanitizeEscrowRealm D r of
        Inl _ \<Rightarrow> \<lparr>evType = eventType, evAttributes = Map.empty\<rparr>
      | Inr sz \<Rightarrow>
          (let a1 = [''realmId'' \<mapsto> realmID sz,
                     ''version'' \<mapsto> formatWord (realmVersion sz),
                     ''nextNonce'' \<mapsto> formatWord (NextPolicyNonce sz),
                     ''createdAt'' \<mapsto> formatInt (realmCreatedAt sz),
                     ''updatedAt'' \<mapsto> formatInt (realmUpdatedAt sz)];
               a2 = (case Arbitrators sz of None \<Rightarrow> a1 | Some arb \<Rightarrow>
                      (let members = formatArbitratorMembers (setMembers arb) in
                       setAttrIf (members \<noteq> []) ''arbitrators'' members
                        (a1(''arbScheme'' \<mapsto> formatWord (schemeByte (setScheme arb)),
                            ''arbThreshold'' \<mapsto> formatWord (setThreshold arb)))))
           in \<lparr>evType = eventType, evAttributes = metadataAttrs (realmMetadata sz) a2\<rparr>))"

definition NewRealmCreatedEvent :: "'d edeps_scheme \<Rightarrow> EscrowRealm \<Rightarrow> event" where
  "NewRealmCreatedEvent D = newRealmEvent D ''escrow.realm.created''"

definition NewRealmUpdatedEvent :: "'d edeps_scheme \<Rightarrow> EscrowRealm \<Rightarrow> event" where
  "NewRealmUpdatedEvent D = newRealmEvent D ''escrow.realm.updated''"

section \<open>Lemmas\<close>

lemma NormalizeToken_Inr:
  "NormalizeToken t = Inr n \<longleftrightarrow> n = toUpper (trimSpace t) \<and> (n = ''NHB'' \<or> n = ''ZNHB'')"
proof -
  have "defaultTokenRegistry = {''NHB'', ''ZNHB''}"
    unfolding defaultTokenRegistry_def newTokenRegistry_def by code_simp
  then show ?thesis by (auto simp: NormalizeToken_def normalizeSymbol_def Let_def)
qed

lemma NormalizeToken_tokens [simp]:
  "NormalizeToken ''NHB'' = Inr ''NHB''" "NormalizeToken ''ZNHB'' = Inr ''ZNHB''"
proof -
  have "toUpper (trimSpace ''NHB'') = ''NHB''" "toUpper (trimSpace ''ZNHB'') = ''ZNHB''"
    by code_simp+
  then show "NormalizeToken ''NHB'' = Inr ''NHB''" "NormalizeToken ''ZNHB'' = Inr ''ZNHB''"
    by (simp_all add: NormalizeToken_Inr)
qed

lemma NormalizeToken_idem: "NormalizeToken t = Inr n \<Longrightarrow> NormalizeToken n = Inr n"
  by (auto simp: NormalizeToken_Inr) (metis NormalizeToken_Inr NormalizeToken_tokens)+

lemma trimSpace_trim [simp]: "trimSpace (trimSpace s) = trimSpace s"
  by (rule trimSpace_idem)

lemma trimSpace_Nil [simp]: "trimSpace [] = []"
  by (simp add: trimSpace_def)

lemma SanitizeArbitratorSet_id: "SanitizeArbitratorSet a = Inr b \<Longrightarrow> a = Some b"
  by (auto simp: SanitizeArbitratorSet_def split: option.splits)

lemma sanitizeScheduleOpt_id: "sanitizeScheduleOpt a = Inr b \<Longrightarrow> b = a"
  by (auto simp: sanitizeScheduleOpt_def SanitizeRealmFeeSchedule_def split: option.splits)

text \<open>Sanitising is idempotent: a sanitised value passes unchanged.\<close>

lemma SanitizeEscrowRealmMetadata_idem:
  "SanitizeEscrowRealmMetadata D a = Inr m \<Longrightarrow> SanitizeEscrowRealmMetadata D (Some m) = Inr m"
  by (auto simp: SanitizeEscrowRealmMetadata_def Let_def split: option.splits if_splits sum.splits)

lemma SanitizeEscrowRealm_idem:
  assumes "SanitizeEscrowRealm D r = Inr m"
  shows "SanitizeEscrowRealm D m = Inr m"
  using assms SanitizeArbitratorSet_id sanitizeScheduleOpt_id SanitizeEscrowRealmMetadata_idem
  by (fastforce simp: SanitizeEscrowRealm_def Let_def)

lemma SanitizeFrozenArb_idem:
  assumes "SanitizeFrozenArb D r = Inr m"
  shows "SanitizeFrozenArb D m = Inr m"
  using assms sanitizeScheduleOpt_id SanitizeEscrowRealmMetadata_idem
  by (fastforce simp: SanitizeFrozenArb_def Let_def)

lemma SanitizeEscrow_Inr:
  "SanitizeEscrow D e = Inr e' \<longleftrightarrow>
     (\<exists>token frozen. NormalizeToken (escToken e) = Inr token \<and> 0 \<le> escAmount e \<and> escNonce e \<noteq> 0
       \<and> escFeeBps e \<le> 10000 \<and> statusValid (escStatus e)
       \<and> (case (if trimSpace (escRealmID e) = [] then None else escFrozenArb e) of
            None \<Rightarrow> frozen = None
          | Some f \<Rightarrow> (\<exists>f'. SanitizeFrozenArb D f = Inr f' \<and> arbRealmID f' = trimSpace (escRealmID e)
              \<and> frozen = Some f'))
       \<and> e' = e\<lparr>escToken := token, escRealmID := trimSpace (escRealmID e), escFrozenArb := frozen,
                 DisputeReason := trimSpace (DisputeReason e)\<rparr>)"
  by (cases "trimSpace (escRealmID e) = []"; cases "escFrozenArb e")
    (auto simp: SanitizeEscrow_def Let_def not_less)

text \<open>A sanitised escrow: what the code may then rely on.\<close>

definition escrow_wf :: "'d edeps_scheme \<Rightarrow> Escrow \<Rightarrow> bool" where
  "escrow_wf D e \<longleftrightarrow> (escToken e = ''NHB'' \<or> escToken e = ''ZNHB'') \<and> 0 \<le> escAmount e \<and> escNonce e \<noteq> 0
     \<and> escFeeBps e \<le> 10000 \<and> statusValid (escStatus e)
     \<and> trimSpace (escRealmID e) = escRealmID e \<and> trimSpace (DisputeReason e) = DisputeReason e
     \<and> (case escFrozenArb e of None \<Rightarrow> True
        | Some f \<Rightarrow> escRealmID e \<noteq> [] \<and> SanitizeFrozenArb D f = Inr f \<and> arbRealmID f = escRealmID e)"

lemma SanitizeEscrow_wf:
  assumes "SanitizeEscrow D e = Inr e'"
  shows "escrow_wf D e'"
  using assms unfolding SanitizeEscrow_Inr escrow_wf_def
  by (auto simp: NormalizeToken_Inr split: option.splits if_splits dest: SanitizeFrozenArb_idem)

lemma wf_SanitizeEscrow:
  assumes "escrow_wf D e"
  shows "SanitizeEscrow D e = Inr e"
proof -
  have tok: "NormalizeToken (escToken e) = Inr (escToken e)"
    using assms by (auto simp: escrow_wf_def)
  have "case (if trimSpace (escRealmID e) = [] then None else escFrozenArb e) of
            None \<Rightarrow> escFrozenArb e = None
          | Some f \<Rightarrow> (\<exists>f'. SanitizeFrozenArb D f = Inr f' \<and> arbRealmID f' = trimSpace (escRealmID e)
              \<and> escFrozenArb e = Some f')"
    using assms by (auto simp: escrow_wf_def split: option.splits)
  moreover have "e = e\<lparr>escToken := escToken e, escRealmID := trimSpace (escRealmID e),
      escFrozenArb := escFrozenArb e, DisputeReason := trimSpace (DisputeReason e)\<rparr>"
    using assms by (simp add: escrow_wf_def)
  ultimately show ?thesis
    using assms tok unfolding SanitizeEscrow_Inr escrow_wf_def by blast
qed

lemma escrow_wf_token: "escrow_wf D e \<Longrightarrow> escToken e = ''NHB'' \<or> escToken e = ''ZNHB''"
  by (simp add: escrow_wf_def)

lemma escrow_wf_NormalizeToken: "escrow_wf D e \<Longrightarrow> NormalizeToken (escToken e) = Inr (escToken e)"
  by (auto dest: escrow_wf_token)

lemma escrow_wf_fee: "escrow_wf D e \<Longrightarrow> escFeeBps e \<le> 10000"
  by (simp add: escrow_wf_def)

lemma escrow_wf_reason: "escrow_wf D e \<Longrightarrow> trimSpace (DisputeReason e) = DisputeReason e"
  by (simp add: escrow_wf_def)

end
