(* ===== verification/EscrowStore.thy ===== *)
theory EscrowStore
  imports EscrowTypes
begin

text \<open>
  The escrow part of \<^verbatim>\<open>core/state/manager.go\<close>: the stored forms of escrows, realms and frozen
  policies, and the operations of \<^verbatim>\<open>Manager\<close> that the escrow engine calls through its
  \<^verbatim>\<open>engineState\<close> interface.

  The trie is split into one key space per key prefix; keys of different prefixes, and the
  keccak images of different keys, are taken to be distinct, and reads and writes of the
  underlying database do not fail. RLP refuses a record with a negative integer; the records
  decode at the type they were written with.
\<close>

section \<open>Stored records\<close>

record storedArbitratorSet =
  saScheme :: u8
  saThreshold :: u32
  saMembers :: "address list"

definition newStoredArbitratorSet :: "ArbitratorSet \<Rightarrow> storedArbitratorSet" where
  "newStoredArbitratorSet s = \<lparr>saScheme = schemeByte (setScheme s),
     saThreshold = setThreshold s, saMembers = setMembers s\<rparr>"

definition toArbitratorSet :: "storedArbitratorSet option \<Rightarrow> error + ArbitratorSet" where
  "toArbitratorSet so =
     (case so of None \<Rightarrow> Inl ''escrow: nil arbitrator set'' | Some s \<Rightarrow>
      SanitizeArbitratorSet (Some \<lparr>setScheme = schemeOfByte (saScheme s),
        setThreshold = saThreshold s, setMembers = saMembers s\<rparr>))"

record storedEscrowRealmMetadata =
  smScope :: u8
  smProviderProfile :: string
  smArbitrationFeeBps :: u32
  smFeeRecipient :: string

definition newStoredEscrowRealmMetadata :: "EscrowRealmMetadata \<Rightarrow> storedEscrowRealmMetadata" where
  "newStoredEscrowRealmMetadata m = \<lparr>smScope = scopeByte (Scope m),
     smProviderProfile = trimSpace (ProviderProfile m),
     smArbitrationFeeBps = ArbitrationFeeBps m,
     smFeeRecipient = trimSpace (FeeRecipientBech32 m)\<rparr>"

definition toEscrowRealmMetadata ::
  "'d edeps_scheme \<Rightarrow> storedEscrowRealmMetadata option \<Rightarrow> error + EscrowRealmMetadata" where
  "toEscrowRealmMetadata D so =
     (case so of None \<Rightarrow> Inl ''escrow: nil realm metadata'' | Some s \<Rightarrow>
      SanitizeEscrowRealmMetadata D (Some \<lparr>Scope = scopeOfByte (smScope s),
        ProviderProfile = trimSpace (smProviderProfile s),
        ArbitrationFeeBps = smArbitrationFeeBps s,
        FeeRecipientBech32 = trimSpace (smFeeRecipient s)\<rparr>))"

record storedEscrowRealm =
  srID :: string
  srVersion :: u64
  srNextPolicyNonce :: u64
  srCreatedAt :: int
  srUpdatedAt :: int
  srArbitrators :: "storedArbitratorSet option"
  srFeeBps :: u32
  srFeeRecipient :: address
  srMetadata :: "storedEscrowRealmMetadata option"

definition newStoredEscrowRealm :: "EscrowRealm \<Rightarrow> storedEscrowRealm" where
  "newStoredEscrowRealm r =
     \<lparr>srID = trimSpace (realmID r), srVersion = realmVersion r,
      srNextPolicyNonce = NextPolicyNonce r, srCreatedAt = realmCreatedAt r,
      srUpdatedAt = realmUpdatedAt r,
      srArbitrators = map_option newStoredArbitratorSet (Arbitrators r),
      srFeeBps = (case realmFeeSchedule r of None \<Rightarrow> 0 | Some sc \<Rightarrow> schedFeeBps sc),
      srFeeRecipient = (case realmFeeSchedule r of None \<Rightarrow> 0 | Some sc \<Rightarrow> schedRecipient sc),
      srMetadata = map_option newStoredEscrowRealmMetadata (realmMetadata r)\<rparr>"

definition storedSchedule :: "u32 \<Rightarrow> address \<Rightarrow> RealmFeeSchedule option" where
  "storedSchedule bps recipient =
     (if bps > 0 \<or> recipient \<noteq> 0
      then Some \<lparr>schedFeeBps = bps, schedRecipient = recipient\<rparr> else None)"

definition toEscrowRealm :: "'d edeps_scheme \<Rightarrow> storedEscrowRealm \<Rightarrow> error + EscrowRealm" where
  "toEscrowRealm D s =
     bindS (checkS (srArbitrators s = None) ''escrow: realm missing arbitrators'') (\<lambda>_.
     bindS (toArbitratorSet (srArbitrators s)) (\<lambda>arb.
     bindS (checkS (srMetadata s = None) ''escrow: realm missing metadata'') (\<lambda>_.
     bindS (toEscrowRealmMetadata D (srMetadata s)) (\<lambda>meta.
     SanitizeEscrowRealm D
       \<lparr>realmID = trimSpace (srID s), realmVersion = srVersion s,
        NextPolicyNonce = srNextPolicyNonce s, realmCreatedAt = wrap64 (srCreatedAt s),
        realmUpdatedAt = wrap64 (srUpdatedAt s), Arbitrators = Some arb,
        realmFeeSchedule = storedSchedule (srFeeBps s) (srFeeRecipient s),
        realmMetadata = Some meta\<rparr>))))"

record storedFrozenArb =
  sfRealmID :: string
  sfRealmVersion :: u64
  sfPolicyNonce :: u64
  sfScheme :: u8
  sfThreshold :: u32
  sfMembers :: "address list"
  sfFrozenAt :: int
  sfFeeBps :: u32
  sfFeeRecipient :: address
  sfMetadata :: "storedEscrowRealmMetadata option"

definition newStoredFrozenArb :: "FrozenArb \<Rightarrow> storedFrozenArb" where
  "newStoredFrozenArb f =
     \<lparr>sfRealmID = trimSpace (arbRealmID f), sfRealmVersion = arbRealmVersion f,
      sfPolicyNonce = PolicyNonce f, sfScheme = schemeByte (arbScheme f),
      sfThreshold = arbThreshold f, sfMembers = arbMembers f, sfFrozenAt = FrozenAt f,
      sfFeeBps = (case arbFeeSchedule f of None \<Rightarrow> 0 | Some sc \<Rightarrow> schedFeeBps sc),
      sfFeeRecipient = (case arbFeeSchedule f of None \<Rightarrow> 0 | Some sc \<Rightarrow> schedRecipient sc),
      sfMetadata = map_option newStoredEscrowRealmMetadata (arbMetadata f)\<rparr>"

definition toFrozenArb :: "'d edeps_scheme \<Rightarrow> storedFrozenArb \<Rightarrow> error + FrozenArb" where
  "toFrozenArb D s =
     bindS (checkS (sfMetadata s = None) ''escrow: frozen policy missing metadata'') (\<lambda>_.
     bindS (toEscrowRealmMetadata D (sfMetadata s)) (\<lambda>meta.
     SanitizeFrozenArb D
       \<lparr>arbRealmID = trimSpace (sfRealmID s), arbRealmVersion = sfRealmVersion s,
        PolicyNonce = sfPolicyNonce s, arbScheme = schemeOfByte (sfScheme s),
        arbThreshold = sfThreshold s, arbMembers = sfMembers s, FrozenAt = wrap64 (sfFrozenAt s),
        arbFeeSchedule = storedSchedule (sfFeeBps s) (sfFeeRecipient s),
        arbMetadata = Some meta\<rparr>))"

record storedEscrow =
  seID :: hash32
  sePayer :: address
  sePayee :: address
  seMediator :: address
  seToken :: string
  seAmount :: int
  seFeeBps :: u32
  seDeadline :: int
  seCreatedAt :: int
  seNonce :: int
  seMetaHash :: hash32
  seStatus :: u8
  seRealmID :: string
  seDecisionHash :: hash32
  seDisputeReason :: string

definition newStoredEscrow :: "Escrow \<Rightarrow> storedEscrow" where
  "newStoredEscrow e =
     \<lparr>seID = escID e, sePayer = Payer e, sePayee = Payee e, seMediator = Mediator e,
      seToken = escToken e, seAmount = escAmount e, seFeeBps = escFeeBps e,
      seDeadline = escDeadline e, seCreatedAt = escCreatedAt e, seNonce = uint (escNonce e),
      seMetaHash = MetaHash e, seStatus = statusByte (escStatus e),
      seRealmID = trimSpace (escRealmID e), seDecisionHash = ResolutionHash e,
      seDisputeReason = trimSpace (DisputeReason e)\<rparr>"

definition toEscrow :: "storedEscrow \<Rightarrow> error + Escrow" where
  "toEscrow s =
     (let out = \<lparr>escID = seID s, Payer = sePayer s, Payee = sePayee s, Mediator = seMediator s,
        escToken = seToken s, escAmount = seAmount s, escFeeBps = seFeeBps s,
        escDeadline = wrap64 (seDeadline s), escCreatedAt = wrap64 (seCreatedAt s),
        escNonce = word_of_int (seNonce s), MetaHash = seMetaHash s,
        escStatus = statusOfByte (seStatus s), escRealmID = trimSpace (seRealmID s),
        escFrozenArb = None, ResolutionHash = seDecisionHash s,
        DisputeReason = trimSpace (seDisputeReason s)\<rparr>
      in if statusValid (escStatus out) then Inr out else Inl ''escrow: invalid status in storage'')"

section \<open>State and operations\<close>

record estate = chain +
  escrowRecs :: "hash32 \<rightharpoonup> storedEscrow"
  frozenRecs :: "hash32 \<rightharpoonup> storedFrozenArb"
  vaultBals :: "hash32 \<Rightarrow> string \<Rightarrow> int"
  realmRecs :: "string \<rightharpoonup> storedEscrowRealm"
  paramVals :: "string \<rightharpoonup> string"

definition EscrowRealmPut :: "'d edeps_scheme \<Rightarrow> EscrowRealm \<Rightarrow> ('x estate_scheme, unit) op" where
  "EscrowRealmPut D realm =
     bindE (liftE (SanitizeEscrowRealm D realm)) (\<lambda>sanitized.
     let rec = newStoredEscrowRealm sanitized in
     bindE (failIf (rlpFails D [srCreatedAt rec, srUpdatedAt rec]) errRlp) (\<lambda>_.
     modifyE (\<lambda>s. s\<lparr>realmRecs := (realmRecs s)(realmID sanitized \<mapsto> rec)\<rparr>)))"

definition EscrowRealmGet ::
  "'d edeps_scheme \<Rightarrow> string \<Rightarrow> ('x estate_scheme, EscrowRealm option) op" where
  "EscrowRealmGet D eid =
     (let trimmed = trimSpace eid in
      bindE (failIf (trimmed = []) ''escrow: realm id must not be empty'') (\<lambda>_.
      bindE (getsE (\<lambda>s. realmRecs s trimmed)) (\<lambda>stored.
      case stored of None \<Rightarrow> retE None
      | Some rec \<Rightarrow> bindE (liftE (toEscrowRealm D rec)) (\<lambda>realm. retE (Some realm)))))"

definition EscrowFrozenPolicyPut ::
  "'d edeps_scheme \<Rightarrow> hash32 \<Rightarrow> FrozenArb \<Rightarrow> ('x estate_scheme, unit) op" where
  "EscrowFrozenPolicyPut D eid policy =
     bindE (liftE (SanitizeFrozenArb D policy)) (\<lambda>sanitized.
     let rec = newStoredFrozenArb sanitized in
     bindE (failIf (rlpFails D [sfFrozenAt rec]) errRlp) (\<lambda>_.
     modifyE (\<lambda>s. s\<lparr>frozenRecs := (frozenRecs s)(eid \<mapsto> rec)\<rparr>)))"

definition EscrowFrozenPolicyGet ::
  "'d edeps_scheme \<Rightarrow> hash32 \<Rightarrow> ('x estate_scheme, FrozenArb option) op" where
  "EscrowFrozenPolicyGet D eid =
     bindE (getsE (\<lambda>s. frozenRecs s eid)) (\<lambda>stored.
     case stored of None \<Rightarrow> retE None
     | Some rec \<Rightarrow> bindE (liftE (toFrozenArb D rec)) (\<lambda>frozen. retE (Some frozen)))"

definition EscrowPut :: "'d edeps_scheme \<Rightarrow> Escrow \<Rightarrow> ('x estate_scheme, unit) op" where
  "EscrowPut D e =
     bindE (liftE (SanitizeEscrow D e)) (\<lambda>sanitized.
     let rec = newStoredEscrow sanitized in
     bindE (failIf (rlpFails D
       [seAmount rec, seDeadline rec, seCreatedAt rec, seNonce rec]) errRlp) (\<lambda>_.
     modifyE (\<lambda>s. s\<lparr>escrowRecs := (escrowRecs s)(escID sanitized \<mapsto> rec)\<rparr>)))"

text \<open>\<^verbatim>\<open>EscrowGet\<close> turns every failure into "not found".\<close>

definition EscrowGet :: "'d edeps_scheme \<Rightarrow> hash32 \<Rightarrow> 'x estate_scheme \<Rightarrow> Escrow option" where
  "EscrowGet D eid s =
     (case escrowRecs s eid of None \<Rightarrow> None | Some stored \<Rightarrow>
      case toEscrow stored of Inl _ \<Rightarrow> None | Inr escrowValue \<Rightarrow>
      let found = (if trimSpace (escRealmID escrowValue) = [] then Some escrowValue
                   else case fst (EscrowFrozenPolicyGet D eid s) of
                     Inr (Some frozen) \<Rightarrow> Some (escrowValue\<lparr>escFrozenArb := Some frozen\<rparr>)
                   | _ \<Rightarrow> None)
      in case found of None \<Rightarrow> None | Some e \<Rightarrow>
         (case SanitizeEscrow D e of Inl _ \<Rightarrow> None | Inr sanitized \<Rightarrow> Some sanitized))"

definition escrowModuleAddress :: "'d edeps_scheme \<Rightarrow> string \<Rightarrow> error + address" where
  "escrowModuleAddress D token =
     bindS (NormalizeToken token) (\<lambda>normalized.
     Inr (ucast (keccak256 D (''module/escrow/vault/'' @ normalized))))"

definition EscrowVaultAddress :: "'d edeps_scheme \<Rightarrow> string \<Rightarrow> ('x estate_scheme, address) op" where
  "EscrowVaultAddress D token = liftE (escrowModuleAddress D token)"

definition writeVault :: "hash32 \<Rightarrow> string \<Rightarrow> int \<Rightarrow> ('x estate_scheme, unit) op" where
  "writeVault eid token v =
     bindE (failIf (v < 0) ''negative value not allowed'') (\<lambda>_.
     modifyE (\<lambda>s. s\<lparr>vaultBals := (vaultBals s)(eid := (vaultBals s eid)(token := v))\<rparr>))"

definition EscrowCredit :: "hash32 \<Rightarrow> string \<Rightarrow> int \<Rightarrow> ('x estate_scheme, unit) op" where
  "EscrowCredit eid token amt =
     bindE (failIf (amt < 0) ''escrow: negative credit'') (\<lambda>_.
     bindE (liftE (NormalizeToken token)) (\<lambda>normalized.
     bindE (getsE (\<lambda>s. escrowRecs s eid)) (\<lambda>found.
     bindE (failIf (found = None) ''escrow not found'') (\<lambda>_.
     if amt = 0 then retE () else
     bindE (getsE (\<lambda>s. vaultBals s eid normalized)) (\<lambda>balance.
     writeVault eid normalized (balance + amt))))))"

definition EscrowDebit :: "hash32 \<Rightarrow> string \<Rightarrow> int \<Rightarrow> ('x estate_scheme, unit) op" where
  "EscrowDebit eid token amt =
     bindE (failIf (amt < 0) ''escrow: negative debit'') (\<lambda>_.
     bindE (liftE (NormalizeToken token)) (\<lambda>normalized.
     bindE (getsE (\<lambda>s. vaultBals s eid normalized)) (\<lambda>balance.
     bindE (failIf (balance < amt) ''escrow: insufficient balance'') (\<lambda>_.
     if amt = 0 then retE () else writeVault eid normalized (balance - amt)))))"

definition EscrowBalance :: "hash32 \<Rightarrow> string \<Rightarrow> ('x estate_scheme, int) op" where
  "EscrowBalance eid token =
     bindE (liftE (NormalizeToken token)) (\<lambda>normalized. getsE (\<lambda>s. vaultBals s eid normalized))"

definition ParamStoreSet :: "string \<Rightarrow> string \<Rightarrow> ('x estate_scheme, unit) op" where
  "ParamStoreSet name v =
     (let trimmed = trimSpace name in
      bindE (failIf (trimmed = []) ''params: key must not be empty'') (\<lambda>_.
      modifyE (\<lambda>s. s\<lparr>paramVals := (paramVals s)(trimmed \<mapsto> v)\<rparr>)))"

definition ParamStoreGet :: "string \<Rightarrow> ('x estate_scheme, string option) op" where
  "ParamStoreGet name =
     (let trimmed = trimSpace name in
      bindE (failIf (trimmed = []) ''params: key must not be empty'') (\<lambda>_.
      getsE (\<lambda>s. paramVals s trimmed)))"

definition IsEscrowFunded :: "'d edeps_scheme \<Rightarrow> hash32 \<Rightarrow> ('x estate_scheme, bool) op" where
  "IsEscrowFunded D eid =
     bindE (getsE (EscrowGet D eid)) (\<lambda>esc.
     case esc of None \<Rightarrow> throwE ''escrow not found''
     | Some e \<Rightarrow> retE (escStatus e = EscrowFunded))"

end
