(* ===== verification/EscrowEngine.thy ===== *)
theory EscrowEngine
  imports EscrowStore Common
begin

text \<open>
  The escrow engine, \<^verbatim>\<open>native/escrow/engine.go\<close>: realms, the escrow life cycle (create, fund,
  release, refund, expire, dispute) and dispute resolution by the mediator or by a quorum of
  arbitrator signatures.

  The fields of \<^verbatim>\<open>Engine\<close> that an operation reads are the record \<open>engine\<close>; \<open>engNow\<close> is the
  value \<^verbatim>\<open>now()\<close> returns during the call (no operation calls it twice). The engine reaches the
  account store through \<^verbatim>\<open>engineState\<close>; \<open>transferToken\<close> takes those two methods as arguments
  and its lemmas are proved from the contract \<open>account_ledger\<close>.
\<close>

section \<open>Definitions\<close>

record engine =
  feeTreasury :: address
  engNow :: int
  engPauses :: pause_view

abbreviation "errNilTreasury \<equiv> ''escrow engine: fee treasury not configured''"
abbreviation "errEscrowNotFound \<equiv> ''escrow engine: escrow not found''"
abbreviation "errRealmNotFound \<equiv> ''escrow engine: realm not found''"
abbreviation "errRealmConfig \<equiv> ''escrow engine: invalid realm configuration''"

definition guardE :: "pause_view \<Rightarrow> ('s, unit) op" where
  "guardE p = liftE (Guard p ''escrow'')"

definition calculateFee :: "int \<Rightarrow> u32 \<Rightarrow> int" where
  "calculateFee amount bps =
     (if amount \<le> 0 \<or> bps = 0 then 0 else amount * uint bps div 10000)"

definition loadEscrow :: "'d edeps_scheme \<Rightarrow> hash32 \<Rightarrow> ('x estate_scheme, Escrow) op" where
  "loadEscrow D eid =
     bindE (getsE (EscrowGet D eid)) (\<lambda>esc.
     case esc of None \<Rightarrow> throwE errEscrowNotFound | Some e \<Rightarrow> retE e)"

definition storeEscrow :: "'d edeps_scheme \<Rightarrow> Escrow \<Rightarrow> ('x estate_scheme, unit) op" where
  "storeEscrow D esc = EscrowPut D esc"

definition transferToken ::
  "(address \<Rightarrow> ('s, Account) op) \<Rightarrow> (address \<Rightarrow> Account \<Rightarrow> ('s, unit) op) \<Rightarrow>
   address \<Rightarrow> address \<Rightarrow> string \<Rightarrow> int \<Rightarrow> ('s, unit) op" where
  "transferToken get put from to token amt =
     (if amt = 0 then retE () else
      bindE (liftE (NormalizeToken token)) (\<lambda>normalized.
      bindE (failIf (amt < 0) ''escrow: negative transfer amount'') (\<lambda>_.
      bindE (get from) (\<lambda>fromAcc.
      bindE (get to) (\<lambda>toAcc.
      if normalized = ''NHB'' then
        bindE (failIf (BalanceNHB fromAcc < amt) ''escrow: insufficient balance'') (\<lambda>_.
        bindE (put from (fromAcc\<lparr>BalanceNHB := BalanceNHB fromAcc - amt\<rparr>)) (\<lambda>_.
        put to (toAcc\<lparr>BalanceNHB := BalanceNHB toAcc + amt\<rparr>)))
      else if normalized = ''ZNHB'' then
        bindE (failIf (BalanceZNHB fromAcc < amt) ''escrow: insufficient balance'') (\<lambda>_.
        bindE (put from (fromAcc\<lparr>BalanceZNHB := BalanceZNHB fromAcc - amt\<rparr>)) (\<lambda>_.
        put to (toAcc\<lparr>BalanceZNHB := BalanceZNHB toAcc + amt\<rparr>)))
      else throwE ''escrow: unsupported token %s'')))))"

abbreviation moveToken ::
  "'d edeps_scheme \<Rightarrow> address \<Rightarrow> address \<Rightarrow> string \<Rightarrow> int \<Rightarrow> ('x estate_scheme, unit) op" where
  "moveToken D \<equiv> transferToken (GetAccount D) (PutAccount D)"

definition ensureTreasuryConfigured :: "engine \<Rightarrow> error + unit" where
  "ensureTreasuryConfigured E = checkS (feeTreasury E = 0) errNilTreasury"

text \<open>The payout to the winning party, the fee, the realm fee and its recipient.\<close>

definition computeDisputePayouts :: "Escrow \<Rightarrow> error + (int \<times> int \<times> int \<times> address)" where
  "computeDisputePayouts esc =
     (let total = escAmount esc in
      bindS (checkS (total \<le> 0) ''escrow: amount must be positive'') (\<lambda>_.
      let fee = calculateFee total (escFeeBps esc);
          sched = (case escFrozenArb esc of None \<Rightarrow> None | Some f \<Rightarrow> arbFeeSchedule f);
          realmFee = (case sched of None \<Rightarrow> 0 | Some sc \<Rightarrow> calculateFee total (schedFeeBps sc));
          recipient = (case sched of None \<Rightarrow> 0 | Some sc \<Rightarrow> schedRecipient sc)
      in bindS (checkS (realmFee > 0 \<and> recipient = 0) ''escrow: realm fee recipient missing'') (\<lambda>_.
      let payout = total - fee - realmFee
      in bindS (checkS (payout < 0) ''escrow: dispute fees exceed escrow amount'') (\<lambda>_.
      Inr (payout, fee, realmFee, recipient)))))"

subsection \<open>Realm bounds\<close>

definition parseUintParam :: "string \<Rightarrow> error + nat" where
  "parseUintParam raw =
     (let text' = trimSpace raw in
      if text' = [] then Inl ''value must not be empty'' else parseUint 32 text')"

definition parseSchemeString :: "string \<Rightarrow> error + ArbitrationScheme" where
  "parseSchemeString v =
     (let trimmed = toLower (trimSpace v) in
      if trimmed = ''single'' then Inr ArbitrationSchemeSingle
      else if trimmed = ''committee'' then Inr ArbitrationSchemeCommittee
      else if trimmed = [] then Inl ''arbitration scheme must not be empty''
      else case parseUint 8 trimmed of
        Inr num \<Rightarrow> (let scheme = schemeOfByte (of_nat num) in
                    if schemeValid scheme then Inr scheme
                    else Inl ''unknown arbitration scheme %q'')
      | Inl _ \<Rightarrow> Inl ''unknown arbitration scheme %q'')"

fun parseSchemes :: "string list \<Rightarrow> error + ArbitrationScheme list" where
  "parseSchemes [] = Inr []"
| "parseSchemes (v # vs) =
     bindS (parseSchemeString v) (\<lambda>scheme.
     bindS (parseSchemes vs) (\<lambda>rest. Inr (scheme # rest)))"

definition parseAllowedSchemesParam ::
  "'d edeps_scheme \<Rightarrow> string \<Rightarrow> error + ArbitrationScheme list" where
  "parseAllowedSchemesParam D raw =
     (if trimSpace raw = [] then Inl ''allowed schemes payload empty'' else
      bindS (case jsonStrings D raw of
          Inr values \<Rightarrow> Inr values
        | Inl _ \<Rightarrow> (case jsonString D raw of
              Inr single \<Rightarrow> Inr [single]
            | Inl e \<Rightarrow> Inl (''invalid allowed schemes payload: '' @ e))) (\<lambda>values.
      bindS (parseSchemes values) (\<lambda>allowed.
      bindS (checkS (allowed = []) ''allowed schemes list empty'') (\<lambda>_.
      Inr allowed))))"

definition DefaultRealmMinThreshold :: u32 where "DefaultRealmMinThreshold = 1"
definition DefaultRealmMaxThreshold :: u32 where "DefaultRealmMaxThreshold = 10"

definition defaultRealmSchemeMap :: "ArbitrationScheme list" where
  "defaultRealmSchemeMap = [ArbitrationSchemeSingle, ArbitrationSchemeCommittee]"

definition thresholdParam :: "string \<Rightarrow> string \<Rightarrow> u32 \<Rightarrow> ('x estate_scheme, u32) op" where
  "thresholdParam key what dflt =
     bindE (ParamStoreGet key) (\<lambda>found.
     case found of None \<Rightarrow> retE dflt | Some raw \<Rightarrow>
     bindE (wrapE what (liftE (parseUintParam raw))) (\<lambda>parsed.
     bindE (failIf (parsed = 0) (what @ '' must be positive'')) (\<lambda>_.
     retE (of_nat parsed))))"

definition realmBounds ::
  "'d edeps_scheme \<Rightarrow> ('x estate_scheme, u32 \<times> u32 \<times> ArbitrationScheme list) op" where
  "realmBounds D =
     bindE (thresholdParam ''escrow.realm.MinThreshold'' ''realm min threshold''
       DefaultRealmMinThreshold) (\<lambda>lo.
     bindE (thresholdParam ''escrow.realm.MaxThreshold'' ''realm max threshold''
       DefaultRealmMaxThreshold) (\<lambda>hi.
     bindE (ParamStoreGet ''escrow.realm.AllowedSchemes'') (\<lambda>found.
     bindE (case found of None \<Rightarrow> retE defaultRealmSchemeMap
            | Some raw \<Rightarrow> liftE (parseAllowedSchemesParam D raw)) (\<lambda>allowed.
     bindE (failIf (lo > hi) ''realm threshold bounds invalid: min %d > max %d'') (\<lambda>_.
     retE (lo, hi, allowed))))))"

definition validateArbitratorSetBounds ::
  "'d edeps_scheme \<Rightarrow> ArbitratorSet option \<Rightarrow> ('x estate_scheme, ArbitratorSet) op" where
  "validateArbitratorSetBounds D set0 =
     bindE (liftE (SanitizeArbitratorSet set0)) (\<lambda>sanitized.
     bindE (realmBounds D) (\<lambda>(lo, hi, allowed).
     bindE (failIf (length (setMembers sanitized) < unat lo)
       ''escrow: arbitrator set too small for minimum threshold %d'') (\<lambda>_.
     bindE (failIf (setThreshold sanitized < lo)
       ''escrow: arbitrator threshold below minimum %d'') (\<lambda>_.
     bindE (failIf (setThreshold sanitized > hi)
       ''escrow: arbitrator threshold above maximum %d'') (\<lambda>_.
     bindE (failIf (setScheme sanitized \<notin> set allowed)
       ''escrow: arbitration scheme %d not permitted'') (\<lambda>_.
     retE sanitized))))))"

definition prepareFrozenPolicy ::
  "'d edeps_scheme \<Rightarrow> string \<Rightarrow> int \<Rightarrow> ('x estate_scheme, (EscrowRealm \<times> FrozenArb) option) op" where
  "prepareFrozenPolicy D realmId now =
     (let trimmed = trimSpace realmId in
      if trimmed = [] then retE None else
      bindE (EscrowRealmGet D trimmed) (\<lambda>found.
      case found of None \<Rightarrow> throwE errRealmNotFound | Some realm \<Rightarrow>
      bindE (liftE (SanitizeEscrowRealm D realm)) (\<lambda>sr.
      bindE (validateArbitratorSetBounds D (Arbitrators sr)) (\<lambda>ss.
      bindE (failIf (NextPolicyNonce sr = 0) errRealmConfig) (\<lambda>_.
      retE (Some
        (sr\<lparr>Arbitrators := Some ss, NextPolicyNonce := NextPolicyNonce sr + 1,
            realmUpdatedAt := now\<rparr>,
         \<lparr>arbRealmID = realmID sr, arbRealmVersion = realmVersion sr,
          PolicyNonce = NextPolicyNonce sr, arbScheme = setScheme ss,
          arbThreshold = setThreshold ss, arbMembers = setMembers ss, FrozenAt = now,
          arbFeeSchedule = realmFeeSchedule sr, arbMetadata = realmMetadata sr\<rparr>)))))))"

subsection \<open>Realms\<close>

definition CreateRealm ::
  "'d edeps_scheme \<Rightarrow> engine \<Rightarrow> EscrowRealm option \<Rightarrow> ('x estate_scheme, EscrowRealm) op" where
  "CreateRealm D E realm0 =
     bindE (guardE (engPauses E)) (\<lambda>_.
     case realm0 of None \<Rightarrow> throwE ''escrow: nil realm definition'' | Some realm \<Rightarrow>
     let trimmed = trimSpace (realmID realm) in
     bindE (failIf (trimmed = []) ''escrow: realm id must not be empty'') (\<lambda>_.
     bindE (EscrowRealmGet D trimmed) (\<lambda>existing.
     bindE (failIf (existing \<noteq> None) ''escrow: realm already exists'') (\<lambda>_.
     bindE (validateArbitratorSetBounds D (Arbitrators realm)) (\<lambda>sanitizedSet.
     bindE (liftE (SanitizeEscrowRealm D
       \<lparr>realmID = trimmed, realmVersion = 1, NextPolicyNonce = 1, realmCreatedAt = engNow E,
        realmUpdatedAt = engNow E, Arbitrators = Some sanitizedSet,
        realmFeeSchedule = realmFeeSchedule realm, realmMetadata = realmMetadata realm\<rparr>)) (\<lambda>sr.
     bindE (EscrowRealmPut D sr) (\<lambda>_.
     bindE (emitEvent (NewRealmCreatedEvent D sr)) (\<lambda>_.
     retE sr))))))))"

definition UpdateRealm ::
  "'d edeps_scheme \<Rightarrow> engine \<Rightarrow> EscrowRealm option \<Rightarrow> ('x estate_scheme, EscrowRealm) op" where
  "UpdateRealm D E realm0 =
     bindE (guardE (engPauses E)) (\<lambda>_.
     case realm0 of None \<Rightarrow> throwE ''escrow: nil realm definition'' | Some realm \<Rightarrow>
     let trimmed = trimSpace (realmID realm) in
     bindE (failIf (trimmed = []) ''escrow: realm id must not be empty'') (\<lambda>_.
     bindE (EscrowRealmGet D trimmed) (\<lambda>found.
     case found of None \<Rightarrow> throwE errRealmNotFound | Some current \<Rightarrow>
     bindE (liftE (SanitizeEscrowRealm D current)) (\<lambda>sc.
     bindE (validateArbitratorSetBounds D (Arbitrators realm)) (\<lambda>sanitizedSet.
     bindE (case realmMetadata realm of None \<Rightarrow> retE (realmMetadata sc)
            | Some m \<Rightarrow> bindE (liftE (SanitizeEscrowRealmMetadata D (Some m))) (\<lambda>m'. retE (Some m')))
       (\<lambda>meta.
     bindE (liftE (SanitizeEscrowRealm D
       (sc\<lparr>realmVersion := realmVersion sc + 1, Arbitrators := Some sanitizedSet,
           realmFeeSchedule := realmFeeSchedule realm, realmUpdatedAt := engNow E,
           realmMetadata := meta\<rparr>))) (\<lambda>sr.
     bindE (EscrowRealmPut D sr) (\<lambda>_.
     bindE (emitEvent (NewRealmUpdatedEvent D sr)) (\<lambda>_.
     retE sr)))))))))"

definition GetRealm :: "'d edeps_scheme \<Rightarrow> string \<Rightarrow> ('x estate_scheme, EscrowRealm option) op" where
  "GetRealm D eid =
     (let trimmed = trimSpace eid in
      if trimmed = [] then retE None else
      bindE (EscrowRealmGet D trimmed) (\<lambda>found.
      case found of None \<Rightarrow> retE None | Some realm \<Rightarrow>
      bindE (liftE (SanitizeEscrowRealm D realm)) (\<lambda>sanitized. retE (Some sanitized))))"

subsection \<open>The escrow life cycle\<close>

definition escrowID :: "'d edeps_scheme \<Rightarrow> address \<Rightarrow> address \<Rightarrow> hash32 \<Rightarrow> u64 \<Rightarrow> hash32" where
  "escrowID D payer payee metaHash nonce =
     keccak256 D (addrBytes payer @ addrBytes payee @ hashBytes metaHash @ beBytes 8 (unat nonce))"

text \<open>The end of \<^verbatim>\<open>Create\<close>, when the store has no escrow with this identifier.\<close>

definition createFresh ::
  "'d edeps_scheme \<Rightarrow> Escrow \<Rightarrow> ('x estate_scheme, Escrow) op" where
  "createFresh D proposal =
     bindE (if escRealmID proposal \<noteq> [] then prepareFrozenPolicy D (escRealmID proposal) (escCreatedAt proposal)
            else retE None) (\<lambda>prepared.
     let esc = proposal\<lparr>escFrozenArb := map_option snd prepared\<rparr>
     in bindE (storeEscrow D esc) (\<lambda>_.
     bindE (case prepared of None \<Rightarrow> retE ()
            | Some (realmUpdate, frozen) \<Rightarrow>
                bindE (EscrowRealmPut D realmUpdate) (\<lambda>_.
                EscrowFrozenPolicyPut D (escID proposal) frozen)) (\<lambda>_.
     bindE (emitEvent (NewCreatedEvent D esc)) (\<lambda>_.
     retE esc))))"

definition Create ::
  "'d edeps_scheme \<Rightarrow> engine \<Rightarrow> address \<Rightarrow> address \<Rightarrow> string \<Rightarrow> int \<Rightarrow> u32 \<Rightarrow> int \<Rightarrow> u64 \<Rightarrow>
   address option \<Rightarrow> hash32 \<Rightarrow> string \<Rightarrow> ('x estate_scheme, Escrow) op" where
  "Create D E payer payee token amt feeBps deadline nonce mediatorOpt metaHash realmId =
     bindE (guardE (engPauses E)) (\<lambda>_.
     bindE (failIf (nonce = 0) ''escrow: nonce must be positive'') (\<lambda>_.
     bindE (liftE (NormalizeToken token)) (\<lambda>normalizedToken.
     bindE (failIf (amt \<le> 0) ''escrow: amount must be positive'') (\<lambda>_.
     bindE (failIf (feeBps > 10000) ''escrow: fee bps out of range'') (\<lambda>_.
     bindE (failIf (deadline < engNow E) ''escrow: deadline before creation time'') (\<lambda>_.
     let mediator = (case mediatorOpt of None \<Rightarrow> 0 | Some m \<Rightarrow> m);
         eid = escrowID D payer payee metaHash nonce
     in bindE (getsE (EscrowGet D eid)) (\<lambda>found.
     case found of
       Some existing \<Rightarrow>
         if Payer existing \<noteq> payer \<or> Payee existing \<noteq> payee \<or> escToken existing \<noteq> normalizedToken
            \<or> escAmount existing \<noteq> amt \<or> escFeeBps existing \<noteq> feeBps
            \<or> escDeadline existing \<noteq> deadline \<or> MetaHash existing \<noteq> metaHash
            \<or> Mediator existing \<noteq> mediator \<or> escNonce existing \<noteq> nonce
            \<or> trimSpace (escRealmID existing) \<noteq> trimSpace realmId
         then throwE ''escrow: identifier already exists with different definition''
         else retE existing
     | None \<Rightarrow> createFresh D
         \<lparr>escID = eid, Payer = payer, Payee = payee, Mediator = mediator,
          escToken = normalizedToken, escAmount = amt, escFeeBps = feeBps,
          escDeadline = deadline, escCreatedAt = engNow E, escNonce = nonce,
          MetaHash = metaHash, escStatus = EscrowInit, escRealmID = trimSpace realmId,
          escFrozenArb = None, ResolutionHash = 0, DisputeReason = []\<rparr>)))))))"

definition Fund :: "'d edeps_scheme \<Rightarrow> engine \<Rightarrow> hash32 \<Rightarrow> address \<Rightarrow> ('x estate_scheme, unit) op" where
  "Fund D E eid from =
     bindE (guardE (engPauses E)) (\<lambda>_.
     bindE (loadEscrow D eid) (\<lambda>esc.
     if escStatus esc = EscrowFunded then retE () else
     bindE (failIf (escStatus esc \<noteq> EscrowInit) ''escrow: cannot fund in status %d'') (\<lambda>_.
     bindE (failIf (Payer esc \<noteq> from) ''escrow: unauthorized fund caller'') (\<lambda>_.
     bindE (failIf (escAmount esc \<le> 0) ''escrow: amount must be positive'') (\<lambda>_.
     bindE (EscrowVaultAddress D (escToken esc)) (\<lambda>vault.
     bindE (moveToken D (Payer esc) vault (escToken esc) (escAmount esc)) (\<lambda>_.
     bindE (EscrowCredit eid (escToken esc) (escAmount esc)) (\<lambda>_.
     let esc1 = esc\<lparr>escStatus := EscrowFunded\<rparr> in
     bindE (storeEscrow D esc1) (\<lambda>_.
     emitEvent (NewFundedEvent D esc1))))))))))"

text \<open>The transfers out of the vault that \<^verbatim>\<open>Release\<close>, \<^verbatim>\<open>arbitratedRelease\<close> and
  \<^verbatim>\<open>arbitratedRefund\<close> share: the payout, the fee and the realm fee, in this order.\<close>

definition payOut ::
  "'d edeps_scheme \<Rightarrow> engine \<Rightarrow> address \<Rightarrow> address \<Rightarrow> string \<Rightarrow> int \<times> int \<times> int \<times> address \<Rightarrow>
   ('x estate_scheme, unit) op" where
  "payOut D E vault winner token amounts =
     (case amounts of (payout, fee, realmFee, realmPayee) \<Rightarrow>
      bindE (if payout > 0 then moveToken D vault winner token payout else retE ()) (\<lambda>_.
      bindE (if fee > 0 then
               bindE (liftE (ensureTreasuryConfigured E)) (\<lambda>_.
               moveToken D vault (feeTreasury E) token fee)
             else retE ()) (\<lambda>_.
      if realmFee > 0 then
        bindE (failIf (realmPayee = 0) ''escrow: realm fee recipient missing'') (\<lambda>_.
        moveToken D vault realmPayee token realmFee)
      else retE ())))"

text \<open>What follows the transfers: the tracked balance is debited, the status stored, the event
  emitted.\<close>

definition closeEscrow ::
  "'d edeps_scheme \<Rightarrow> hash32 \<Rightarrow> Escrow \<Rightarrow> EscrowStatus \<Rightarrow> (Escrow \<Rightarrow> event) \<Rightarrow>
   ('x estate_scheme, unit) op" where
  "closeEscrow D eid esc status eventFn =
     bindE (EscrowDebit eid (escToken esc) (escAmount esc)) (\<lambda>_.
     let esc1 = esc\<lparr>escStatus := status\<rparr> in
     bindE (storeEscrow D esc1) (\<lambda>_.
     emitEvent (eventFn esc1)))"

definition releaseAmounts :: "Escrow \<Rightarrow> error + (int \<times> int \<times> int \<times> address)" where
  "releaseAmounts esc =
     (if escStatus esc = EscrowDisputed then computeDisputePayouts esc
      else let fee = calculateFee (escAmount esc) (escFeeBps esc)
           in Inr (escAmount esc - fee, fee, 0, 0))"

definition Release :: "'d edeps_scheme \<Rightarrow> engine \<Rightarrow> hash32 \<Rightarrow> address \<Rightarrow> ('x estate_scheme, unit) op" where
  "Release D E eid caller =
     bindE (guardE (engPauses E)) (\<lambda>_.
     bindE (loadEscrow D eid) (\<lambda>esc.
     if escStatus esc = EscrowReleased then retE () else
     bindE (failIf (escStatus esc \<noteq> EscrowFunded \<and> escStatus esc \<noteq> EscrowDisputed)
       ''escrow: cannot release in status %d'') (\<lambda>_.
     bindE (failIf (caller \<noteq> Payee esc \<and> (Mediator esc = 0 \<or> caller \<noteq> Mediator esc))
       ''escrow: unauthorized release caller'') (\<lambda>_.
     bindE (failIf (escStatus esc = EscrowDisputed \<and> caller \<noteq> Mediator esc)
       ''escrow: dispute requires mediator release'') (\<lambda>_.
     bindE (EscrowVaultAddress D (escToken esc)) (\<lambda>vault.
     bindE (failIf (escAmount esc \<le> 0) ''escrow: amount must be positive'') (\<lambda>_.
     bindE (liftE (releaseAmounts esc)) (\<lambda>amounts.
     bindE (payOut D E vault (Payee esc) (escToken esc) amounts) (\<lambda>_.
     closeEscrow D eid esc EscrowReleased (NewReleasedEvent D))))))))))"

definition refundEscrow ::
  "'d edeps_scheme \<Rightarrow> Escrow \<Rightarrow> address \<Rightarrow> EscrowStatus \<Rightarrow> (Escrow \<Rightarrow> event) \<Rightarrow>
   ('x estate_scheme, unit) op" where
  "refundEscrow D esc recipient status eventFn =
     (if escStatus esc = status then retE () else
      bindE (EscrowVaultAddress D (escToken esc)) (\<lambda>vault.
      bindE (failIf (escAmount esc \<le> 0) ''escrow: amount must be positive'') (\<lambda>_.
      bindE (moveToken D vault recipient (escToken esc) (escAmount esc)) (\<lambda>_.
      closeEscrow D (escID esc) esc status eventFn))))"

definition Refund :: "'d edeps_scheme \<Rightarrow> engine \<Rightarrow> hash32 \<Rightarrow> address \<Rightarrow> ('x estate_scheme, unit) op" where
  "Refund D E eid caller =
     bindE (guardE (engPauses E)) (\<lambda>_.
     bindE (loadEscrow D eid) (\<lambda>esc.
     if escStatus esc = EscrowRefunded then retE () else
     bindE (failIf (escStatus esc \<noteq> EscrowFunded) ''escrow: cannot refund in status %d'') (\<lambda>_.
     bindE (failIf (caller \<noteq> Payer esc) ''escrow: unauthorized refund caller'') (\<lambda>_.
     bindE (failIf (engNow E \<ge> escDeadline esc) ''escrow: refund deadline passed'') (\<lambda>_.
     refundEscrow D esc (Payer esc) EscrowRefunded (NewRefundedEvent D))))))"

definition Expire :: "'d edeps_scheme \<Rightarrow> engine \<Rightarrow> hash32 \<Rightarrow> int \<Rightarrow> ('x estate_scheme, unit) op" where
  "Expire D E eid now =
     bindE (guardE (engPauses E)) (\<lambda>_.
     bindE (loadEscrow D eid) (\<lambda>esc.
     if escStatus esc = EscrowExpired then retE () else
     bindE (failIf (now < escDeadline esc) ''escrow: deadline not reached'') (\<lambda>_.
     if escStatus esc \<noteq> EscrowFunded then retE () else
     refundEscrow D esc (Payer esc) EscrowExpired (NewExpiredEvent D))))"

definition Dispute ::
  "'d edeps_scheme \<Rightarrow> engine \<Rightarrow> hash32 \<Rightarrow> address \<Rightarrow> string \<Rightarrow> ('x estate_scheme, unit) op" where
  "Dispute D E eid caller reason =
     bindE (guardE (engPauses E)) (\<lambda>_.
     bindE (loadEscrow D eid) (\<lambda>esc.
     let trimmedReason = trimSpace reason in
     if escStatus esc = EscrowDisputed then
       if trimmedReason = [] \<or> trimSpace (DisputeReason esc) \<noteq> [] then retE ()
       else let esc1 = esc\<lparr>DisputeReason := trimmedReason\<rparr> in
         bindE (storeEscrow D esc1) (\<lambda>_. emitEvent (NewDisputedEvent D esc1))
     else
       bindE (failIf (escStatus esc \<noteq> EscrowFunded) ''escrow: cannot dispute in status %d'') (\<lambda>_.
       bindE (failIf (caller \<noteq> Payer esc \<and> caller \<noteq> Payee esc)
         ''escrow: unauthorized dispute caller'') (\<lambda>_.
       let esc1 = esc\<lparr>escStatus := EscrowDisputed\<rparr>;
           esc2 = (if trimmedReason \<noteq> [] then esc1\<lparr>DisputeReason := trimmedReason\<rparr> else esc1)
       in bindE (storeEscrow D esc2) (\<lambda>_. emitEvent (NewDisputedEvent D esc2))))))"

subsection \<open>Dispute resolution\<close>

definition decodeFixedHex :: "string \<Rightarrow> nat \<Rightarrow> error + string" where
  "decodeFixedHex v len =
     (let trimmed = trimSpace v in
      if trimmed = [] then Inl ''value must not be empty'' else
      bindS (hexDecode (trimPrefix ''0X'' (trimPrefix ''0x'' trimmed))) (\<lambda>decoded.
      bindS (checkS (length decoded \<noteq> len) ''expected %d bytes, got %d'') (\<lambda>_.
      Inr decoded)))"

definition wrapS :: "string \<Rightarrow> error + 'a \<Rightarrow> error + 'a" where
  "wrapS msg r = (case r of Inl e \<Rightarrow> Inl (msg @ '': '' @ e) | Inr x \<Rightarrow> Inr x)"

definition parseDecisionPayload ::
  "'d edeps_scheme \<Rightarrow> hash32 \<Rightarrow> FrozenArb option \<Rightarrow> string \<Rightarrow>
   error + (DecisionOutcome \<times> hash32 \<times> hash32)" where
  "parseDecisionPayload D eid frozen payload =
     bindS (checkS (payload = []) ''escrow: decision payload required'') (\<lambda>_.
     case frozen of None \<Rightarrow> Inl ''escrow: missing frozen arbitrator policy'' | Some f \<Rightarrow>
     bindS (wrapS ''escrow: invalid decision payload'' (jsonDecision D payload)) (\<lambda>envelope.
     let trimmedID = trimSpace (envEscrowID envelope) in
     bindS (checkS (trimmedID = []) ''escrow: decision escrowId required'') (\<lambda>_.
     bindS (wrapS ''escrow: invalid decision escrowId'' (decodeFixedHex trimmedID 32)) (\<lambda>decodedID.
     bindS (checkS (BytesToHash decodedID \<noteq> eid) ''escrow: decision escrowId mismatch'') (\<lambda>_.
     bindS (checkS (envPolicyNonce envelope = 0) ''escrow: decision policyNonce required'') (\<lambda>_.
     bindS (checkS (PolicyNonce f \<noteq> envPolicyNonce envelope)
       ''escrow: decision policyNonce mismatch'') (\<lambda>_.
     bindS (ParseDecisionOutcome (envOutcome envelope)) (\<lambda>outcome.
     let trimmedMeta = trimSpace (envMetadata envelope) in
     bindS (if trimmedMeta \<noteq> [] then
              bindS (wrapS ''escrow: invalid decision metadata'' (decodeFixedHex trimmedMeta 32))
                (\<lambda>decodedMeta. Inr (BytesToHash decodedMeta))
            else Inr 0) (\<lambda>meta.
     Inr (outcome, meta, keccak256 D payload))))))))))"

text \<open>The loop over the signature bundle; \<open>unique\<close> holds the distinct signers so far.\<close>

fun collectSigners ::
  "'d edeps_scheme \<Rightarrow> address set \<Rightarrow> hash32 \<Rightarrow> string list \<Rightarrow> address list \<Rightarrow>
   error + address list" where
  "collectSigners D allowed digest [] unique = Inr unique"
| "collectSigners D allowed digest (sig # sigs) unique =
     bindS (checkS (length sig \<noteq> 65) ''escrow: signature %d must be 65 bytes'') (\<lambda>_.
     let v = of_char (sig ! 64) :: nat;
         rid = (if v \<ge> 27 then v - 27 else v);
         buf = sig[64 := char_of rid]
     in bindS (checkS (rid \<noteq> 0 \<and> rid \<noteq> 1) ''escrow: signature %d has invalid recovery id'') (\<lambda>_.
     bindS (wrapS ''escrow: invalid signature %d'' (sigToAddr D digest buf)) (\<lambda>signer.
     bindS (checkS (signer \<notin> allowed)
       ''escrow: signature %d not from authorized arbitrator'') (\<lambda>_.
     collectSigners D allowed digest sigs
       (if signer \<in> set unique then unique else unique @ [signer])))))"

definition verifyDecisionSignatures ::
  "'d edeps_scheme \<Rightarrow> FrozenArb option \<Rightarrow> hash32 \<Rightarrow> string list \<Rightarrow> error + address list" where
  "verifyDecisionSignatures D frozen digest signatures =
     (case frozen of None \<Rightarrow> Inl ''escrow: missing frozen arbitrator policy'' | Some f \<Rightarrow>
      bindS (checkS (signatures = []) ''escrow: signature bundle required'') (\<lambda>_.
      bindS (checkS (arbMembers f = []) ''escrow: frozen policy has no members'') (\<lambda>_.
      bindS (collectSigners D (set (arbMembers f)) digest signatures []) (\<lambda>unique.
      bindS (checkS (length unique < unat (arbThreshold f))
        ''escrow: insufficient arbitrator quorum: have %d need %d'') (\<lambda>_.
      Inr unique)))))"

definition arbitratedRelease :: "'d edeps_scheme \<Rightarrow> engine \<Rightarrow> Escrow \<Rightarrow> ('x estate_scheme, unit) op" where
  "arbitratedRelease D E esc =
     (if escStatus esc = EscrowReleased then retE () else
      bindE (failIf (escStatus esc \<noteq> EscrowFunded \<and> escStatus esc \<noteq> EscrowDisputed)
        ''escrow: cannot release in status %d'') (\<lambda>_.
      bindE (EscrowVaultAddress D (escToken esc)) (\<lambda>vault.
      bindE (failIf (escAmount esc \<le> 0) ''escrow: amount must be positive'') (\<lambda>_.
      bindE (liftE (releaseAmounts esc)) (\<lambda>amounts.
      bindE (payOut D E vault (Payee esc) (escToken esc) amounts) (\<lambda>_.
      closeEscrow D (escID esc) esc EscrowReleased (NewReleasedEvent D)))))))"

definition arbitratedRefund :: "'d edeps_scheme \<Rightarrow> engine \<Rightarrow> Escrow \<Rightarrow> ('x estate_scheme, unit) op" where
  "arbitratedRefund D E esc =
     (if escStatus esc = EscrowRefunded then retE () else
      bindE (failIf (escStatus esc \<noteq> EscrowFunded \<and> escStatus esc \<noteq> EscrowDisputed)
        ''escrow: cannot refund in status %d'') (\<lambda>_.
      bindE (EscrowVaultAddress D (escToken esc)) (\<lambda>vault.
      bindE (failIf (escAmount esc \<le> 0) ''escrow: amount must be positive'') (\<lambda>_.
      bindE (liftE (if escStatus esc = EscrowDisputed then computeDisputePayouts esc
                    else Inr (escAmount esc, 0, 0, 0))) (\<lambda>amounts.
      bindE (payOut D E vault (Payer esc) (escToken esc) amounts) (\<lambda>_.
      closeEscrow D (escID esc) esc EscrowRefunded (NewRefundedEvent D)))))))"

definition settled :: "EscrowStatus \<Rightarrow> bool" where
  "settled st \<longleftrightarrow> st = EscrowReleased \<or> st = EscrowRefunded \<or> st = EscrowExpired"

definition Resolve ::
  "'d edeps_scheme \<Rightarrow> engine \<Rightarrow> hash32 \<Rightarrow> address \<Rightarrow> string \<Rightarrow> ('x estate_scheme, unit) op" where
  "Resolve D E eid caller outcome =
     bindE (guardE (engPauses E)) (\<lambda>_.
     bindE (loadEscrow D eid) (\<lambda>esc.
     if settled (escStatus esc) then retE () else
     bindE (failIf (escStatus esc \<noteq> EscrowDisputed) ''escrow: cannot resolve in status %d'') (\<lambda>_.
     bindE (failIf (Mediator esc = 0 \<or> caller \<noteq> Mediator esc) ''escrow: unauthorized resolver'') (\<lambda>_.
     bindE (liftE (ParseDecisionOutcome outcome)) (\<lambda>decision.
     bindE (case decision of
              DecisionOutcomeRelease \<Rightarrow> Release D E eid caller
            | DecisionOutcomeRefund \<Rightarrow> arbitratedRefund D E esc
            | DecisionOutcomeUnknown \<Rightarrow> throwE ''escrow: invalid resolution outcome %s'') (\<lambda>_.
     bindE (loadEscrow D eid) (\<lambda>esc1.
     emitEvent (NewResolvedEvent D esc1 decision 0 []))))))))"

definition ResolveWithSignatures ::
  "'d edeps_scheme \<Rightarrow> engine \<Rightarrow> hash32 \<Rightarrow> string \<Rightarrow> string list \<Rightarrow> ('x estate_scheme, unit) op" where
  "ResolveWithSignatures D E eid decisionPayload signatures =
     bindE (guardE (engPauses E)) (\<lambda>_.
     bindE (loadEscrow D eid) (\<lambda>esc.
     if settled (escStatus esc) then retE () else
     bindE (failIf (escStatus esc \<noteq> EscrowDisputed) ''escrow: cannot resolve in status %d'') (\<lambda>_.
     bindE (liftE (parseDecisionPayload D eid (escFrozenArb esc) decisionPayload))
       (\<lambda>(outcome, metaHash, digest).
     if ResolutionHash esc = digest then retE () else
     bindE (failIf (ResolutionHash esc \<noteq> 0 \<and> ResolutionHash esc \<noteq> digest)
       ''escrow: conflicting decision payload'') (\<lambda>_.
     bindE (liftE (verifyDecisionSignatures D (escFrozenArb esc) digest signatures)) (\<lambda>signers.
     let esc1 = esc\<lparr>ResolutionHash := digest\<rparr> in
     bindE (case outcome of
              DecisionOutcomeRelease \<Rightarrow> arbitratedRelease D E esc1
            | DecisionOutcomeRefund \<Rightarrow> arbitratedRefund D E esc1
            | DecisionOutcomeUnknown \<Rightarrow> throwE ''escrow: unsupported decision outcome'') (\<lambda>_.
     emitEvent (NewResolvedEvent D
       (esc1\<lparr>escStatus := (if outcome = DecisionOutcomeRelease then EscrowReleased
                           else EscrowRefunded)\<rparr>) outcome metaHash signers))))))))"

end
