(* ===== verification/TradeEngine.thy ===== *)
theory TradeEngine
  imports EscrowEngine
begin

text \<open>
  Two-leg trades: \<^verbatim>\<open>native/escrow/trade_types.go\<close>, \<^verbatim>\<open>native/escrow/trade_engine.go\<close> and the
  trade records of \<^verbatim>\<open>core/state/manager.go\<close>. A trade owns two escrows, one per leg, and
  drives them through the escrow engine of its field \<open>teEscrow\<close>.
\<close>

section \<open>Trades\<close>

datatype TradeStatus =
  TradeInit | TradePartialFunded | TradeFunded | TradeDisputed | TradeSettled | TradeCancelled
  | TradeExpired | TradeStatusOther u8

fun tradeStatusValid :: "TradeStatus \<Rightarrow> bool" where
  "tradeStatusValid (TradeStatusOther _) = False"
| "tradeStatusValid _ = True"

fun tradeStatusByte :: "TradeStatus \<Rightarrow> u8" where
  "tradeStatusByte TradeInit = 0"
| "tradeStatusByte TradePartialFunded = 1"
| "tradeStatusByte TradeFunded = 2"
| "tradeStatusByte TradeDisputed = 3"
| "tradeStatusByte TradeSettled = 4"
| "tradeStatusByte TradeCancelled = 5"
| "tradeStatusByte TradeExpired = 6"
| "tradeStatusByte (TradeStatusOther b) = b"

definition tradeStatusOfByte :: "u8 \<Rightarrow> TradeStatus" where
  "tradeStatusOfByte b =
     (if b = 0 then TradeInit else if b = 1 then TradePartialFunded else if b = 2 then TradeFunded
      else if b = 3 then TradeDisputed else if b = 4 then TradeSettled else if b = 5 then TradeCancelled
      else if b = 6 then TradeExpired else TradeStatusOther b)"

record Trade =
  trID :: hash32
  OfferID :: string
  Buyer :: address
  Seller :: address
  QuoteToken :: string
  QuoteAmount :: int
  EscrowQuote :: hash32
  BaseToken :: string
  BaseAmount :: int
  EscrowBase :: hash32
  trDeadline :: int
  trCreatedAt :: int
  FundedAt :: int
  SlippageBps :: u32
  trStatus :: TradeStatus

definition SanitizeTrade :: "Trade \<Rightarrow> error + Trade" where
  "SanitizeTrade t =
     bindS (NormalizeToken (QuoteToken t)) (\<lambda>normalizedQuote.
     bindS (NormalizeToken (BaseToken t)) (\<lambda>normalizedBase.
     bindS (checkS (QuoteAmount t < 0) ''trade: quote amount must be non-negative'') (\<lambda>_.
     bindS (checkS (BaseAmount t < 0) ''trade: base amount must be non-negative'') (\<lambda>_.
     bindS (checkS (SlippageBps t > 10000) ''trade: slippage bps out of range'') (\<lambda>_.
     bindS (checkS (\<not> tradeStatusValid (trStatus t)) ''trade: invalid status %d'') (\<lambda>_.
     Inr (t\<lparr>QuoteToken := normalizedQuote, BaseToken := normalizedBase\<rparr>)))))))"

section \<open>Events\<close>

definition newTradeEvent :: "string \<Rightarrow> Trade \<Rightarrow> string \<Rightarrow> event" where
  "newTradeEvent eventType t extra =
     (case SanitizeTrade t of
        Inl _ \<Rightarrow> \<lparr>evType = eventType, evAttributes = Map.empty\<rparr>
      | Inr sz \<Rightarrow>
          (let a1 = [''tradeId'' \<mapsto> hexEncode (hashBytes (trID sz)),
                     ''offerId'' \<mapsto> OfferID sz,
                     ''buyer'' \<mapsto> hexEncode (addrBytes (Buyer sz)),
                     ''seller'' \<mapsto> hexEncode (addrBytes (Seller sz)),
                     ''baseToken'' \<mapsto> BaseToken sz,
                     ''baseAmount'' \<mapsto> formatInt (BaseAmount sz),
                     ''quoteToken'' \<mapsto> QuoteToken sz,
                     ''quoteAmount'' \<mapsto> formatInt (QuoteAmount sz),
                     ''escrowBaseId'' \<mapsto> hexEncode (hashBytes (EscrowBase sz)),
                     ''escrowQuoteId'' \<mapsto> hexEncode (hashBytes (EscrowQuote sz)),
                     ''deadline'' \<mapsto> formatInt (trDeadline sz),
                     ''createdAt'' \<mapsto> formatInt (trCreatedAt sz)];
               a2 = setAttrIf (FundedAt sz > 0) ''fundedAt'' (formatInt (FundedAt sz)) a1;
               a3 = a2(''slippageBps'' \<mapsto> formatWord (SlippageBps sz),
                       ''status'' \<mapsto> formatWord (tradeStatusByte (trStatus sz)));
               a4 = setAttrIf (trimSpace extra \<noteq> []) ''outcome'' extra a3
           in \<lparr>evType = eventType, evAttributes = a4\<rparr>))"

definition NewTradeCreatedEvent :: "Trade \<Rightarrow> event" where
  "NewTradeCreatedEvent t = newTradeEvent ''escrow.trade.created'' t []"

definition NewTradePartialFundedEvent :: "Trade \<Rightarrow> event" where
  "NewTradePartialFundedEvent t = newTradeEvent ''escrow.trade.partial_funded'' t []"

definition NewTradeFundedEvent :: "Trade \<Rightarrow> event" where
  "NewTradeFundedEvent t = newTradeEvent ''escrow.trade.funded'' t []"

definition NewTradeDisputedEvent :: "Trade \<Rightarrow> event" where
  "NewTradeDisputedEvent t = newTradeEvent ''escrow.trade.disputed'' t []"

definition NewTradeResolvedEvent :: "Trade \<Rightarrow> string \<Rightarrow> event" where
  "NewTradeResolvedEvent t outcome = newTradeEvent ''escrow.trade.resolved'' t outcome"

definition NewTradeSettledEvent :: "Trade \<Rightarrow> event" where
  "NewTradeSettledEvent t = newTradeEvent ''escrow.trade.settled'' t []"

definition NewTradeExpiredEvent :: "Trade \<Rightarrow> event" where
  "NewTradeExpiredEvent t = newTradeEvent ''escrow.trade.expired'' t []"

section \<open>The trade store\<close>

text \<open>A nil \<^verbatim>\<open>FundedAt\<close> is encoded as zero.\<close>

record storedTrade =
  stID :: hash32
  stOfferID :: string
  stBuyer :: address
  stSeller :: address
  stQuoteToken :: string
  stQuoteAmount :: int
  stEscrowQuote :: hash32
  stBaseToken :: string
  stBaseAmount :: int
  stEscrowBase :: hash32
  stDeadline :: int
  stCreatedAt :: int
  stFundedAt :: int
  stSlippageBps :: u32
  stStatus :: u8

record tstate = estate +
  tradeRecs :: "hash32 \<rightharpoonup> storedTrade"
  tradeIndex :: "hash32 \<rightharpoonup> hash32"

definition newStoredTrade :: "Trade \<Rightarrow> storedTrade" where
  "newStoredTrade t =
     \<lparr>stID = trID t, stOfferID = OfferID t, stBuyer = Buyer t, stSeller = Seller t,
      stQuoteToken = QuoteToken t, stQuoteAmount = QuoteAmount t, stEscrowQuote = EscrowQuote t,
      stBaseToken = BaseToken t, stBaseAmount = BaseAmount t, stEscrowBase = EscrowBase t,
      stDeadline = trDeadline t, stCreatedAt = trCreatedAt t, stFundedAt = FundedAt t,
      stSlippageBps = SlippageBps t, stStatus = tradeStatusByte (trStatus t)\<rparr>"

definition toTrade :: "storedTrade \<Rightarrow> error + Trade" where
  "toTrade s =
     (let out = \<lparr>trID = stID s, OfferID = stOfferID s, Buyer = stBuyer s, Seller = stSeller s,
        QuoteToken = stQuoteToken s, QuoteAmount = stQuoteAmount s, EscrowQuote = stEscrowQuote s,
        BaseToken = stBaseToken s, BaseAmount = stBaseAmount s, EscrowBase = stEscrowBase s,
        trDeadline = wrap64 (stDeadline s), trCreatedAt = wrap64 (stCreatedAt s),
        FundedAt = wrap64 (stFundedAt s), SlippageBps = stSlippageBps s,
        trStatus = tradeStatusOfByte (stStatus s)\<rparr>
      in if tradeStatusValid (trStatus out) then Inr out else Inl ''trade: invalid status in storage'')"

definition TradePut :: "'d deps_scheme \<Rightarrow> Trade \<Rightarrow> ('x tstate_scheme, unit) op" where
  "TradePut D t =
     bindE (liftE (SanitizeTrade t)) (\<lambda>sanitized.
     let stored = newStoredTrade sanitized in
     bindE (failIf (rlpFails D [stQuoteAmount stored, stBaseAmount stored, stDeadline stored,
       stCreatedAt stored, stFundedAt stored]) errRlp) (\<lambda>_.
     modifyE (\<lambda>s. s\<lparr>tradeRecs := (tradeRecs s)(trID sanitized \<mapsto> stored)\<rparr>)))"

definition TradeGet :: "hash32 \<Rightarrow> 'x tstate_scheme \<Rightarrow> Trade option" where
  "TradeGet tid s =
     (case tradeRecs s tid of None \<Rightarrow> None | Some stored \<Rightarrow>
      case toTrade stored of Inl _ \<Rightarrow> None | Inr trade \<Rightarrow>
      case SanitizeTrade trade of Inl _ \<Rightarrow> None | Inr sanitized \<Rightarrow> Some sanitized)"

definition TradeSetStatus :: "'d deps_scheme \<Rightarrow> hash32 \<Rightarrow> TradeStatus \<Rightarrow> ('x tstate_scheme, unit) op" where
  "TradeSetStatus D tid status =
     bindE (failIf (\<not> tradeStatusValid status) ''trade: invalid status %d'') (\<lambda>_.
     bindE (getsE (TradeGet tid)) (\<lambda>found.
     case found of
       None \<Rightarrow> throwE ''trade: not found''
     | Some trade \<Rightarrow> if trStatus trade = status then retE () else TradePut D (trade\<lparr>trStatus := status\<rparr>)))"

definition TradeIndexEscrow :: "hash32 \<Rightarrow> hash32 \<Rightarrow> ('x tstate_scheme, unit) op" where
  "TradeIndexEscrow eid tid = modifyE (\<lambda>s. s\<lparr>tradeIndex := (tradeIndex s)(eid \<mapsto> tid)\<rparr>)"

definition TradeLookupByEscrow :: "hash32 \<Rightarrow> ('x tstate_scheme, hash32 option) op" where
  "TradeLookupByEscrow eid = getsE (\<lambda>s. tradeIndex s eid)"

definition TradeRemoveByEscrow :: "hash32 \<Rightarrow> ('x tstate_scheme, unit) op" where
  "TradeRemoveByEscrow eid = modifyE (\<lambda>s. s\<lparr>tradeIndex := (tradeIndex s)(eid := None)\<rparr>)"

section \<open>The engine\<close>

record tradeEngine =
  teNow :: int
  tePauses :: pause_view
  teEscrow :: engine

abbreviation "errTradeNotFound \<equiv> ''trade engine: trade not found''"
abbreviation "errTradeInvalidStatus \<equiv> ''trade engine: status transition not allowed''"

definition autoRefundSecs :: int where
  "autoRefundSecs = 900"

definition defaultSlippageBps :: u32 where
  "defaultSlippageBps = 0"

definition tradeGuard :: "tradeEngine \<Rightarrow> ('s, unit) op" where
  "tradeGuard T = liftE (Guard (tePauses T) ''trade'')"

definition loadTrade :: "hash32 \<Rightarrow> ('x tstate_scheme, Trade) op" where
  "loadTrade tid =
     bindE (getsE (TradeGet tid)) (\<lambda>found.
     case found of
       None \<Rightarrow> throwE errTradeNotFound
     | Some trade \<Rightarrow> liftE (SanitizeTrade trade))"

definition loadLeg :: "'d edeps_scheme \<Rightarrow> hash32 \<Rightarrow> ('x tstate_scheme, Escrow) op" where
  "loadLeg D eid =
     bindE (getsE (EscrowGet D eid)) (\<lambda>found.
     case found of None \<Rightarrow> throwE ''trade: escrow %x not found'' | Some esc \<Rightarrow> retE esc)"

text \<open>\<^verbatim>\<open>binary.BigEndian.Uint64(h[:8])\<close>.\<close>

definition hashPrefix64 :: "hash32 \<Rightarrow> u64" where
  "hashPrefix64 h = ucast (drop_bit 192 h)"

definition quoteNonceOf :: "'d edeps_scheme \<Rightarrow> hash32 \<Rightarrow> u64" where
  "quoteNonceOf D tradeID =
     (let n = hashPrefix64 (keccak256 D (hashBytes tradeID @ ''quote-nonce''))
      in if n = 0 then 1 else n)"

definition baseNonceOf :: "'d edeps_scheme \<Rightarrow> hash32 \<Rightarrow> u64 \<Rightarrow> u64" where
  "baseNonceOf D tradeID quoteNonce =
     (let baseNonce = hashPrefix64 (keccak256 D (hashBytes tradeID @ ''base-nonce''))
      in if baseNonce = 0 \<or> baseNonce = quoteNonce then
           let n1 = xor quoteNonce 1 in
           if n1 = 0 \<or> n1 = quoteNonce then
             let n2 = quoteNonce + 1 in
             if n2 = 0 \<or> n2 = quoteNonce then quoteNonce + 2 else n2
           else n1
         else baseNonce)"

text \<open>The part of \<^verbatim>\<open>CreateTrade\<close> that opens the two escrows and stores the new trade.\<close>

definition createLegs ::
  "'d edeps_scheme \<Rightarrow> tradeEngine \<Rightarrow> hash32 \<Rightarrow> string \<Rightarrow> address \<Rightarrow> address \<Rightarrow> string \<Rightarrow> int \<Rightarrow> string \<Rightarrow> int \<Rightarrow> int \<Rightarrow>
   u32 \<Rightarrow> ('x tstate_scheme, Trade) op" where
  "createLegs D T tradeID offerID buyer seller normalizedQuote quoteAmount normalizedBase baseAmount deadline slippageBps =
     (let metaQuote = keccak256 D (hashBytes tradeID @ ''quote'');
          quoteNonce = quoteNonceOf D tradeID
      in bindE (Create D (teEscrow T) buyer seller normalizedQuote quoteAmount 0 deadline quoteNonce None
           metaQuote []) (\<lambda>escQuote.
      let metaBase = keccak256 D (hashBytes tradeID @ ''base'');
          baseNonce = baseNonceOf D tradeID quoteNonce
      in bindE (Create D (teEscrow T) seller buyer normalizedBase baseAmount 0 deadline baseNonce None
           metaBase []) (\<lambda>escBase.
      let trade = \<lparr>trID = tradeID, OfferID = offerID, Buyer = buyer, Seller = seller,
            QuoteToken = normalizedQuote, QuoteAmount = quoteAmount, EscrowQuote = escID escQuote,
            BaseToken = normalizedBase, BaseAmount = baseAmount, EscrowBase = escID escBase,
            trDeadline = deadline, trCreatedAt = teNow T, FundedAt = 0, SlippageBps = slippageBps,
            trStatus = TradeInit\<rparr>
      in bindE (TradePut D trade) (\<lambda>_.
      bindE (TradeIndexEscrow (escID escBase) (trID trade)) (\<lambda>_.
      bindE (TradeIndexEscrow (escID escQuote) (trID trade)) (\<lambda>_.
      bindE (emitEvent (NewTradeCreatedEvent trade)) (\<lambda>_.
      retE trade)))))))"

definition CreateTrade ::
  "'d edeps_scheme \<Rightarrow> tradeEngine \<Rightarrow> string \<Rightarrow> address \<Rightarrow> address \<Rightarrow> string \<Rightarrow> int option \<Rightarrow> string \<Rightarrow>
   int option \<Rightarrow> int \<Rightarrow> u32 \<Rightarrow> hash32 \<Rightarrow> ('x tstate_scheme, Trade) op" where
  "CreateTrade D T offerID buyer seller quoteToken quoteAmountOpt baseToken baseAmountOpt deadline slippageBpsArg nonce =
     bindE (tradeGuard T) (\<lambda>_.
     bindE (liftE (NormalizeToken quoteToken)) (\<lambda>normalizedQuote.
     bindE (liftE (NormalizeToken baseToken)) (\<lambda>normalizedBase.
     let quoteAmount = (case quoteAmountOpt of None \<Rightarrow> 0 | Some q \<Rightarrow> q);
         baseAmount = (case baseAmountOpt of None \<Rightarrow> 0 | Some b \<Rightarrow> b)
     in bindE (failIf (quoteAmount \<le> 0) ''trade: quote amount must be positive'') (\<lambda>_.
     bindE (failIf (baseAmount \<le> 0) ''trade: base amount must be positive'') (\<lambda>_.
     bindE (failIf (deadline < teNow T) ''trade: deadline before creation time'') (\<lambda>_.
     let slippageBps = (if slippageBpsArg = 0 then defaultSlippageBps else slippageBpsArg)
     in bindE (failIf (slippageBps > 10000) ''trade: slippage bps out of range'') (\<lambda>_.
     let tradeID = keccak256 D (trimSpace offerID @ addrBytes buyer @ addrBytes seller @ hashBytes nonce)
     in bindE (getsE (TradeGet tradeID)) (\<lambda>found.
     case found of
       Some existing \<Rightarrow>
         bindE (liftE (SanitizeTrade existing)) (\<lambda>sanitized.
         bindE (failIf (OfferID sanitized \<noteq> offerID \<or> Buyer sanitized \<noteq> buyer \<or> Seller sanitized \<noteq> seller
             \<or> QuoteToken sanitized \<noteq> normalizedQuote \<or> BaseToken sanitized \<noteq> normalizedBase
             \<or> QuoteAmount sanitized \<noteq> quoteAmount \<or> BaseAmount sanitized \<noteq> baseAmount
             \<or> trDeadline sanitized \<noteq> deadline \<or> SlippageBps sanitized \<noteq> slippageBps)
           ''trade: identifier already exists with different definition'') (\<lambda>_.
         retE sanitized))
     | None \<Rightarrow>
         createLegs D T tradeID offerID buyer seller normalizedQuote quoteAmount normalizedBase baseAmount
           deadline slippageBps))))))))"

text \<open>The status the legs call for.\<close>

definition fundingStatus :: "bool \<Rightarrow> bool \<Rightarrow> TradeStatus" where
  "fundingStatus baseFunded quoteFunded =
     (if baseFunded \<and> quoteFunded then TradeFunded
      else if baseFunded \<or> quoteFunded then TradePartialFunded else TradeInit)"

definition OnFundingProgress :: "'d edeps_scheme \<Rightarrow> tradeEngine \<Rightarrow> hash32 \<Rightarrow> ('x tstate_scheme, unit) op" where
  "OnFundingProgress D T tid =
     bindE (loadTrade tid) (\<lambda>trade.
     bindE (tradeGuard T) (\<lambda>_.
     if trStatus trade = TradeSettled \<or> trStatus trade = TradeExpired \<or> trStatus trade = TradeCancelled
     then retE () else
     bindE (loadLeg D (EscrowBase trade)) (\<lambda>baseEscrow.
     bindE (loadLeg D (EscrowQuote trade)) (\<lambda>quoteEscrow.
     let newStatus = fundingStatus (escStatus baseEscrow = EscrowFunded) (escStatus quoteEscrow = EscrowFunded)
     in if newStatus = trStatus trade then
          if newStatus = TradeFunded \<and> FundedAt trade = 0 then
            let trade1 = trade\<lparr>FundedAt := teNow T\<rparr> in
            bindE (TradePut D trade1) (\<lambda>_. emitEvent (NewTradeFundedEvent trade1))
          else retE ()
        else
          let trade1 = trade\<lparr>trStatus := newStatus,
                FundedAt := (if newStatus = TradeFunded then teNow T else 0)\<rparr>
          in bindE (TradePut D trade1) (\<lambda>_.
             if newStatus = TradePartialFunded then emitEvent (NewTradePartialFundedEvent trade1)
             else if newStatus = TradeFunded then emitEvent (NewTradeFundedEvent trade1)
             else retE ())))))"

definition HandleEscrowFunded :: "'d edeps_scheme \<Rightarrow> tradeEngine \<Rightarrow> hash32 \<Rightarrow> ('x tstate_scheme, unit) op" where
  "HandleEscrowFunded D T eid =
     bindE (tradeGuard T) (\<lambda>_.
     bindE (TradeLookupByEscrow eid) (\<lambda>found.
     case found of None \<Rightarrow> retE () | Some tradeID \<Rightarrow> OnFundingProgress D T tradeID))"

definition TradeDispute :: "'d edeps_scheme \<Rightarrow> tradeEngine \<Rightarrow> hash32 \<Rightarrow> address \<Rightarrow> ('x tstate_scheme, unit) op" where
  "TradeDispute D T tid caller =
     bindE (loadTrade tid) (\<lambda>trade.
     bindE (tradeGuard T) (\<lambda>_.
     bindE (failIf (caller \<noteq> Buyer trade \<and> caller \<noteq> Seller trade) ''trade: unauthorized dispute caller'') (\<lambda>_.
     if trStatus trade = TradeDisputed then retE () else
     bindE (failIf (trStatus trade \<noteq> TradeFunded \<and> trStatus trade \<noteq> TradePartialFunded)
       errTradeInvalidStatus) (\<lambda>_.
     let trade1 = trade\<lparr>trStatus := TradeDisputed, FundedAt := 0\<rparr> in
     bindE (TradePut D trade1) (\<lambda>_. emitEvent (NewTradeDisputedEvent trade1))))))"

definition releaseBaseLeg :: "'d edeps_scheme \<Rightarrow> tradeEngine \<Rightarrow> Trade \<Rightarrow> ('x tstate_scheme, unit) op" where
  "releaseBaseLeg D T trade =
     bindE (loadLeg D (EscrowBase trade)) (\<lambda>esc.
     if escStatus esc = EscrowReleased then retE () else
     bindE (failIf (escStatus esc \<noteq> EscrowFunded \<and> escStatus esc \<noteq> EscrowDisputed)
       ''trade: base leg not releasable'') (\<lambda>_.
     Release D (teEscrow T) (EscrowBase trade) (Buyer trade)))"

definition releaseQuoteLeg :: "'d edeps_scheme \<Rightarrow> tradeEngine \<Rightarrow> Trade \<Rightarrow> ('x tstate_scheme, unit) op" where
  "releaseQuoteLeg D T trade =
     bindE (loadLeg D (EscrowQuote trade)) (\<lambda>esc.
     if escStatus esc = EscrowReleased then retE () else
     bindE (failIf (escStatus esc \<noteq> EscrowFunded \<and> escStatus esc \<noteq> EscrowDisputed)
       ''trade: quote leg not releasable'') (\<lambda>_.
     Release D (teEscrow T) (EscrowQuote trade) (Seller trade)))"

definition refundBaseLeg :: "'d edeps_scheme \<Rightarrow> tradeEngine \<Rightarrow> Trade \<Rightarrow> ('x tstate_scheme, unit) op" where
  "refundBaseLeg D T trade =
     bindE (loadLeg D (EscrowBase trade)) (\<lambda>esc.
     if escStatus esc = EscrowRefunded \<or> escStatus esc = EscrowExpired then retE () else
     bindE (failIf (escStatus esc \<noteq> EscrowFunded \<and> escStatus esc \<noteq> EscrowDisputed)
       ''trade: base leg not refundable'') (\<lambda>_.
     Refund D (teEscrow T) (EscrowBase trade) (Seller trade)))"

definition refundQuoteLeg :: "'d edeps_scheme \<Rightarrow> tradeEngine \<Rightarrow> Trade \<Rightarrow> ('x tstate_scheme, unit) op" where
  "refundQuoteLeg D T trade =
     bindE (loadLeg D (EscrowQuote trade)) (\<lambda>esc.
     if escStatus esc = EscrowRefunded \<or> escStatus esc = EscrowExpired then retE () else
     bindE (failIf (escStatus esc \<noteq> EscrowFunded \<and> escStatus esc \<noteq> EscrowDisputed)
       ''trade: quote leg not refundable'') (\<lambda>_.
     Refund D (teEscrow T) (EscrowQuote trade) (Buyer trade)))"

definition finishTrade :: "'d edeps_scheme \<Rightarrow> Trade \<Rightarrow> TradeStatus \<Rightarrow> (Trade \<Rightarrow> event) \<Rightarrow> ('x tstate_scheme, unit) op" where
  "finishTrade D trade status eventFn =
     (let trade1 = trade\<lparr>trStatus := status, FundedAt := 0\<rparr> in
      bindE (TradePut D trade1) (\<lambda>_. emitEvent (eventFn trade1)))"

definition TradeResolve :: "'d edeps_scheme \<Rightarrow> tradeEngine \<Rightarrow> hash32 \<Rightarrow> string \<Rightarrow> ('x tstate_scheme, unit) op" where
  "TradeResolve D T tid outcome =
     bindE (loadTrade tid) (\<lambda>trade.
     bindE (tradeGuard T) (\<lambda>_.
     if trStatus trade = TradeSettled then retE () else
     bindE (failIf (trStatus trade \<noteq> TradeDisputed) errTradeInvalidStatus) (\<lambda>_.
     let normalized = toLower (trimSpace outcome) in
     bindE (if normalized = ''release_both'' then
              bindE (releaseBaseLeg D T trade) (\<lambda>_. releaseQuoteLeg D T trade)
            else if normalized = ''refund_both'' then
              bindE (refundBaseLeg D T trade) (\<lambda>_. refundQuoteLeg D T trade)
            else if normalized = ''release_base_refund_quote'' then
              bindE (releaseBaseLeg D T trade) (\<lambda>_. refundQuoteLeg D T trade)
            else if normalized = ''release_quote_refund_base'' then
              bindE (releaseQuoteLeg D T trade) (\<lambda>_. refundBaseLeg D T trade)
            else throwE ''trade: invalid resolution outcome %s'') (\<lambda>_.
     finishTrade D trade TradeSettled (\<lambda>t. NewTradeResolvedEvent t normalized)))))"

definition partialRefund :: "'d edeps_scheme \<Rightarrow> Escrow \<Rightarrow> address \<Rightarrow> int \<Rightarrow> ('x tstate_scheme, unit) op" where
  "partialRefund D esc recipient amount =
     (if amount = 0 then retE () else
      bindE (failIf (amount < 0) ''trade: negative refund amount'') (\<lambda>_.
      bindE (EscrowVaultAddress D (escToken esc)) (\<lambda>vault.
      bindE (moveToken D vault recipient (escToken esc) amount) (\<lambda>_.
      EscrowDebit (escID esc) (escToken esc) amount))))"

definition settleLeg ::
  "'d edeps_scheme \<Rightarrow> tradeEngine \<Rightarrow> Escrow \<Rightarrow> address \<Rightarrow> address \<Rightarrow> int \<Rightarrow> int \<Rightarrow> ('x tstate_scheme, unit) op" where
  "settleLeg D T esc releaseTo refundTo releaseAmt balance =
     bindE (failIf (releaseAmt \<le> 0) ''trade: settlement amount must be positive'') (\<lambda>_.
     bindE (failIf (balance < releaseAmt) ''trade: insufficient escrow balance for settlement'') (\<lambda>_.
     let refund = balance - releaseAmt in
     bindE (if refund > 0 then partialRefund D esc refundTo refund else retE ()) (\<lambda>_.
     bindE (if escAmount esc \<noteq> releaseAmt then storeEscrow D (esc\<lparr>escAmount := releaseAmt\<rparr>) else retE ()) (\<lambda>_.
     Release D (teEscrow T) (escID esc) releaseTo))))"

definition ensureSlippage :: "int \<Rightarrow> int \<Rightarrow> int \<Rightarrow> int \<Rightarrow> u32 \<Rightarrow> error + unit" where
  "ensureSlippage expectedBase expectedQuote actualBase actualQuote slippageBps =
     bindS (checkS (expectedBase \<le> 0 \<or> expectedQuote \<le> 0) ''trade: expected amounts must be positive'') (\<lambda>_.
     bindS (checkS (actualBase \<le> 0 \<or> actualQuote \<le> 0) ''trade: settlement amounts must be positive'') (\<lambda>_.
     let lhs = actualQuote * expectedBase;
         rhs = expectedQuote * actualBase;
         diff = \<bar>lhs - rhs\<bar>
     in if diff = 0 \<or> slippageBps = 0 then
          if diff = 0 then Inr () else Inl ''trade: slippage exceeds allowance''
        else checkS (diff > rhs * uint slippageBps div 10000) ''trade: slippage exceeds allowance''))"

text \<open>The candidate settlements, in the order the code appends them, and the loop that picks the
  first one with the largest base amount among those within the tolerance.\<close>

definition settlementCandidates :: "int \<Rightarrow> int \<Rightarrow> int \<Rightarrow> int \<Rightarrow> (int \<times> int) list" where
  "settlementCandidates expectedBase expectedQuote baseBalance quoteBalance =
     (if baseBalance \<ge> expectedBase \<and> quoteBalance \<ge> expectedQuote then [(expectedBase, expectedQuote)] else [])
     @ (let baseCap = min baseBalance expectedBase;
            quoteForBase = baseCap * expectedQuote div expectedBase
        in if baseCap > 0 \<and> quoteForBase > 0 \<and> quoteForBase \<le> quoteBalance then [(baseCap, quoteForBase)] else [])
     @ (let quoteCap = min quoteBalance expectedQuote;
            baseForQuote = quoteCap * expectedBase div expectedQuote
        in if quoteCap > 0 \<and> baseForQuote > 0 \<and> baseForQuote \<le> baseBalance then [(baseForQuote, quoteCap)] else [])"

fun bestCandidate :: "Trade \<Rightarrow> (int \<times> int) list \<Rightarrow> (int \<times> int) option \<Rightarrow> (int \<times> int) option" where
  "bestCandidate trade [] best = best"
| "bestCandidate trade ((b, q) # cands) best =
     (if b = 0 \<or> q = 0 then bestCandidate trade cands best
      else case ensureSlippage (BaseAmount trade) (QuoteAmount trade) b q (SlippageBps trade) of
        Inl _ \<Rightarrow> bestCandidate trade cands best
      | Inr _ \<Rightarrow> bestCandidate trade cands
          (case best of None \<Rightarrow> Some (b, q) | Some (b', q') \<Rightarrow> if b > b' then Some (b, q) else best))"

definition computeSettlementAmounts :: "Trade \<Rightarrow> int \<Rightarrow> int \<Rightarrow> error + (int \<times> int)" where
  "computeSettlementAmounts trade baseBalance quoteBalance =
     bindS (checkS (BaseAmount trade \<le> 0 \<or> QuoteAmount trade \<le> 0) ''trade: expected amounts must be positive'') (\<lambda>_.
     case bestCandidate trade
            (settlementCandidates (BaseAmount trade) (QuoteAmount trade) baseBalance quoteBalance) None of
       None \<Rightarrow> Inl ''trade: settlement outside slippage tolerance''
     | Some amounts \<Rightarrow> Inr amounts)"

definition SettleAtomic :: "'d edeps_scheme \<Rightarrow> tradeEngine \<Rightarrow> hash32 \<Rightarrow> ('x tstate_scheme, unit) op" where
  "SettleAtomic D T tid =
     bindE (loadTrade tid) (\<lambda>trade.
     bindE (tradeGuard T) (\<lambda>_.
     if trStatus trade = TradeSettled then retE () else
     bindE (failIf (trStatus trade = TradeDisputed) ''trade: disputed trade requires resolution'') (\<lambda>_.
     bindE (failIf (trDeadline trade > 0 \<and> teNow T > trDeadline trade) ''trade: settlement deadline elapsed'') (\<lambda>_.
     bindE (loadLeg D (EscrowBase trade)) (\<lambda>baseEscrow.
     bindE (loadLeg D (EscrowQuote trade)) (\<lambda>quoteEscrow.
     bindE (failIf (escStatus baseEscrow \<noteq> EscrowFunded \<or> escStatus quoteEscrow \<noteq> EscrowFunded)
       ''trade: both escrows must be funded'') (\<lambda>_.
     bindE (EscrowBalance (EscrowBase trade) (escToken baseEscrow)) (\<lambda>baseBalance.
     bindE (EscrowBalance (EscrowQuote trade) (escToken quoteEscrow)) (\<lambda>quoteBalance.
     bindE (liftE (computeSettlementAmounts trade baseBalance quoteBalance)) (\<lambda>(releaseBase, releaseQuote).
     bindE (settleLeg D T baseEscrow (Buyer trade) (Seller trade) releaseBase baseBalance) (\<lambda>_.
     bindE (settleLeg D T quoteEscrow (Seller trade) (Buyer trade) releaseQuote quoteBalance) (\<lambda>_.
     finishTrade D trade TradeSettled NewTradeSettledEvent))))))))))))"

definition TradeTryExpire :: "'d edeps_scheme \<Rightarrow> tradeEngine \<Rightarrow> hash32 \<Rightarrow> int \<Rightarrow> ('x tstate_scheme, unit) op" where
  "TradeTryExpire D T tid now =
     bindE (loadTrade tid) (\<lambda>trade.
     bindE (tradeGuard T) (\<lambda>_.
     if trStatus trade = TradeSettled \<or> trStatus trade = TradeExpired \<or> trStatus trade = TradeCancelled
     then retE ()
     else if trStatus trade = TradeFunded \<and> FundedAt trade > 0 \<and> now \<ge> wrap64 (FundedAt trade + autoRefundSecs) then
       bindE (refundBaseLeg D T trade) (\<lambda>_.
       bindE (refundQuoteLeg D T trade) (\<lambda>_.
       finishTrade D trade TradeExpired NewTradeExpiredEvent))
     else if now < trDeadline trade then retE ()
     else
       bindE (loadLeg D (EscrowBase trade)) (\<lambda>baseEscrow.
       bindE (loadLeg D (EscrowQuote trade)) (\<lambda>quoteEscrow.
       let baseFunded = (escStatus baseEscrow = EscrowFunded);
           quoteFunded = (escStatus quoteEscrow = EscrowFunded)
       in if baseFunded \<and> quoteFunded then throwE ''trade: cannot auto-expire fully funded trade''
          else if baseFunded then
            bindE (refundBaseLeg D T trade) (\<lambda>_. finishTrade D trade TradeExpired NewTradeExpiredEvent)
          else if quoteFunded then
            bindE (refundQuoteLeg D T trade) (\<lambda>_. finishTrade D trade TradeExpired NewTradeExpiredEvent)
          else finishTrade D trade TradeCancelled NewTradeExpiredEvent))))"

end
