(* ===== verification/EscrowLedger.thy ===== *)
theory EscrowLedger
  imports EscrowEngine
begin

text \<open>
  What the escrow engine does to balances and to the escrow store.

  The lemmas on \<open>transferToken\<close> hold for every account store that satisfies \<open>account_ledger\<close>.
  The escrow store's own contract, \<open>escrow_registry\<close>, says what a loaded escrow is and that
  storing an updated one succeeds and is read back; it is interpreted on \<open>EscrowGet\<close> and
  \<open>EscrowPut\<close>.
\<close>

section \<open>Token transfers\<close>

definition tokenCoin :: "string \<Rightarrow> coin" where
  "tokenCoin n = (if n = ''NHB'' then NHB else ZNHB)"

lemma transferToken_coin:
  assumes "NormalizeToken token = Inr n" and "0 < amt"
  shows "transferToken get put from to token amt =
    bindE (get from) (\<lambda>fromAcc. bindE (get to) (\<lambda>toAcc.
      bindE (failIf (coinOf (tokenCoin n) fromAcc < amt) ''escrow: insufficient balance'') (\<lambda>_.
      bindE (put from (setCoin (tokenCoin n) (coinOf (tokenCoin n) fromAcc - amt) fromAcc)) (\<lambda>_.
      put to (setCoin (tokenCoin n) (coinOf (tokenCoin n) toAcc + amt) toAcc)))))"
proof -
  have "n = ''NHB'' \<or> n = ''ZNHB''" using assms(1) by (auto simp: NormalizeToken_Inr)
  with assms(2) show ?thesis by (elim disjE) (simp_all add: transferToken_def assms(1) tokenCoin_def)
qed

lemma acct_fits_setCoin:
  "acct_fits acc \<Longrightarrow> 0 \<le> v \<Longrightarrow> (c = NHB \<Longrightarrow> v < 2 ^ 256) \<Longrightarrow> acct_fits (setCoin c v acc)"
  using acct_nonneg_setCoin [of acc v c] by (cases c) (auto simp: acct_fits_def)

context account_ledger
begin

lemma bal_bound: "inv s \<Longrightarrow> bal NHB s a < 2 ^ 256"
  using inv_fits [of s a] by (auto simp: bal_def acct_fits_def)

lemma put_coin:
  assumes "inv s" and "inv u" and "0 \<le> v" and "c = NHB \<Longrightarrow> v < 2 ^ 256"
  obtains t where "put a (setCoin c v (view u a)) s = (Inr (), t)" and "inv t"
    and "bal c t = (bal c s)(a := v)"
    and "\<forall>c'. c' \<noteq> c \<longrightarrow> bal c' t = (bal c' s)(a := bal c' u a)"
proof -
  have fits: "acct_fits (setCoin c v (view u a))"
    using assms inv_fits [OF assms(2)] by (intro acct_fits_setCoin) auto
  from put_ok [OF assms(1) fits, of a] obtain t where
    t: "put a (setCoin c v (view u a)) s = (Inr (), t)" "inv t"
      "acct_eq (view t a) (setCoin c v (view u a))" "\<And>b. b \<noteq> a \<Longrightarrow> view t b = view s b" by blast
  have "bal c t = (bal c s)(a := v)"
    using t(3,4) by (auto simp: bal_def fun_eq_iff acct_eq_coin)
  moreover have "bal c' t = (bal c' s)(a := bal c' u a)" if "c' \<noteq> c" for c'
    using that t(3,4) by (auto simp: bal_def fun_eq_iff acct_eq_coin)
  ultimately show ?thesis using t(1,2) that by blast
qed

text \<open>The three outcomes of a transfer. The second write is made on the account read before
  the first one, so a transfer to oneself adds the amount.\<close>

lemma transfer_cases:
  assumes "inv s" and "NormalizeToken token = Inr n" and "0 < amt"
    and "transferToken get put from to token amt s = (r, t)"
  obtains (ok) "r = Inr ()" "amt \<le> bal (tokenCoin n) s from" "inv t"
      "bal (tokenCoin n) t = (bal (tokenCoin n) s)
         (from := bal (tokenCoin n) s from - amt, to := bal (tokenCoin n) s to + amt)"
      "\<And>c. c \<noteq> tokenCoin n \<Longrightarrow> bal c t = bal c s"
    | (poor) "r = Inl ''escrow: insufficient balance''" "bal (tokenCoin n) s from < amt" "t = s"
    | (overflow) "r = Inl ''balance overflow''" "amt \<le> bal (tokenCoin n) s from"
      "tokenCoin n = NHB" "2 ^ 256 \<le> bal NHB s to + amt" "inv t"
proof -
  let ?c = "tokenCoin n"
  note run = assms(4) [unfolded transferToken_coin [OF assms(2,3)]]
  consider "bal ?c s from < amt" | "amt \<le> bal ?c s from" "?c = NHB" "2 ^ 256 \<le> bal NHB s to + amt"
    | "amt \<le> bal ?c s from" "?c = NHB \<longrightarrow> bal NHB s to + amt < 2 ^ 256" by force
  then show ?thesis
  proof cases
    case 1
    with run show ?thesis by (intro poor) (auto simp: get_view bal_def run_defs)
  next
    case 2
    have "0 \<le> bal ?c s from - amt" using 2 by simp
    moreover have "?c = NHB \<Longrightarrow> bal ?c s from - amt < 2 ^ 256"
      using bal_bound [OF assms(1), of "from"] assms(3) by simp
    ultimately obtain u where u: "put from (setCoin ?c (bal ?c s from - amt) (view s from)) s = (Inr (), u)"
      "inv u" by (rule put_coin [where a = "from", OF assms(1,1)])
    have "acct_nonneg (setCoin ?c (bal ?c s to + amt) (view s to))"
      using inv_fits [OF assms(1), of to] bal_nonneg [OF assms(1), of ?c to] assms(3)
      by (intro acct_nonneg_setCoin) (auto simp: acct_fits_def)
    moreover have "\<not> acct_fits (setCoin ?c (bal ?c s to + amt) (view s to))"
      using 2 by (simp add: acct_fits_def)
    ultimately have "put to (setCoin ?c (bal ?c s to + amt) (view s to)) u = (Inl ''balance overflow'', u)"
      by (rule put_overflow [OF u(2)])
    with run u 2 have "r = Inl ''balance overflow''" "t = u"
      by (auto simp: get_view bal_def run_defs)
    with u 2 show ?thesis by (intro overflow) auto
  next
    case 3
    have "0 \<le> bal ?c s from - amt" using 3 by simp
    moreover have "?c = NHB \<Longrightarrow> bal ?c s from - amt < 2 ^ 256"
      using bal_bound [OF assms(1), of "from"] assms(3) by simp
    ultimately obtain u where u: "put from (setCoin ?c (bal ?c s from - amt) (view s from)) s = (Inr (), u)"
      "inv u" "bal ?c u = (bal ?c s)(from := bal ?c s from - amt)"
      "\<forall>c'. c' \<noteq> ?c \<longrightarrow> bal c' u = (bal c' s)(from := bal c' s from)"
      by (rule put_coin [where a = "from", OF assms(1,1)])
    have "0 \<le> bal ?c s to + amt" using bal_nonneg [OF assms(1), of ?c to] assms(3) by simp
    moreover have "?c = NHB \<Longrightarrow> bal ?c s to + amt < 2 ^ 256" using 3 by simp
    ultimately obtain w where w: "put to (setCoin ?c (bal ?c s to + amt) (view s to)) u = (Inr (), w)"
      "inv w" "bal ?c w = (bal ?c u)(to := bal ?c s to + amt)"
      "\<forall>c'. c' \<noteq> ?c \<longrightarrow> bal c' w = (bal c' u)(to := bal c' s to)"
      by (rule put_coin [where a = to, OF u(2) assms(1)])
    from run u(1) w(1) 3(1) have "r = Inr ()" "t = w" by (auto simp: get_view bal_def run_defs)
    with u w 3 show ?thesis by (intro ok) auto
  qed
qed

definition total :: "coin \<Rightarrow> 's \<Rightarrow> int" where
  "total c s = (\<Sum>a\<in>UNIV. bal c s a)"

lemma bal_le_total: "inv s \<Longrightarrow> (\<Sum>a\<in>A. bal c s a) \<le> total c s"
  unfolding total_def by (intro sum_mono2) (auto intro: bal_nonneg)

lemma sum_move:
  fixes f :: "address \<Rightarrow> int"
  assumes "a \<noteq> b"
  shows "(\<Sum>x\<in>UNIV. (f(a := f a - v, b := f b + v)) x) = (\<Sum>x\<in>UNIV. f x)"
proof -
  have "(\<Sum>x\<in>UNIV. (f(a := f a - v, b := f b + v)) x)
      = (\<Sum>x\<in>UNIV. f x + (if x = b then v else 0) - (if x = a then v else 0))"
    using assms by (intro sum.cong) auto
  also have "\<dots> = (\<Sum>x\<in>UNIV. f x)" by (simp add: sum.distrib sum_subtractf)
  finally show ?thesis .
qed

text \<open>Between two different accounts, and while the supply fits in 256 bits, a transfer either
  moves exactly the amount or does nothing.\<close>

lemma transfer_atomic:
  assumes "inv s" and "NormalizeToken token = Inr n" and "0 < amt" and "from \<noteq> to"
    and "total NHB s < 2 ^ 256" and "transferToken get put from to token amt s = (r, t)"
  obtains (ok) "r = Inr ()" "amt \<le> bal (tokenCoin n) s from" "inv t"
      "bal (tokenCoin n) t = (bal (tokenCoin n) s)
         (from := bal (tokenCoin n) s from - amt, to := bal (tokenCoin n) s to + amt)"
      "\<And>c. c \<noteq> tokenCoin n \<Longrightarrow> bal c t = bal c s" "\<And>c. total c t = total c s"
    | (poor) "r = Inl ''escrow: insufficient balance''" "bal (tokenCoin n) s from < amt" "t = s"
  using assms(1-3,6)
proof (cases rule: transfer_cases)
  case ok
  have "total c t = total c s" for c
    using sum_move [OF assms(4), of "bal (tokenCoin n) s" amt]
    by (cases "c = tokenCoin n") (simp_all only: total_def ok(4), simp add: ok(5))
  with ok that(1) show ?thesis by blast
next
  case overflow
  have "bal NHB s to + bal NHB s from = (\<Sum>a\<in>{to, from}. bal NHB s a)" using assms(4) by simp
  also have "\<dots> \<le> total NHB s" by (rule bal_le_total [OF assms(1)])
  finally show ?thesis using overflow assms(5) by simp
qed (auto intro: that)

end

section \<open>The escrow store\<close>

lemma more_cong:
  assumes "chain.more s = chain.more t"
  shows "escrowRecs s = escrowRecs t" "frozenRecs s = frozenRecs t" "vaultBals s = vaultBals t"
    "realmRecs s = realmRecs t" "paramVals s = paramVals t"
  using assms
  by (cases s rule: estate.cases_scheme; cases t rule: estate.cases_scheme; simp)+

lemma statusOfByte_statusByte [simp]: "statusValid st \<Longrightarrow> statusOfByte (statusByte st) = st"
  by (cases st) (auto simp: statusOfByte_def)

lemma statusByte_statusOfByte [simp]: "statusByte (statusOfByte b) = b"
  by (simp add: statusOfByte_def)

lemma wrap64_range: "- (2 ^ 63) \<le> wrap64 x" "wrap64 x < 2 ^ 63"
  by (simp_all add: wrap64_def)

lemma wrap64_wrap64 [simp]: "wrap64 (wrap64 x) = wrap64 x"
  by (rule wrap64_id) (rule wrap64_range)+

definition frozenOf :: "'d edeps_scheme \<Rightarrow> hash32 \<Rightarrow> 'x estate_scheme \<Rightarrow> FrozenArb option" where
  "frozenOf D eid s = (case fst (EscrowFrozenPolicyGet D eid s) of Inr (Some f) \<Rightarrow> Some f | _ \<Rightarrow> None)"

lemma FrozenPolicyGet_cong:
  "frozenRecs s eid = frozenRecs t eid \<Longrightarrow>
   fst (EscrowFrozenPolicyGet D eid s) = fst (EscrowFrozenPolicyGet D eid t)"
  by (cases "frozenRecs t eid"; cases "toFrozenArb D (the (frozenRecs t eid))")
    (simp_all add: EscrowFrozenPolicyGet_def run_defs)

lemma frozenOf_cong: "frozenRecs s eid = frozenRecs t eid \<Longrightarrow> frozenOf D eid s = frozenOf D eid t"
  by (simp add: frozenOf_def FrozenPolicyGet_cong [of s eid t])

lemma frozenOf_sanitized: "frozenOf D eid s = Some f \<Longrightarrow> SanitizeFrozenArb D f = Inr f"
  by (auto simp: frozenOf_def EscrowFrozenPolicyGet_def run_defs toFrozenArb_def
      split: option.splits sum.splits prod.splits dest: SanitizeFrozenArb_idem)

lemma EscrowGet_Some:
  "EscrowGet D eid s = Some e \<longleftrightarrow>
     (\<exists>r e0 fr. escrowRecs s eid = Some r \<and> toEscrow r = Inr e0
       \<and> (if escRealmID e0 = [] then fr = None else (\<exists>f. frozenOf D eid s = Some f \<and> fr = Some f))
       \<and> SanitizeEscrow D (e0\<lparr>escFrozenArb := fr\<rparr>) = Inr e)"
proof -
  have trim: "toEscrow r = Inr e0 \<Longrightarrow> trimSpace (escRealmID e0) = escRealmID e0
      \<and> e0\<lparr>escFrozenArb := None\<rparr> = e0" for r e0
    by (auto simp: toEscrow_def Let_def split: if_splits)
  show ?thesis
    unfolding EscrowGet_def frozenOf_def Let_def
    by (auto split: option.splits sum.splits if_splits simp: trim)
qed

lemma EscrowGet_cong:
  "escrowRecs s eid = escrowRecs t eid \<Longrightarrow> frozenRecs s eid = frozenRecs t eid \<Longrightarrow>
   EscrowGet D eid s = EscrowGet D eid t"
proof -
  assume eq: "escrowRecs s eid = escrowRecs t eid" "frozenRecs s eid = frozenRecs t eid"
  have "EscrowGet D eid s = Some e \<longleftrightarrow> EscrowGet D eid t = Some e" for e
    unfolding EscrowGet_Some eq(1) frozenOf_cong [OF eq(2)] ..
  then show ?thesis by (metis option.exhaust)
qed

text \<open>Every stored record is one that \<^verbatim>\<open>EscrowPut\<close> can have written.\<close>

definition rec_ok :: "hash32 \<Rightarrow> storedEscrow \<Rightarrow> bool" where
  "rec_ok eid r \<longleftrightarrow> seID r = eid \<and> (seToken r = ''NHB'' \<or> seToken r = ''ZNHB'') \<and> 0 \<le> seAmount r
     \<and> 0 \<le> seDeadline r \<and> seDeadline r < 2 ^ 63 \<and> 0 \<le> seCreatedAt r \<and> seCreatedAt r < 2 ^ 63
     \<and> statusValid (statusOfByte (seStatus r))"

definition store_ok :: "'d edeps_scheme \<Rightarrow> 'x estate_scheme \<Rightarrow> bool" where
  "store_ok D s \<longleftrightarrow> deps_ok D \<and> (\<forall>eid r. escrowRecs s eid = Some r \<longrightarrow> rec_ok eid r)"

lemma store_ok_more: "chain.more s = chain.more t \<Longrightarrow> store_ok D s = store_ok D t"
  by (simp add: store_ok_def more_cong [of s t])

lemma EscrowGet_more: "chain.more s = chain.more t \<Longrightarrow> EscrowGet D eid s = EscrowGet D eid t"
  by (intro EscrowGet_cong) (simp_all add: more_cong [of s t])

text \<open>A loaded escrow and the record it comes from.\<close>

lemma EscrowGet_rec:
  assumes "store_ok D s" and "EscrowGet D eid s = Some e"
  obtains r where "escrowRecs s eid = Some r" and "rec_ok eid r" and "escrow_wf D e" and "escID e = eid"
    and "escToken e = seToken r" and "escAmount e = seAmount r"
    and "escStatus e = statusOfByte (seStatus r)"
    and "0 \<le> escDeadline e" and "escDeadline e < 2 ^ 63" and "0 \<le> escCreatedAt e" and "escCreatedAt e < 2 ^ 63"
    and "escRealmID e \<noteq> [] \<longrightarrow> (\<exists>f. escFrozenArb e = Some f \<and> frozenOf D eid s = Some f)"
proof -
  from assms(2) obtain r e0 fr where r: "escrowRecs s eid = Some r" and e0: "toEscrow r = Inr e0"
    and fr: "if escRealmID e0 = [] then fr = None else (\<exists>f. frozenOf D eid s = Some f \<and> fr = Some f)"
    and e: "SanitizeEscrow D (e0\<lparr>escFrozenArb := fr\<rparr>) = Inr e"
    unfolding EscrowGet_Some by blast
  from assms(1) r have ok: "rec_ok eid r" by (simp add: store_ok_def)
  have tok: "NormalizeToken (seToken r) = Inr (seToken r)" using ok by (auto simp: rec_ok_def)
  have wf: "escrow_wf D e" using e by (rule SanitizeEscrow_wf)
  have dl: "wrap64 (seDeadline r) = seDeadline r" "wrap64 (seCreatedAt r) = seCreatedAt r"
    using ok by (auto simp: rec_ok_def intro: wrap64_id)
  have e0_eq: "escID e0 = eid" "escToken e0 = seToken r" "escAmount e0 = seAmount r"
    "escStatus e0 = statusOfByte (seStatus r)" "escDeadline e0 = seDeadline r"
    "escCreatedAt e0 = seCreatedAt r" "trimSpace (escRealmID e0) = escRealmID e0"
    using e0 ok dl by (auto simp: toEscrow_def Let_def rec_ok_def split: if_splits)
  from e tok e0_eq have e_eq: "escID e = eid" "escToken e = seToken r" "escAmount e = seAmount r"
    "escStatus e = statusOfByte (seStatus r)" "escDeadline e = seDeadline r"
    "escCreatedAt e = seCreatedAt r" "escRealmID e = escRealmID e0"
    unfolding SanitizeEscrow_Inr by auto
  have "escFrozenArb e = fr" if "escRealmID e0 \<noteq> []"
    using e fr that e0_eq(7) frozenOf_sanitized [of D eid s]
    unfolding SanitizeEscrow_Inr by (auto split: option.splits)
  with fr e_eq have "escRealmID e \<noteq> [] \<longrightarrow> (\<exists>f. escFrozenArb e = Some f \<and> frozenOf D eid s = Some f)" by auto
  with r ok wf e_eq show ?thesis by (intro that) (auto simp: rec_ok_def)
qed

text \<open>Storing a well-formed escrow whose frozen policy is the stored one.\<close>

lemma toEscrow_newStoredEscrow:
  assumes "escrow_wf D e" and "0 \<le> escDeadline e" "escDeadline e < 2 ^ 63" "0 \<le> escCreatedAt e"
    "escCreatedAt e < 2 ^ 63"
  shows "toEscrow (newStoredEscrow e) = Inr (e\<lparr>escFrozenArb := None\<rparr>)"
proof -
  have "statusValid (escStatus e)" "trimSpace (escRealmID e) = escRealmID e"
    "trimSpace (DisputeReason e) = DisputeReason e"
    using assms(1) by (auto simp: escrow_wf_def)
  with assms(2-5) show ?thesis
    by (cases e) (simp add: toEscrow_def newStoredEscrow_def Let_def wrap64_id)
qed

lemma escrow_wf_frozen_None: "escrow_wf D e \<Longrightarrow> escRealmID e = [] \<Longrightarrow> escFrozenArb e = None"
  by (auto simp: escrow_wf_def split: option.splits)

definition putRec :: "Escrow \<Rightarrow> 'x estate_scheme \<Rightarrow> 'x estate_scheme" where
  "putRec e s = s\<lparr>escrowRecs := (escrowRecs s)(escID e \<mapsto> newStoredEscrow e)\<rparr>"

lemma EscrowPut_run:
  assumes "deps_ok D" and "escrow_wf D e" and "0 \<le> escDeadline e" and "0 \<le> escCreatedAt e"
  shows "EscrowPut D e s = (Inr (), putRec e s)"
proof -
  have "SanitizeEscrow D e = Inr e" and "0 \<le> escAmount e"
    using assms(2) wf_SanitizeEscrow by (auto simp: escrow_wf_def)
  with assms show ?thesis
    by (simp add: EscrowPut_def run_defs rlpFails_def newStoredEscrow_def deps_ok_def putRec_def)
qed

lemma putRec_rec_ok:
  assumes "escrow_wf D e" and "0 \<le> escDeadline e" "escDeadline e < 2 ^ 63" "0 \<le> escCreatedAt e"
    "escCreatedAt e < 2 ^ 63"
  shows "rec_ok (escID e) (newStoredEscrow e)"
proof -
  have "statusValid (escStatus e)" "0 \<le> escAmount e"
    using assms(1) by (auto simp: escrow_wf_def)
  with assms escrow_wf_token [OF assms(1)] show ?thesis by (auto simp: rec_ok_def newStoredEscrow_def)
qed

lemma EscrowGet_putRec:
  assumes "escrow_wf D e" and "0 \<le> escDeadline e" "escDeadline e < 2 ^ 63" "0 \<le> escCreatedAt e"
    "escCreatedAt e < 2 ^ 63"
    and "escRealmID e \<noteq> [] \<longrightarrow> (\<exists>f. escFrozenArb e = Some f \<and> frozenOf D (escID e) s = Some f)"
  shows "EscrowGet D (escID e) (putRec e s) = Some e"
proof -
  have "frozenOf D (escID e) (putRec e s) = frozenOf D (escID e) s"
    by (rule frozenOf_cong) (simp add: putRec_def)
  moreover have "e\<lparr>escFrozenArb := escFrozenArb e\<rparr> = e" by simp
  ultimately show ?thesis
    using assms(1,6) toEscrow_newStoredEscrow [OF assms(1-5)] escrow_wf_frozen_None [OF assms(1)]
    unfolding EscrowGet_Some
    by (intro exI [of _ "newStoredEscrow e"] exI [of _ "e\<lparr>escFrozenArb := None\<rparr>"]
        exI [of _ "escFrozenArb e"]) (auto simp: wf_SanitizeEscrow putRec_def)
qed

lemma EscrowGet_putRec_other: "eid \<noteq> escID e \<Longrightarrow> EscrowGet D eid (putRec e s) = EscrowGet D eid s"
  by (rule EscrowGet_cong) (simp_all add: putRec_def)

text \<open>The engine changes three fields of a stored escrow.\<close>

definition esc_update :: "Escrow \<Rightarrow> EscrowStatus \<Rightarrow> hash32 \<Rightarrow> string \<Rightarrow> Escrow" where
  "esc_update e st h r = e\<lparr>escStatus := st, ResolutionHash := h, DisputeReason := r\<rparr>"

lemma esc_update_fields [simp]:
  "escID (esc_update e st h r) = escID e" "Payer (esc_update e st h r) = Payer e"
  "Payee (esc_update e st h r) = Payee e" "Mediator (esc_update e st h r) = Mediator e"
  "escToken (esc_update e st h r) = escToken e" "escAmount (esc_update e st h r) = escAmount e"
  "escFeeBps (esc_update e st h r) = escFeeBps e" "escDeadline (esc_update e st h r) = escDeadline e"
  "escCreatedAt (esc_update e st h r) = escCreatedAt e" "escStatus (esc_update e st h r) = st"
  "escRealmID (esc_update e st h r) = escRealmID e"
  "escFrozenArb (esc_update e st h r) = escFrozenArb e"
  by (simp_all add: esc_update_def)

lemma escrow_wf_update:
  "escrow_wf D e \<Longrightarrow> statusValid st \<Longrightarrow> trimSpace r = r \<Longrightarrow> escrow_wf D (esc_update e st h r)"
  by (simp add: escrow_wf_def esc_update_def split: option.splits)

lemma stored_update:
  assumes "store_ok D s" and "EscrowGet D eid s = Some e" and "statusValid st" and "trimSpace r = r"
  shows "EscrowPut D (esc_update e st h r) s = (Inr (), putRec (esc_update e st h r) s)"
    and "store_ok D (putRec (esc_update e st h r) s)"
    and "EscrowGet D eid (putRec (esc_update e st h r) s) = Some (esc_update e st h r)"
    and "eid' \<noteq> eid \<Longrightarrow> EscrowGet D eid' (putRec (esc_update e st h r) s) = EscrowGet D eid' s"
proof -
  let ?e = "esc_update e st h r"
  from assms(1) have D: "deps_ok D" by (simp add: store_ok_def)
  obtain rc where e: "escrow_wf D e" "escID e = eid" "0 \<le> escDeadline e" "escDeadline e < 2 ^ 63"
    "0 \<le> escCreatedAt e" "escCreatedAt e < 2 ^ 63"
    "escRealmID e \<noteq> [] \<longrightarrow> (\<exists>f. escFrozenArb e = Some f \<and> frozenOf D eid s = Some f)"
    by (rule EscrowGet_rec [OF assms(1,2)])
  have wf: "escrow_wf D ?e" using e(1) assms(3,4) by (rule escrow_wf_update)
  show "EscrowPut D ?e s = (Inr (), putRec ?e s)" using EscrowPut_run [OF D wf] e by simp
  have "rec_ok eid (newStoredEscrow ?e)" using putRec_rec_ok [OF wf] e by simp
  then show "store_ok D (putRec ?e s)" using assms(1) e(2) by (auto simp: store_ok_def putRec_def)
  show "EscrowGet D eid (putRec ?e s) = Some ?e" using EscrowGet_putRec [OF wf, of s] e by simp
  show "eid' \<noteq> eid \<Longrightarrow> EscrowGet D eid' (putRec ?e s) = EscrowGet D eid' s"
    using e(2) by (simp add: EscrowGet_putRec_other)
qed

text \<open>What the engine needs of the escrow store, and what it then gets when it stores a new
  status and loads the escrow again.\<close>

locale escrow_registry =
  fixes lookup :: "'s \<Rightarrow> hash32 \<Rightarrow> Escrow option"
    and store :: "Escrow \<Rightarrow> ('s, unit) op"
    and good :: "'s \<Rightarrow> bool"
  assumes lookup_id: "good s \<Longrightarrow> lookup s eid = Some e \<Longrightarrow> escID e = eid"
    and lookup_reason: "good s \<Longrightarrow> lookup s eid = Some e \<Longrightarrow> trimSpace (DisputeReason e) = DisputeReason e"
    and store_update: "good s \<Longrightarrow> lookup s eid = Some e \<Longrightarrow> statusValid st \<Longrightarrow> trimSpace r = r \<Longrightarrow>
      \<exists>t. store (esc_update e st h r) s = (Inr (), t) \<and> good t
        \<and> lookup t = (lookup s)(eid \<mapsto> esc_update e st h r)"
begin

lemma wp_status:
  assumes "good s" and "lookup s eid = Some e" and "statusValid st"
  shows "wp (store (e\<lparr>escStatus := st\<rparr>))
    (\<lambda>_ t. good t \<and> lookup t = (lookup s)(eid \<mapsto> e\<lparr>escStatus := st\<rparr>)) (\<lambda>_ _. False) s"
proof -
  have eq: "e\<lparr>escStatus := st\<rparr> = esc_update e st (ResolutionHash e) (DisputeReason e)"
    by (simp add: esc_update_def)
  obtain t where "store (esc_update e st (ResolutionHash e) (DisputeReason e)) s = (Inr (), t)" and "good t"
    and "lookup t = (lookup s)(eid \<mapsto> esc_update e st (ResolutionHash e) (DisputeReason e))"
    using store_update [OF assms lookup_reason [OF assms(1,2)]] by blast
  then show ?thesis unfolding eq by (simp add: wp_def)
qed

end

interpretation er: escrow_registry "\<lambda>s eid. EscrowGet D eid s" "EscrowPut D" "store_ok D" for D
proof
  show "store_ok D s \<Longrightarrow> EscrowGet D eid s = Some e \<Longrightarrow> escID e = eid" for s eid e
    by (erule (1) EscrowGet_rec)
  show "store_ok D s \<Longrightarrow> EscrowGet D eid s = Some e \<Longrightarrow> trimSpace (DisputeReason e) = DisputeReason e"
    for s eid e by (erule (1) EscrowGet_rec) (rule escrow_wf_reason)
  show "\<exists>t. EscrowPut D (esc_update e st h r) s = (Inr (), t) \<and> store_ok D t
      \<and> (\<lambda>eid. EscrowGet D eid t) = (\<lambda>eid. EscrowGet D eid s)(eid \<mapsto> esc_update e st h r)"
    if "store_ok D s" and "EscrowGet D eid s = Some e" and "statusValid st" and "trimSpace r = r"
    for s eid e st r h
    using stored_update(1-3) [OF that, of h] stored_update(4) [OF that]
    by (intro exI [of _ "putRec (esc_update e st h r) s"]) (simp add: fun_eq_iff)
qed

section \<open>Accounting\<close>

text \<open>What the store tracks for an escrow: its amount while it is funded or disputed.\<close>

definition held :: "EscrowStatus \<Rightarrow> int \<Rightarrow> int" where
  "held st amount = (if st = EscrowFunded \<or> st = EscrowDisputed then amount else 0)"

definition track_ok :: "'d edeps_scheme \<Rightarrow> 'x estate_scheme \<Rightarrow> hash32 \<Rightarrow> bool" where
  "track_ok D s eid \<longleftrightarrow>
     (case escrowRecs s eid of
        None \<Rightarrow> vaultBals s eid = (\<lambda>_. 0)
      | Some r \<Rightarrow>
          vaultBals s eid = (\<lambda>_. 0)(seToken r := held (statusOfByte (seStatus r)) (seAmount r))
          \<and> (seStatus r \<noteq> 0 \<longrightarrow> EscrowGet D eid s \<noteq> None))"

definition acct_ok :: "'d edeps_scheme \<Rightarrow> 'x estate_scheme \<Rightarrow> bool" where
  "acct_ok D s \<longleftrightarrow> store_ok D s \<and> (\<forall>eid. track_ok D s eid)"

text \<open>Every escrow that was there still is, and is unchanged or changed as \<open>A\<close> allows.\<close>

type_synonym allowance = "hash32 \<Rightarrow> Escrow \<Rightarrow> Escrow \<Rightarrow> bool"

definition esc_rel :: "'d edeps_scheme \<Rightarrow> allowance \<Rightarrow> 'x estate_scheme \<Rightarrow> 'x estate_scheme \<Rightarrow> bool" where
  "esc_rel D A s t \<longleftrightarrow>
     (\<forall>eid e. EscrowGet D eid s = Some e \<longrightarrow> (\<exists>e'. EscrowGet D eid t = Some e' \<and> (e' = e \<or> A eid e e')))"

lemma esc_rel_refl [simp]: "esc_rel D A s s"
  by (auto simp: esc_rel_def)

lemma track_ok_cong:
  "escrowRecs s eid = escrowRecs t eid \<Longrightarrow> frozenRecs s eid = frozenRecs t eid \<Longrightarrow>
   vaultBals s eid = vaultBals t eid \<Longrightarrow> track_ok D s eid = track_ok D t eid"
  using EscrowGet_cong [of s eid t D] by (simp add: track_ok_def split: option.splits)

lemma acct_ok_more: "chain.more s = chain.more t \<Longrightarrow> acct_ok D s = acct_ok D t"
  by (simp add: acct_ok_def store_ok_more [of s t] more_cong [of s t] track_ok_cong [of s _ t])

lemma esc_rel_more: "chain.more t = chain.more u \<Longrightarrow> esc_rel D A s t = esc_rel D A s u"
  by (simp add: esc_rel_def EscrowGet_more [of t u])

definition setVault :: "hash32 \<Rightarrow> string \<Rightarrow> int \<Rightarrow> 'x estate_scheme \<Rightarrow> 'x estate_scheme" where
  "setVault eid token v s = s\<lparr>vaultBals := (vaultBals s)(eid := (vaultBals s eid)(token := v))\<rparr>"

lemma store_ok_setVault [simp]: "store_ok D (setVault eid tok v s) = store_ok D s"
  by (simp add: store_ok_def setVault_def)

lemma EscrowGet_setVault [simp]: "EscrowGet D eid (setVault eid' tok v s) = EscrowGet D eid s"
  by (rule EscrowGet_cong) (simp_all add: setVault_def)

text \<open>The tracked balance of a loaded escrow, and the state after its status and balance have
  both been updated.\<close>

lemma tracked:
  assumes "acct_ok D s" and "EscrowGet D eid s = Some e"
  shows "vaultBals s eid = (\<lambda>_. 0)(escToken e := held (escStatus e) (escAmount e))"
proof -
  from assms(1) have ok: "store_ok D s" and "track_ok D s eid" by (simp_all add: acct_ok_def)
  moreover obtain r where "escrowRecs s eid = Some r" "escToken e = seToken r" "escAmount e = seAmount r"
    "escStatus e = statusOfByte (seStatus r)"
    by (rule EscrowGet_rec [OF ok assms(2)])
  ultimately show ?thesis by (simp add: track_ok_def)
qed

lemma settle_state:
  assumes "acct_ok D s" and "EscrowGet D eid s = Some e" and "statusValid st" and "trimSpace r = r"
    and "A eid e (esc_update e st h r)"
  defines "t \<equiv> putRec (esc_update e st h r) (setVault eid (escToken e) (held st (escAmount e)) s)"
  shows "acct_ok D t" and "esc_rel D A s t" and "EscrowGet D eid t = Some (esc_update e st h r)"
proof -
  let ?s = "setVault eid (escToken e) (held st (escAmount e)) s"
  from assms(1) have ok: "store_ok D s" by (simp add: acct_ok_def)
  then have ok': "store_ok D ?s" by simp
  have get: "EscrowGet D eid ?s = Some e" using assms(2) by simp
  obtain rc where rc: "escrowRecs s eid = Some rc" "escID e = eid" "escToken e = seToken rc"
    by (rule EscrowGet_rec [OF ok assms(2)])
  note upd = stored_update(1-3) [OF ok' get assms(3,4), of h, folded t_def]
  show got: "EscrowGet D eid t = Some (esc_update e st h r)" by (rule upd(3))
  have other: "EscrowGet D i t = EscrowGet D i s" if "i \<noteq> eid" for i
    using stored_update(4) [OF ok' get assms(3,4) that, of h, folded t_def] by simp
  show "esc_rel D A s t"
    unfolding esc_rel_def
  proof (intro allI impI)
    fix i x assume x: "EscrowGet D i s = Some x"
    show "\<exists>x'. EscrowGet D i t = Some x' \<and> (x' = x \<or> A i x x')"
    proof (cases "i = eid")
      case True
      with x assms(2,5) got show ?thesis by auto
    next
      case False
      with x other show ?thesis by simp
    qed
  qed
  have "track_ok D t i" for i
  proof (cases "i = eid")
    case True
    have "vaultBals t eid = (\<lambda>_. 0)(escToken e := held st (escAmount e))"
      using tracked [OF assms(1,2)] by (simp add: t_def putRec_def setVault_def)
    moreover have "escrowRecs t eid = Some (newStoredEscrow (esc_update e st h r))"
      using rc(2) by (simp add: t_def putRec_def)
    ultimately show ?thesis using True got assms(3)
      by (simp add: track_ok_def newStoredEscrow_def)
  next
    case False
    have "track_ok D s i" using assms(1) by (simp add: acct_ok_def)
    then show ?thesis using False rc(2)
      by (subst track_ok_cong [where t = s]) (simp_all add: t_def putRec_def setVault_def)
  qed
  with upd(2) show "acct_ok D t" by (simp add: acct_ok_def)
qed

end
