(* ===== verification/EscrowProps.thy ===== *)
theory EscrowProps
  imports EscrowLedger
begin

text \<open>
  Properties of the escrow engine. The calls of the engine are collected in \<open>runCall\<close>, and
  \<open>escrow_step\<close> is one step of the chain as the escrow module sees it: a call with any engine
  settings and any outcome, a change of parameters, or a change of accounts by another
  module. The invariant and the life cycle are proved for every call, errors included, and
  lifted to all reachable states by rule induction.
\<close>

section \<open>Operations that only touch accounts and events\<close>

lemma chainOnly_moveToken [frame_rules]: "chainOnly (moveToken D from to token amt)"
  unfolding transferToken_def by (rule frame_rules)+

lemma chainOnly_payOut [frame_rules]: "chainOnly (payOut D E vault winner token amounts)"
  unfolding payOut_def by (rule frame_rules)+

section \<open>Every call keeps the accounting and follows the life cycle\<close>

text \<open>The relation between the states before and after a call, on every outcome.\<close>

definition escrow_good :: "'d edeps_scheme \<Rightarrow> allowance \<Rightarrow> 'x estate_scheme \<Rightarrow> 'x estate_scheme \<Rightarrow> bool" where
  "escrow_good D A s t \<longleftrightarrow> acct_ok D t \<and> esc_rel D A s t"

abbreviation good_run :: "'d edeps_scheme \<Rightarrow> allowance \<Rightarrow> ('x estate_scheme, 'a) op \<Rightarrow> 'x estate_scheme \<Rightarrow> bool" where
  "good_run D A m s \<equiv> wp m (\<lambda>_. escrow_good D A s) (\<lambda>_. escrow_good D A s) s"

lemma escrow_good_refl: "acct_ok D s \<Longrightarrow> escrow_good D A s s"
  by (simp add: escrow_good_def)

lemma escrow_good_more: "chain.more t = chain.more u \<Longrightarrow> escrow_good D A s t = escrow_good D A s u"
  by (simp add: escrow_good_def acct_ok_more [of t u] esc_rel_more [of t u])

lemma wp_emit: "Q () (s\<lparr>events := events s @ [ev]\<rparr>) \<Longrightarrow> wp (emitEvent ev) Q R s"
  by (simp add: emitEvent_def wp_modifyE)

lemma emit_frames [simp]:
  "EscrowGet D eid (t\<lparr>events := ev\<rparr>) = EscrowGet D eid t"
  "acct_ok D (t\<lparr>events := ev\<rparr>) = acct_ok D t"
  "esc_rel D A s (t\<lparr>events := ev\<rparr>) = esc_rel D A s t"
  by (rule EscrowGet_more acct_ok_more esc_rel_more, simp)+

lemma escrow_good_emit [simp]: "escrow_good D A s (t\<lparr>events := ev\<rparr>) = escrow_good D A s t"
  by (rule escrow_good_more) simp

lemma acct_ok_loaded:
  assumes "acct_ok D s" and "EscrowGet D eid s = Some e"
  shows "escrow_wf D e" and "escID e = eid" and "NormalizeToken (escToken e) = Inr (escToken e)"
    and "0 \<le> escAmount e" and "trimSpace (DisputeReason e) = DisputeReason e"
    and "escrowRecs s eid \<noteq> None"
proof -
  have "store_ok D s" using assms(1) by (simp add: acct_ok_def)
  then obtain r where "escrow_wf D e" "escID e = eid" "escrowRecs s eid = Some r"
    by (rule EscrowGet_rec [OF _ assms(2)])
  then show "escrow_wf D e" "escID e = eid" "NormalizeToken (escToken e) = Inr (escToken e)"
    "0 \<le> escAmount e" "trimSpace (DisputeReason e) = DisputeReason e" "escrowRecs s eid \<noteq> None"
    by (auto simp: escrow_wf_reason escrow_wf_NormalizeToken) (simp add: escrow_wf_def)
qed

lemma esc_update_again [simp]:
  "(esc_update e st h r)\<lparr>DisputeReason := r'\<rparr> = esc_update e st h r'"
  "(esc_update e st h r)\<lparr>escStatus := st'\<rparr> = esc_update e st' h r"
  "(esc_update e st h r)\<lparr>ResolutionHash := h'\<rparr> = esc_update e st h' r"
  by (simp_all add: esc_update_def)

text \<open>Debit, new status, event: this cannot fail for a funded or disputed escrow.\<close>

lemma wp_closeEscrow:
  assumes "acct_ok D s" and "EscrowGet D eid s = Some e"
    and "escStatus e = EscrowFunded \<or> escStatus e = EscrowDisputed"
    and "settled st" and "A eid e (esc\<lparr>escStatus := st\<rparr>)" and "esc = e\<lparr>ResolutionHash := h\<rparr>"
  shows "wp (closeEscrow D eid esc st ev)
    (\<lambda>_ t. escrow_good D A s t \<and> EscrowGet D eid t = Some (esc\<lparr>escStatus := st\<rparr>)
      \<and> stateAccounts t = stateAccounts s \<and> accountMetas t = accountMetas s
      \<and> vaultBals t = (vaultBals s)(eid := (\<lambda>_. 0))) (\<lambda>_ _. False) s"
proof -
  let ?e = "esc_update e st h (DisputeReason e)"
  let ?t = "setVault eid (escToken e) 0 s"
  have st: "statusValid st" "held st (escAmount e) = 0"
    using assms(4) by (auto simp: settled_def held_def)
  note loaded = acct_ok_loaded [OF assms(1,2)]
  have bal: "vaultBals s eid = (\<lambda>_. 0)(escToken e := escAmount e)"
    using tracked [OF assms(1,2)] assms(3) by (simp add: held_def)
  have upd: "esc\<lparr>escStatus := st\<rparr> = ?e" by (simp add: assms(6) esc_update_def)
  have debit: "EscrowDebit eid (escToken e) (escAmount e) s = (Inr (), ?t)"
  proof (cases "escAmount e = 0")
    case True
    then have "?t = s" using bal by (auto simp: setVault_def fun_eq_iff intro!: estate.equality)
    with True loaded(3) bal show ?thesis by (simp add: EscrowDebit_def run_defs)
  next
    case False
    with loaded(3,4) bal show ?thesis
      by (simp add: EscrowDebit_def run_defs writeVault_def setVault_def)
  qed
  have "EscrowPut D ?e ?t = (Inr (), putRec ?e ?t)"
    using assms(1,2) st(1) loaded(5) by (intro stored_update(1)) (auto simp: acct_ok_def)
  with debit have run: "closeEscrow D eid esc st ev s = emitEvent (ev ?e) (putRec ?e ?t)"
    by (simp add: closeEscrow_def storeEscrow_def run_defs Let_def upd) (simp add: assms(6) run_defs)
  note good = settle_state [where A = A, OF assms(1,2) st(1) loaded(5) assms(5) [unfolded upd], unfolded st(2)]
  from good show ?thesis
    by (simp add: wp_def run emitEvent_def modifyE_def upd escrow_good_def)
      (simp add: putRec_def setVault_def bal fun_eq_iff)
qed

lemma escrow_good_from: "chain.more s = chain.more t \<Longrightarrow> escrow_good D A s u = escrow_good D A t u"
  by (simp add: escrow_good_def esc_rel_def EscrowGet_more [of s t])

lemma wp_loadEscrow:
  "wp (loadEscrow D eid) Q R s =
     (case EscrowGet D eid s of None \<Rightarrow> R errEscrowNotFound s | Some e \<Rightarrow> Q e s)"
  by (simp add: loadEscrow_def wp_simps split: option.splits)

lemma wp_guardE: "wp (guardE p) Q R s =
    (case Guard p ''escrow'' of Inl e \<Rightarrow> R e s | Inr u \<Rightarrow> Q u s)"
  by (simp add: guardE_def wp_liftE)

lemma wp_EscrowVaultAddress:
  "NormalizeToken token = Inr token \<Longrightarrow> wp (EscrowVaultAddress D token) Q R s =
     Q (ucast (keccak256 D (''module/escrow/vault/'' @ token))) s"
  by (simp add: EscrowVaultAddress_def escrowModuleAddress_def wp_liftE)

lemmas wp_engine = wp_simps wp_loadEscrow wp_guardE

text \<open>Credit, new status, event: this cannot fail for an escrow that awaits funding.\<close>

lemma wp_fundTail:
  assumes "acct_ok D s" and "EscrowGet D eid s = Some e" and "escStatus e = EscrowInit"
    and "A eid e (e\<lparr>escStatus := EscrowFunded\<rparr>)"
  shows "wp (bindE (EscrowCredit eid (escToken e) (escAmount e)) (\<lambda>_.
      bindE (storeEscrow D (e\<lparr>escStatus := EscrowFunded\<rparr>)) (\<lambda>_. emitEvent ev)))
    (\<lambda>_ t. escrow_good D A s t \<and> EscrowGet D eid t = Some (e\<lparr>escStatus := EscrowFunded\<rparr>)
      \<and> stateAccounts t = stateAccounts s \<and> accountMetas t = accountMetas s
      \<and> vaultBals t = (vaultBals s)(eid := (vaultBals s eid)(escToken e := escAmount e)))
    (\<lambda>_ _. False) s"
proof -
  let ?e = "esc_update e EscrowFunded (ResolutionHash e) (DisputeReason e)"
  let ?t = "setVault eid (escToken e) (escAmount e) s"
  note loaded = acct_ok_loaded [OF assms(1,2)]
  have bal: "vaultBals s eid = (\<lambda>_. 0)"
    using tracked [OF assms(1,2)] assms(3) by (simp add: held_def fun_eq_iff)
  have upd: "e\<lparr>escStatus := EscrowFunded\<rparr> = ?e" by (simp add: esc_update_def)
  have credit: "EscrowCredit eid (escToken e) (escAmount e) s = (Inr (), ?t)"
  proof (cases "escAmount e = 0")
    case True
    then have "?t = s" using bal by (auto simp: setVault_def fun_eq_iff intro!: estate.equality)
    with True loaded(3,6) show ?thesis by (simp add: EscrowCredit_def run_defs)
  next
    case False
    with loaded(3,4,6) bal show ?thesis
      by (simp add: EscrowCredit_def run_defs writeVault_def setVault_def)
  qed
  have put: "EscrowPut D ?e ?t = (Inr (), putRec ?e ?t)"
    using assms(1,2) loaded(5) by (intro stored_update(1)) (auto simp: acct_ok_def)
  have good: "acct_ok D (putRec ?e ?t)" "esc_rel D A s (putRec ?e ?t)"
    "EscrowGet D eid (putRec ?e ?t) = Some ?e"
    using settle_state [where A = A, OF assms(1,2) _ loaded(5), of EscrowFunded "ResolutionHash e"]
      assms(3) assms(4) [unfolded upd]
    by (simp_all add: held_def)
  from good credit put show ?thesis
    by (simp add: wp_def run_defs storeEscrow_def emitEvent_def upd escrow_good_def)
      (simp add: putRec_def setVault_def)
qed

lemma good_Fund:
  assumes "acct_ok D s"
    and "\<And>e. EscrowGet D eid s = Some e \<Longrightarrow> escStatus e = EscrowInit \<Longrightarrow> Payer e = from \<Longrightarrow>
      A eid e (e\<lparr>escStatus := EscrowFunded\<rparr>)"
  shows "good_run D A (Fund D E eid from) s"
proof (cases "EscrowGet D eid s")
  case None
  with assms show ?thesis
    by (simp add: Fund_def wp_engine escrow_good_refl split: sum.splits)
next
  case (Some e)
  let ?vault = "ucast (keccak256 D (''module/escrow/vault/'' @ escToken e)) :: address"
  have "wp (moveToken D (Payer e) ?vault (escToken e) (escAmount e))
     (\<lambda>_. wp (bindE (EscrowCredit eid (escToken e) (escAmount e)) (\<lambda>_.
       bindE (storeEscrow D (e\<lparr>escStatus := EscrowFunded\<rparr>)) (\<lambda>_.
       emitEvent (NewFundedEvent D (e\<lparr>escStatus := EscrowFunded\<rparr>)))))
       (\<lambda>_. escrow_good D A s) (\<lambda>_. escrow_good D A s)) (\<lambda>_. escrow_good D A s) s"
    if "escStatus e = EscrowInit" "Payer e = from"
  proof (rule wp_frame [OF chainOnly_moveToken])
    fix t assume t: "chain.more t = chain.more s"
    show "wp (bindE (EscrowCredit eid (escToken e) (escAmount e)) (\<lambda>_.
       bindE (storeEscrow D (e\<lparr>escStatus := EscrowFunded\<rparr>)) (\<lambda>_.
       emitEvent (NewFundedEvent D (e\<lparr>escStatus := EscrowFunded\<rparr>)))))
       (\<lambda>_. escrow_good D A s) (\<lambda>_. escrow_good D A s) t"
    proof (rule wp_mono [OF wp_fundTail [where A = A]])
      show "acct_ok D t" "EscrowGet D eid t = Some e" "A eid e (e\<lparr>escStatus := EscrowFunded\<rparr>)"
        using assms Some that by (simp_all add: acct_ok_more [OF t] EscrowGet_more [OF t])
    qed (simp_all add: that escrow_good_from [OF t])
    show "escrow_good D A s t" using escrow_good_refl [OF assms(1)] by (simp add: escrow_good_more [OF t])
  qed
  with assms(1) Some acct_ok_loaded [OF assms(1) Some] show ?thesis
    by (simp add: Fund_def wp_engine wp_EscrowVaultAddress escrow_good_refl Let_def split: sum.splits)
qed

lemma good_close:
  assumes "acct_ok D s" and "EscrowGet D eid s = Some e"
    and "escStatus e = EscrowFunded \<or> escStatus e = EscrowDisputed"
    and "settled st" and "A eid e (esc\<lparr>escStatus := st\<rparr>)" and "esc = e\<lparr>ResolutionHash := h\<rparr>"
    and "chainOnly m"
  shows "wp m (\<lambda>_. wp (closeEscrow D eid esc st ev)
      (\<lambda>_ t. escrow_good D A s t \<and> EscrowGet D eid t = Some (esc\<lparr>escStatus := st\<rparr>)) (\<lambda>_. escrow_good D A s))
    (\<lambda>_. escrow_good D A s) s"
proof (rule wp_frame [OF assms(7)])
  fix t assume t: "chain.more t = chain.more s"
  show "escrow_good D A s t" using escrow_good_refl [OF assms(1)] by (simp add: escrow_good_more [OF t])
  show "wp (closeEscrow D eid esc st ev)
      (\<lambda>_ t. escrow_good D A s t \<and> EscrowGet D eid t = Some (esc\<lparr>escStatus := st\<rparr>)) (\<lambda>_. escrow_good D A s) t"
  proof (rule wp_mono [OF wp_closeEscrow [where A = A]])
    show "acct_ok D t" "EscrowGet D eid t = Some e"
      using assms(1,2) by (simp_all add: acct_ok_more [OF t] EscrowGet_more [OF t])
  qed (use assms in \<open>simp_all add: escrow_good_from [OF t]\<close>)
qed

lemmas good_close_mono = wp_mono [OF good_close]

lemma good_close_run:
  assumes "acct_ok D s" and "EscrowGet D eid s = Some e"
    and "escStatus e = EscrowFunded \<or> escStatus e = EscrowDisputed"
    and "settled st" and "A eid e (esc\<lparr>escStatus := st\<rparr>)" and "esc = e\<lparr>ResolutionHash := h\<rparr>"
    and "chainOnly m"
  shows "wp m (\<lambda>_. wp (closeEscrow D eid esc st ev) (\<lambda>_. escrow_good D A s) (\<lambda>_. escrow_good D A s))
    (\<lambda>_. escrow_good D A s) s"
  by (rule wp_mono [OF good_close [where A = A, OF assms]]) (auto intro: wp_mono)

lemma escrow_self: "e\<lparr>ResolutionHash := ResolutionHash e\<rparr> = (e :: Escrow)"
  by simp

text \<open>Who may release, as the code checks it.\<close>

definition release_guard :: "Escrow \<Rightarrow> address \<Rightarrow> bool" where
  "release_guard e caller \<longleftrightarrow>
     (escStatus e = EscrowFunded \<or> escStatus e = EscrowDisputed \<and> caller = Mediator e)
     \<and> (caller = Payee e \<or> Mediator e \<noteq> 0 \<and> caller = Mediator e)"

lemma good_Release:
  assumes "acct_ok D s"
    and "\<And>e. EscrowGet D eid s = Some e \<Longrightarrow> release_guard e caller \<Longrightarrow>
      A eid e (e\<lparr>escStatus := EscrowReleased\<rparr>)"
  shows "good_run D A (Release D E eid caller) s"
proof (cases "EscrowGet D eid s")
  case None
  with assms show ?thesis
    by (simp add: Release_def wp_engine escrow_good_refl split: sum.splits)
next
  case (Some e)
  note loaded = acct_ok_loaded [OF assms(1) Some]
  have close: "wp (payOut D E v w tok am) (\<lambda>_. wp (closeEscrow D eid e EscrowReleased ev)
      (\<lambda>_. escrow_good D A s) (\<lambda>_. escrow_good D A s)) (\<lambda>_. escrow_good D A s) s"
    if "release_guard e caller" for v w tok am ev
    using that assms Some
    by (intro good_close_run [where e = e and h = "ResolutionHash e"] chainOnly_payOut)
      (auto simp: release_guard_def settled_def)
  show ?thesis
    unfolding Release_def
    using assms(1) Some loaded(3)
    by (auto simp: wp_engine wp_EscrowVaultAddress escrow_good_refl release_guard_def
        split: sum.splits intro!: close)
qed

lemma good_refundEscrow:
  assumes "acct_ok D s" and "EscrowGet D eid s = Some e"
    and "escStatus e = EscrowFunded" and "st \<in> {EscrowRefunded, EscrowExpired}"
    and "A eid e (e\<lparr>escStatus := st\<rparr>)"
  shows "good_run D A (refundEscrow D e recipient st ev) s"
proof -
  have close: "wp (moveToken D v w tok am) (\<lambda>_. wp (closeEscrow D eid e st ev)
      (\<lambda>_. escrow_good D A s) (\<lambda>_. escrow_good D A s)) (\<lambda>_. escrow_good D A s) s" for v w tok am
    using assms
    by (intro good_close_run [where e = e and h = "ResolutionHash e"] chainOnly_moveToken)
      (auto simp: settled_def)
  show ?thesis
    unfolding refundEscrow_def acct_ok_loaded(2) [OF assms(1,2)]
    using assms(1) acct_ok_loaded(3) [OF assms(1,2)]
    by (auto simp: wp_engine wp_EscrowVaultAddress escrow_good_refl intro!: close)
qed

lemma good_Refund:
  assumes "acct_ok D s"
    and "\<And>e. EscrowGet D eid s = Some e \<Longrightarrow> escStatus e = EscrowFunded \<Longrightarrow> caller = Payer e \<Longrightarrow>
      engNow E < escDeadline e \<Longrightarrow> A eid e (e\<lparr>escStatus := EscrowRefunded\<rparr>)"
  shows "good_run D A (Refund D E eid caller) s"
  unfolding Refund_def using assms
  by (auto simp: wp_engine escrow_good_refl split: sum.splits option.splits intro!: good_refundEscrow)

lemma good_Expire:
  assumes "acct_ok D s"
    and "\<And>e. EscrowGet D eid s = Some e \<Longrightarrow> escStatus e = EscrowFunded \<Longrightarrow> escDeadline e \<le> now \<Longrightarrow>
      A eid e (e\<lparr>escStatus := EscrowExpired\<rparr>)"
  shows "good_run D A (Expire D E eid now) s"
  unfolding Expire_def using assms
  by (auto simp: wp_engine escrow_good_refl split: sum.splits option.splits intro!: good_refundEscrow)

lemma held_same_state:
  assumes "acct_ok D s" and "EscrowGet D eid s = Some e" and "held st (escAmount e) = held (escStatus e) (escAmount e)"
  shows "setVault eid (escToken e) (held st (escAmount e)) s = s"
  using tracked [OF assms(1,2)] assms(3)
  by (auto simp: setVault_def fun_eq_iff intro!: estate.equality)

lemma good_store:
  assumes "acct_ok D s" and "EscrowGet D eid s = Some e" and "statusValid st" and "trimSpace r = r"
    and "A eid e (esc_update e st h r)"
    and "held st (escAmount e) = held (escStatus e) (escAmount e)"
  shows "wp (storeEscrow D (esc_update e st h r)) (\<lambda>_. wp (emitEvent ev) (\<lambda>_. escrow_good D A s) R) R s"
proof -
  have "store_ok D s" using assms(1) by (simp add: acct_ok_def)
  note put = stored_update(1) [OF this assms(2-4), of h]
  note good = settle_state [where A = A, OF assms(1-5), unfolded held_same_state [OF assms(1,2,6)]]
  have "escrow_good D A s (putRec (esc_update e st h r) s)" using good by (simp add: escrow_good_def)
  then show ?thesis by (simp add: wp_def storeEscrow_def put emitEvent_def modifyE_def)
qed

lemma good_Dispute:
  assumes "acct_ok D s"
    and "\<And>e. EscrowGet D eid s = Some e \<Longrightarrow> escStatus e = EscrowFunded \<Longrightarrow>
      caller = Payer e \<or> caller = Payee e \<Longrightarrow>
      A eid e (e\<lparr>escStatus := EscrowDisputed,
        DisputeReason := (if trimSpace reason = [] then DisputeReason e else trimSpace reason)\<rparr>)"
    and "\<And>e. EscrowGet D eid s = Some e \<Longrightarrow> escStatus e = EscrowDisputed \<Longrightarrow> DisputeReason e = [] \<Longrightarrow>
      A eid e (e\<lparr>DisputeReason := trimSpace reason\<rparr>)"
  shows "good_run D A (Dispute D E eid caller reason) s"
proof (cases "EscrowGet D eid s")
  case None
  with assms show ?thesis
    by (simp add: Dispute_def wp_engine escrow_good_refl split: sum.splits)
next
  case (Some e)
  note loaded = acct_ok_loaded [OF assms(1) Some]
  have upd: "e\<lparr>DisputeReason := r\<rparr> = esc_update e (escStatus e) (ResolutionHash e) r"
    "e\<lparr>escStatus := st, DisputeReason := r\<rparr> = esc_update e st (ResolutionHash e) r"
    "e\<lparr>escStatus := st\<rparr> = esc_update e st (ResolutionHash e) (DisputeReason e)" for st r
    by (simp_all add: esc_update_def)
  have st: "wp (storeEscrow D (esc_update e EscrowDisputed h r)) (\<lambda>_. wp (emitEvent ev) (\<lambda>_. escrow_good D A s) R) R s"
    if "escStatus e = EscrowFunded \<or> escStatus e = EscrowDisputed" "trimSpace r = r"
      "A eid e (esc_update e EscrowDisputed h r)" for h r ev R
    using assms(1) Some _ that(2,3) by (rule good_store) (use that(1) in \<open>auto simp: held_def\<close>)
  show ?thesis
    unfolding Dispute_def Let_def
    using assms(1) assms(2,3) [OF Some] Some loaded(5)
    by (auto simp: wp_engine escrow_good_refl upd split: sum.splits intro!: st)
qed

lemma good_arbitratedRelease:
  assumes "acct_ok D s" and "EscrowGet D eid s = Some e" and "escStatus e = EscrowDisputed"
    and "esc = e\<lparr>ResolutionHash := h\<rparr>" and "A eid e (esc\<lparr>escStatus := EscrowReleased\<rparr>)"
  shows "wp (arbitratedRelease D E esc)
    (\<lambda>_ t. escrow_good D A s t \<and> EscrowGet D eid t = Some (esc\<lparr>escStatus := EscrowReleased\<rparr>))
    (\<lambda>_. escrow_good D A s) s"
proof -
  have close: "wp (payOut D E v w tok am) (\<lambda>_. wp (closeEscrow D eid esc EscrowReleased ev)
      (\<lambda>_ t. escrow_good D A s t \<and> EscrowGet D eid t = Some (esc\<lparr>escStatus := EscrowReleased\<rparr>)) (\<lambda>_. escrow_good D A s))
      (\<lambda>_. escrow_good D A s) s" for v w tok am ev
    using assms by (intro good_close [where e = e and h = h] chainOnly_payOut) (auto simp: settled_def)
  have esc: "escID esc = eid" "escToken esc = escToken e" "escStatus esc = EscrowDisputed"
    using acct_ok_loaded(2) [OF assms(1,2)] assms(3,4) by simp_all
  show ?thesis
    unfolding arbitratedRelease_def esc
    using assms(1) acct_ok_loaded(3) [OF assms(1,2)]
    by (auto simp: wp_engine wp_EscrowVaultAddress escrow_good_refl split: sum.splits intro!: close)
qed

lemma good_arbitratedRefund:
  assumes "acct_ok D s" and "EscrowGet D eid s = Some e" and "escStatus e = EscrowDisputed"
    and "esc = e\<lparr>ResolutionHash := h\<rparr>" and "A eid e (esc\<lparr>escStatus := EscrowRefunded\<rparr>)"
  shows "wp (arbitratedRefund D E esc)
    (\<lambda>_ t. escrow_good D A s t \<and> EscrowGet D eid t = Some (esc\<lparr>escStatus := EscrowRefunded\<rparr>))
    (\<lambda>_. escrow_good D A s) s"
proof -
  have close: "wp (payOut D E v w tok am) (\<lambda>_. wp (closeEscrow D eid esc EscrowRefunded ev)
      (\<lambda>_ t. escrow_good D A s t \<and> EscrowGet D eid t = Some (esc\<lparr>escStatus := EscrowRefunded\<rparr>)) (\<lambda>_. escrow_good D A s))
      (\<lambda>_. escrow_good D A s) s" for v w tok am ev
    using assms by (intro good_close [where e = e and h = h] chainOnly_payOut) (auto simp: settled_def)
  have esc: "escID esc = eid" "escToken esc = escToken e" "escStatus esc = EscrowDisputed"
    using acct_ok_loaded(2) [OF assms(1,2)] assms(3,4) by simp_all
  show ?thesis
    unfolding arbitratedRefund_def esc
    using assms(1) acct_ok_loaded(3) [OF assms(1,2)]
    by (auto simp: wp_engine wp_EscrowVaultAddress escrow_good_refl split: sum.splits intro!: close)
qed

text \<open>After a good call an escrow that was there still is.\<close>

lemma escrow_good_still:
  "escrow_good D A s t \<Longrightarrow> EscrowGet D eid s = Some e \<Longrightarrow> EscrowGet D eid t \<noteq> None"
  by (auto simp: escrow_good_def esc_rel_def)

lemma wp_reload_emit:
  "escrow_good D A s t \<Longrightarrow> wp (bindE (loadEscrow D eid) (\<lambda>e. emitEvent (ev e))) (\<lambda>_. escrow_good D A s)
     (\<lambda>_. escrow_good D A s) t"
  by (simp add: wp_bindE wp_loadEscrow wp_emit split: option.splits)

definition decided :: "DecisionOutcome \<Rightarrow> EscrowStatus" where
  "decided outcome = (if outcome = DecisionOutcomeRelease then EscrowReleased else EscrowRefunded)"

lemma good_Resolve:
  assumes "acct_ok D s"
    and "\<And>e decision. EscrowGet D eid s = Some e \<Longrightarrow> escStatus e = EscrowDisputed \<Longrightarrow>
      Mediator e \<noteq> 0 \<Longrightarrow> caller = Mediator e \<Longrightarrow> ParseDecisionOutcome outcome = Inr decision \<Longrightarrow>
      A eid e (e\<lparr>escStatus := decided decision\<rparr>)"
  shows "good_run D A (Resolve D E eid caller outcome) s"
proof (cases "EscrowGet D eid s")
  case None
  with assms show ?thesis
    by (simp add: Resolve_def wp_engine escrow_good_refl split: sum.splits)
next
  case (Some e)
  have rel: "wp (Release D E eid (Mediator e)) (\<lambda>_. wp (bindE (loadEscrow D eid) (\<lambda>e. emitEvent (ev e)))
      (\<lambda>_. escrow_good D A s) (\<lambda>_. escrow_good D A s)) (\<lambda>_. escrow_good D A s) s"
    if "escStatus e = EscrowDisputed" "Mediator e \<noteq> 0" "caller = Mediator e"
      "ParseDecisionOutcome outcome = Inr DecisionOutcomeRelease" for ev
  proof -
    have "good_run D A (Release D E eid (Mediator e)) s"
      using assms(2) [OF Some that] Some by (intro good_Release [OF assms(1)]) (auto simp: decided_def)
    then show ?thesis by (rule wp_mono) (simp_all add: wp_reload_emit)
  qed
  have ref: "wp (arbitratedRefund D E e) (\<lambda>_. wp (bindE (loadEscrow D eid) (\<lambda>e. emitEvent (ev e)))
      (\<lambda>_. escrow_good D A s) (\<lambda>_. escrow_good D A s)) (\<lambda>_. escrow_good D A s) s"
    if "escStatus e = EscrowDisputed" "Mediator e \<noteq> 0" "caller = Mediator e"
      "ParseDecisionOutcome outcome = Inr DecisionOutcomeRefund" for ev
    by (rule wp_mono [OF good_arbitratedRefund [where A = A and h = "ResolutionHash e", OF assms(1) Some that(1)]])
      (use assms(2) [OF Some that] in \<open>simp_all add: wp_reload_emit decided_def\<close>)
  show ?thesis
    unfolding Resolve_def
    using assms(1) Some
    by (auto simp: wp_guardE wp_simps wp_loadEscrow [where s = s] escrow_good_refl
        split: sum.splits DecisionOutcome.splits intro!: rel ref)
qed

lemma good_ResolveWithSignatures:
  assumes "acct_ok D s"
    and "\<And>e outcome meta digest signers. EscrowGet D eid s = Some e \<Longrightarrow> escStatus e = EscrowDisputed \<Longrightarrow>
      parseDecisionPayload D eid (escFrozenArb e) payload = Inr (outcome, meta, digest) \<Longrightarrow>
      verifyDecisionSignatures D (escFrozenArb e) digest sigs = Inr signers \<Longrightarrow>
      A eid e (e\<lparr>ResolutionHash := digest, escStatus := decided outcome\<rparr>)"
  shows "good_run D A (ResolveWithSignatures D E eid payload sigs) s"
proof (cases "EscrowGet D eid s")
  case None
  with assms show ?thesis
    by (simp add: ResolveWithSignatures_def wp_engine escrow_good_refl split: sum.splits)
next
  case (Some e)
  have emit: "escrow_good D A s t \<Longrightarrow> wp (emitEvent ev) (\<lambda>_. escrow_good D A s) (\<lambda>_. escrow_good D A s) t" for t ev
    by (simp add: wp_emit)
  have rel: "wp (arbitratedRelease D E (e\<lparr>ResolutionHash := h\<rparr>)) (\<lambda>_. wp (emitEvent ev)
      (\<lambda>_. escrow_good D A s) (\<lambda>_. escrow_good D A s)) (\<lambda>_. escrow_good D A s) s"
    if "escStatus e = EscrowDisputed"
      "parseDecisionPayload D eid (escFrozenArb e) payload = Inr (DecisionOutcomeRelease, meta, h)"
      "verifyDecisionSignatures D (escFrozenArb e) h sigs = Inr signers" for ev h meta signers
    by (rule wp_mono [OF good_arbitratedRelease [where A = A, OF assms(1) Some that(1) refl]])
      (use assms(2) [OF Some that] in \<open>simp_all add: emit decided_def\<close>)
  have ref: "wp (arbitratedRefund D E (e\<lparr>ResolutionHash := h\<rparr>)) (\<lambda>_. wp (emitEvent ev)
      (\<lambda>_. escrow_good D A s) (\<lambda>_. escrow_good D A s)) (\<lambda>_. escrow_good D A s) s"
    if "escStatus e = EscrowDisputed"
      "parseDecisionPayload D eid (escFrozenArb e) payload = Inr (DecisionOutcomeRefund, meta, h)"
      "verifyDecisionSignatures D (escFrozenArb e) h sigs = Inr signers" for ev h meta signers
    by (rule wp_mono [OF good_arbitratedRefund [where A = A, OF assms(1) Some that(1) refl]])
      (use assms(2) [OF Some that] in \<open>simp_all add: emit decided_def\<close>)
  show ?thesis
    unfolding ResolveWithSignatures_def Let_def
    using assms(1) Some
    by (auto simp: wp_engine escrow_good_refl
        split: sum.splits DecisionOutcome.splits prod.splits intro!: rel ref)
qed

section \<open>Creation and realms\<close>

text \<open>The part of the state the invariant reads.\<close>

definition escPart where
  "escPart s = (escrowRecs s, frozenRecs s, vaultBals s)"

abbreviation escFrame :: "('x estate_scheme, 'a) op \<Rightarrow> bool" where
  "escFrame \<equiv> frame escPart"

lemma escPart_good:
  assumes "escPart t = escPart u"
  shows "acct_ok D t = acct_ok D u" and "esc_rel D A s t = esc_rel D A s u" and "EscrowGet D eid t = EscrowGet D eid u"
proof -
  from assms have eq: "escrowRecs t = escrowRecs u" "frozenRecs t = frozenRecs u" "vaultBals t = vaultBals u"
    by (simp_all add: escPart_def)
  then have get: "EscrowGet D eid t = EscrowGet D eid u" for eid by (intro EscrowGet_cong) simp_all
  then show "EscrowGet D eid t = EscrowGet D eid u" "esc_rel D A s t = esc_rel D A s u" by (simp_all add: esc_rel_def)
  show "acct_ok D t = acct_ok D u"
    by (simp add: acct_ok_def store_ok_def eq track_ok_cong [of t _ u D])
qed

lemma escFrame_emitEvent [frame_rules]: "escFrame (emitEvent ev)"
  unfolding emitEvent_def by (rule frame_modifyE) (simp add: escPart_def)

lemma frame_ParamStoreGet [frame_rules]: "frame f (ParamStoreGet name)"
  unfolding ParamStoreGet_def by (rule frame_rules)+

lemma frame_EscrowRealmGet [frame_rules]: "frame f (EscrowRealmGet D eid)"
  unfolding EscrowRealmGet_def by (rule frame_rules)+

lemma escFrame_EscrowRealmPut [frame_rules]: "escFrame (EscrowRealmPut D r)"
  unfolding EscrowRealmPut_def by (rule frame_rules frame_modifyE | simp add: escPart_def)+

lemma frame_validate [frame_rules]: "frame f (validateArbitratorSetBounds D a)"
  unfolding validateArbitratorSetBounds_def realmBounds_def thresholdParam_def by (rule frame_rules)+

lemma frame_prepare [frame_rules]: "frame f (prepareFrozenPolicy D r now)"
  unfolding prepareFrozenPolicy_def by (rule frame_rules)+

lemma frame_guardE [frame_rules]: "frame f (guardE p)"
  unfolding guardE_def by (rule frame_rules)

lemma escFrame_CreateRealm: "escFrame (CreateRealm D E r)"
  unfolding CreateRealm_def by (rule frame_rules)+

lemma escFrame_UpdateRealm: "escFrame (UpdateRealm D E r)"
  unfolding UpdateRealm_def by (rule frame_rules)+

lemma escPart_escrow_good:
  assumes "escPart t = escPart s" and "acct_ok D s"
  shows "escrow_good D A s t"
  using assms(2) by (simp add: escrow_good_def escPart_good [OF assms(1)])

lemma good_escFrame: "acct_ok D s \<Longrightarrow> escFrame m \<Longrightarrow> good_run D A m s"
  by (erule wp_frame; erule (1) escPart_escrow_good)

text \<open>A record that cannot be loaded is one whose creation was cut short: it holds nothing.\<close>

lemma unloaded_empty:
  assumes "acct_ok D s" and "EscrowGet D eid s = None"
  shows "vaultBals s eid = (\<lambda>_. 0)"
proof -
  have "track_ok D s eid" using assms(1) by (simp add: acct_ok_def)
  then show ?thesis using assms(2)
    by (auto simp: track_ok_def held_def statusOfByte_def fun_eq_iff split: option.splits)
qed

definition int64 :: "int \<Rightarrow> bool" where
  "int64 x \<longleftrightarrow> - (2 ^ 63) \<le> x \<and> x < 2 ^ 63"

lemma fresh_put:
  assumes "acct_ok D s" and "EscrowGet D (escID e) s = None" and "escStatus e = EscrowInit"
    and "int64 (escDeadline e)" and "int64 (escCreatedAt e)" and "EscrowPut D e s = (Inr u, t)"
  shows "escrow_good D A s t" and "\<exists>r. escrowRecs t (escID e) = Some r \<and> seStatus r = 0"
    and "i \<noteq> escID e \<Longrightarrow> EscrowGet D i t = EscrowGet D i s"
proof -
  have D: "deps_ok D" using assms(1) by (simp add: acct_ok_def store_ok_def)
  from assms(6) obtain e' where e': "SanitizeEscrow D e = Inr e'" and t: "t = putRec e' s"
    and enc: "0 \<le> escDeadline e'" "0 \<le> escCreatedAt e'"
    using D by (auto simp: EscrowPut_def run_simps Let_def rlpFails_def newStoredEscrow_def deps_ok_def putRec_def)
  have same: "escID e' = escID e" "escStatus e' = EscrowInit" "escDeadline e' = escDeadline e"
    "escCreatedAt e' = escCreatedAt e"
    using e' assms(3) unfolding SanitizeEscrow_Inr by auto
  have wf: "escrow_wf D e'" using e' by (rule SanitizeEscrow_wf)
  have rec: "rec_ok (escID e') (newStoredEscrow e')"
    using wf enc assms(4,5) same by (intro putRec_rec_ok) (auto simp: int64_def)
  have other: "EscrowGet D i t = EscrowGet D i s" if "i \<noteq> escID e" for i
    using that same by (simp add: t EscrowGet_putRec_other)
  then show "i \<noteq> escID e \<Longrightarrow> EscrowGet D i t = EscrowGet D i s" .
  have vault: "vaultBals t (escID e) = (\<lambda>_. 0)"
    using unloaded_empty [OF assms(1,2)] by (simp add: t putRec_def)
  have "track_ok D t i" for i
  proof (cases "i = escID e")
    case True
    with vault same show ?thesis
      by (simp add: track_ok_def t putRec_def newStoredEscrow_def held_def statusOfByte_def fun_eq_iff)
  next
    case False
    have "track_ok D s i" using assms(1) by (simp add: acct_ok_def)
    with False same show ?thesis
      by (subst track_ok_cong [where t = s]) (simp_all add: t putRec_def)
  qed
  moreover have "store_ok D t"
    using assms(1) rec by (auto simp: acct_ok_def store_ok_def t putRec_def)
  moreover have "esc_rel D A s t"
    using other assms(2) unfolding esc_rel_def by (metis option.distinct(1))
  ultimately show "escrow_good D A s t" by (simp add: escrow_good_def acct_ok_def)
  show "\<exists>r. escrowRecs t (escID e) = Some r \<and> seStatus r = 0"
    using same by (auto simp: t putRec_def newStoredEscrow_def)
qed

lemma fresh_policy:
  assumes "acct_ok D u" and "escrowRecs u eid = Some r" and "seStatus r = 0"
  shows "acct_ok D (u\<lparr>frozenRecs := (frozenRecs u)(eid \<mapsto> f)\<rparr>)"
    and "i \<noteq> eid \<Longrightarrow> EscrowGet D i (u\<lparr>frozenRecs := (frozenRecs u)(eid \<mapsto> f)\<rparr>) = EscrowGet D i u"
proof -
  let ?t = "u\<lparr>frozenRecs := (frozenRecs u)(eid \<mapsto> f)\<rparr>"
  have "track_ok D ?t i" for i
  proof (cases "i = eid")
    case True
    have "track_ok D u eid" using assms(1) by (simp add: acct_ok_def)
    with True assms(2,3) show ?thesis by (simp add: track_ok_def)
  next
    case False
    have "track_ok D u i" using assms(1) by (simp add: acct_ok_def)
    with False show ?thesis by (subst track_ok_cong [where t = u]) simp_all
  qed
  then show "acct_ok D ?t" using assms(1) by (simp add: acct_ok_def store_ok_def)
  show "i \<noteq> eid \<Longrightarrow> EscrowGet D i ?t = EscrowGet D i u" by (rule EscrowGet_cong) simp_all
qed

text \<open>The rest of a creation, from any state that agrees on the escrow part.\<close>

lemma good_storePolicy:
  assumes "acct_ok D u" and "escrowRecs u eid = Some r" and "seStatus r = 0"
    and "EscrowGet D eid s = None" and "esc_rel D A s u"
  shows "wp (EscrowFrozenPolicyPut D eid f) (\<lambda>_. escrow_good D A s) (\<lambda>_. escrow_good D A s) u"
proof -
  have "escrow_good D A s u" using assms by (simp add: escrow_good_def)
  moreover have "escrow_good D A s (u\<lparr>frozenRecs := (frozenRecs u)(eid \<mapsto> g)\<rparr>)" for g
  proof -
    note pol = fresh_policy [where f = g, OF assms(1-3)]
    have "esc_rel D A s (u\<lparr>frozenRecs := (frozenRecs u)(eid \<mapsto> g)\<rparr>)"
      using assms(4,5) pol(2) unfolding esc_rel_def by (metis option.distinct(1))
    with pol(1) show ?thesis by (simp add: escrow_good_def)
  qed
  ultimately show ?thesis
    by (simp add: EscrowFrozenPolicyPut_def wp_simps Let_def split: sum.splits)
qed

lemma good_createTail:
  assumes "acct_ok D s" and "EscrowGet D (escID e) s = None" and "escStatus e = EscrowInit"
    and "int64 (escDeadline e)" and "int64 (escCreatedAt e)" and eid: "eid = escID e"
  shows "good_run D A (bindE (storeEscrow D e) (\<lambda>_.
      bindE (case prepared of None \<Rightarrow> retE ()
             | Some (realmUpdate, frozen) \<Rightarrow>
                 bindE (EscrowRealmPut D realmUpdate) (\<lambda>_. EscrowFrozenPolicyPut D eid frozen)) (\<lambda>_.
      bindE (emitEvent ev) (\<lambda>_. retE e)))) s"
proof -
  have "wp (storeEscrow D e) (\<lambda>_ t. escrow_good D A s t \<and>
      (\<exists>r. escrowRecs t (escID e) = Some r \<and> seStatus r = 0)) (\<lambda>_. escrow_good D A s) s"
  proof (rule wpI)
    fix x t assume "storeEscrow D e s = (Inr x, t)"
    then have "EscrowPut D e s = (Inr x, t)" by (simp add: storeEscrow_def)
    from fresh_put(1,2) [OF assms(1-5) this]
    show "escrow_good D A s t \<and> (\<exists>r. escrowRecs t (escID e) = Some r \<and> seStatus r = 0)" by blast
  next
    fix err t assume "storeEscrow D e s = (Inl err, t)"
    then have "t = s" by (auto simp: storeEscrow_def EscrowPut_def run_simps Let_def)
    then show "escrow_good D A s t" using assms(1) by (simp add: escrow_good_refl)
  qed
  then show ?thesis
    unfolding wp_bindE
  proof (rule wp_mono)
    fix t assume t: "escrow_good D A s t \<and> (\<exists>r. escrowRecs t (escID e) = Some r \<and> seStatus r = 0)"
    show "wp (case prepared of None \<Rightarrow> retE ()
             | Some (realmUpdate, frozen) \<Rightarrow>
                 bindE (EscrowRealmPut D realmUpdate) (\<lambda>_. EscrowFrozenPolicyPut D eid frozen))
       (\<lambda>x. wp (emitEvent ev) (\<lambda>x. wp (retE e) (\<lambda>_. escrow_good D A s) (\<lambda>_. escrow_good D A s))
          (\<lambda>_. escrow_good D A s)) (\<lambda>_. escrow_good D A s) t"
    proof (cases prepared)
      case None
      with t show ?thesis by (simp add: wp_simps wp_emit)
    next
      case (Some p)
      have "wp (EscrowFrozenPolicyPut D eid (snd p)) (\<lambda>x. wp (emitEvent ev) (\<lambda>x. wp (retE e)
          (\<lambda>_. escrow_good D A s) (\<lambda>_. escrow_good D A s)) (\<lambda>_. escrow_good D A s)) (\<lambda>_. escrow_good D A s) u" if u: "escPart u = escPart t" for u
      proof -
        have eq: "escrowRecs u = escrowRecs t" using u by (simp add: escPart_def)
        from t obtain r where "escrowRecs t (escID e) = Some r" "seStatus r = 0" by blast
        with t assms(2) have "wp (EscrowFrozenPolicyPut D eid (snd p)) (\<lambda>_. escrow_good D A s) (\<lambda>_. escrow_good D A s) u"
          by (intro good_storePolicy [where r = r]) (simp_all add: escrow_good_def escPart_good [OF u] eq eid)
        then show ?thesis by (rule wp_mono) (simp_all add: wp_emit wp_retE)
      qed
      moreover have "escrow_good D A s u" if u: "escPart u = escPart t" for u
        using t by (simp add: escrow_good_def escPart_good [OF u])
      ultimately show ?thesis
        using Some by (cases p) (auto simp: wp_bindE wp_retE intro!: wp_frame [OF escFrame_EscrowRealmPut])
    qed
  qed simp
qed

lemma good_from_part:
  assumes "escPart t = escPart s" and "good_run D A m t"
  shows "wp m (\<lambda>_. escrow_good D A s) (\<lambda>_. escrow_good D A s) t"
proof -
  have "escrow_good D A t u \<Longrightarrow> escrow_good D A s u" for u
    using escPart_good(3) [OF assms(1), of D] by (simp add: escrow_good_def esc_rel_def)
  with assms(2) show ?thesis by (blast intro: wp_mono)
qed

lemma good_createFresh:
  assumes "acct_ok D s" and "EscrowGet D (escID e) s = None" and "escStatus e = EscrowInit"
    and "int64 (escDeadline e)" and "int64 (escCreatedAt e)"
  shows "good_run D A (createFresh D e) s"
  unfolding createFresh_def Let_def wp_bindE [of "if _ then _ else _"]
proof (rule wp_frame [where f = escPart])
  show "escFrame (if escRealmID e \<noteq> [] then prepareFrozenPolicy D (escRealmID e) (escCreatedAt e) else retE None)"
    by (rule frame_rules)+
  show "escrow_good D A s t" if "escPart t = escPart s" for t
    using that assms(1) by (rule escPart_escrow_good)
  show "wp (bindE (storeEscrow D (e\<lparr>escFrozenArb := map_option snd prepared\<rparr>)) (\<lambda>_.
     bindE (case prepared of None \<Rightarrow> retE ()
            | Some (realmUpdate, frozen) \<Rightarrow>
                bindE (EscrowRealmPut D realmUpdate) (\<lambda>_. EscrowFrozenPolicyPut D (escID e) frozen)) (\<lambda>_.
     bindE (emitEvent (NewCreatedEvent D (e\<lparr>escFrozenArb := map_option snd prepared\<rparr>))) (\<lambda>_.
     retE (e\<lparr>escFrozenArb := map_option snd prepared\<rparr>)))))
     (\<lambda>_. escrow_good D A s) (\<lambda>_. escrow_good D A s) t"
    if t: "escPart t = escPart s" for t prepared
    using assms by (intro good_from_part [OF t] good_createTail) (simp_all add: escPart_good [OF t])
qed

lemma good_Create:
  assumes "acct_ok D s" and "int64 deadline" and "int64 (engNow E)"
  shows "good_run D A (Create D E payer payee token amt feeBps deadline nonce mediatorOpt metaHash realmId) s"
  unfolding Create_def Let_def
  using assms
  by (auto simp: wp_guardE wp_simps escrow_good_refl split: sum.splits option.splits intro!: good_createFresh)

section \<open>Calls, steps and reachable states\<close>

datatype escrow_call =
  CallCreateRealm "EscrowRealm option"
| CallUpdateRealm "EscrowRealm option"
| CallCreate address address string int u32 int u64 "address option" hash32 string
| CallFund hash32 address
| CallRelease hash32 address
| CallRefund hash32 address
| CallExpire hash32 int
| CallDispute hash32 address string
| CallResolve hash32 address string
| CallResolveWithSignatures hash32 string "string list"

definition ignoreResult :: "('s, 'a) op \<Rightarrow> ('s, unit) op" where
  "ignoreResult m = bindE m (\<lambda>_. retE ())"

primrec runCall :: "'d edeps_scheme \<Rightarrow> engine \<Rightarrow> escrow_call \<Rightarrow> ('x estate_scheme, unit) op" where
  "runCall D E (CallCreateRealm r) = ignoreResult (CreateRealm D E r)"
| "runCall D E (CallUpdateRealm r) = ignoreResult (UpdateRealm D E r)"
| "runCall D E (CallCreate payer payee token amt feeBps deadline nonce med metaHash realm) =
     ignoreResult (Create D E payer payee token amt feeBps deadline nonce med metaHash realm)"
| "runCall D E (CallFund eid from) = Fund D E eid from"
| "runCall D E (CallRelease eid caller) = Release D E eid caller"
| "runCall D E (CallRefund eid caller) = Refund D E eid caller"
| "runCall D E (CallExpire eid now) = Expire D E eid now"
| "runCall D E (CallDispute eid caller reason) = Dispute D E eid caller reason"
| "runCall D E (CallResolve eid caller outcome) = Resolve D E eid caller outcome"
| "runCall D E (CallResolveWithSignatures eid payload sigs) = ResolveWithSignatures D E eid payload sigs"

text \<open>The arguments of Go type \<^verbatim>\<open>int64\<close> are in range.\<close>

definition call_ok :: "engine \<Rightarrow> escrow_call \<Rightarrow> bool" where
  "call_ok E c \<longleftrightarrow> int64 (engNow E) \<and>
     (case c of CallCreate _ _ _ _ _ deadline _ _ _ _ \<Rightarrow> int64 deadline | _ \<Rightarrow> True)"

text \<open>What a call may do to the escrow \<open>eid\<close>: the life cycle with its authorisation and its
  deadlines.\<close>

fun call_allows :: "'d edeps_scheme \<Rightarrow> engine \<Rightarrow> escrow_call \<Rightarrow> allowance" where
  "call_allows D E (CallFund i from) eid e e' \<longleftrightarrow>
     i = eid \<and> escStatus e = EscrowInit \<and> from = Payer e \<and> e' = e\<lparr>escStatus := EscrowFunded\<rparr>"
| "call_allows D E (CallRelease i caller) eid e e' \<longleftrightarrow>
     i = eid \<and> release_guard e caller \<and> e' = e\<lparr>escStatus := EscrowReleased\<rparr>"
| "call_allows D E (CallRefund i caller) eid e e' \<longleftrightarrow>
     i = eid \<and> escStatus e = EscrowFunded \<and> caller = Payer e \<and> engNow E < escDeadline e
     \<and> e' = e\<lparr>escStatus := EscrowRefunded\<rparr>"
| "call_allows D E (CallExpire i now) eid e e' \<longleftrightarrow>
     i = eid \<and> escStatus e = EscrowFunded \<and> escDeadline e \<le> now
     \<and> e' = e\<lparr>escStatus := EscrowExpired\<rparr>"
| "call_allows D E (CallDispute i caller reason) eid e e' \<longleftrightarrow>
     i = eid \<and>
     (escStatus e = EscrowFunded \<and> (caller = Payer e \<or> caller = Payee e)
        \<and> e' = e\<lparr>escStatus := EscrowDisputed, DisputeReason :=
             (if trimSpace reason = [] then DisputeReason e else trimSpace reason)\<rparr>
      \<or> escStatus e = EscrowDisputed \<and> DisputeReason e = []
        \<and> e' = e\<lparr>DisputeReason := trimSpace reason\<rparr>)"
| "call_allows D E (CallResolve i caller outcome) eid e e' \<longleftrightarrow>
     i = eid \<and> escStatus e = EscrowDisputed \<and> Mediator e \<noteq> 0 \<and> caller = Mediator e
     \<and> (\<exists>decision. ParseDecisionOutcome outcome = Inr decision
          \<and> e' = e\<lparr>escStatus := decided decision\<rparr>)"
| "call_allows D E (CallResolveWithSignatures i payload sigs) eid e e' \<longleftrightarrow>
     i = eid \<and> escStatus e = EscrowDisputed
     \<and> (\<exists>outcome meta digest signers.
          parseDecisionPayload D eid (escFrozenArb e) payload = Inr (outcome, meta, digest)
          \<and> verifyDecisionSignatures D (escFrozenArb e) digest sigs = Inr signers
          \<and> e' = e\<lparr>ResolutionHash := digest, escStatus := decided outcome\<rparr>)"
| "call_allows D E _ eid e e' \<longleftrightarrow> False"

lemma good_ignoreResult: "good_run D A m s \<Longrightarrow> good_run D A (ignoreResult m) s"
  unfolding ignoreResult_def wp_bindE by (erule wp_mono) (simp_all add: wp_retE)

lemma good_runCall:
  assumes "acct_ok D s" and "call_ok E c"
  shows "good_run D (call_allows D E c) (runCall D E c) s"
proof -
  note realm = good_escFrame [OF assms(1) escFrame_CreateRealm] good_escFrame [OF assms(1) escFrame_UpdateRealm]
  show ?thesis
    using assms
    by (cases c) (auto simp: call_ok_def intro!: good_ignoreResult realm good_Create good_Fund
        good_Release good_Refund good_Expire good_Dispute good_Resolve good_ResolveWithSignatures)
qed

lemma runCall_good:
  assumes "acct_ok D s" and "call_ok E c" and "runCall D E c s = (r, t)"
  shows "acct_ok D t" and "esc_rel D (call_allows D E c) s t"
  using good_runCall [OF assms(1,2)] assms(3)
  by (cases r; simp add: wp_def escrow_good_def)+

inductive escrow_step ::
  "'d edeps_scheme \<Rightarrow> 'x estate_scheme \<Rightarrow> 'x estate_scheme \<Rightarrow> bool" for D where
  call: "call_ok E c \<Longrightarrow> runCall D E c s = (r, t) \<Longrightarrow> escrow_step D s t"
| params: "escrow_step D s (s\<lparr>paramVals := p\<rparr>)"
| accounts: "chain.more t = chain.more s \<Longrightarrow> escrow_step D s t"

inductive escrow_reach ::
  "'d edeps_scheme \<Rightarrow> 'x estate_scheme \<Rightarrow> 'x estate_scheme \<Rightarrow> bool" for D where
  here: "escrow_reach D s s"
| more: "escrow_reach D s t \<Longrightarrow> escrow_step D t u \<Longrightarrow> escrow_reach D s u"

inductive_cases escrow_stepE: "escrow_step D s t"

definition some_call_allows :: "'d edeps_scheme \<Rightarrow> allowance" where
  "some_call_allows D eid e e' \<longleftrightarrow> (\<exists>E c. call_allows D E c eid e e')"

lemma step_good:
  assumes "acct_ok D s" and "escrow_step D s t"
  shows "acct_ok D t" and "esc_rel D (some_call_allows D) s t"
proof -
  have "acct_ok D t \<and> esc_rel D (some_call_allows D) s t"
    using assms(2)
  proof (cases rule: escrow_step.cases)
    case (call E c r)
    from runCall_good [OF assms(1) call] show ?thesis
      by (auto simp: esc_rel_def some_call_allows_def) metis
  next
    case (params p)
    have eq: "escPart t = escPart s" by (simp add: params escPart_def)
    show ?thesis using assms(1) by (simp add: escPart_good [OF eq])
  next
    case accounts
    with assms(1) show ?thesis by (simp add: acct_ok_more [OF accounts] esc_rel_more [OF accounts])
  qed
  then show "acct_ok D t" "esc_rel D (some_call_allows D) s t" by auto
qed

lemma reach_acct_ok: "escrow_reach D s t \<Longrightarrow> acct_ok D s \<Longrightarrow> acct_ok D t"
  by (induction rule: escrow_reach.induct) (auto dest: step_good)

lemma settled_not_allowed: "some_call_allows D eid e e' \<Longrightarrow> \<not> settled (escStatus e)"
  by (auto simp: some_call_allows_def settled_def release_guard_def elim!: call_allows.elims)

lemma reach_settled:
  "escrow_reach D s t \<Longrightarrow> acct_ok D s \<Longrightarrow> EscrowGet D eid s = Some e \<Longrightarrow> settled (escStatus e) \<Longrightarrow>
   EscrowGet D eid t = Some e"
proof (induction rule: escrow_reach.induct)
  case (more s t u)
  from more.hyps(1) more.prems(1) have ok: "acct_ok D t" by (rule reach_acct_ok)
  from more.IH [OF more.prems] have get: "EscrowGet D eid t = Some e" .
  from step_good(2) [OF ok more.hyps(2)] get
  obtain e' where "EscrowGet D eid u = Some e'" "e' = e \<or> some_call_allows D eid e e'"
    unfolding esc_rel_def by blast
  with more.prems(3) show ?case using settled_not_allowed by blast
qed simp

lemma acct_ok_empty:
  "deps_ok D \<Longrightarrow> escrowRecs s = Map.empty \<Longrightarrow> vaultBals s = (\<lambda>_ _. 0) \<Longrightarrow> acct_ok D s"
  by (simp add: acct_ok_def store_ok_def track_ok_def)

end
