(* ===== verification/EscrowFunds.thy ===== *)
theory EscrowFunds
  imports EscrowProps
begin

text \<open>
  Where the money goes: what a successful call of the escrow engine does to account
  balances. Solvency of the vault, conservation of the supply and the exact amounts paid
  follow from the transfers, each of which is described by \<open>pays\<close>.
\<close>

section \<open>Balances\<close>

definition vaultAddr :: "'d edeps_scheme \<Rightarrow> string \<Rightarrow> address" where
  "vaultAddr D token = ucast (keccak256 D (''module/escrow/vault/'' @ token))"

lemma al_supply: "account_ledger.total (acctOf D) c s = totalSupply D c s"
  by (simp add: al.total_def totalSupply_def al_bal_fun)

text \<open>\<open>pays D c from xs s t\<close>: the account \<open>from\<close> has paid the listed amounts of the coin \<open>c\<close>,
  every other coin and the invariant are as before.\<close>

definition credits :: "(address \<times> int) list \<Rightarrow> address \<Rightarrow> int" where
  "credits xs a = (\<Sum>(b, v)\<leftarrow>xs. if b = a then v else 0)"

definition pays ::
  "'d deps_scheme \<Rightarrow> coin \<Rightarrow> address \<Rightarrow> (address \<times> int) list \<Rightarrow> 'x chain_scheme \<Rightarrow> 'x chain_scheme \<Rightarrow> bool"
where
  "pays D c from xs s t \<longleftrightarrow> chain_inv D t
     \<and> (\<forall>a. coinBalance D c t a = coinBalance D c s a + credits xs a
            - (if a = from then \<Sum>(b, v)\<leftarrow>xs. v else 0))
     \<and> (\<forall>c'. c' \<noteq> c \<longrightarrow> coinBalance D c' t = coinBalance D c' s)"

lemma credits_simps [simp]: "credits [] a = 0" "credits ((b, v) # xs) a = (if b = a then v else 0) + credits xs a"
  by (simp_all add: credits_def)

lemma credits_append [simp]: "credits (xs @ ys) a = credits xs a + credits ys a"
  by (simp add: credits_def)

lemma pays_nil: "chain_inv D s \<Longrightarrow> pays D c from [] s s"
  by (simp add: pays_def)

lemma pays_trans: "pays D c from xs s t \<Longrightarrow> pays D c from ys t u \<Longrightarrow> pays D c from (xs @ ys) s u"
  by (auto simp: pays_def)

lemma pays_inv: "pays D c from xs s t \<Longrightarrow> chain_inv D t"
  by (simp add: pays_def)

lemma sum_credits: "(\<Sum>a\<in>UNIV. credits xs a) = (\<Sum>(b, v)\<leftarrow>xs. v)"
  by (induction xs) (auto simp: sum.distrib)

lemma pays_supply:
  assumes "pays D c from xs s t"
  shows "totalSupply D c' t = totalSupply D c' s"
proof (cases "c' = c")
  case True
  have "totalSupply D c t = totalSupply D c s + (\<Sum>a\<in>UNIV. credits xs a)
      - (\<Sum>a\<in>UNIV. if a = from then \<Sum>(b, v)\<leftarrow>xs. v else 0)"
    using assms by (simp add: totalSupply_def pays_def sum.distrib sum_subtractf)
  then show ?thesis using True by (simp add: sum_credits)
next
  case False
  then show ?thesis using assms by (simp add: totalSupply_def pays_def)
qed

text \<open>A successful transfer, to another account or (as the code has it) to oneself.\<close>

lemma move_pays:
  assumes "chain_inv D s" and "NormalizeToken tok = Inr tok" and "0 \<le> amt" and "from \<noteq> to"
    and "moveToken D from to tok amt s = (Inr u, t)"
  shows "pays D (tokenCoin tok) from [(to, amt)] s t"
proof (cases "amt = 0")
  case True
  with assms(1,5) show ?thesis by (simp add: transferToken_def retE_def pays_def)
next
  case False
  with assms(3) have "0 < amt" by simp
  from assms(1,2) this assms(5) show ?thesis
    by (cases rule: al.transfer_cases) (use assms(4) in \<open>auto simp: pays_def al_bal_fun\<close>)
qed

lemma move_vault:
  assumes "chain_inv D s" and "NormalizeToken tok = Inr tok" and "0 \<le> amt"
    and "moveToken D from to tok amt s = (Inr u, t)"
  shows "chain_inv D t" and "coinBalance D (tokenCoin tok) s from - amt \<le> coinBalance D (tokenCoin tok) t from"
    and "coinBalance D (tokenCoin tok) s to + amt \<le> coinBalance D (tokenCoin tok) t to"
    and "c \<noteq> tokenCoin tok \<Longrightarrow> coinBalance D c t = coinBalance D c s"
proof -
  have "chain_inv D t \<and> coinBalance D (tokenCoin tok) s from - amt \<le> coinBalance D (tokenCoin tok) t from
    \<and> coinBalance D (tokenCoin tok) s to + amt \<le> coinBalance D (tokenCoin tok) t to
    \<and> (c \<noteq> tokenCoin tok \<longrightarrow> coinBalance D c t = coinBalance D c s)"
  proof (cases "amt = 0")
    case True
    with assms(1,4) show ?thesis by (simp add: transferToken_def retE_def)
  next
    case False
    with assms(3) have "0 < amt" by simp
    from assms(1,2) this assms(4) show ?thesis
      by (cases rule: al.transfer_cases) (use assms(3) in \<open>auto simp: al_bal_fun\<close>)
  qed
  then show "chain_inv D t" "coinBalance D (tokenCoin tok) s from - amt \<le> coinBalance D (tokenCoin tok) t from"
    "coinBalance D (tokenCoin tok) s to + amt \<le> coinBalance D (tokenCoin tok) t to"
    "c \<noteq> tokenCoin tok \<Longrightarrow> coinBalance D c t = coinBalance D c s" by auto
qed

lemma moveToken_more: "moveToken D from to tok amt s = (r, t) \<Longrightarrow> chain.more t = chain.more s"
  by (rule frameD [OF chainOnly_moveToken])

section \<open>The transfers of a settlement\<close>

definition settlement :: "engine \<Rightarrow> address \<Rightarrow> int \<times> int \<times> int \<times> address \<Rightarrow> (address \<times> int) list" where
  "settlement E winner amounts = (case amounts of (payout, fee, realmFee, realmPayee) \<Rightarrow>
     [(winner, payout), (feeTreasury E, fee), (realmPayee, realmFee)])"

definition amounts_ok :: "int \<Rightarrow> int \<times> int \<times> int \<times> address \<Rightarrow> bool" where
  "amounts_ok whole amounts \<longleftrightarrow> (case amounts of (payout, fee, realmFee, realmPayee) \<Rightarrow>
     0 \<le> payout \<and> 0 \<le> fee \<and> 0 \<le> realmFee \<and> payout + fee + realmFee = whole)"

lemma calculateFee_bounds:
  assumes "0 \<le> amount"
  shows "0 \<le> calculateFee amount bps"
    and "bps \<le> 10000 \<Longrightarrow> calculateFee amount bps \<le> amount"
proof -
  have "0 \<le> amount * uint bps" using assms by simp
  then show "0 \<le> calculateFee amount bps" by (simp add: calculateFee_def pos_imp_zdiv_nonneg_iff)
  show "calculateFee amount bps \<le> amount" if "bps \<le> 10000"
  proof -
    have "uint bps \<le> 10000" using that by (simp add: word_le_def)
    then have "amount * uint bps \<le> amount * 10000" using assms by (intro mult_left_mono) auto
    then have "amount * uint bps div 10000 \<le> amount * 10000 div 10000" by (rule zdiv_mono1) simp
    then show ?thesis using assms by (simp add: calculateFee_def)
  qed
qed

lemma computeDisputePayouts_ok:
  assumes "computeDisputePayouts e = Inr amounts"
  shows "amounts_ok (escAmount e) amounts"
  using assms calculateFee_bounds(1) [of "escAmount e"]
  by (auto simp: computeDisputePayouts_def Let_def amounts_ok_def split: option.splits)

lemma releaseAmounts_ok:
  assumes "releaseAmounts e = Inr amounts" and "0 \<le> escAmount e" and "escFeeBps e \<le> 10000"
  shows "amounts_ok (escAmount e) amounts"
  using assms calculateFee_bounds [of "escAmount e"]
  by (auto simp: releaseAmounts_def Let_def amounts_ok_def computeDisputePayouts_ok split: if_splits
      dest: computeDisputePayouts_ok)

lemma opt_move:
  assumes "chain_inv D s" and "NormalizeToken tok = Inr tok" and "0 \<le> amt"
    and "(if 0 < amt then moveToken D from to tok amt else retE ()) s = (Inr u, t)"
  shows "chain_inv D t" and "chain.more t = chain.more s"
    and "coinBalance D (tokenCoin tok) s from - amt \<le> coinBalance D (tokenCoin tok) t from"
    and "c \<noteq> tokenCoin tok \<Longrightarrow> coinBalance D c t = coinBalance D c s"
    and "from \<noteq> to \<Longrightarrow> pays D (tokenCoin tok) from [(to, amt)] s t"
proof -
  have run: "moveToken D from to tok amt s = (Inr u, t)"
    using assms(3,4) by (auto simp: transferToken_def split: if_splits)
  show "chain_inv D t" "chain.more t = chain.more s"
    "coinBalance D (tokenCoin tok) s from - amt \<le> coinBalance D (tokenCoin tok) t from"
    "c \<noteq> tokenCoin tok \<Longrightarrow> coinBalance D c t = coinBalance D c s"
    "from \<noteq> to \<Longrightarrow> pays D (tokenCoin tok) from [(to, amt)] s t"
    using move_vault [OF assms(1-3) run] move_pays [OF assms(1-3) _ run] moveToken_more [OF run] by auto
qed

lemma payOut_moves:
  assumes "payOut D E vault winner tok (payout, fee, realmFee, rp) s = (Inr u, t)"
  obtains s1 s2 where
    "(if 0 < payout then moveToken D vault winner tok payout else retE ()) s = (Inr (), s1)"
    "(if 0 < fee then moveToken D vault (feeTreasury E) tok fee else retE ()) s1 = (Inr (), s2)"
    "(if 0 < realmFee then moveToken D vault rp tok realmFee else retE ()) s2 = (Inr (), t)"
  using assms
  by (auto simp: payOut_def run_simps ensureTreasuryConfigured_def split: if_splits intro!: that)

text \<open>A successful settlement takes at most the total out of the vault, and exactly the listed
  payments when nobody is paid into the vault itself.\<close>

lemma payOut_vault:
  assumes "chain_inv D s" and "NormalizeToken tok = Inr tok" and "amounts_ok whole amounts"
    and "payOut D E vault winner tok amounts s = (Inr u, t)"
  shows "chain_inv D t" and "chain.more t = chain.more s"
    and "coinBalance D (tokenCoin tok) s vault - whole \<le> coinBalance D (tokenCoin tok) t vault"
    and "c \<noteq> tokenCoin tok \<Longrightarrow> coinBalance D c t = coinBalance D c s"
    and "vault \<noteq> winner \<Longrightarrow> vault \<noteq> feeTreasury E \<Longrightarrow> vault \<noteq> snd (snd (snd amounts)) \<Longrightarrow>
      pays D (tokenCoin tok) vault (settlement E winner amounts) s t"
proof -
  obtain payout fee realmFee rp where am: "amounts = (payout, fee, realmFee, rp)" by (cases amounts) auto
  with assms(3) have nn: "0 \<le> payout" "0 \<le> fee" "0 \<le> realmFee" and tot: "payout + fee + realmFee = whole"
    by (auto simp: amounts_ok_def)
  obtain s1 s2 where
    m1: "(if 0 < payout then moveToken D vault winner tok payout else retE ()) s = (Inr (), s1)"
    and m2: "(if 0 < fee then moveToken D vault (feeTreasury E) tok fee else retE ()) s1 = (Inr (), s2)"
    and m3: "(if 0 < realmFee then moveToken D vault rp tok realmFee else retE ()) s2 = (Inr (), t)"
    using payOut_moves assms(4) unfolding am by blast
  note o1 = opt_move [OF assms(1,2) nn(1) m1]
  note o2 = opt_move [OF o1(1) assms(2) nn(2) m2]
  note o3 = opt_move [OF o2(1) assms(2) nn(3) m3]
  show "chain_inv D t" "chain.more t = chain.more s"
    "c \<noteq> tokenCoin tok \<Longrightarrow> coinBalance D c t = coinBalance D c s"
    using o1 o2 o3 by auto
  show "coinBalance D (tokenCoin tok) s vault - whole \<le> coinBalance D (tokenCoin tok) t vault"
    using o1(3) o2(3) o3(3) tot by linarith
  show "pays D (tokenCoin tok) vault (settlement E winner amounts) s t"
    if "vault \<noteq> winner" "vault \<noteq> feeTreasury E" "vault \<noteq> snd (snd (snd amounts))"
    using pays_trans [OF pays_trans [OF o1(5) o2(5)] o3(5)] that by (simp add: am settlement_def)
qed

section \<open>The effect of a successful call on the funds\<close>

definition fundPart where
  "fundPart s = (stateAccounts s, accountMetas s, vaultBals s)"

lemma acctOf_stored:
  assumes "stateAccounts s = stateAccounts t" and "accountMetas s = accountMetas t"
  shows "acct_eq (acctOf D s a) (acctOf D t a)"
  using assms by (simp add: acctOf_def account_defs run_defs assembleAccount_def ensureAccountDefaults_def acct_eq_def)

lemma funds_cong:
  assumes "stateAccounts s = stateAccounts t" and "accountMetas s = accountMetas t"
  shows "coinBalance D c s = coinBalance D c t" and "chain_inv D s = chain_inv D t"
proof -
  note eq = acctOf_stored [OF assms, of D]
  show "coinBalance D c s = coinBalance D c t"
    using acct_eq_coin [OF eq] by (simp add: coinBalance_def fun_eq_iff)
  show "chain_inv D s = chain_inv D t"
    using acct_eq_fields [OF eq] by (simp add: chain_inv_def acct_fits_def acct_nonneg_def)
qed

lemma fund_frames [frame_rules]:
  "frame fundPart (emitEvent ev)" "frame fundPart (EscrowRealmPut D r)" "frame fundPart (EscrowPut D e)"
  "frame fundPart (EscrowFrozenPolicyPut D eid f)"
  unfolding emitEvent_def EscrowRealmPut_def EscrowPut_def EscrowFrozenPolicyPut_def
  by (rule frame_rules frame_modifyE | simp add: fundPart_def)+

lemma frame_loadEscrow [frame_rules]: "frame f (loadEscrow D eid)"
  unfolding loadEscrow_def by (rule frame_rules)+

lemma fund_frame_calls:
  "frame fundPart (CreateRealm D E r)" "frame fundPart (UpdateRealm D E r)"
  "frame fundPart (Dispute D E eid caller reason)"
  "frame fundPart (Create D E payer payee token amt feeBps deadline nonce med metaHash realmId)"
  unfolding CreateRealm_def UpdateRealm_def Dispute_def Create_def createFresh_def storeEscrow_def
  by (rule frame_rules)+

text \<open>The three kinds of successful calls: nothing moves, an escrow is funded, an escrow is
  settled.\<close>

definition funds_effect :: "'d edeps_scheme \<Rightarrow> engine \<Rightarrow> 'x estate_scheme \<Rightarrow> 'x estate_scheme \<Rightarrow> bool" where
  "funds_effect D E s t \<longleftrightarrow>
     fundPart t = fundPart s
   \<or> (\<exists>eid e u. EscrowGet D eid s = Some e \<and> escStatus e = EscrowInit
        \<and> moveToken D (Payer e) (vaultAddr D (escToken e)) (escToken e) (escAmount e) s = (Inr (), u)
        \<and> fundPart t = (stateAccounts u, accountMetas u,
             (vaultBals s)(eid := (vaultBals s eid)(escToken e := escAmount e))))
   \<or> (\<exists>eid e winner amounts u. EscrowGet D eid s = Some e
        \<and> (escStatus e = EscrowFunded \<or> escStatus e = EscrowDisputed)
        \<and> (winner = Payer e \<or> winner = Payee e) \<and> amounts_ok (escAmount e) amounts
        \<and> (snd (snd (snd amounts)) = 0 \<or> (\<exists>f sc. escFrozenArb e = Some f
              \<and> arbFeeSchedule f = Some sc \<and> schedRecipient sc = snd (snd (snd amounts))))
        \<and> payOut D E (vaultAddr D (escToken e)) winner (escToken e) amounts s = (Inr (), u)
        \<and> fundPart t = (stateAccounts u, accountMetas u, (vaultBals s)(eid := (\<lambda>_. 0))))"

lemma funds_effect_cases:
  assumes "funds_effect D E s t"
  obtains (none) "fundPart t = fundPart s"
  | (funded) eid e u where "EscrowGet D eid s = Some e" and "escStatus e = EscrowInit"
      and "moveToken D (Payer e) (vaultAddr D (escToken e)) (escToken e) (escAmount e) s = (Inr (), u)"
      and "fundPart t = (stateAccounts u, accountMetas u,
             (vaultBals s)(eid := (vaultBals s eid)(escToken e := escAmount e)))"
  | (settled) eid e winner amounts u where "EscrowGet D eid s = Some e"
      and "escStatus e = EscrowFunded \<or> escStatus e = EscrowDisputed"
      and "winner = Payer e \<or> winner = Payee e" and "amounts_ok (escAmount e) amounts"
      and "snd (snd (snd amounts)) = 0 \<or> (\<exists>f sc. escFrozenArb e = Some f
              \<and> arbFeeSchedule f = Some sc \<and> schedRecipient sc = snd (snd (snd amounts)))"
      and "payOut D E (vaultAddr D (escToken e)) winner (escToken e) amounts s = (Inr (), u)"
      and "fundPart t = (stateAccounts u, accountMetas u, (vaultBals s)(eid := (\<lambda>_. 0)))"
  using assms unfolding funds_effect_def by blast

lemma EscrowVaultAddress_run:
  "NormalizeToken tok = Inr tok \<Longrightarrow> EscrowVaultAddress D tok s = (Inr (vaultAddr D tok), s)"
  by (simp add: EscrowVaultAddress_def escrowModuleAddress_def liftE_def vaultAddr_def)

lemma guard_load_run:
  "guardE p s = (Inr u, t) \<longleftrightarrow> Guard p ''escrow'' = Inr u \<and> t = s"
  "loadEscrow D eid s = (Inr e, t) \<longleftrightarrow> EscrowGet D eid s = Some e \<and> t = s"
  by (auto simp: guardE_def loadEscrow_def run_simps split: option.splits)

lemma close_effect:
  assumes "acct_ok D s" and "EscrowGet D eid s = Some e"
    and "escStatus e = EscrowFunded \<or> escStatus e = EscrowDisputed" and "settled st"
    and "esc = e\<lparr>ResolutionHash := h\<rparr>" and "chain.more u = chain.more s"
    and "closeEscrow D eid esc st ev u = (Inr (), t)"
  shows "fundPart t = (stateAccounts u, accountMetas u, (vaultBals s)(eid := (\<lambda>_. 0)))"
proof -
  have "acct_ok D u" "EscrowGet D eid u = Some e" "vaultBals u = vaultBals s"
    using assms(1,2) by (simp_all add: acct_ok_more [OF assms(6)] EscrowGet_more [OF assms(6)] more_cong(3) [OF assms(6)])
  with wp_closeEscrow [where A = "\<lambda>_ _ _. True", of D u eid e st esc h ev] assms
  show ?thesis by (auto dest: wp_ok simp: fundPart_def)
qed

lemma close_succeeds:
  assumes "acct_ok D s" and "EscrowGet D eid s = Some e"
    and "escStatus e = EscrowFunded \<or> escStatus e = EscrowDisputed" and "settled st"
    and "esc = e\<lparr>ResolutionHash := h\<rparr>" and "chain.more u = chain.more s"
  shows "\<exists>t. closeEscrow D eid esc st ev u = (Inr (), t) \<and> EscrowGet D eid t = Some (esc\<lparr>escStatus := st\<rparr>)"
proof -
  have "acct_ok D u" "EscrowGet D eid u = Some e"
    using assms(1,2) by (simp_all add: acct_ok_more [OF assms(6)] EscrowGet_more [OF assms(6)])
  from wp_closeEscrow [where A = "\<lambda>_ _ _. True" and ev = ev, OF this assms(3,4) _ assms(5)]
  show ?thesis by (auto simp: wp_def split: prod.splits sum.splits)
qed

lemma payOut_more: "payOut D E v w tok am s = (r, u) \<Longrightarrow> chain.more u = chain.more s"
  by (rule frameD [OF chainOnly_payOut])

lemma disputeRecipient:
  "computeDisputePayouts e = Inr am \<Longrightarrow> snd (snd (snd am)) = 0 \<or> (\<exists>f sc. escFrozenArb e = Some f
     \<and> arbFeeSchedule f = Some sc \<and> schedRecipient sc = snd (snd (snd am)))"
  by (auto simp: computeDisputePayouts_def Let_def split: option.splits)

text \<open>A settlement that went through is the third kind.\<close>

lemma settle_effect:
  assumes "acct_ok D s" and "EscrowGet D eid s = Some e"
    and "escStatus e = EscrowFunded \<or> escStatus e = EscrowDisputed" and "settled st"
    and "esc = e\<lparr>ResolutionHash := h\<rparr>" and "winner = Payer e \<or> winner = Payee e"
    and "releaseAmounts esc = Inr am \<or> computeDisputePayouts esc = Inr am \<or> am = (escAmount e, 0, 0, 0)"
    and "payOut D E (vaultAddr D (escToken e)) winner (escToken e) am s = (Inr (), u)"
    and "closeEscrow D eid esc st ev u = (Inr (), t)"
  shows "funds_effect D E s t"
proof -
  note loaded = acct_ok_loaded [OF assms(1,2)]
  have same: "escAmount esc = escAmount e" "escFeeBps esc = escFeeBps e" "escFrozenArb esc = escFrozenArb e"
    using assms(5) by simp_all
  have "amounts_ok (escAmount e) am"
    using assms(7) releaseAmounts_ok [of esc am] computeDisputePayouts_ok [of esc am] loaded(4)
      escrow_wf_fee [OF loaded(1)] same by (auto simp: amounts_ok_def)
  moreover have "snd (snd (snd am)) = 0 \<or> (\<exists>f sc. escFrozenArb e = Some f
     \<and> arbFeeSchedule f = Some sc \<and> schedRecipient sc = snd (snd (snd am)))"
    using assms(7) disputeRecipient [of esc am] same
    by (auto simp: releaseAmounts_def Let_def split: if_splits)
  ultimately show ?thesis
    using assms(2,3,6,8) close_effect [OF assms(1-5) payOut_more [OF assms(8)] assms(9)]
    unfolding funds_effect_def by blast
qed

lemma refund_payOut:
  "0 < amt \<Longrightarrow> payOut D E v w tok (amt, 0, 0, 0) s = moveToken D v w tok amt s"
  by (auto simp: payOut_def bindE_def retE_def split: prod.splits sum.splits)

lemma effect_none: "fundPart t = fundPart s \<Longrightarrow> funds_effect D E s t"
  by (simp add: funds_effect_def)

lemma effect_same: "funds_effect D E s t \<Longrightarrow> fundPart u = fundPart t \<Longrightarrow> funds_effect D E s u"
  unfolding funds_effect_def by metis

lemma effect_emit:
  "funds_effect D E s u \<Longrightarrow> emitEvent ev u = (Inr (), t) \<Longrightarrow> funds_effect D E s t"
  by (erule effect_same) (rule frameD [OF fund_frames(1)])

lemmas call_run = run_simps guard_load_run

text \<open>What a successful call went through.\<close>

lemma Fund_run:
  assumes "acct_ok D s" and "Fund D E eid from s = (Inr (), t)"
  obtains (again) e where "EscrowGet D eid s = Some e" and "escStatus e = EscrowFunded" and "t = s"
  | (funded) e u where "EscrowGet D eid s = Some e" and "escStatus e = EscrowInit" and "Payer e = from"
      and "Guard (engPauses E) ''escrow'' = Inr ()"
      and "moveToken D (Payer e) (vaultAddr D (escToken e)) (escToken e) (escAmount e) s = (Inr (), u)"
      and "fundPart t = (stateAccounts u, accountMetas u,
             (vaultBals s)(eid := (vaultBals s eid)(escToken e := escAmount e)))"
      and "EscrowGet D eid t = Some (e\<lparr>escStatus := EscrowFunded\<rparr>)"
proof -
  obtain e where e: "EscrowGet D eid s = Some e" and g: "Guard (engPauses E) ''escrow'' = Inr ()"
    using assms(2) by (auto simp: Fund_def call_run)
  note loaded = acct_ok_loaded [OF assms(1) e]
  show ?thesis
  proof (cases "escStatus e = EscrowFunded")
    case True
    with e assms(2) have "t = s" by (simp add: Fund_def call_run)
    with e True show ?thesis by (rule again)
  next
    case False
    with e assms(2) loaded(3) obtain u where st: "escStatus e = EscrowInit" and p: "Payer e = from"
      and mv: "moveToken D (Payer e) (vaultAddr D (escToken e)) (escToken e) (escAmount e) s = (Inr (), u)"
      and tail: "bindE (EscrowCredit eid (escToken e) (escAmount e)) (\<lambda>_.
        bindE (storeEscrow D (e\<lparr>escStatus := EscrowFunded\<rparr>)) (\<lambda>_.
        emitEvent (NewFundedEvent D (e\<lparr>escStatus := EscrowFunded\<rparr>)))) u = (Inr (), t)"
      by (auto simp: Fund_def call_run EscrowVaultAddress_run Let_def)
    note more = moveToken_more [OF mv]
    have "acct_ok D u" "EscrowGet D eid u = Some e" "vaultBals u = vaultBals s"
      using assms(1) e by (simp_all add: acct_ok_more [OF more] EscrowGet_more [OF more] more_cong(3) [OF more])
    with wp_fundTail [where A = "\<lambda>_ _ _. True", of D u eid e] st tail
    have "fundPart t = (stateAccounts u, accountMetas u,
             (vaultBals s)(eid := (vaultBals s eid)(escToken e := escAmount e)))"
      and "EscrowGet D eid t = Some (e\<lparr>escStatus := EscrowFunded\<rparr>)"
      by (auto dest!: wp_ok simp: fundPart_def)
    with e st p g mv show ?thesis by (rule funded)
  qed
qed

lemma Release_run:
  assumes "acct_ok D s" and "Release D E eid caller s = (Inr (), t)"
  obtains (again) e where "EscrowGet D eid s = Some e" and "escStatus e = EscrowReleased" and "t = s"
  | (released) e am u where "EscrowGet D eid s = Some e"
      and "escStatus e = EscrowFunded \<or> escStatus e = EscrowDisputed"
      and "Guard (engPauses E) ''escrow'' = Inr ()" and "releaseAmounts e = Inr am"
      and "payOut D E (vaultAddr D (escToken e)) (Payee e) (escToken e) am s = (Inr (), u)"
      and "closeEscrow D eid e EscrowReleased (NewReleasedEvent D) u = (Inr (), t)"
      and "EscrowGet D eid t = Some (e\<lparr>escStatus := EscrowReleased\<rparr>)"
proof -
  obtain e where e: "EscrowGet D eid s = Some e" and g: "Guard (engPauses E) ''escrow'' = Inr ()"
    using assms(2) by (auto simp: Release_def call_run)
  note loaded = acct_ok_loaded [OF assms(1) e]
  show ?thesis
  proof (cases "escStatus e = EscrowReleased")
    case True
    with e assms(2) have "t = s" by (simp add: Release_def call_run)
    with e True show ?thesis by (rule again)
  next
    case False
    with e assms(2) loaded(3) obtain am u where st: "escStatus e = EscrowFunded \<or> escStatus e = EscrowDisputed"
      and am: "releaseAmounts e = Inr am"
      and po: "payOut D E (vaultAddr D (escToken e)) (Payee e) (escToken e) am s = (Inr (), u)"
      and cl: "closeEscrow D eid e EscrowReleased (NewReleasedEvent D) u = (Inr (), t)"
      by (auto simp: Release_def call_run EscrowVaultAddress_run Let_def)
    have "EscrowGet D eid t = Some (e\<lparr>escStatus := EscrowReleased\<rparr>)"
      using close_succeeds [OF assms(1) e st _ escrow_self [symmetric] payOut_more [OF po], of EscrowReleased "NewReleasedEvent D"] cl
      by (auto simp: settled_def)
    with e st g am po cl show ?thesis by (rule released)
  qed
qed

lemma arbitrated_run:
  assumes "acct_ok D s" and "EscrowGet D eid s = Some e" and "escStatus e = EscrowDisputed"
    and "arbitratedRelease D E (e\<lparr>ResolutionHash := h\<rparr>) s = (Inr (), t)
      \<or> arbitratedRefund D E (e\<lparr>ResolutionHash := h\<rparr>) s = (Inr (), t)"
  obtains am u w st ev where
    "releaseAmounts (e\<lparr>ResolutionHash := h\<rparr>) = Inr am \<or> computeDisputePayouts (e\<lparr>ResolutionHash := h\<rparr>) = Inr am"
    and "w = Payer e \<or> w = Payee e" and "settled st"
    and "payOut D E (vaultAddr D (escToken e)) w (escToken e) am s = (Inr (), u)"
    and "closeEscrow D eid (e\<lparr>ResolutionHash := h\<rparr>) st ev u = (Inr (), t)"
    and "EscrowGet D eid t = Some (e\<lparr>ResolutionHash := h, escStatus := st\<rparr>)"
proof -
  let ?e = "e\<lparr>ResolutionHash := h\<rparr>"
  note loaded = acct_ok_loaded [OF assms(1,2)]
  from assms(3,4) loaded(2,3) obtain am u w st ev where am:
    "releaseAmounts ?e = Inr am \<or> computeDisputePayouts ?e = Inr am" and w: "w = Payer e \<or> w = Payee e"
    and st: "settled st" and po: "payOut D E (vaultAddr D (escToken e)) w (escToken e) am s = (Inr (), u)"
    and cl: "closeEscrow D eid ?e st ev u = (Inr (), t)"
    unfolding arbitratedRelease_def arbitratedRefund_def
    by (auto simp: call_run EscrowVaultAddress_run settled_def) metis+
  have "EscrowGet D eid t = Some (e\<lparr>ResolutionHash := h, escStatus := st\<rparr>)"
    using close_succeeds [OF assms(1,2) _ st refl payOut_more [OF po], of h ev] assms(3) cl by simp
  with am w st po cl show ?thesis by (rule that)
qed

lemma refundEscrow_run:
  assumes "acct_ok D s" and "EscrowGet D eid s = Some e" and "escStatus e = EscrowFunded" and "settled st"
    and "refundEscrow D e (Payer e) st ev s = (Inr (), t)"
  obtains u where "0 < escAmount e"
    and "moveToken D (vaultAddr D (escToken e)) (Payer e) (escToken e) (escAmount e) s = (Inr (), u)"
    and "closeEscrow D eid e st ev u = (Inr (), t)"
    and "EscrowGet D eid t = Some (e\<lparr>escStatus := st\<rparr>)"
proof -
  note loaded = acct_ok_loaded [OF assms(1,2)]
  from assms(3-5) loaded(2,3) obtain u where amt: "0 < escAmount e"
    and mv: "moveToken D (vaultAddr D (escToken e)) (Payer e) (escToken e) (escAmount e) s = (Inr (), u)"
    and cl: "closeEscrow D eid e st ev u = (Inr (), t)"
    by (auto simp: refundEscrow_def call_run EscrowVaultAddress_run settled_def)
  have "EscrowGet D eid t = Some (e\<lparr>escStatus := st\<rparr>)"
    using close_succeeds [OF assms(1,2) _ assms(4) escrow_self [symmetric] moveToken_more [OF mv], of ev] assms(3) cl
    by simp
  with amt mv cl show ?thesis by (rule that)
qed

lemma effect_Fund:
  assumes "acct_ok D s" and "Fund D E eid from s = (Inr (), t)"
  shows "funds_effect D E s t"
  using assms
proof (cases rule: Fund_run)
  case (funded e u)
  then show ?thesis unfolding funds_effect_def by blast
qed (simp add: effect_none)

lemma effect_Release:
  assumes "acct_ok D s" and "Release D E eid caller s = (Inr (), t)"
  shows "funds_effect D E s t"
  using assms
proof (cases rule: Release_run)
  case (released e am u)
  then show ?thesis
    by (intro settle_effect [OF assms(1) released(1,2) _ escrow_self [symmetric]]) (auto simp: settled_def)
qed (simp add: effect_none)

lemma effect_arbitrated:
  assumes "acct_ok D s" and "EscrowGet D eid s = Some e" and "escStatus e = EscrowDisputed"
    and "arbitratedRelease D E (e\<lparr>ResolutionHash := h\<rparr>) s = (Inr (), t)
      \<or> arbitratedRefund D E (e\<lparr>ResolutionHash := h\<rparr>) s = (Inr (), t)"
  shows "funds_effect D E s t"
  using assms
proof (cases rule: arbitrated_run)
  case (1 am u w st ev)
  then show ?thesis using assms(3) by (intro settle_effect [OF assms(1,2) _ _ refl]) auto
qed

lemma effect_refundEscrow:
  assumes "acct_ok D s" and "EscrowGet D eid s = Some e" and "escStatus e = EscrowFunded" and "settled st"
    and "refundEscrow D e (Payer e) st ev s = (Inr (), t)"
  shows "funds_effect D E s t"
  using assms
proof (cases rule: refundEscrow_run)
  case (1 u)
  then show ?thesis using assms(3,4)
    by (intro settle_effect [OF assms(1,2) _ _ escrow_self [symmetric], where am = "(escAmount e, 0, 0, 0)"])
      (auto simp: refund_payOut)
qed

lemma effect_runCall:
  assumes "acct_ok D s" and "runCall D E c s = (Inr (), t)"
  shows "funds_effect D E s t"
proof (cases c)
  case (CallRefund eid caller)
  with assms(2) obtain e where "EscrowGet D eid s = Some e"
    and "t = s \<or> escStatus e = EscrowFunded \<and> refundEscrow D e (Payer e) EscrowRefunded (NewRefundedEvent D) s = (Inr (), t)"
    by (auto simp: Refund_def call_run split: if_splits)
  then show ?thesis
    using effect_refundEscrow [OF assms(1), of eid e EscrowRefunded] by (auto simp: effect_none settled_def)
next
  case (CallExpire eid now)
  with assms(2) obtain e where "EscrowGet D eid s = Some e"
    and "t = s \<or> escStatus e = EscrowFunded \<and> refundEscrow D e (Payer e) EscrowExpired (NewExpiredEvent D) s = (Inr (), t)"
    by (auto simp: Expire_def call_run split: if_splits)
  then show ?thesis
    using effect_refundEscrow [OF assms(1), of eid e EscrowExpired] by (auto simp: effect_none settled_def)
next
  case (CallResolve eid caller outcome)
  with assms(2) have run: "Resolve D E eid caller outcome s = (Inr (), t)" by simp
  then obtain e where e: "EscrowGet D eid s = Some e" by (auto simp: Resolve_def call_run)
  show ?thesis
  proof (cases "settled (escStatus e)")
    case True
    with run e show ?thesis by (simp add: Resolve_def call_run effect_none)
  next
    case False
    with run e obtain d where "ParseDecisionOutcome outcome = Inr d" by (auto simp: Resolve_def call_run)
    with False run e obtain u ev where "escStatus e = EscrowDisputed" and "emitEvent ev u = (Inr (), t)"
      and "Release D E eid caller s = (Inr (), u) \<or> arbitratedRefund D E e s = (Inr (), u)"
      by (cases d) (auto simp: Resolve_def call_run)
    moreover from this have "funds_effect D E s u"
      using effect_Release [OF assms(1)] effect_arbitrated [OF assms(1) e, of E "ResolutionHash e"] by auto
    ultimately show ?thesis using effect_emit by blast
  qed
next
  case (CallResolveWithSignatures eid payload sigs)
  with assms(2) have run: "ResolveWithSignatures D E eid payload sigs s = (Inr (), t)" by simp
  then obtain e where e: "EscrowGet D eid s = Some e" by (auto simp: ResolveWithSignatures_def call_run)
  show ?thesis
  proof (cases "settled (escStatus e)")
    case True
    with run e show ?thesis by (simp add: ResolveWithSignatures_def call_run effect_none)
  next
    case False
    with run e obtain d m h where d: "parseDecisionPayload D eid (escFrozenArb e) payload = Inr (d, m, h)"
      by (auto simp: ResolveWithSignatures_def call_run split: prod.splits)
    show ?thesis
    proof (cases "ResolutionHash e = h")
      case True
      with False run e d show ?thesis by (simp add: ResolveWithSignatures_def call_run effect_none)
    next
      case hash: False
      from False hash run e d obtain u ev where "escStatus e = EscrowDisputed" and "emitEvent ev u = (Inr (), t)"
        and "arbitratedRelease D E (e\<lparr>ResolutionHash := h\<rparr>) s = (Inr (), u)
          \<or> arbitratedRefund D E (e\<lparr>ResolutionHash := h\<rparr>) s = (Inr (), u)"
        by (cases d) (auto simp: ResolveWithSignatures_def call_run Let_def)
      then show ?thesis using effect_emit effect_arbitrated [OF assms(1) e] by blast
    qed
  qed
next
  case (CallCreate a b c d e f g h i j)
  with assms(2) have "fundPart t = fundPart s"
    by (auto simp: ignoreResult_def call_run dest: frameD [OF fund_frame_calls(4)])
  then show ?thesis by (rule effect_none)
qed (use assms effect_Fund effect_Release in
  \<open>auto simp: ignoreResult_def call_run intro: effect_none dest: frameD [OF fund_frame_calls(1)]
    frameD [OF fund_frame_calls(2)] frameD [OF fund_frame_calls(3)]\<close>)

section \<open>Solvency and conservation\<close>

definition trackedTotal :: "string \<Rightarrow> 'x estate_scheme \<Rightarrow> int" where
  "trackedTotal tok s = (\<Sum>eid\<in>UNIV. vaultBals s eid tok)"

text \<open>The vault account of each token holds at least what the escrows of that token track.\<close>

definition solvent :: "'d edeps_scheme \<Rightarrow> 'x estate_scheme \<Rightarrow> bool" where
  "solvent D s \<longleftrightarrow> (\<forall>tok \<in> {''NHB'', ''ZNHB''}.
     trackedTotal tok s \<le> coinBalance D (tokenCoin tok) s (vaultAddr D tok))"

lemma trackedTotal_upd:
  "vaultBals t = (vaultBals s)(eid := g) \<Longrightarrow>
   trackedTotal tok t = trackedTotal tok s - vaultBals s eid tok + g tok"
proof -
  assume eq: "vaultBals t = (vaultBals s)(eid := g)"
  have "trackedTotal tok t = (\<Sum>i\<in>UNIV. vaultBals s i tok + (if i = eid then g tok - vaultBals s eid tok else 0))"
    unfolding trackedTotal_def eq by (intro sum.cong) auto
  then show ?thesis by (simp add: trackedTotal_def sum.distrib)
qed

lemma tokenCoin_inj: "tok \<in> {''NHB'', ''ZNHB''} \<Longrightarrow> tok' \<in> {''NHB'', ''ZNHB''} \<Longrightarrow>
  tokenCoin tok = tokenCoin tok' \<longleftrightarrow> tok = tok'"
  by (auto simp: tokenCoin_def)

lemma solventD: "solvent D s \<Longrightarrow> tok \<in> {''NHB'', ''ZNHB''} \<Longrightarrow>
    trackedTotal tok s \<le> coinBalance D (tokenCoin tok) s (vaultAddr D tok)"
  unfolding solvent_def by (rule bspec)

lemma effect_solvent:
  assumes "acct_ok D s" and "chain_inv D s" and "solvent D s" and "funds_effect D E s t"
  shows "solvent D t" and "chain_inv D t"
proof -
  have "solvent D t \<and> chain_inv D t"
    using assms(4)
  proof (cases rule: funds_effect_cases)
    case none
    then have "stateAccounts t = stateAccounts s" "accountMetas t = accountMetas s" "vaultBals t = vaultBals s"
      by (simp_all add: fundPart_def)
    with assms(2,3) funds_cong [of t s D] show ?thesis by (simp add: solvent_def trackedTotal_def)
  next
    case (funded eid e u)
    note e = funded(1) and st = funded(2) and mv = funded(3) and t = funded(4)
    note loaded = acct_ok_loaded [OF assms(1) e]
    note moved = move_vault [OF assms(2) loaded(3,4) mv]
    have bals: "coinBalance D c t = coinBalance D c u" "chain_inv D t = chain_inv D u" for c
      using t funds_cong [of t u D] by (simp_all add: fundPart_def)
    have zero: "vaultBals s eid = (\<lambda>_. 0)" using tracked [OF assms(1) e] st by (simp add: held_def fun_eq_iff)
    have "vaultBals t = (vaultBals s)(eid := (\<lambda>_. 0)(escToken e := escAmount e))"
      using t zero by (simp add: fundPart_def)
    note total = trackedTotal_upd [OF this]
    have "trackedTotal tok t \<le> coinBalance D (tokenCoin tok) t (vaultAddr D tok)"
      if tok: "tok \<in> {''NHB'', ''ZNHB''}" for tok
    proof (cases "tok = escToken e")
      case True
      then show ?thesis using solventD [OF assms(3) tok] moved(3) total [of tok] zero by (simp add: bals)
    next
      case False
      have "tokenCoin tok \<noteq> tokenCoin (escToken e)"
        using tokenCoin_inj [OF tok, of "escToken e"] escrow_wf_token [OF loaded(1)] False by auto
      then show ?thesis using solventD [OF assms(3) tok] moved(4) total [of tok] zero False by (simp add: bals)
    qed
    with moved(1) bals show ?thesis by (simp add: solvent_def)
  next
    case (settled eid e winner amounts u)
    note e = settled(1) and st = settled(2) and am = settled(4) and po = settled(6) and t = settled(7)
    note loaded = acct_ok_loaded [OF assms(1) e]
    note paid = payOut_vault [OF assms(2) loaded(3) am po]
    have bals: "coinBalance D c t = coinBalance D c u" "chain_inv D t = chain_inv D u" for c
      using t funds_cong [of t u D] by (simp_all add: fundPart_def)
    have held: "vaultBals s eid = (\<lambda>_. 0)(escToken e := escAmount e)"
      using tracked [OF assms(1) e] st by (simp add: held_def)
    have "vaultBals t = (vaultBals s)(eid := (\<lambda>_. 0))" using t by (simp add: fundPart_def)
    note total = trackedTotal_upd [OF this]
    have "trackedTotal tok t \<le> coinBalance D (tokenCoin tok) t (vaultAddr D tok)"
      if tok: "tok \<in> {''NHB'', ''ZNHB''}" for tok
    proof (cases "tok = escToken e")
      case True
      then show ?thesis using solventD [OF assms(3) tok] paid(3) total [of tok] held by (simp add: bals)
    next
      case False
      have "tokenCoin tok \<noteq> tokenCoin (escToken e)"
        using tokenCoin_inj [OF tok, of "escToken e"] escrow_wf_token [OF loaded(1)] False by auto
      then show ?thesis using solventD [OF assms(3) tok] paid(4) total [of tok] held False by (simp add: bals)
    qed
    with paid(1) bals show ?thesis by (simp add: solvent_def)
  qed
  then show "solvent D t" "chain_inv D t" by auto
qed

text \<open>Nobody an escrow can pay is a vault.\<close>

definition off_vault :: "'d edeps_scheme \<Rightarrow> engine \<Rightarrow> Escrow \<Rightarrow> bool" where
  "off_vault D E e \<longleftrightarrow> (let v = vaultAddr D (escToken e) in
     v \<noteq> 0 \<and> v \<noteq> Payer e \<and> v \<noteq> Payee e \<and> v \<noteq> feeTreasury E \<and>
     (\<forall>f sc. escFrozenArb e = Some f \<longrightarrow> arbFeeSchedule f = Some sc \<longrightarrow> v \<noteq> schedRecipient sc))"

lemma effect_supply:
  assumes "acct_ok D s" and "chain_inv D s" and "funds_effect D E s t"
    and "\<And>eid e. EscrowGet D eid s = Some e \<Longrightarrow> off_vault D E e"
  shows "totalSupply D c t = totalSupply D c s"
  using assms(3)
proof (cases rule: funds_effect_cases)
  case none
  then show ?thesis using funds_cong [of t s D] by (simp add: fundPart_def totalSupply_def)
next
  case (funded eid e u)
  note e = funded(1) and mv = funded(3) and t = funded(4)
  note loaded = acct_ok_loaded [OF assms(1) e]
  have "coinBalance D c t = coinBalance D c u" using t funds_cong [of t u D] by (simp add: fundPart_def)
  moreover have "totalSupply D c u = totalSupply D c s"
    using assms(4) [OF e] by (intro pays_supply [OF move_pays [OF assms(2) loaded(3,4) _ mv]])
      (auto simp: off_vault_def Let_def)
  ultimately show ?thesis by (simp add: totalSupply_def)
next
  case (settled eid e winner amounts u)
  note e = settled(1) and w = settled(3) and am = settled(4) and rp = settled(5) and po = settled(6) and t = settled(7)
  note loaded = acct_ok_loaded [OF assms(1) e]
  have "coinBalance D c t = coinBalance D c u" using t funds_cong [of t u D] by (simp add: fundPart_def)
  moreover have "totalSupply D c u = totalSupply D c s"
    using assms(4) [OF e] w rp
    by (intro pays_supply [OF payOut_vault(5) [OF assms(2) loaded(3) am po]]) (auto simp: off_vault_def Let_def)
  ultimately show ?thesis by (simp add: totalSupply_def)
qed

section \<open>Settlements that go through\<close>

lemma move_succeeds:
  assumes "chain_inv D s" and "NormalizeToken tok = Inr tok" and "0 \<le> amt" and "from \<noteq> to"
    and "totalSupply D NHB s < 2 ^ 256" and "amt \<le> coinBalance D (tokenCoin tok) s from"
  shows "\<exists>t. (if 0 < amt then moveToken D from to tok amt else retE ()) s = (Inr (), t)"
proof (cases "0 < amt")
  case True
  obtain r t where run: "moveToken D from to tok amt s = (r, t)" by (cases "moveToken D from to tok amt s")
  from assms(1,2) True assms(4) assms(5) [folded al_supply] run have "r = Inr ()"
    by (cases rule: al.transfer_atomic) (use assms(6) in \<open>simp_all add: al_bal_fun\<close>)
  with run True show ?thesis by simp
qed (simp add: retE_def)

lemma payOut_run:
  assumes "(if 0 < payout then moveToken D vault winner tok payout else retE ()) s = (Inr (), s1)"
    and "(if 0 < fee then moveToken D vault (feeTreasury E) tok fee else retE ()) s1 = (Inr (), s2)"
    and "(if 0 < realmFee then moveToken D vault rp tok realmFee else retE ()) s2 = (Inr (), t)"
    and "fee > 0 \<Longrightarrow> feeTreasury E \<noteq> 0" and "realmFee > 0 \<Longrightarrow> rp \<noteq> 0"
  shows "payOut D E vault winner tok (payout, fee, realmFee, rp) s = (Inr (), t)"
  using assms by (auto simp: payOut_def run_defs ensureTreasuryConfigured_def checkS_def)

text \<open>A settlement within the vault's balance is paid when the recipients that get something are
  configured and are not the vault.\<close>

lemma payOut_succeeds:
  assumes "chain_inv D s" and "NormalizeToken tok = Inr tok" and "amounts_ok whole (payout, fee, realmFee, rp)"
    and "totalSupply D NHB s < 2 ^ 256" and "whole \<le> coinBalance D (tokenCoin tok) s vault"
    and "vault \<noteq> winner" and "vault \<noteq> feeTreasury E" and "vault \<noteq> rp"
    and "fee > 0 \<Longrightarrow> feeTreasury E \<noteq> 0" and "realmFee > 0 \<Longrightarrow> rp \<noteq> 0"
  shows "\<exists>t. payOut D E vault winner tok (payout, fee, realmFee, rp) s = (Inr (), t)"
proof -
  from assms(3) have nn: "0 \<le> payout" "0 \<le> fee" "0 \<le> realmFee" and whole: "payout + fee + realmFee = whole"
    by (simp_all add: amounts_ok_def)
  note step = move_succeeds [OF _ assms(2)]
  have "payout \<le> coinBalance D (tokenCoin tok) s vault" using nn whole assms(5) by simp
  from step [OF assms(1) nn(1) assms(6,4) this] obtain s1
    where m1: "(if 0 < payout then moveToken D vault winner tok payout else retE ()) s = (Inr (), s1)" by blast
  note o1 = opt_move [OF assms(1,2) nn(1) m1]
  have sup1: "totalSupply D NHB s1 < 2 ^ 256" using pays_supply [OF o1(5)] assms(4,6) by simp
  have "fee \<le> coinBalance D (tokenCoin tok) s1 vault" using o1(3) nn whole assms(5) by linarith
  from step [OF o1(1) nn(2) assms(7) sup1 this] obtain s2
    where m2: "(if 0 < fee then moveToken D vault (feeTreasury E) tok fee else retE ()) s1 = (Inr (), s2)" by blast
  note o2 = opt_move [OF o1(1) assms(2) nn(2) m2]
  have sup2: "totalSupply D NHB s2 < 2 ^ 256" using pays_supply [OF o2(5)] sup1 assms(7) by simp
  have "realmFee \<le> coinBalance D (tokenCoin tok) s2 vault" using o1(3) o2(3) nn whole assms(5) by linarith
  from step [OF o2(1) nn(3) assms(8) sup2 this] obtain t
    where "(if 0 < realmFee then moveToken D vault rp tok realmFee else retE ()) s2 = (Inr (), t)" by blast
  from payOut_run [OF m1 m2 this assms(9,10)] show ?thesis by blast
qed

lemma vaultBals_nonneg:
  assumes "acct_ok D s"
  shows "0 \<le> vaultBals s eid tok"
proof -
  from assms have "track_ok D s eid" and "\<And>r. escrowRecs s eid = Some r \<Longrightarrow> rec_ok eid r"
    by (simp_all add: acct_ok_def store_ok_def)
  then show ?thesis by (auto simp: track_ok_def rec_ok_def held_def split: option.splits)
qed

text \<open>The vault can pay every escrow it holds.\<close>

lemma vault_covers:
  assumes "acct_ok D s" and "solvent D s" and "EscrowGet D eid s = Some e"
    and "escStatus e = EscrowFunded \<or> escStatus e = EscrowDisputed"
  shows "escAmount e \<le> coinBalance D (tokenCoin (escToken e)) s (vaultAddr D (escToken e))"
proof -
  note loaded = acct_ok_loaded [OF assms(1,3)]
  have "escAmount e = vaultBals s eid (escToken e)" using tracked [OF assms(1,3)] assms(4) by (simp add: held_def)
  also have "\<dots> = (\<Sum>i\<in>{eid}. vaultBals s i (escToken e))" by simp
  also have "\<dots> \<le> trackedTotal (escToken e) s"
    unfolding trackedTotal_def by (intro sum_mono2) (auto intro: vaultBals_nonneg [OF assms(1)])
  also have "\<dots> \<le> coinBalance D (tokenCoin (escToken e)) s (vaultAddr D (escToken e))"
    using escrow_wf_token [OF loaded(1)] by (intro solventD [OF assms(2)]) auto
  finally show ?thesis .
qed

lemma pay_close_succeeds:
  assumes "acct_ok D s" and "chain_inv D s" and "solvent D s" and "totalSupply D NHB s < 2 ^ 256"
    and "EscrowGet D eid s = Some e" and "escStatus e = EscrowFunded" and "0 < escAmount e"
    and "vaultAddr D (escToken e) \<noteq> w" and "settled st"
  obtains u t where "moveToken D (vaultAddr D (escToken e)) w (escToken e) (escAmount e) s = (Inr (), u)"
    and "closeEscrow D eid e st ev u = (Inr (), t)"
    and "EscrowGet D eid t = Some (e\<lparr>escStatus := st\<rparr>)"
    and "pays D (tokenCoin (escToken e)) (vaultAddr D (escToken e)) [(w, escAmount e)] s t"
proof -
  let ?v = "vaultAddr D (escToken e)"
  note loaded = acct_ok_loaded [OF assms(1,5)]
  have "escAmount e \<le> coinBalance D (tokenCoin (escToken e)) s ?v"
    using assms(6) by (intro vault_covers [OF assms(1,3,5)]) simp
  from move_succeeds [OF assms(2) loaded(3,4) assms(8,4) this] assms(7)
  obtain u where mv: "moveToken D ?v w (escToken e) (escAmount e) s = (Inr (), u)" by auto
  note paid = move_pays [OF assms(2) loaded(3,4) assms(8) mv]
  obtain t where close: "closeEscrow D eid e st ev u = (Inr (), t)"
    and get: "EscrowGet D eid t = Some (e\<lparr>escStatus := st\<rparr>)"
    using close_succeeds [where h = "ResolutionHash e" and esc = e, OF assms(1,5) _ assms(9) _ moveToken_more [OF mv]]
      assms(6) by auto
  have "fundPart t = (stateAccounts u, accountMetas u, (vaultBals s)(eid := (\<lambda>_. 0)))"
    by (rule close_effect [OF assms(1,5) _ assms(9) _ moveToken_more [OF mv] close, of "ResolutionHash e"])
      (simp_all add: assms(6))
  then have "stateAccounts t = stateAccounts u" "accountMetas t = accountMetas u" by (simp_all add: fundPart_def)
  from funds_cong [OF this, of D] have "pays D (tokenCoin (escToken e)) ?v [(w, escAmount e)] s t"
    using paid by (simp add: pays_def)
  with mv close get show ?thesis by (rule that)
qed

lemma refundEscrow_succeeds:
  assumes "acct_ok D s" and "chain_inv D s" and "solvent D s" and "totalSupply D NHB s < 2 ^ 256"
    and "EscrowGet D eid s = Some e" and "escStatus e = EscrowFunded" and "0 < escAmount e"
    and "vaultAddr D (escToken e) \<noteq> Payer e" and "settled st"
  obtains t where "refundEscrow D e (Payer e) st ev s = (Inr (), t)"
    and "EscrowGet D eid t = Some (e\<lparr>escStatus := st\<rparr>)"
    and "pays D (tokenCoin (escToken e)) (vaultAddr D (escToken e)) [(Payer e, escAmount e)] s t"
proof -
  note loaded = acct_ok_loaded [OF assms(1,5)]
  from assms obtain u t where run: "moveToken D (vaultAddr D (escToken e)) (Payer e) (escToken e) (escAmount e) s = (Inr (), u)"
      "closeEscrow D eid e st ev u = (Inr (), t)"
    and res: "EscrowGet D eid t = Some (e\<lparr>escStatus := st\<rparr>)"
      "pays D (tokenCoin (escToken e)) (vaultAddr D (escToken e)) [(Payer e, escAmount e)] s t"
    by (rule pay_close_succeeds)
  have "escStatus e \<noteq> st" using assms(6,9) by (auto simp: settled_def)
  then have "refundEscrow D e (Payer e) st ev s = (Inr (), t)"
    using loaded(2,3) assms(7) run by (simp add: refundEscrow_def run_defs EscrowVaultAddress_run)
  with res show ?thesis by (intro that)
qed

text \<open>The release of a funded escrow without fees goes through and pays the payee the whole amount.\<close>

lemma Release_succeeds:
  assumes "acct_ok D s" and "chain_inv D s" and "solvent D s" and "totalSupply D NHB s < 2 ^ 256"
    and "EscrowGet D eid s = Some e" and "escStatus e = EscrowFunded" and "0 < escAmount e" and "escFeeBps e = 0"
    and "vaultAddr D (escToken e) \<noteq> Payee e" and "Guard (engPauses E) ''escrow'' = Inr ()"
  obtains t where "Release D E eid (Payee e) s = (Inr (), t)"
    and "EscrowGet D eid t = Some (e\<lparr>escStatus := EscrowReleased\<rparr>)"
    and "pays D (tokenCoin (escToken e)) (vaultAddr D (escToken e)) [(Payee e, escAmount e)] s t"
    and "solvent D t" and "totalSupply D NHB t < 2 ^ 256"
proof -
  note loaded = acct_ok_loaded [OF assms(1,5)]
  have "settled EscrowReleased" by (simp add: settled_def)
  with assms(1-7,9) obtain u t where
    mv: "moveToken D (vaultAddr D (escToken e)) (Payee e) (escToken e) (escAmount e) s = (Inr (), u)"
    and cl: "closeEscrow D eid e EscrowReleased (NewReleasedEvent D) u = (Inr (), t)"
    and get: "EscrowGet D eid t = Some (e\<lparr>escStatus := EscrowReleased\<rparr>)"
    and paid: "pays D (tokenCoin (escToken e)) (vaultAddr D (escToken e)) [(Payee e, escAmount e)] s t"
    by (rule pay_close_succeeds)
  have am: "releaseAmounts e = Inr (escAmount e, 0, 0, 0)"
    using assms(6,8) by (simp add: releaseAmounts_def calculateFee_def)
  have run: "Release D E eid (Payee e) s = (Inr (), t)"
    using assms(5-7,10) loaded(3) mv cl
    by (simp add: Release_def guardE_def loadEscrow_def run_defs EscrowVaultAddress_run am refund_payOut)
  from effect_Release [OF assms(1) run] have "solvent D t" by (rule effect_solvent [OF assms(1-3)])
  moreover have "totalSupply D NHB t < 2 ^ 256" using pays_supply [OF paid] assms(4) by simp
  ultimately show ?thesis by (rule that [OF run get paid])
qed

end
