(* ===== verification/EscrowTheorems.thy ===== *)
theory EscrowTheorems
  imports EscrowFunds
begin

text \<open>
  The properties of the escrow module, each stated over the model's operations, with the
  concrete escrow and state their witnesses use.
\<close>

section \<open>A concrete escrow\<close>

text \<open>An instance of the library functions: the hash is the length of its input, a signature is
  its first byte.\<close>

definition refEDeps :: edeps where
  "refEDeps = \<lparr>uint256FromBig = (\<lambda>x. (x mod 2 ^ 256, x < 0 \<or> 2 ^ 256 \<le> x)),
     rlpBigInt = (\<lambda>x. 0 \<le> x), emptyRootHash = 1, emptyCodeHash = 2,
     keccak256 = (\<lambda>bs. of_nat (length bs)),
     sigToAddr = (\<lambda>h sig. Inr (of_nat (of_char (hd sig)))),
     bech32Decode = (\<lambda>_. Inl []), bech32ConvertBits = (\<lambda>_. Inl []),
     jsonDecision = (\<lambda>_. Inl []), jsonStrings = (\<lambda>_. Inl []), jsonString = (\<lambda>_. Inl [])\<rparr>"

lemma refEDeps_ok [simp]: "deps_ok refEDeps"
  by (auto simp: deps_ok_def refEDeps_def)

definition refEngine :: engine where
  "refEngine = \<lparr>feeTreasury = 9, engNow = 10, engPauses = None\<rparr>"

definition emptyEstate :: estate where
  "emptyEstate = \<lparr>stateAccounts = Map.empty, accountMetas = Map.empty, stakingSnaps = Map.empty,
     events = [], escrowRecs = Map.empty, frozenRecs = Map.empty, vaultBals = (\<lambda>_ _. 0),
     realmRecs = Map.empty, paramVals = Map.empty\<rparr>"

definition sampleEscrow :: "EscrowStatus \<Rightarrow> Escrow" where
  "sampleEscrow st = \<lparr>escID = 80, Payer = 1, Payee = 2, Mediator = 3, escToken = ''NHB'', escAmount = 100,
     escFeeBps = 250, escDeadline = 1000, escCreatedAt = 10, escNonce = 1, MetaHash = 0, escStatus = st,
     escRealmID = [], escFrozenArb = None, ResolutionHash = 0, DisputeReason = []\<rparr>"

lemma sampleEscrow_fields [simp]:
  "escID (sampleEscrow st) = 80" "Payer (sampleEscrow st) = 1" "Payee (sampleEscrow st) = 2"
  "Mediator (sampleEscrow st) = 3" "escToken (sampleEscrow st) = ''NHB''" "escAmount (sampleEscrow st) = 100"
  "escFeeBps (sampleEscrow st) = 250" "escDeadline (sampleEscrow st) = 1000" "escCreatedAt (sampleEscrow st) = 10"
  "escStatus (sampleEscrow st) = st" "escRealmID (sampleEscrow st) = []" "escFrozenArb (sampleEscrow st) = None"
  "(sampleEscrow st)\<lparr>escStatus := st'\<rparr> = sampleEscrow st'"
  by (simp_all add: sampleEscrow_def)

lemma sampleEscrow_wf: "statusValid st \<Longrightarrow> escrow_wf D (sampleEscrow st)"
  by (simp add: escrow_wf_def sampleEscrow_def trimSpace_def)

text \<open>A state with this escrow in the given status, and the vault holding \<open>v\<close>.\<close>

definition sampleState :: "EscrowStatus \<Rightarrow> int \<Rightarrow> estate" where
  "sampleState st v = putRec (sampleEscrow st) (setVault 80 ''NHB'' (held st 100)
     (emptyEstate\<lparr>stateAccounts := [vaultAddr refEDeps ''NHB'' \<mapsto>
        Full \<lparr>saNonce = 0, saBalance = v, saRoot = 1, saCodeHash = []\<rparr>]\<rparr>))"

lemma vaultAddr_ref: "vaultAddr refEDeps ''NHB'' = 23" "vaultAddr refEDeps ''ZNHB'' = 24"
  by (simp_all add: vaultAddr_def refEDeps_def)

lemma sampleState_fields [simp]:
  "vaultBals (sampleState st v) = (\<lambda>_ _. 0)(80 := (\<lambda>_. 0)(''NHB'' := held st 100))"
  "escrowRecs (sampleState st v) = [80 \<mapsto> newStoredEscrow (sampleEscrow st)]"
  "stateAccounts (sampleState st v) = [23 \<mapsto> Full \<lparr>saNonce = 0, saBalance = v, saRoot = 1, saCodeHash = []\<rparr>]"
  "accountMetas (sampleState st v) = Map.empty"
  by (simp_all add: sampleState_def putRec_def setVault_def emptyEstate_def vaultAddr_ref)

lemma sample_get [simp]:
  "statusValid st \<Longrightarrow> EscrowGet D 80 (sampleState st v) = Some (sampleEscrow st)"
  using EscrowGet_putRec [of D "sampleEscrow st"] unfolding sampleState_def
  by (simp add: sampleEscrow_wf)

lemma sample_acct_ok: "statusValid st \<Longrightarrow> acct_ok refEDeps (sampleState st v)"
  using putRec_rec_ok [of refEDeps "sampleEscrow st"]
  by (auto simp: acct_ok_def store_ok_def track_ok_def sampleEscrow_wf newStoredEscrow_def)

lemma sample_balance:
  "coinBalance refEDeps c (sampleState st v) a = (if c = NHB \<and> a = 23 then v else 0)"
  by (cases c) (simp_all add: coinBalance_def acctOf_def account_defs run_defs assembleAccount_def
      ensureAccountDefaults_def emptyMetadata_def)

lemma sample_inv: "0 \<le> v \<Longrightarrow> v < 2 ^ 256 \<Longrightarrow> chain_inv refEDeps (sampleState st v)"
  by (auto simp: chain_inv_def acct_fits_def acct_nonneg_def metaBigInts_def accountMeta_def acctOf_def
      account_defs run_defs assembleAccount_def ensureAccountDefaults_def emptyMetadata_def)

lemma sample_supply: "totalSupply refEDeps NHB (sampleState st v) = v"
  by (simp add: totalSupply_def sample_balance)

lemma sample_solvent: "held st 100 \<le> v \<Longrightarrow> solvent refEDeps (sampleState st v)"
  by (simp add: solvent_def trackedTotal_def sample_balance vaultAddr_ref tokenCoin_def fun_upd_apply
      if_distrib [of "\<lambda>f. f _"] cong: if_cong)

section \<open>Accounting and life cycle\<close>

lemma sample_create:
  "runCall refEDeps refEngine (CallCreate 1 2 ''NHB'' 100 250 1000 1 (Some 3) 0 []) emptyEstate
     = (Inr (), (putRec (sampleEscrow EscrowInit) emptyEstate)
         \<lparr>events := [NewCreatedEvent refEDeps (sampleEscrow EscrowInit)]\<rparr>)"
proof -
  have eid: "escrowID refEDeps 1 2 0 1 = 80" by (simp add: escrowID_def refEDeps_def addrBytes_def)
  have put: "EscrowPut refEDeps (sampleEscrow EscrowInit) s = (Inr (), putRec (sampleEscrow EscrowInit) s)" for s :: estate
    by (rule EscrowPut_run) (simp_all add: sampleEscrow_wf)
  have none: "EscrowGet refEDeps 80 emptyEstate = None" by (simp add: EscrowGet_def emptyEstate_def)
  have self: "(sampleEscrow EscrowInit)\<lparr>escFrozenArb := None\<rparr> = sampleEscrow EscrowInit"
    by (simp add: sampleEscrow_def)
  have fresh: "createFresh refEDeps (sampleEscrow EscrowInit) emptyEstate
      = (Inr (sampleEscrow EscrowInit), (putRec (sampleEscrow EscrowInit) emptyEstate)
         \<lparr>events := [NewCreatedEvent refEDeps (sampleEscrow EscrowInit)]\<rparr>)"
    by (simp add: createFresh_def storeEscrow_def Let_def run_defs self put emitEvent_def)
      (simp add: putRec_def emptyEstate_def)
  have "Create refEDeps refEngine 1 2 ''NHB'' 100 250 1000 1 (Some 3) 0 [] emptyEstate
      = createFresh refEDeps (sampleEscrow EscrowInit) emptyEstate"
    by (simp add: Create_def Let_def eid none run_defs guardE_def Guard_def refEngine_def trimSpace_def)
      (simp add: sampleEscrow_def)
  then show ?thesis by (simp add: ignoreResult_def run_defs fresh)
qed

text \<open>
  Property C1 (tracked balances). From a state without escrows, through any sequence of engine
  calls (whatever their outcome), parameter changes and account changes, the balance the store
  tracks for an escrow is its amount while it is funded or disputed and zero otherwise.
\<close>

theorem escrow_tracked_balance:
  assumes "deps_ok D" and "escrowRecs s0 = Map.empty" and "vaultBals s0 = (\<lambda>_ _. 0)"
    and "escrow_reach D s0 s" and "EscrowGet D eid s = Some e"
  shows "EscrowBalance eid (escToken e) s = (Inr (held (escStatus e) (escAmount e)), s)"
proof -
  have ok: "acct_ok D s" by (rule reach_acct_ok [OF assms(4) acct_ok_empty [OF assms(1-3)]])
  show ?thesis
    using acct_ok_loaded(3) [OF ok assms(5)] tracked [OF ok assms(5)]
    by (simp add: EscrowBalance_def run_defs)
qed

theorem escrow_tracked_balance_witness:
  "\<exists>s. escrow_reach refEDeps emptyEstate s \<and> EscrowGet refEDeps 80 s = Some (sampleEscrow EscrowInit)
     \<and> EscrowBalance 80 ''NHB'' s = (Inr 0, s)"
proof -
  let ?s = "(putRec (sampleEscrow EscrowInit) emptyEstate)
         \<lparr>events := [NewCreatedEvent refEDeps (sampleEscrow EscrowInit)]\<rparr>"
  have "call_ok refEngine (CallCreate 1 2 ''NHB'' 100 250 1000 1 (Some 3) 0 [])"
    by (simp add: call_ok_def int64_def refEngine_def)
  from escrow_step.call [OF this sample_create] have r: "escrow_reach refEDeps emptyEstate ?s"
    by (rule escrow_reach.more [OF escrow_reach.here])
  have g: "EscrowGet refEDeps 80 ?s = Some (sampleEscrow EscrowInit)"
    using EscrowGet_putRec [of refEDeps "sampleEscrow EscrowInit" emptyEstate] by (simp add: sampleEscrow_wf)
  have "escrowRecs emptyEstate = Map.empty" "vaultBals emptyEstate = (\<lambda>_ _. 0)"
    by (simp_all add: emptyEstate_def)
  from escrow_tracked_balance [OF refEDeps_ok this r g] r g show ?thesis by (auto simp: held_def)
qed

text \<open>The part of \<open>call_allows\<close> that is the documented life cycle (\<^verbatim>\<open>docs/escrow/escrow.md\<close>, sections
  5.1 and 6): a dispute is raised by a party, blocks release and refund, and is decided by arbitrators.\<close>

fun doc_allows :: "'d edeps_scheme \<Rightarrow> engine \<Rightarrow> escrow_call \<Rightarrow> allowance" where
  "doc_allows D E (CallFund i from) eid e e' \<longleftrightarrow>
     i = eid \<and> escStatus e = EscrowInit \<and> from = Payer e \<and> e' = e\<lparr>escStatus := EscrowFunded\<rparr>"
| "doc_allows D E (CallRelease i caller) eid e e' \<longleftrightarrow>
     i = eid \<and> escStatus e = EscrowFunded \<and> (caller = Payee e \<or> Mediator e \<noteq> 0 \<and> caller = Mediator e)
     \<and> e' = e\<lparr>escStatus := EscrowReleased\<rparr>"
| "doc_allows D E (CallRefund i caller) eid e e' \<longleftrightarrow>
     i = eid \<and> escStatus e = EscrowFunded \<and> caller = Payer e \<and> engNow E < escDeadline e
     \<and> e' = e\<lparr>escStatus := EscrowRefunded\<rparr>"
| "doc_allows D E (CallExpire i now) eid e e' \<longleftrightarrow>
     i = eid \<and> escStatus e = EscrowFunded \<and> escDeadline e \<le> now \<and> e' = e\<lparr>escStatus := EscrowExpired\<rparr>"
| "doc_allows D E (CallDispute i caller reason) eid e e' \<longleftrightarrow>
     i = eid \<and> escStatus e = EscrowFunded \<and> (caller = Payer e \<or> caller = Payee e)
     \<and> e' = e\<lparr>escStatus := EscrowDisputed, DisputeReason :=
          (if trimSpace reason = [] then DisputeReason e else trimSpace reason)\<rparr>"
| "doc_allows D E (CallResolveWithSignatures i payload sigs) eid e e' \<longleftrightarrow>
     i = eid \<and> escStatus e = EscrowDisputed
     \<and> (\<exists>outcome meta digest signers.
          parseDecisionPayload D eid (escFrozenArb e) payload = Inr (outcome, meta, digest)
          \<and> verifyDecisionSignatures D (escFrozenArb e) digest sigs = Inr signers
          \<and> e' = e\<lparr>ResolutionHash := digest, escStatus := decided outcome\<rparr>)"
| "doc_allows D E _ eid e e' \<longleftrightarrow> False"

text \<open>What the engine does to a disputed escrow against the documentation: the mediator closes it, by
  \<^verbatim>\<open>Release\<close> or by \<^verbatim>\<open>Resolve\<close>, and any caller fills in a missing dispute reason.\<close>

fun undoc_allows :: "escrow_call \<Rightarrow> allowance" where
  "undoc_allows (CallRelease i caller) eid e e' \<longleftrightarrow>
     i = eid \<and> escStatus e = EscrowDisputed \<and> caller = Mediator e \<and> e' = e\<lparr>escStatus := EscrowReleased\<rparr>"
| "undoc_allows (CallResolve i caller outcome) eid e e' \<longleftrightarrow>
     i = eid \<and> escStatus e = EscrowDisputed \<and> Mediator e \<noteq> 0 \<and> caller = Mediator e
     \<and> (\<exists>decision. ParseDecisionOutcome outcome = Inr decision \<and> e' = e\<lparr>escStatus := decided decision\<rparr>)"
| "undoc_allows (CallDispute i caller reason) eid e e' \<longleftrightarrow>
     i = eid \<and> escStatus e = EscrowDisputed \<and> DisputeReason e = [] \<and> e' = e\<lparr>DisputeReason := trimSpace reason\<rparr>"
| "undoc_allows _ eid e e' \<longleftrightarrow> False"

lemma call_allows_split:
  "call_allows D E c eid e e' \<Longrightarrow> doc_allows D E c eid e e' \<or> undoc_allows c eid e e'"
  by (cases c) (auto simp: release_guard_def)

text \<open>
  Property C2 (authorised life cycle). In every reachable state, whatever call is made and
  however it ends, an escrow is kept unchanged or changes in one of the following ways. As
  documented (\<open>doc_allows\<close>): the payer funds an awaiting escrow; the payee or the mediator releases a
  funded one; the payer is refunded before the deadline, anybody expires after it; a party disputes
  a funded one; a quorum of the frozen arbitrators decides a disputed one. Or against the
  documentation (\<open>undoc_allows\<close>), and then the escrow is disputed: its mediator closes it by \<^verbatim>\<open>Release\<close> or
  \<^verbatim>\<open>Resolve\<close>, although a dispute should block release and mediators should not resolve disputes, or
  any caller sets its still empty dispute reason.
\<close>

theorem escrow_authorised:
  assumes "deps_ok D" and "escrowRecs s0 = Map.empty" and "vaultBals s0 = (\<lambda>_ _. 0)"
    and "escrow_reach D s0 s" and "EscrowGet D eid s = Some e" and "call_ok E c" and "runCall D E c s = (r, t)"
  shows "\<exists>e'. EscrowGet D eid t = Some e' \<and> (e' = e \<or> doc_allows D E c eid e e' \<or> undoc_allows c eid e e')"
proof -
  have ok: "acct_ok D s" by (rule reach_acct_ok [OF assms(4) acct_ok_empty [OF assms(1-3)]])
  from runCall_good(2) [OF ok assms(6,7)] assms(5) show ?thesis
    by (auto simp: esc_rel_def dest!: call_allows_split)
qed

theorem escrow_authorised_witness:
  "\<exists>s. escrow_reach refEDeps emptyEstate s \<and> EscrowGet refEDeps 80 s = Some (sampleEscrow EscrowInit)
     \<and> (\<exists>e'. EscrowGet refEDeps 80 (snd (runCall refEDeps refEngine (CallRelease 80 2) s)) = Some e'
          \<and> escStatus e' = EscrowInit)"
proof -
  let ?s = "(putRec (sampleEscrow EscrowInit) emptyEstate)
         \<lparr>events := [NewCreatedEvent refEDeps (sampleEscrow EscrowInit)]\<rparr>"
  have "call_ok refEngine (CallCreate 1 2 ''NHB'' 100 250 1000 1 (Some 3) 0 [])"
    by (simp add: call_ok_def int64_def refEngine_def)
  from escrow_step.call [OF this sample_create] have r: "escrow_reach refEDeps emptyEstate ?s"
    by (rule escrow_reach.more [OF escrow_reach.here])
  have g: "EscrowGet refEDeps 80 ?s = Some (sampleEscrow EscrowInit)"
    using EscrowGet_putRec [of refEDeps "sampleEscrow EscrowInit" emptyEstate] by (simp add: sampleEscrow_wf)
  have fresh: "escrowRecs emptyEstate = Map.empty" "vaultBals emptyEstate = (\<lambda>_ _. 0)"
    and ok: "call_ok refEngine (CallRelease 80 2)"
    by (simp_all add: emptyEstate_def call_ok_def int64_def refEngine_def)
  from escrow_authorised [OF refEDeps_ok fresh r g ok surjective_pairing] obtain e' where
    "EscrowGet refEDeps 80 (snd (runCall refEDeps refEngine (CallRelease 80 2) ?s)) = Some e'"
    "e' = sampleEscrow EscrowInit \<or> doc_allows refEDeps refEngine (CallRelease 80 2) 80 (sampleEscrow EscrowInit) e'
       \<or> undoc_allows (CallRelease 80 2) 80 (sampleEscrow EscrowInit) e'"
    by blast
  moreover from this(2) have "escStatus e' = EscrowInit" by auto
  ultimately show ?thesis using r g by blast
qed

text \<open>
  Property C8 (settlement is final). An escrow that has been released, refunded or expired is
  the same escrow in every state reachable afterwards.
\<close>

theorem escrow_settled_final:
  assumes "acct_ok D s" and "EscrowGet D eid s = Some e" and "settled (escStatus e)" and "escrow_reach D s t"
  shows "EscrowGet D eid t = Some e"
  by (rule reach_settled [OF assms(4,1,2,3)])

theorem escrow_settled_final_witness:
  "EscrowGet refEDeps 80 (snd (runCall refEDeps refEngine (CallDispute 80 1 ''late'')
     (sampleState EscrowReleased 100))) = Some (sampleEscrow EscrowReleased)"
proof (rule escrow_settled_final [OF sample_acct_ok sample_get])
  show "escrow_reach refEDeps (sampleState EscrowReleased 100)
      (snd (runCall refEDeps refEngine (CallDispute 80 1 ''late'') (sampleState EscrowReleased 100)))"
    by (rule escrow_reach.more [OF escrow_reach.here escrow_step.call [OF _ surjective_pairing]])
      (simp add: call_ok_def int64_def refEngine_def)
qed (simp_all add: settled_def)

section \<open>Funds\<close>

text \<open>
  Property C4 (solvency). A successful engine call keeps the vault of each token solvent: it
  holds at least the sum of what the escrows of that token track.
\<close>

theorem escrow_call_solvent:
  assumes "acct_ok D s" and "chain_inv D s" and "solvent D s" and "runCall D E c s = (Inr (), t)"
  shows "solvent D t \<and> chain_inv D t"
  using effect_solvent [OF assms(1-3) effect_runCall [OF assms(1,4)]] by simp

text \<open>
  Property C5 (conservation). A successful engine call changes the supply of neither token, as
  long as nobody an escrow can pay is the vault itself.
\<close>

theorem escrow_call_supply:
  assumes "acct_ok D s" and "chain_inv D s" and "\<And>eid e. EscrowGet D eid s = Some e \<Longrightarrow> off_vault D E e"
    and "runCall D E c s = (Inr (), t)"
  shows "totalSupply D coin t = totalSupply D coin s"
  by (rule effect_supply [OF assms(1,2) effect_runCall [OF assms(1,4)] assms(3)])

lemma sample_get_other [simp]: "eid \<noteq> 80 \<Longrightarrow> EscrowGet D eid (sampleState st v) = None"
  by (simp add: EscrowGet_def)

lemma sample_off_vault:
  assumes "EscrowGet refEDeps eid (sampleState st v) = Some e" and "statusValid st"
  shows "off_vault refEDeps refEngine e"
proof -
  have "e = sampleEscrow st" using assms by (cases "eid = 80") simp_all
  then show ?thesis by (simp add: off_vault_def vaultAddr_ref refEngine_def)
qed

text \<open>
  Property C3 (refundability). Funds are not stuck in a funded escrow: while the vault is solvent,
  the NHB supply fits in 256 bits, the module is not paused and the payer is not the vault, the payer's \<^verbatim>\<open>Refund\<close> succeeds before the deadline,
  anybody's \<^verbatim>\<open>Expire\<close> succeeds from the deadline on, and either pays the payer the whole amount
  out of the vault and nothing else.
\<close>

theorem escrow_refundable:
  assumes "acct_ok D s" and "chain_inv D s" and "solvent D s" and "totalSupply D NHB s < 2 ^ 256"
    and "EscrowGet D eid s = Some e" and "escStatus e = EscrowFunded" and "0 < escAmount e"
    and "vaultAddr D (escToken e) \<noteq> Payer e" and "Guard (engPauses E) ''escrow'' = Inr ()"
  shows "\<exists>t st. (if engNow E < escDeadline e then Refund D E eid (Payer e) else Expire D E eid (engNow E)) s = (Inr (), t)
    \<and> EscrowGet D eid t = Some (e\<lparr>escStatus := st\<rparr>) \<and> settled st
    \<and> pays D (tokenCoin (escToken e)) (vaultAddr D (escToken e)) [(Payer e, escAmount e)] s t"
proof (cases "engNow E < escDeadline e")
  case True
  have "settled EscrowRefunded" by (simp add: settled_def)
  from refundEscrow_succeeds [OF assms(1-8) this] obtain t
    where t: "refundEscrow D e (Payer e) EscrowRefunded (NewRefundedEvent D) s = (Inr (), t)"
      "EscrowGet D eid t = Some (e\<lparr>escStatus := EscrowRefunded\<rparr>)"
      "pays D (tokenCoin (escToken e)) (vaultAddr D (escToken e)) [(Payer e, escAmount e)] s t" by metis
  from t(1) True assms(5,6,9) have "Refund D E eid (Payer e) s = (Inr (), t)"
    by (simp add: Refund_def guardE_def loadEscrow_def run_defs)
  with t(2,3) True \<open>settled EscrowRefunded\<close> show ?thesis by auto
next
  case False
  have "settled EscrowExpired" by (simp add: settled_def)
  from refundEscrow_succeeds [OF assms(1-8) this] obtain t
    where t: "refundEscrow D e (Payer e) EscrowExpired (NewExpiredEvent D) s = (Inr (), t)"
      "EscrowGet D eid t = Some (e\<lparr>escStatus := EscrowExpired\<rparr>)"
      "pays D (tokenCoin (escToken e)) (vaultAddr D (escToken e)) [(Payer e, escAmount e)] s t" by metis
  from t(1) False assms(5,6,9) have "Expire D E eid (engNow E) s = (Inr (), t)"
    by (simp add: Expire_def guardE_def loadEscrow_def run_defs)
  with t(2,3) False \<open>settled EscrowExpired\<close> show ?thesis by auto
qed

theorem escrow_refundable_witness:
  "\<exists>t st. Refund refEDeps refEngine 80 1 (sampleState EscrowFunded 100) = (Inr (), t)
    \<and> EscrowGet refEDeps 80 t = Some (sampleEscrow st) \<and> settled st
    \<and> coinBalance refEDeps NHB t 1 = 100 \<and> coinBalance refEDeps NHB t 23 = 0"
proof -
  let ?s = "sampleState EscrowFunded 100"
  from escrow_refundable [OF sample_acct_ok sample_inv sample_solvent _ sample_get, of EscrowFunded 100 refEngine]
  obtain t st where "Refund refEDeps refEngine 80 1 ?s = (Inr (), t)"
    "EscrowGet refEDeps 80 t = Some (sampleEscrow st)" "settled st" "pays refEDeps NHB 23 [(1, 100)] ?s t"
    by (auto simp: held_def sample_supply vaultAddr_ref tokenCoin_def refEngine_def Guard_def)
  then show ?thesis by (auto simp: pays_def sample_balance)
qed

lemma sample_refund:
  obtains t where "runCall refEDeps refEngine (CallRefund 80 1) (sampleState EscrowFunded 100) = (Inr (), t)"
proof -
  have "settled EscrowRefunded" by (simp add: settled_def)
  from refundEscrow_succeeds [OF sample_acct_ok sample_inv sample_solvent _ sample_get _ _ _ this, of EscrowFunded 100]
  obtain t where "refundEscrow refEDeps (sampleEscrow EscrowFunded) 1 EscrowRefunded (NewRefundedEvent refEDeps)
      (sampleState EscrowFunded 100) = (Inr (), t)"
    by (auto simp: held_def sample_supply vaultAddr_ref)
  then have "runCall refEDeps refEngine (CallRefund 80 1) (sampleState EscrowFunded 100) = (Inr (), t)"
    by (simp add: Refund_def guardE_def loadEscrow_def run_defs refEngine_def Guard_def)
  then show ?thesis by (rule that)
qed

theorem escrow_call_solvent_witness:
  "\<exists>t. runCall refEDeps refEngine (CallRefund 80 1) (sampleState EscrowFunded 100) = (Inr (), t)
     \<and> solvent refEDeps t"
proof -
  obtain t where run: "runCall refEDeps refEngine (CallRefund 80 1) (sampleState EscrowFunded 100) = (Inr (), t)"
    by (rule sample_refund)
  with escrow_call_solvent [OF sample_acct_ok sample_inv sample_solvent run] show ?thesis
    by (simp add: held_def)
qed

theorem escrow_call_supply_witness:
  "\<exists>t. runCall refEDeps refEngine (CallRefund 80 1) (sampleState EscrowFunded 100) = (Inr (), t)
     \<and> totalSupply refEDeps NHB t = 100"
proof -
  obtain t where run: "runCall refEDeps refEngine (CallRefund 80 1) (sampleState EscrowFunded 100) = (Inr (), t)"
    by (rule sample_refund)
  have "off_vault refEDeps refEngine e" if "EscrowGet refEDeps eid (sampleState EscrowFunded 100) = Some e" for eid e
    using sample_off_vault [OF that] by simp
  from escrow_call_supply [where coin = NHB, OF sample_acct_ok sample_inv this run] run show ?thesis
    by (auto simp: sample_supply)
qed

text \<open>
  Property C6 (distribution). A successful \<^verbatim>\<open>Release\<close> of a funded escrow takes exactly the amount out
  of the vault: the payee receives the amount minus the fee of \<^verbatim>\<open>calculateFee\<close>, the treasury
  the fee, every other balance of every token is unchanged, and the escrow is released.
\<close>

theorem release_distribution:
  assumes "acct_ok D s" and "chain_inv D s" and "EscrowGet D eid s = Some e" and "escStatus e = EscrowFunded"
    and "off_vault D E e" and "Release D E eid caller s = (Inr (), t)"
  defines "fee \<equiv> calculateFee (escAmount e) (escFeeBps e)"
  shows "EscrowGet D eid t = Some (e\<lparr>escStatus := EscrowReleased\<rparr>)
    \<and> coinBalance D coin t a = coinBalance D coin s a +
        (if coin = tokenCoin (escToken e) then
           (if a = Payee e then escAmount e - fee else 0) + (if a = feeTreasury E then fee else 0)
           - (if a = vaultAddr D (escToken e) then escAmount e else 0)
         else 0)"
  using assms(1,6)
proof (cases rule: Release_run)
  case again
  with assms(3,4) show ?thesis by simp
next
  case (released e' am u)
  with assms(3) have e': "e' = e" by simp
  note released = released [unfolded e']
  have am: "am = (escAmount e - fee, fee, 0, 0)"
    using released(4) assms(4) by (simp add: releaseAmounts_def fee_def Let_def)
  note loaded = acct_ok_loaded [OF assms(1,3)]
  have ok: "amounts_ok (escAmount e) am"
    by (rule releaseAmounts_ok [OF released(4) loaded(4) escrow_wf_fee [OF loaded(1)]])
  have p: "pays D (tokenCoin (escToken e)) (vaultAddr D (escToken e)) (settlement E (Payee e) am) s u"
    using assms(5) by (intro payOut_vault(5) [OF assms(2) loaded(3) ok released(5)])
      (simp_all add: off_vault_def Let_def am)
  have "fundPart t = (stateAccounts u, accountMetas u, (vaultBals s)(eid := (\<lambda>_. 0)))"
    using released(2) by (intro close_effect [OF assms(1,3) _ _ escrow_self [symmetric] payOut_more [OF released(5)]
        released(6)]) (simp_all add: settled_def)
  then have "coinBalance D coin t = coinBalance D coin u"
    by (intro funds_cong) (simp_all add: fundPart_def)
  with p released(7) show ?thesis
    by (auto simp: pays_def settlement_def am)
qed

lemma sample_release_any:
  assumes "(st, caller) = (EscrowFunded, 2) \<or> (st, caller) = (EscrowDisputed, 3)"
  obtains t where "Release refEDeps refEngine 80 caller (sampleState st 100) = (Inr (), t)"
proof -
  let ?s = "sampleState st 100"
  have st: "statusValid st" using assms by auto
  have "calculateFee 100 250 = 2" by (simp add: calculateFee_def)
  then have am: "releaseAmounts (sampleEscrow st) = Inr (98, 2, 0, 0)"
    using assms by (auto simp: releaseAmounts_def computeDisputePayouts_def sampleEscrow_def Let_def checkS_def)
  have ok: "amounts_ok 100 (98, 2, 0, 0)" by (simp add: amounts_ok_def)
  have "\<exists>u. payOut refEDeps refEngine 23 2 ''NHB'' (98, 2, 0, 0) ?s = (Inr (), u)"
    by (rule payOut_succeeds [OF sample_inv _ ok])
      (simp_all add: sample_supply sample_balance tokenCoin_def refEngine_def)
  then obtain u where po: "payOut refEDeps refEngine 23 2 ''NHB'' (98, 2, 0, 0) ?s = (Inr (), u)" by blast
  obtain t where "closeEscrow refEDeps 80 (sampleEscrow st) EscrowReleased (NewReleasedEvent refEDeps) u = (Inr (), t)"
    using assms close_succeeds [OF sample_acct_ok sample_get _ _ escrow_self [symmetric] payOut_more [OF po],
        of EscrowReleased "NewReleasedEvent refEDeps"] st
    by (auto simp: settled_def)
  with po am assms st show ?thesis
    by (intro that [of t]) (auto simp: Release_def guardE_def loadEscrow_def run_defs refEngine_def Guard_def
        EscrowVaultAddress_run vaultAddr_ref)
qed

lemmas sample_release = sample_release_any [of EscrowFunded 2, simplified]

text \<open>A dispute does not block the mediator (address 3 here): its \<^verbatim>\<open>Release\<close> of a disputed escrow succeeds.\<close>

lemma mediator_release_disputed:
  "\<exists>t. Release refEDeps refEngine 80 3 (sampleState EscrowDisputed 100) = (Inr (), t)"
  by (rule sample_release_any [of EscrowDisputed 3]) auto

theorem release_distribution_witness:
  "\<exists>t. Release refEDeps refEngine 80 2 (sampleState EscrowFunded 100) = (Inr (), t)
     \<and> coinBalance refEDeps NHB t 2 = 98 \<and> coinBalance refEDeps NHB t 9 = 2 \<and> coinBalance refEDeps NHB t 23 = 0"
proof -
  obtain t where run: "Release refEDeps refEngine 80 2 (sampleState EscrowFunded 100) = (Inr (), t)"
    by (rule sample_release)
  have fee: "calculateFee 100 250 = 2" by (simp add: calculateFee_def)
  have off: "off_vault refEDeps refEngine (sampleEscrow EscrowFunded)"
    by (rule sample_off_vault [OF sample_get]) simp_all
  note d = release_distribution [OF sample_acct_ok sample_inv sample_get _ off run, of NHB]
  have "coinBalance refEDeps NHB t 2 = 98" using d [of 2]
    by (simp add: fee tokenCoin_def refEngine_def vaultAddr_ref sample_balance)
  moreover have "coinBalance refEDeps NHB t 9 = 2" using d [of 9]
    by (simp add: fee tokenCoin_def refEngine_def vaultAddr_ref sample_balance)
  moreover have "coinBalance refEDeps NHB t 23 = 0" using d [of 23]
    by (simp add: fee tokenCoin_def refEngine_def vaultAddr_ref sample_balance)
  ultimately show ?thesis using run by blast
qed

section \<open>Arbitration\<close>

text \<open>The address a signature of a decision recovers to, by itself.\<close>

definition recovered :: "'d edeps_scheme \<Rightarrow> hash32 \<Rightarrow> string \<Rightarrow> address option" where
  "recovered D digest sig =
     (if length sig \<noteq> 65 then None
      else let v = of_char (sig ! 64) :: nat; rid = (if v \<ge> 27 then v - 27 else v)
           in if rid \<noteq> 0 \<and> rid \<noteq> 1 then None
              else case sigToAddr D digest (sig[64 := char_of rid]) of Inl _ \<Rightarrow> None | Inr a \<Rightarrow> Some a)"

definition signersOf :: "'d edeps_scheme \<Rightarrow> hash32 \<Rightarrow> string list \<Rightarrow> address set" where
  "signersOf D digest sigs = {a. Some a \<in> recovered D digest ` set sigs}"

definition quorum :: "'d edeps_scheme \<Rightarrow> FrozenArb \<Rightarrow> hash32 \<Rightarrow> string list \<Rightarrow> bool" where
  "quorum D f digest sigs \<longleftrightarrow> sigs \<noteq> [] \<and> arbMembers f \<noteq> []
     \<and> recovered D digest ` set sigs \<subseteq> Some ` set (arbMembers f)
     \<and> unat (arbThreshold f) \<le> card (signersOf D digest sigs)"

lemma collectSigners_step:
  "case recovered D digest sig of
     Some a \<Rightarrow> collectSigners D allowed digest (sig # sigs) unique =
       (if a \<in> allowed then collectSigners D allowed digest sigs (if a \<in> set unique then unique else unique @ [a])
        else Inl ''escrow: signature %d not from authorized arbitrator'')
   | None \<Rightarrow> isl (collectSigners D allowed digest (sig # sigs) unique)"
proof -
  obtain rid :: nat where rid: "rid = (if 27 \<le> (of_char (sig ! 64) :: nat) then of_char (sig ! 64) - 27 else of_char (sig ! 64))"
    by blast
  show ?thesis
    unfolding collectSigners.simps recovered_def Let_def rid [symmetric]
    by (cases "sigToAddr D digest (sig[64 := char_of rid])") (simp_all add: checkS_def wrapS_def)
qed

lemma collectSigners_Some:
  "recovered D digest sig = Some a \<Longrightarrow> collectSigners D allowed digest (sig # sigs) unique =
     (if a \<in> allowed then collectSigners D allowed digest sigs (if a \<in> set unique then unique else unique @ [a])
      else Inl ''escrow: signature %d not from authorized arbitrator'')"
  using collectSigners_step [where D = D and digest = digest and sig = sig and allowed = allowed
      and sigs = sigs and unique = unique] by simp

lemma collectSigners_Inr:
  "distinct unique \<Longrightarrow> collectSigners D allowed digest sigs unique = Inr S \<Longrightarrow>
     recovered D digest ` set sigs \<subseteq> Some ` allowed \<and> distinct S
     \<and> set S = set unique \<union> signersOf D digest sigs"
proof (induction sigs arbitrary: unique)
  case (Cons sig sigs)
  obtain a where Some: "recovered D digest sig = Some a"
    using collectSigners_step [where D = D and digest = digest and sig = sig and allowed = allowed
      and sigs = sigs and unique = unique]
    unfolding Cons.prems(2) by (cases "recovered D digest sig") simp_all
  with Cons.prems(2) have a: "a \<in> allowed"
    and rest: "collectSigners D allowed digest sigs (if a \<in> set unique then unique else unique @ [a]) = Inr S"
    unfolding collectSigners_Some [OF Some] by (auto split: if_splits)
  have "distinct (if a \<in> set unique then unique else unique @ [a])" using Cons.prems(1) by simp
  from Cons.IH [OF this rest] a Some show ?case
    by (auto simp: signersOf_def split: if_splits)
qed (simp add: signersOf_def)

lemma collectSigners_complete:
  "recovered D digest ` set sigs \<subseteq> Some ` allowed \<Longrightarrow> \<exists>S. collectSigners D allowed digest sigs unique = Inr S"
proof (induction sigs arbitrary: unique)
  case (Cons sig sigs)
  then obtain a where a: "recovered D digest sig = Some a" "a \<in> allowed" by auto
  from Cons show ?case unfolding collectSigners_Some [OF a(1)] using a(2) by simp
qed simp

text \<open>
  Property C7 (arbitrator quorum). \<^verbatim>\<open>verifyDecisionSignatures\<close> accepts a bundle exactly when the
  policy has members, every signature of the non-empty bundle recovers to a member and the
  number of different signers reaches the threshold; it then returns each signer once.
\<close>

theorem decision_quorum:
  "case verifyDecisionSignatures D (Some f) digest sigs of
     Inr signers \<Rightarrow> quorum D f digest sigs \<and> distinct signers \<and> set signers = signersOf D digest sigs
   | Inl _ \<Rightarrow> \<not> quorum D f digest sigs"
proof (cases "collectSigners D (set (arbMembers f)) digest sigs []")
  case (Inl err)
  then have "\<not> recovered D digest ` set sigs \<subseteq> Some ` set (arbMembers f)"
    using collectSigners_complete [of D digest sigs "set (arbMembers f)" "[]"] by auto
  with Inl show ?thesis by (auto simp: verifyDecisionSignatures_def checkS_def quorum_def)
next
  case (Inr S)
  from collectSigners_Inr [OF _ Inr] have S: "distinct S" "set S = signersOf D digest sigs"
    "recovered D digest ` set sigs \<subseteq> Some ` set (arbMembers f)" by auto
  then have "card (signersOf D digest sigs) = length S" using distinct_card by metis
  with Inr S show ?thesis by (auto simp: verifyDecisionSignatures_def checkS_def quorum_def)
qed

section \<open>Repeated calls\<close>

primrec callTarget :: "escrow_call \<Rightarrow> hash32 option" where
  "callTarget (CallCreateRealm r) = None"
| "callTarget (CallUpdateRealm r) = None"
| "callTarget (CallCreate payer payee token amt feeBps deadline nonce med metaHash realm) = None"
| "callTarget (CallFund eid from) = Some eid"
| "callTarget (CallRelease eid caller) = Some eid"
| "callTarget (CallRefund eid caller) = Some eid"
| "callTarget (CallExpire eid now) = Some eid"
| "callTarget (CallDispute eid caller reason) = Some eid"
| "callTarget (CallResolve eid caller outcome) = Some eid"
| "callTarget (CallResolveWithSignatures eid payload sigs) = Some eid"

text \<open>The escrow is where the call wants it.\<close>

primrec callDone :: "escrow_call \<Rightarrow> Escrow \<Rightarrow> bool" where
  "callDone (CallCreateRealm r) e = False"
| "callDone (CallUpdateRealm r) e = False"
| "callDone (CallCreate payer payee token amt feeBps deadline nonce med metaHash realm) e = False"
| "callDone (CallFund eid from) e = (escStatus e = EscrowFunded)"
| "callDone (CallRelease eid caller) e = (escStatus e = EscrowReleased)"
| "callDone (CallRefund eid caller) e = (escStatus e = EscrowRefunded)"
| "callDone (CallExpire eid now) e = (escStatus e = EscrowExpired)"
| "callDone (CallDispute eid caller reason) e =
     (escStatus e = EscrowDisputed \<and> (trimSpace reason = [] \<or> trimSpace (DisputeReason e) \<noteq> []))"
| "callDone (CallResolve eid caller outcome) e = settled (escStatus e)"
| "callDone (CallResolveWithSignatures eid payload sigs) e = settled (escStatus e)"

lemma done_noop:
  assumes "callTarget c = Some eid" and "EscrowGet D eid t = Some e" and "callDone c e"
    and "Guard (engPauses E) ''escrow'' = Inr ()"
  shows "runCall D E c t = (Inr (), t)"
  using assms
  by (cases c) (simp_all add: Fund_def Release_def Refund_def Expire_def Dispute_def Resolve_def
      ResolveWithSignatures_def guardE_def loadEscrow_def run_defs Let_def)

text \<open>A successful call on an escrow leaves the state alone or the escrow where it wants it.\<close>

definition accomplished :: "'d edeps_scheme \<Rightarrow> engine \<Rightarrow> escrow_call \<Rightarrow> 'x estate_scheme \<Rightarrow> 'x estate_scheme \<Rightarrow> bool" where
  "accomplished D E c s t \<longleftrightarrow> t = s \<or> (\<exists>eid e. callTarget c = Some eid \<and> EscrowGet D eid t = Some e
     \<and> callDone c e \<and> Guard (engPauses E) ''escrow'' = Inr ())"

lemma accomplished_refunds:
  assumes "acct_ok D s" and "runCall D E c s = (Inr (), t)" and "c = CallRefund eid caller \<or> c = CallExpire eid now"
  shows "accomplished D E c s t"
proof -
  define st where "st = (if c = CallRefund eid caller then EscrowRefunded else EscrowExpired)"
  define ev where "ev = (if c = CallRefund eid caller then NewRefundedEvent D else NewExpiredEvent D)"
  have st: "settled st" by (simp add: st_def settled_def)
  from assms(2,3) obtain e where e: "EscrowGet D eid s = Some e" and g: "Guard (engPauses E) ''escrow'' = Inr ()"
    and "t = s \<or> escStatus e = EscrowFunded \<and> refundEscrow D e (Payer e) st ev s = (Inr (), t)"
    by (auto simp: Refund_def Expire_def call_run st_def ev_def split: if_splits)
  then show ?thesis
  proof (elim disjE conjE)
    assume "escStatus e = EscrowFunded" and "refundEscrow D e (Payer e) st ev s = (Inr (), t)"
    from refundEscrow_run [OF assms(1) e this(1) st this(2)]
    have "EscrowGet D eid t = Some (e\<lparr>escStatus := st\<rparr>)" .
    with assms(3) g show ?thesis by (auto simp: accomplished_def st_def)
  qed (simp add: accomplished_def)
qed

lemma accomplished_dispute:
  assumes "acct_ok D s" and "runCall D E (CallDispute eid caller reason) s = (Inr (), t)"
  shows "accomplished D E (CallDispute eid caller reason) s t"
proof -
  from assms(2) obtain e where e: "EscrowGet D eid s = Some e" and g: "Guard (engPauses E) ''escrow'' = Inr ()"
    by (auto simp: Dispute_def call_run)
  have ok: "store_ok D s" using assms(1) by (simp add: acct_ok_def)
  note loaded = acct_ok_loaded [OF assms(1) e]
  have upd: "e\<lparr>DisputeReason := r\<rparr> = esc_update e (escStatus e) (ResolutionHash e) r"
    "e\<lparr>escStatus := st, DisputeReason := r\<rparr> = esc_update e st (ResolutionHash e) r"
    "e\<lparr>escStatus := st\<rparr> = esc_update e st (ResolutionHash e) (DisputeReason e)" for st r
    by (simp_all add: esc_update_def)
  consider "t = s" | r u where "trimSpace reason = [] \<or> r = trimSpace reason" and "trimSpace r = r"
      and "EscrowPut D (esc_update e EscrowDisputed (ResolutionHash e) r) s = (Inr (), u)"
      and "emitEvent (NewDisputedEvent D (esc_update e EscrowDisputed (ResolutionHash e) r)) u = (Inr (), t)"
    using assms(2) e loaded(5) by (auto simp: Dispute_def call_run upd Let_def storeEscrow_def split: if_splits)
  then show ?thesis
  proof cases
    case (2 r u)
    from stored_update(1,3) [OF ok e _ 2(2), of EscrowDisputed "ResolutionHash e"] 2(3,4)
    have "EscrowGet D eid t = Some (esc_update e EscrowDisputed (ResolutionHash e) r)"
      by (auto simp: emitEvent_def modifyE_def)
    with 2(1,2) g show ?thesis by (auto simp: accomplished_def esc_update_def)
  qed (simp add: accomplished_def)
qed

lemma emit_keeps: "emitEvent ev u = (Inr (), t) \<Longrightarrow> EscrowGet D eid t = EscrowGet D eid u"
  by (auto simp: emitEvent_def modifyE_def)

lemma accomplished_resolve:
  assumes "acct_ok D s" and "runCall D E (CallResolve eid caller outcome) s = (Inr (), t)"
  shows "accomplished D E (CallResolve eid caller outcome) s t"
proof -
  from assms(2) obtain e where e: "EscrowGet D eid s = Some e" and g: "Guard (engPauses E) ''escrow'' = Inr ()"
    by (auto simp: Resolve_def call_run)
  show ?thesis
  proof (cases "settled (escStatus e)")
    case True
    with assms(2) e show ?thesis by (simp add: Resolve_def call_run accomplished_def)
  next
    case False
    with assms(2) e obtain d where "ParseDecisionOutcome outcome = Inr d" by (auto simp: Resolve_def call_run)
    with False assms(2) e obtain u ev where st: "escStatus e = EscrowDisputed" and em: "emitEvent ev u = (Inr (), t)"
      and run: "Release D E eid caller s = (Inr (), u) \<or> arbitratedRefund D E (e\<lparr>ResolutionHash := ResolutionHash e\<rparr>) s = (Inr (), u)"
      by (cases d) (auto simp: Resolve_def call_run)
    have "\<exists>e'. EscrowGet D eid u = Some e' \<and> settled (escStatus e')"
      using run
    proof
      assume "Release D E eid caller s = (Inr (), u)"
      with assms(1) show ?thesis
        by (cases rule: Release_run) (use e st in \<open>auto simp: settled_def\<close>)
    next
      assume "arbitratedRefund D E (e\<lparr>ResolutionHash := ResolutionHash e\<rparr>) s = (Inr (), u)"
      then show ?thesis by (rule arbitrated_run [OF assms(1) e st disjI2]) simp
    qed
    with g show ?thesis by (auto simp: accomplished_def emit_keeps [OF em])
  qed
qed

lemma accomplished_signed:
  assumes "acct_ok D s" and "runCall D E (CallResolveWithSignatures eid payload sigs) s = (Inr (), t)"
  shows "accomplished D E (CallResolveWithSignatures eid payload sigs) s t"
proof -
  from assms(2) obtain e where e: "EscrowGet D eid s = Some e" and g: "Guard (engPauses E) ''escrow'' = Inr ()"
    by (auto simp: ResolveWithSignatures_def call_run)
  show ?thesis
  proof (cases "settled (escStatus e)")
    case True
    with assms(2) e show ?thesis by (simp add: ResolveWithSignatures_def call_run accomplished_def)
  next
    case False
    with assms(2) e obtain d m h where d: "parseDecisionPayload D eid (escFrozenArb e) payload = Inr (d, m, h)"
      by (auto simp: ResolveWithSignatures_def call_run split: prod.splits)
    show ?thesis
    proof (cases "ResolutionHash e = h")
      case True
      with False assms(2) e d show ?thesis by (simp add: ResolveWithSignatures_def call_run accomplished_def)
    next
      case hash: False
      from False hash assms(2) e d obtain u ev where st: "escStatus e = EscrowDisputed"
        and em: "emitEvent ev u = (Inr (), t)"
        and run: "arbitratedRelease D E (e\<lparr>ResolutionHash := h\<rparr>) s = (Inr (), u)
          \<or> arbitratedRefund D E (e\<lparr>ResolutionHash := h\<rparr>) s = (Inr (), u)"
        by (cases d) (auto simp: ResolveWithSignatures_def call_run Let_def)
      have "\<exists>e'. EscrowGet D eid u = Some e' \<and> settled (escStatus e')"
        by (rule arbitrated_run [OF assms(1) e st run]) simp
      with g show ?thesis by (auto simp: accomplished_def emit_keeps [OF em])
    qed
  qed
qed

lemma accomplished_runCall:
  assumes "acct_ok D s" and "runCall D E c s = (Inr (), t)" and "callTarget c \<noteq> None"
  shows "accomplished D E c s t"
proof (cases c)
  case (CallFund eid caller)
  with assms(2) have "Fund D E eid caller s = (Inr (), t)" by simp
  with assms(1) show ?thesis by (cases rule: Fund_run) (simp_all add: CallFund accomplished_def)
next
  case (CallRelease eid caller)
  with assms(2) have "Release D E eid caller s = (Inr (), t)" by simp
  with assms(1) show ?thesis by (cases rule: Release_run) (simp_all add: CallRelease accomplished_def)
qed (use assms in \<open>auto intro: accomplished_refunds accomplished_dispute accomplished_resolve accomplished_signed\<close>)

text \<open>
  Property C9 (retries). Repeating a successful call on an escrow with the same arguments succeeds
  and changes nothing: no second transfer, no second event.
\<close>

theorem escrow_retry_noop:
  assumes "acct_ok D s" and "callTarget c \<noteq> None" and "runCall D E c s = (Inr (), t)"
  shows "runCall D E c t = (Inr (), t)"
  using accomplished_runCall [OF assms(1,3,2)] assms(3) done_noop
  unfolding accomplished_def by blast

theorem escrow_retry_noop_witness:
  "\<exists>t. runCall refEDeps refEngine (CallRefund 80 1) (sampleState EscrowFunded 100) = (Inr (), t)
     \<and> runCall refEDeps refEngine (CallRefund 80 1) t = (Inr (), t)"
proof -
  obtain t where run: "runCall refEDeps refEngine (CallRefund 80 1) (sampleState EscrowFunded 100) = (Inr (), t)"
    by (rule sample_refund)
  with escrow_retry_noop [OF sample_acct_ok _ run] show ?thesis by simp
qed

lemma createFresh_Inr:
  assumes "escRealmID p = []" and "escFrozenArb p = None"
  shows "createFresh D p s = (Inr e, t) \<longleftrightarrow>
    e = p \<and> (\<exists>u. EscrowPut D p s = (Inr (), u) \<and> emitEvent (NewCreatedEvent D p) u = (Inr (), t))"
proof -
  have "p\<lparr>escFrozenArb := None\<rparr> = p" using assms(2) by simp
  with assms(1) show ?thesis by (auto simp: createFresh_def storeEscrow_def run_simps Let_def)
qed

lemma Create_Inr:
  "Create D E payer payee token amt feeBps deadline nonce med metaHash realmId s = (Inr e, t) \<longleftrightarrow>
     Guard (engPauses E) ''escrow'' = Inr () \<and> nonce \<noteq> 0 \<and> 0 < amt \<and> feeBps \<le> 10000 \<and> engNow E \<le> deadline \<and>
     (\<exists>tok. NormalizeToken token = Inr tok \<and>
       (case EscrowGet D (escrowID D payer payee metaHash nonce) s of
          Some x \<Rightarrow> e = x \<and> t = s \<and> Payer x = payer \<and> Payee x = payee \<and> escToken x = tok \<and> escAmount x = amt
            \<and> escFeeBps x = feeBps \<and> escDeadline x = deadline \<and> MetaHash x = metaHash
            \<and> Mediator x = (case med of None \<Rightarrow> 0 | Some m \<Rightarrow> m) \<and> escNonce x = nonce
            \<and> trimSpace (escRealmID x) = trimSpace realmId
        | None \<Rightarrow> createFresh D
            \<lparr>escID = escrowID D payer payee metaHash nonce, Payer = payer, Payee = payee,
             Mediator = (case med of None \<Rightarrow> 0 | Some m \<Rightarrow> m), escToken = tok, escAmount = amt, escFeeBps = feeBps,
             escDeadline = deadline, escCreatedAt = engNow E, escNonce = nonce, MetaHash = metaHash,
             escStatus = EscrowInit, escRealmID = trimSpace realmId, escFrozenArb = None, ResolutionHash = 0,
             DisputeReason = []\<rparr> s = (Inr e, t)))"
  unfolding Create_def Let_def guardE_def
  by (cases "EscrowGet D (escrowID D payer payee metaHash nonce) s"; cases "NormalizeToken token";
      simp only: run_simps option.case; simp add: not_le not_less run_simps; argo?)

lemma create_stored:
  assumes "acct_ok D s" and "0 \<le> engNow E" and "int64 deadline" and "trimSpace realmId = []"
    and "Create D E payer payee token amt feeBps deadline nonce med metaHash realmId s = (Inr e, t)"
  shows "EscrowGet D (escID e) t = Some e" and "escID e = escrowID D payer payee metaHash nonce"
    and "Payer e = payer" and "Payee e = payee" and "NormalizeToken token = Inr (escToken e)" and "escAmount e = amt"
    and "escFeeBps e = feeBps" and "escDeadline e = deadline" and "MetaHash e = metaHash" and "escNonce e = nonce"
    and "Mediator e = (case med of None \<Rightarrow> 0 | Some m \<Rightarrow> m)" and "escRealmID e = []"
    and "engNow E \<le> deadline" and "0 < amt"
    and "Create D E payer payee token amt feeBps deadline nonce med metaHash realmId t = (Inr e, t)"
proof -
  let ?eid = "escrowID D payer payee metaHash nonce"
  have D: "deps_ok D" using assms(1) by (simp add: acct_ok_def store_ok_def)
  from assms(5) [unfolded Create_Inr] obtain tok where g: "Guard (engPauses E) ''escrow'' = Inr ()" "nonce \<noteq> 0" "0 < amt"
    "feeBps \<le> 10000" "engNow E \<le> deadline" "NormalizeToken token = Inr tok" by blast
  note run = assms(5) [unfolded Create_Inr]
  have "EscrowGet D (escID e) t = Some e \<and> escID e = ?eid \<and> Payer e = payer \<and> Payee e = payee
    \<and> NormalizeToken token = Inr (escToken e) \<and> escAmount e = amt
    \<and> escFeeBps e = feeBps \<and> escDeadline e = deadline \<and> MetaHash e = metaHash \<and> escNonce e = nonce
    \<and> Mediator e = (case med of None \<Rightarrow> 0 | Some m \<Rightarrow> m) \<and> escRealmID e = []
    \<and> Create D E payer payee token amt feeBps deadline nonce med metaHash realmId t = (Inr e, t)"
  proof (cases "EscrowGet D ?eid s")
    case (Some x)
    have "trimSpace (escRealmID x) = escRealmID x" using acct_ok_loaded(1) [OF assms(1) Some] by (simp add: escrow_wf_def)
    with Some run acct_ok_loaded(2) [OF assms(1) Some] assms(4,5) show ?thesis by auto
  next
    case None
    let ?e = "\<lparr>escID = ?eid, Payer = payer, Payee = payee,
             Mediator = (case med of None \<Rightarrow> 0 | Some m \<Rightarrow> m), escToken = tok, escAmount = amt, escFeeBps = feeBps,
             escDeadline = deadline, escCreatedAt = engNow E, escNonce = nonce, MetaHash = metaHash,
             escStatus = EscrowInit, escRealmID = [], escFrozenArb = None, ResolutionHash = 0,
             DisputeReason = []\<rparr>"
    from run None g(6) assms(4) have "createFresh D ?e s = (Inr e, t)" by simp
    then obtain u where e: "e = ?e" and put: "EscrowPut D ?e s = (Inr (), u)"
      and em: "emitEvent (NewCreatedEvent D ?e) u = (Inr (), t)" by (subst (asm) createFresh_Inr) auto
    have wf: "escrow_wf D ?e" using g by (auto simp: escrow_wf_def NormalizeToken_Inr trimSpace_def)
    have dl: "0 \<le> deadline" "deadline < 2 ^ 63" "0 \<le> engNow E" "engNow E < 2 ^ 63"
      using g assms(2,3) by (auto simp: int64_def)
    have "EscrowPut D ?e s = (Inr (), putRec ?e s)" using EscrowPut_run [OF D wf] dl by simp
    with put have "u = putRec ?e s" by simp
    then have "EscrowGet D ?eid t = Some ?e"
      using EscrowGet_putRec [OF wf, of s] dl by (simp add: emit_keeps [OF em])
    moreover from this have "Create D E payer payee token amt feeBps deadline nonce med metaHash realmId t = (Inr ?e, t)"
      unfolding Create_Inr using g assms(4) by (simp add: trimSpace_def)
    ultimately show ?thesis using g(6) by (simp add: e)
  qed
  with g show "EscrowGet D (escID e) t = Some e" "escID e = escrowID D payer payee metaHash nonce"
    "Payer e = payer" "Payee e = payee" "NormalizeToken token = Inr (escToken e)" "escAmount e = amt"
    "escFeeBps e = feeBps" "escDeadline e = deadline" "MetaHash e = metaHash" "escNonce e = nonce"
    "Mediator e = (case med of None \<Rightarrow> 0 | Some m \<Rightarrow> m)" "escRealmID e = []" "engNow E \<le> deadline" "0 < amt"
    "Create D E payer payee token amt feeBps deadline nonce med metaHash realmId t = (Inr e, t)" by blast+
qed

text \<open>
  Creation round trip. What \<^verbatim>\<open>Create\<close> returns outside a realm is what the store holds
  afterwards under the returned identifier, with the requested terms; repeating the call
  returns the same escrow and changes nothing.
\<close>

theorem create_roundtrip:
  assumes "acct_ok D s" and "0 \<le> engNow E" and "int64 deadline" and "trimSpace realmId = []"
    and "Create D E payer payee token amt feeBps deadline nonce med metaHash realmId s = (Inr e, t)"
  shows "EscrowGet D (escID e) t = Some e \<and> Payer e = payer \<and> Payee e = payee \<and> escAmount e = amt
    \<and> escFeeBps e = feeBps \<and> escDeadline e = deadline \<and> MetaHash e = metaHash
    \<and> Create D E payer payee token amt feeBps deadline nonce med metaHash realmId t = (Inr e, t)"
  using create_stored [OF assms] by simp

theorem create_roundtrip_witness:
  "\<exists>t. Create refEDeps refEngine 1 2 ''NHB'' 100 250 1000 1 (Some 3) 0 [] emptyEstate = (Inr (sampleEscrow EscrowInit), t)
     \<and> EscrowGet refEDeps 80 t = Some (sampleEscrow EscrowInit)"
proof -
  have ok: "acct_ok refEDeps emptyEstate" by (rule acct_ok_empty) (simp_all add: emptyEstate_def)
  obtain e t where run: "Create refEDeps refEngine 1 2 ''NHB'' 100 250 1000 1 (Some 3) 0 [] emptyEstate = (Inr e, t)"
    using sample_create by (auto simp: ignoreResult_def run_simps)
  with sample_create have t: "t = (putRec (sampleEscrow EscrowInit) emptyEstate)
         \<lparr>events := [NewCreatedEvent refEDeps (sampleEscrow EscrowInit)]\<rparr>"
    by (simp add: ignoreResult_def run_defs)
  have "EscrowGet refEDeps (escID e) t = Some e"
    using create_roundtrip [OF ok _ _ _ run] by (simp add: refEngine_def int64_def trimSpace_def)
  moreover have "EscrowGet refEDeps 80 t = Some (sampleEscrow EscrowInit)"
    using EscrowGet_putRec [of refEDeps "sampleEscrow EscrowInit" emptyEstate] by (simp add: t sampleEscrow_wf)
  moreover have "EscrowGet refEDeps i t = None" if "i \<noteq> 80" for i
    using that by (simp add: t EscrowGet_putRec_other) (simp add: EscrowGet_def emptyEstate_def)
  ultimately have "e = sampleEscrow EscrowInit" by (cases "escID e = 80") simp_all
  with run \<open>EscrowGet refEDeps 80 t = _\<close> show ?thesis by blast
qed

section \<open>The store\<close>

text \<open>
  Property C10 (store round trip). An escrow that \<^verbatim>\<open>SanitizeEscrow\<close> accepts, with non-negative
  timestamps and with its frozen policy in the store when it names a realm, is stored, and the
  sanitised escrow is read back; no other escrow changes.
\<close>

theorem escrow_store_roundtrip:
  assumes "deps_ok D" and "SanitizeEscrow D e = Inr e'"
    and "0 \<le> escDeadline e" "escDeadline e < 2 ^ 63" "0 \<le> escCreatedAt e" "escCreatedAt e < 2 ^ 63"
    and "escRealmID e' \<noteq> [] \<longrightarrow> (\<exists>f. escFrozenArb e' = Some f \<and> frozenOf D (escID e) s = Some f)"
  shows "\<exists>t. EscrowPut D e s = (Inr (), t) \<and> EscrowGet D (escID e) t = Some e'
    \<and> (\<forall>i. i \<noteq> escID e \<longrightarrow> EscrowGet D i t = EscrowGet D i s)"
proof -
  have wf: "escrow_wf D e'" using assms(2) by (rule SanitizeEscrow_wf)
  have same: "escID e' = escID e" "escDeadline e' = escDeadline e" "escCreatedAt e' = escCreatedAt e"
    using assms(2) unfolding SanitizeEscrow_Inr by auto
  have "EscrowPut D e s = EscrowPut D e' s"
    using wf_SanitizeEscrow [OF wf] assms(2) by (simp add: EscrowPut_def)
  also have "\<dots> = (Inr (), putRec e' s)" using EscrowPut_run [OF assms(1) wf] assms(3,5) same by simp
  finally show ?thesis
    using EscrowGet_putRec [OF wf, of s] EscrowGet_putRec_other [of _ e' D s] assms(3-7) same by simp
qed

theorem escrow_store_roundtrip_witness:
  "\<exists>t. EscrowPut refEDeps (sampleEscrow EscrowFunded) emptyEstate = (Inr (), t)
     \<and> EscrowGet refEDeps 80 t = Some (sampleEscrow EscrowFunded)"
  using escrow_store_roundtrip [OF refEDeps_ok wf_SanitizeEscrow [OF sampleEscrow_wf], of EscrowFunded emptyEstate]
  by auto

section \<open>Error paths\<close>

text \<open>
  Property C12 (release without a treasury). \<^verbatim>\<open>Release\<close> checks that the fee treasury is configured
  only after it has paid the payee. Without one, the payee's release of a funded escrow with a
  fee returns the error, but the payee has the payout and the escrow is still funded.
\<close>

theorem release_without_treasury:
  assumes "acct_ok D s" and "chain_inv D s" and "solvent D s" and "totalSupply D NHB s < 2 ^ 256"
    and "EscrowGet D eid s = Some e" and "escStatus e = EscrowFunded" and "Guard (engPauses E) ''escrow'' = Inr ()"
    and "0 < calculateFee (escAmount e) (escFeeBps e)" and "feeTreasury E = 0" and "vaultAddr D (escToken e) \<noteq> Payee e"
  shows "\<exists>t. Release D E eid (Payee e) s = (Inl ''escrow engine: fee treasury not configured'', t)
    \<and> EscrowGet D eid t = Some e
    \<and> coinBalance D (tokenCoin (escToken e)) t (Payee e) =
        coinBalance D (tokenCoin (escToken e)) s (Payee e) + (escAmount e - calculateFee (escAmount e) (escFeeBps e))"
proof -
  let ?v = "vaultAddr D (escToken e)" and ?fee = "calculateFee (escAmount e) (escFeeBps e)"
  note loaded = acct_ok_loaded [OF assms(1,5)]
  have fee: "?fee \<le> escAmount e" "0 \<le> ?fee"
    using calculateFee_bounds [OF loaded(4)] escrow_wf_fee [OF loaded(1)] by auto
  have covers: "escAmount e \<le> coinBalance D (tokenCoin (escToken e)) s ?v"
    using assms(6) by (intro vault_covers [OF assms(1,3,5)]) simp
  have "0 \<le> escAmount e - ?fee" "escAmount e - ?fee \<le> coinBalance D (tokenCoin (escToken e)) s ?v"
    using fee covers by auto
  from move_succeeds [OF assms(2) loaded(3) this(1) assms(10,4) this(2)] obtain t
    where mv: "(if 0 < escAmount e - ?fee then moveToken D ?v (Payee e) (escToken e) (escAmount e - ?fee) else retE ()) s
      = (Inr (), t)" by blast
  note moved = opt_move [OF assms(2) loaded(3) \<open>0 \<le> escAmount e - ?fee\<close> mv]
  have "Release D E eid (Payee e) s = (Inl ''escrow engine: fee treasury not configured'', t)"
    using assms(5-9) fee mv loaded(3)
    by (simp add: Release_def guardE_def loadEscrow_def run_defs EscrowVaultAddress_run releaseAmounts_def Let_def
        payOut_def ensureTreasuryConfigured_def checkS_def split: if_splits)
  moreover have "EscrowGet D eid t = Some e" using assms(5) by (simp add: EscrowGet_more [OF moved(2)])
  moreover have "coinBalance D (tokenCoin (escToken e)) t (Payee e) =
      coinBalance D (tokenCoin (escToken e)) s (Payee e) + (escAmount e - ?fee)"
    using moved(5) [OF assms(10)] assms(10) by (simp add: pays_def)
  ultimately show ?thesis by blast
qed

theorem release_without_treasury_witness:
  "\<exists>t. Release refEDeps (refEngine\<lparr>feeTreasury := 0\<rparr>) 80 2 (sampleState EscrowFunded 100)
       = (Inl ''escrow engine: fee treasury not configured'', t)
     \<and> EscrowGet refEDeps 80 t = Some (sampleEscrow EscrowFunded) \<and> coinBalance refEDeps NHB t 2 = 98"
proof -
  have fee: "calculateFee 100 250 = 2" by (simp add: calculateFee_def)
  show ?thesis
    using release_without_treasury [OF sample_acct_ok sample_inv sample_solvent _ sample_get,
        of EscrowFunded 100 "refEngine\<lparr>feeTreasury := 0\<rparr>"]
    by (simp add: held_def sample_supply vaultAddr_ref tokenCoin_def refEngine_def Guard_def fee sample_balance)
qed

text \<open>
  Property C13 (transfer to oneself). \<^verbatim>\<open>transferToken\<close> reads both accounts before it writes either, so a
  transfer from an account to itself that it accepts creates the amount.
\<close>

theorem self_transfer_mints:
  assumes "chain_inv D s" and "NormalizeToken tok = Inr tok" and "0 < amt"
    and "moveToken D a a tok amt s = (Inr (), t)"
  shows "coinBalance D (tokenCoin tok) t a = coinBalance D (tokenCoin tok) s a + amt
    \<and> totalSupply D (tokenCoin tok) t = totalSupply D (tokenCoin tok) s + amt"
proof -
  from assms have bal: "coinBalance D (tokenCoin tok) t = (coinBalance D (tokenCoin tok) s)
      (a := coinBalance D (tokenCoin tok) s a + amt)"
    by (cases rule: al.transfer_cases) (simp_all add: al_bal_fun)
  have "totalSupply D (tokenCoin tok) t
      = (\<Sum>x\<in>UNIV. coinBalance D (tokenCoin tok) s x + (if x = a then amt else 0))"
    unfolding totalSupply_def bal by (intro sum.cong) auto
  then show ?thesis by (simp add: bal totalSupply_def sum.distrib)
qed

theorem self_transfer_mints_witness:
  "\<exists>t. moveToken refEDeps 23 23 ''NHB'' 40 (sampleState EscrowInit 100) = (Inr (), t)
     \<and> coinBalance refEDeps NHB t 23 = 140"
proof -
  let ?s = "sampleState EscrowInit 100"
  obtain r t where run: "moveToken refEDeps 23 23 ''NHB'' 40 ?s = (r, t)"
    by (cases "moveToken refEDeps 23 23 ''NHB'' 40 ?s")
  have inv: "chain_inv refEDeps ?s" by (rule sample_inv) simp_all
  have tok: "NormalizeToken ''NHB'' = Inr ''NHB''" by simp
  have "r = Inr ()"
    by (rule al.transfer_cases [OF inv tok _ run]) (simp_all add: al_bal_fun sample_balance tokenCoin_def)
  with run self_transfer_mints [OF inv tok, of 40 23 t] show ?thesis
    by (simp add: sample_balance tokenCoin_def)
qed

text \<open>
  Fees. The fee of an amount is its share in basis points rounded down: it never
  takes the payout below zero, and one more unit of fee would exceed the exact share.
\<close>

theorem fee_bounds:
  assumes "0 \<le> amount" and "bps \<le> 10000"
  shows "0 \<le> calculateFee amount bps \<and> calculateFee amount bps \<le> amount
    \<and> calculateFee amount bps * 10000 \<le> amount * uint bps
    \<and> amount * uint bps < (calculateFee amount bps + 1) * 10000"
proof -
  have "amount * uint bps div 10000 * 10000 \<le> amount * uint bps"
    "amount * uint bps < (amount * uint bps div 10000 + 1) * 10000" by presburger+
  moreover have "calculateFee amount bps = amount * uint bps div 10000"
    using assms(1) by (simp add: calculateFee_def)
  ultimately show ?thesis using calculateFee_bounds [OF assms(1), of bps] assms(2) by simp
qed

theorem fee_bounds_witness:
  "calculateFee 999 250 * 10000 \<le> 999 * 250 \<and> 999 * 250 < (calculateFee 999 250 + 1) * 10000"
  using fee_bounds [of 999 250] by simp

end
