(* ===== verification/TradeProps.thy ===== *)
theory TradeProps
  imports TradeEngine EscrowTheorems
begin

text \<open>
  Properties of the trade engine: the settlement amounts, the two legs of every trade in all
  reachable states of both engines together, and the exchange that a settlement makes.
\<close>

section \<open>Settlement amounts\<close>

lemma le_div_10000: "d \<le> r div 10000 \<longleftrightarrow> d * 10000 \<le> r" for d r :: int
proof -
  have "r div 10000 * 10000 + r mod 10000 = r" "0 \<le> r mod 10000" "r mod 10000 < 10000" by simp_all
  then show ?thesis by linarith
qed

lemma ensureSlippage_Inr:
  "ensureSlippage eb eq b q bps = Inr u \<longleftrightarrow>
     0 < eb \<and> 0 < eq \<and> 0 < b \<and> 0 < q \<and> \<bar>q * eb - eq * b\<bar> * 10000 \<le> eq * b * uint bps"
proof (cases "0 < eb \<and> 0 < eq \<and> 0 < b \<and> 0 < q")
  case True
  have "uint bps = 0 \<longleftrightarrow> bps = 0" by (simp add: uint_0_iff)
  with True show ?thesis by (auto simp: ensureSlippage_def Let_def not_less le_div_10000)
qed (auto simp: ensureSlippage_def)

definition acceptable :: "Trade \<Rightarrow> int \<times> int \<Rightarrow> bool" where
  "acceptable trade c \<longleftrightarrow> ensureSlippage (BaseAmount trade) (QuoteAmount trade) (fst c) (snd c) (SlippageBps trade) = Inr ()"

lemma acceptable_pos: "acceptable trade (b, q) \<Longrightarrow> 0 < b \<and> 0 < q"
  by (simp add: acceptable_def ensureSlippage_Inr)

text \<open>The loop keeps a best candidate so far and returns one that beats all it has seen.\<close>

lemma bestCandidate_Cons:
  "bestCandidate trade (c # cands) best = bestCandidate trade cands
     (if acceptable trade c then (case best of None \<Rightarrow> Some c | Some m \<Rightarrow> if fst c > fst m then Some c else best) else best)"
proof (cases c)
  case (Pair b q)
  show ?thesis
  proof (cases "ensureSlippage (BaseAmount trade) (QuoteAmount trade) b q (SlippageBps trade)")
    case (Inl err)
    with Pair show ?thesis by (simp add: acceptable_def)
  next
    case (Inr u)
    then have "0 < b" "0 < q" by (simp_all add: ensureSlippage_Inr)
    with Pair Inr show ?thesis by (simp add: acceptable_def split: option.splits)
  qed
qed

lemma bestCandidate_Some:
  assumes "bestCandidate trade cands best = Some c"
  shows "(c \<in> set cands \<and> acceptable trade c \<or> best = Some c)
    \<and> (\<forall>x. x \<in> set cands \<and> acceptable trade x \<longrightarrow> fst x \<le> fst c) \<and> (\<forall>m. best = Some m \<longrightarrow> fst m \<le> fst c)"
  using assms
proof (induction cands arbitrary: best)
  case (Cons x cands)
  show ?case
    using Cons.IH [OF Cons.prems [unfolded bestCandidate_Cons]]
    by (cases best; cases x) (auto split: if_splits)
qed simp

lemma bestCandidate_None:
  "bestCandidate trade cands best = None \<Longrightarrow> best = None \<and> (\<forall>x\<in>set cands. \<not> acceptable trade x)"
proof (induction cands arbitrary: best)
  case (Cons x cands)
  show ?case
    using Cons.IH [OF Cons.prems [unfolded bestCandidate_Cons]] by (cases best) (auto split: if_splits)
qed simp

lemma scaled_le:
  fixes v w x :: int
  assumes "0 < v" and "0 < w" and "x \<le> w"
  shows "x * v div w \<le> v"
proof -
  have "x * v \<le> w * v" using assms by (intro mult_right_mono) auto
  then have "x * v div w \<le> w * v div w" using assms by (intro zdiv_mono1) auto
  then show ?thesis using assms by simp
qed

lemma candidate_bounds:
  assumes "(b, q) \<in> set (settlementCandidates eb eq bb qb)" and "0 < eb" and "0 < eq"
  shows "b \<le> bb \<and> b \<le> eb \<and> q \<le> qb \<and> q \<le> eq"
proof -
  have "min bb eb \<le> eb" "min bb eb \<le> bb" "min qb eq \<le> eq" "min qb eq \<le> qb" by simp_all
  with scaled_le [of eq eb "min bb eb"] scaled_le [of eb eq "min qb eq"] assms(2,3)
  have "min bb eb * eq div eb \<le> eq" "min qb eq * eb div eq \<le> eb" by simp_all
  with assms(1) show ?thesis
    by (simp add: settlementCandidates_def Let_def split: if_splits) linarith+
qed

lemma settlement_bounds:
  assumes "computeSettlementAmounts trade baseBalance quoteBalance = Inr (b, q)"
  shows "0 < b \<and> b \<le> baseBalance \<and> b \<le> BaseAmount trade \<and> 0 < q \<and> q \<le> quoteBalance \<and> q \<le> QuoteAmount trade
    \<and> \<bar>q * BaseAmount trade - QuoteAmount trade * b\<bar> * 10000 \<le> QuoteAmount trade * b * uint (SlippageBps trade)
    \<and> (BaseAmount trade \<le> baseBalance \<and> QuoteAmount trade \<le> quoteBalance
        \<longrightarrow> b = BaseAmount trade \<and> q = QuoteAmount trade)"
proof -
  let ?cs = "settlementCandidates (BaseAmount trade) (QuoteAmount trade) baseBalance quoteBalance"
  from assms have pos: "0 < BaseAmount trade" "0 < QuoteAmount trade" and best: "bestCandidate trade ?cs None = Some (b, q)"
    by (auto simp: computeSettlementAmounts_def bindS_Inr split: option.splits)
  from bestCandidate_Some [OF best] have c: "(b, q) \<in> set ?cs" "acceptable trade (b, q)" by auto
  have full: "b = BaseAmount trade \<and> q = QuoteAmount trade"
    if "BaseAmount trade \<le> baseBalance" "QuoteAmount trade \<le> quoteBalance"
  proof -
    have cs: "?cs = (BaseAmount trade, QuoteAmount trade) # tl ?cs" using that by (simp add: settlementCandidates_def)
    have acc: "acceptable trade (BaseAmount trade, QuoteAmount trade)"
      using pos by (simp add: acceptable_def ensureSlippage_Inr mult.commute)
    have "bestCandidate trade (tl ?cs) (Some (BaseAmount trade, QuoteAmount trade)) = Some (b, q)"
      using best acc by (subst (asm) cs) (simp add: bestCandidate_Cons del: bestCandidate.simps)
    from bestCandidate_Some [OF this] have "BaseAmount trade \<le> b"
      and alt: "(b, q) \<in> set (tl ?cs) \<or> (b, q) = (BaseAmount trade, QuoteAmount trade)" by auto
    with candidate_bounds [OF c(1) pos] have "b = BaseAmount trade" by auto
    have "(b', q') \<in> set (tl ?cs) \<Longrightarrow> b' = BaseAmount trade \<Longrightarrow> q' = QuoteAmount trade" for b' q'
      using that pos by (auto simp: settlementCandidates_def Let_def min_def split: if_splits)
    with alt \<open>b = BaseAmount trade\<close> show ?thesis by auto
  qed
  with c acceptable_pos [OF c(2)] candidate_bounds [OF c(1) pos] show ?thesis
    by (auto simp: acceptable_def ensureSlippage_Inr)
qed

text \<open>
  Property C17 (settlement amounts). A settlement that \<^verbatim>\<open>computeSettlementAmounts\<close> returns is positive on
  both legs, within both escrow balances and the agreed amounts, and off the agreed price by at most the
  slippage tolerance in basis points. When both legs hold the agreed amounts it is exactly the agreed exchange.
\<close>

theorem settlement_amounts:
  assumes "computeSettlementAmounts trade baseBalance quoteBalance = Inr (b, q)"
  shows "0 < b \<and> b \<le> baseBalance \<and> b \<le> BaseAmount trade \<and> 0 < q \<and> q \<le> quoteBalance \<and> q \<le> QuoteAmount trade
    \<and> \<bar>q * BaseAmount trade - QuoteAmount trade * b\<bar> * 10000 \<le> QuoteAmount trade * b * uint (SlippageBps trade)
    \<and> (BaseAmount trade \<le> baseBalance \<and> QuoteAmount trade \<le> quoteBalance
        \<longrightarrow> b = BaseAmount trade \<and> q = QuoteAmount trade)"
  by (rule settlement_bounds [OF assms])

theorem settlement_amounts_witness:
  "\<exists>b q. computeSettlementAmounts \<lparr>trID = 7, OfferID = [], Buyer = 1, Seller = 2, QuoteToken = ''NHB'', QuoteAmount = 30,
       EscrowQuote = 82, BaseToken = ''ZNHB'', BaseAmount = 10, EscrowBase = 81, trDeadline = 1000, trCreatedAt = 10,
       FundedAt = 0, SlippageBps = 500, trStatus = TradeFunded\<rparr> 7 25 = Inr (b, q)
     \<and> b \<le> 7 \<and> q \<le> 25 \<and> \<bar>q * 10 - 30 * b\<bar> * 10000 \<le> 30 * b * 500"
proof -
  let ?tr = "\<lparr>trID = 7, OfferID = [], Buyer = 1, Seller = 2, QuoteToken = ''NHB'', QuoteAmount = 30,
       EscrowQuote = 82, BaseToken = ''ZNHB'', BaseAmount = 10, EscrowBase = 81, trDeadline = 1000, trCreatedAt = 10,
       FundedAt = 0, SlippageBps = 500, trStatus = TradeFunded\<rparr>"
  have "computeSettlementAmounts ?tr 7 25 = Inr (7, 21)"
    by (simp add: computeSettlementAmounts_def settlementCandidates_def ensureSlippage_def checkS_def)
  from settlement_amounts [OF this] this show ?thesis by auto
qed

section \<open>The trade store\<close>

definition trade_wf :: "Trade \<Rightarrow> bool" where
  "trade_wf t \<longleftrightarrow> NormalizeToken (QuoteToken t) = Inr (QuoteToken t) \<and> NormalizeToken (BaseToken t) = Inr (BaseToken t)
     \<and> 0 \<le> QuoteAmount t \<and> 0 \<le> BaseAmount t \<and> SlippageBps t \<le> 10000 \<and> tradeStatusValid (trStatus t)"

lemma SanitizeTrade_Inr:
  "SanitizeTrade t = Inr t' \<longleftrightarrow> (\<exists>q b. NormalizeToken (QuoteToken t) = Inr q \<and> NormalizeToken (BaseToken t) = Inr b
     \<and> 0 \<le> QuoteAmount t \<and> 0 \<le> BaseAmount t \<and> SlippageBps t \<le> 10000 \<and> tradeStatusValid (trStatus t)
     \<and> t' = t\<lparr>QuoteToken := q, BaseToken := b\<rparr>)"
  by (auto simp: SanitizeTrade_def bindS_Inr not_less)

lemma SanitizeTrade_wf: "SanitizeTrade t = Inr t' \<Longrightarrow> trade_wf t'"
  by (auto simp: SanitizeTrade_Inr trade_wf_def dest: NormalizeToken_idem)

lemma wf_SanitizeTrade: "trade_wf t \<Longrightarrow> SanitizeTrade t = Inr t"
  by (simp add: SanitizeTrade_Inr trade_wf_def)

lemma tradeStatusOfByte_Byte [simp]: "tradeStatusValid st \<Longrightarrow> tradeStatusOfByte (tradeStatusByte st) = st"
  by (cases st) (simp_all add: tradeStatusOfByte_def)

definition trade_times :: "Trade \<Rightarrow> bool" where
  "trade_times t \<longleftrightarrow> 0 \<le> trDeadline t \<and> trDeadline t < 2 ^ 63 \<and> 0 \<le> trCreatedAt t \<and> trCreatedAt t < 2 ^ 63
     \<and> 0 \<le> FundedAt t \<and> FundedAt t < 2 ^ 63"

definition putTrade :: "Trade \<Rightarrow> 'x tstate_scheme \<Rightarrow> 'x tstate_scheme" where
  "putTrade t s = s\<lparr>tradeRecs := (tradeRecs s)(trID t \<mapsto> newStoredTrade t)\<rparr>"

lemma TradePut_run:
  assumes "deps_ok D" and "trade_wf t" and "0 \<le> trDeadline t" and "0 \<le> trCreatedAt t" and "0 \<le> FundedAt t"
  shows "TradePut D t s = (Inr (), putTrade t s)"
  using assms
  by (simp add: TradePut_def wf_SanitizeTrade run_defs rlpFails_def deps_ok_def newStoredTrade_def putTrade_def trade_wf_def)

lemma toTrade_stored: "trade_wf t \<Longrightarrow> trade_times t \<Longrightarrow> toTrade (newStoredTrade t) = Inr t"
  by (cases t) (simp add: toTrade_def newStoredTrade_def trade_wf_def trade_times_def wrap64_id)

lemma TradeGet_putTrade [simp]:
  "trade_wf t \<Longrightarrow> trade_times t \<Longrightarrow> TradeGet (trID t) (putTrade t s) = Some t"
  by (simp add: TradeGet_def putTrade_def toTrade_stored wf_SanitizeTrade)

lemma TradeGet_wf: "TradeGet tid s = Some t \<Longrightarrow> trade_wf t"
  by (auto simp: TradeGet_def split: option.splits sum.splits intro: SanitizeTrade_wf)

lemma TradeGet_cong: "tradeRecs s tid = tradeRecs t tid \<Longrightarrow> TradeGet tid s = TradeGet tid t"
  by (simp add: TradeGet_def)

section \<open>The legs of a trade\<close>

text \<open>The terms of an escrow: what no call changes.\<close>

definition terms :: "Escrow \<Rightarrow> hash32 \<times> address \<times> address \<times> address \<times> string \<times> int \<times> u32 \<times> int \<times> string" where
  "terms e = (escID e, Payer e, Payee e, Mediator e, escToken e, escAmount e, escFeeBps e, escDeadline e, escRealmID e)"

abbreviation sameTerms :: allowance where
  "sameTerms \<equiv> \<lambda>_ e e'. terms e' = terms e"

lemma terms_upd [simp]: "terms (e\<lparr>escStatus := st\<rparr>) = terms e" "terms (e\<lparr>DisputeReason := r\<rparr>) = terms e"
  "terms (e\<lparr>ResolutionHash := h\<rparr>) = terms e"
  by (simp_all add: terms_def)

lemma call_allows_terms: "call_allows D E c eid e e' \<Longrightarrow> terms e' = terms e"
  by (cases "(D, E, c, eid, e, e')" rule: call_allows.cases) auto

definition leg_ok :: "'d edeps_scheme \<Rightarrow> 'x estate_scheme \<Rightarrow> hash32 \<Rightarrow> address \<Rightarrow> address \<Rightarrow> string \<Rightarrow> int \<Rightarrow> int \<Rightarrow> bool" where
  "leg_ok D s eid payer payee tok amt deadline \<longleftrightarrow>
     (\<exists>e. EscrowGet D eid s = Some e \<and> terms e = (eid, payer, payee, 0, tok, amt, 0, deadline, []))"

definition trade_ok :: "'d edeps_scheme \<Rightarrow> 'x estate_scheme \<Rightarrow> Trade \<Rightarrow> bool" where
  "trade_ok D s t \<longleftrightarrow> trade_wf t \<and> trade_times t \<and> 0 < BaseAmount t \<and> 0 < QuoteAmount t \<and> EscrowBase t \<noteq> EscrowQuote t
     \<and> leg_ok D s (EscrowBase t) (Seller t) (Buyer t) (BaseToken t) (BaseAmount t) (trDeadline t)
     \<and> leg_ok D s (EscrowQuote t) (Buyer t) (Seller t) (QuoteToken t) (QuoteAmount t) (trDeadline t)"

definition trades_ok :: "'d edeps_scheme \<Rightarrow> 'x tstate_scheme \<Rightarrow> bool" where
  "trades_ok D s \<longleftrightarrow> (\<forall>tid r. tradeRecs s tid = Some r \<longrightarrow>
     (\<exists>t. r = newStoredTrade t \<and> trID t = tid \<and> trade_ok D s t))"

definition world_ok :: "'d edeps_scheme \<Rightarrow> 'x tstate_scheme \<Rightarrow> bool" where
  "world_ok D s \<longleftrightarrow> acct_ok D s \<and> trades_ok D s"

lemma leg_ok_rel: "leg_ok D s eid payer payee tok amt dl \<Longrightarrow> esc_rel D sameTerms s t \<Longrightarrow> leg_ok D t eid payer payee tok amt dl"
  unfolding leg_ok_def esc_rel_def by metis

lemma trade_ok_rel: "trade_ok D s tr \<Longrightarrow> esc_rel D sameTerms s t \<Longrightarrow> trade_ok D t tr"
  unfolding trade_ok_def by (blast intro: leg_ok_rel)

lemma world_ok_good:
  assumes "world_ok D s" and "escrow_good D sameTerms s t" and "tradeRecs t = tradeRecs s"
  shows "world_ok D t"
  using assms trade_ok_rel [of D s _ t] unfolding world_ok_def trades_ok_def escrow_good_def by metis

lemma world_trade:
  assumes "world_ok D s" and "TradeGet tid s = Some tr"
  shows "trID tr = tid" and "trade_ok D s tr"
proof -
  from assms(2) obtain r where r: "tradeRecs s tid = Some r" by (auto simp: TradeGet_def split: option.splits)
  with assms(1) obtain t where t: "r = newStoredTrade t" "trID t = tid" "trade_ok D s t"
    by (auto simp: world_ok_def trades_ok_def)
  have "TradeGet tid s = Some t"
    using r t by (simp add: TradeGet_def trade_ok_def toTrade_stored wf_SanitizeTrade)
  with assms(2) t show "trID tr = tid" "trade_ok D s tr" by simp_all
qed

text \<open>Storing a trade whose legs are in order.\<close>

lemma world_putTrade:
  assumes "world_ok D s" and "trade_ok D s t"
  shows "world_ok D (putTrade t s)"
proof -
  have "escPart (putTrade t s) = escPart s" by (simp add: escPart_def putTrade_def)
  note part = escPart_good [OF this]
  have legs: "trade_ok D (putTrade t s) x = trade_ok D s x" for x
    by (simp add: trade_ok_def leg_ok_def part)
  have "tradeRecs (putTrade t s) = (tradeRecs s)(trID t \<mapsto> newStoredTrade t)" by (simp add: putTrade_def)
  with assms show ?thesis by (auto simp: world_ok_def trades_ok_def part legs split: if_splits)
qed

section \<open>Escrow operations leave trades alone\<close>

abbreviation escMore :: "('x estate_scheme, 'a) op \<Rightarrow> bool" where
  "escMore \<equiv> frame estate.more"

lemma escMore_basic [frame_rules]:
  "escMore (emitEvent ev)" "escMore (PutAccount D a acc)" "escMore (EscrowPut D e)" "escMore (EscrowRealmPut D r)"
  "escMore (EscrowFrozenPolicyPut D eid f)" "escMore (EscrowCredit eid tok amt)" "escMore (EscrowDebit eid tok amt)"
  unfolding emitEvent_def PutAccount_def writeStateAccount_def writeAccountMetadata_def EscrowPut_def EscrowRealmPut_def
    EscrowFrozenPolicyPut_def EscrowCredit_def EscrowDebit_def writeVault_def
  by (rule frame_rules frame_modifyE | simp)+

lemma escMore_transfers [frame_rules]:
  "escMore (moveToken D from to token amt)" "escMore (EscrowVaultAddress D tok)"
  unfolding transferToken_def EscrowVaultAddress_def by (rule frame_rules)+

lemma escMore_parts [frame_rules]:
  "escMore (payOut D E v w tok am)" "escMore (closeEscrow D eid e st ev)" "escMore (createFresh D e)"
  unfolding payOut_def closeEscrow_def createFresh_def storeEscrow_def by (rule frame_rules)+

lemma escMore_calls [frame_rules]:
  "escMore (Release D E eid caller)" "escMore (Refund D E eid caller)" "escMore (Expire D E eid now)"
  "escMore (Fund D E eid caller)" "escMore (Dispute D E eid caller reason)"
  "escMore (Create D E payer payee token amt feeBps deadline nonce med metaHash realmId)"
  "escMore (CreateRealm D E r)" "escMore (UpdateRealm D E r)"
  "escMore (arbitratedRelease D E e)" "escMore (arbitratedRefund D E e)"
  unfolding Release_def Refund_def refundEscrow_def Expire_def Fund_def Dispute_def Create_def CreateRealm_def
    UpdateRealm_def arbitratedRelease_def arbitratedRefund_def storeEscrow_def
  by (rule frame_rules)+

lemma tmore_cong:
  assumes "estate.more s = estate.more t"
  shows "tradeRecs s = tradeRecs t" and "tradeIndex s = tradeIndex t"
  using assms by (cases s rule: tstate.cases_scheme; cases t rule: tstate.cases_scheme; simp)+

lemma wp_bindE_fun: "wp (bindE m f) Q R = wp m (\<lambda>x. wp (f x) Q R) R"
  by (rule ext) (rule wp_bindE)

text \<open>While both engines work, the escrow engine's part of a trade operation keeps the invariant and the
  trade records.\<close>

definition world_at :: "'d edeps_scheme \<Rightarrow> (hash32 \<rightharpoonup> storedTrade) \<Rightarrow> 'x tstate_scheme \<Rightarrow> bool" where
  "world_at D recs s \<longleftrightarrow> world_ok D s \<and> tradeRecs s = recs"

lemma world_at_here: "world_ok D s \<Longrightarrow> world_at D (tradeRecs s) s"
  by (simp add: world_at_def)

lemma world_at_good:
  assumes "world_at D recs s" and "escrow_good D sameTerms s t" and "estate.more t = estate.more s"
  shows "world_at D recs t"
  using assms world_ok_good [OF _ assms(2) tmore_cong(1) [OF assms(3)]] tmore_cong(1) [OF assms(3)]
  by (simp add: world_at_def)

lemma keeps_world_escrow:
  fixes m :: "('x tstate_scheme, 'a) op"
  assumes "\<And>s. acct_ok D s \<Longrightarrow> good_run D sameTerms m s" and "escMore m"
  shows "keeps (world_at D recs) m"
proof (rule keepsI)
  fix s :: "'x tstate_scheme"
  assume s: "world_at D recs s"
  then have "acct_ok D s" by (simp add: world_at_def world_ok_def)
  from assms(1) [OF this] have "wp m (\<lambda>_ t. escrow_good D sameTerms s t \<and> estate.more t = estate.more s)
      (\<lambda>_ t. escrow_good D sameTerms s t \<and> estate.more t = estate.more s) s"
    by (rule wp_conj) (rule wp_frame [OF assms(2)])
  then show "wp m (\<lambda>_. world_at D recs) (\<lambda>_. world_at D recs) s"
    by (rule wp_mono) (auto intro: world_at_good [OF s])
qed

lemma world_escrow_calls [keeps_rules]:
  "keeps (world_at D recs) (Release D E eid caller)" "keeps (world_at D recs) (Refund D E eid caller)"
  by (rule keeps_world_escrow [OF good_Release] keeps_world_escrow [OF good_Refund]; simp add: escMore_calls)+

lemma world_Create [keeps_rules]:
  "int64 deadline \<Longrightarrow> int64 (engNow E) \<Longrightarrow>
   keeps (world_at D recs) (Create D E payer payee token amt feeBps deadline nonce med metaHash realmId)"
  by (rule keeps_world_escrow [OF good_Create]) (simp_all add: escMore_calls)

lemma world_loadLeg [keeps_rules]: "keeps (world_at D recs) (loadLeg D eid)"
  unfolding loadLeg_def by (rule keeps_rules)+

lemma world_legs [keeps_rules]:
  "keeps (world_at D recs) (releaseBaseLeg D T tr)" "keeps (world_at D recs) (releaseQuoteLeg D T tr)"
  "keeps (world_at D recs) (refundBaseLeg D T tr)" "keeps (world_at D recs) (refundQuoteLeg D T tr)"
  unfolding releaseBaseLeg_def releaseQuoteLeg_def refundBaseLeg_def refundQuoteLeg_def
  by (rule keeps_rules)+

lemma world_at_trade:
  assumes "world_at D (tradeRecs s) u" and "TradeGet tid s = Some tr"
  shows "trade_ok D u tr" and "trID tr = tid" and "world_ok D u" and "TradeGet tid u = Some tr"
proof -
  from assms have "TradeGet tid u = Some tr" by (simp add: world_at_def TradeGet_def)
  with assms(1) show "trade_ok D u tr" "trID tr = tid" "world_ok D u" "TradeGet tid u = Some tr"
    using world_trade [of D u tid tr] by (simp_all add: world_at_def)
qed

lemma world_emit: "world_ok D (s\<lparr>events := ev\<rparr>) = world_ok D s"
  by (simp add: world_ok_def trades_ok_def trade_ok_def leg_ok_def)

lemma wp_TradePut:
  assumes "world_ok D u" and "trade_ok D u t"
  shows "wp (TradePut D t) (\<lambda>_ w. w = putTrade t u \<and> world_ok D w) (\<lambda>_ _. False) u"
proof -
  have "deps_ok D" using assms(1) by (simp add: world_ok_def acct_ok_def store_ok_def)
  then have "TradePut D t u = (Inr (), putTrade t u)"
    using assms(2) by (intro TradePut_run) (auto simp: trade_ok_def trade_times_def)
  then show ?thesis using world_putTrade [OF assms] by (simp add: wp_def)
qed

lemma wp_putEmit:
  assumes "world_ok D u" and "trade_ok D u t"
  shows "wp (TradePut D t) (\<lambda>_. wp (emitEvent ev) (\<lambda>_. world_ok D) (\<lambda>_. world_ok D)) (\<lambda>_. world_ok D) u"
  by (rule wp_mono [OF wp_TradePut [OF assms]]) (simp_all add: wp_emit world_emit)

text \<open>The fields an update of a trade leaves alone decide whether its legs are in order.\<close>

lemma trade_ok_update:
  "trade_ok D s t \<Longrightarrow> tradeStatusValid st \<Longrightarrow> 0 \<le> f \<Longrightarrow> f < 2 ^ 63 \<Longrightarrow> trade_ok D s (t\<lparr>trStatus := st, FundedAt := f\<rparr>)"
  "trade_ok D s t \<Longrightarrow> 0 \<le> f \<Longrightarrow> f < 2 ^ 63 \<Longrightarrow> trade_ok D s (t\<lparr>FundedAt := f\<rparr>)"
  by (simp_all add: trade_ok_def trade_wf_def trade_times_def)

lemma wp_finishTrade:
  assumes "world_ok D u" and "trade_ok D u tr" and "tradeStatusValid st"
  shows "wp (finishTrade D tr st ev) (\<lambda>_. world_ok D) (\<lambda>_. world_ok D) u"
  unfolding finishTrade_def Let_def wp_bindE
  by (rule wp_putEmit [OF assms(1) trade_ok_update(1) [OF assms(2,3)]]) simp_all

lemma wp_legs_finish:
  assumes "keeps (world_at D (tradeRecs s)) m" and "world_ok D s" and "TradeGet tid s = Some tr" and "tradeStatusValid st"
  shows "wp m (\<lambda>_. wp (finishTrade D tr st ev) (\<lambda>_. world_ok D) (\<lambda>_. world_ok D)) (\<lambda>_. world_ok D) s"
proof (rule wp_mono [OF keepsD [OF assms(1) world_at_here [OF assms(2)]]])
  fix t assume t: "world_at D (tradeRecs s) t"
  note at = world_at_trade [OF t assms(3)]
  show "world_ok D t" by (rule at(3))
  show "wp (finishTrade D tr st ev) (\<lambda>_. world_ok D) (\<lambda>_. world_ok D) t"
    by (rule wp_finishTrade [OF at(3,1) assms(4)])
qed

lemma wp_loadTrade:
  "wp (loadTrade tid) Q R s = (case TradeGet tid s of None \<Rightarrow> R errTradeNotFound s | Some tr \<Rightarrow> Q tr s)"
  by (auto simp: loadTrade_def wp_simps wf_SanitizeTrade [OF TradeGet_wf] split: option.splits)

lemma wp_loadLeg:
  "wp (loadLeg D eid) Q R s = (case EscrowGet D eid s of None \<Rightarrow> R ''trade: escrow %x not found'' s | Some e \<Rightarrow> Q e s)"
  by (auto simp: loadLeg_def wp_simps split: option.splits)

lemma wp_tradeGuard: "wp (tradeGuard T) Q R s = (case Guard (tePauses T) ''trade'' of Inl e \<Rightarrow> R e s | Inr u \<Rightarrow> Q u s)"
  by (simp add: tradeGuard_def wp_liftE)

lemmas wp_trade = wp_simps wp_loadTrade wp_loadLeg wp_tradeGuard

section \<open>Every trade operation keeps the invariant\<close>

lemma world_OnFundingProgress:
  assumes "world_ok D s" and "0 \<le> teNow T" and "teNow T < 2 ^ 63"
  shows "wp (OnFundingProgress D T tid) (\<lambda>_. world_ok D) (\<lambda>_. world_ok D) s"
proof -
  have put: "wp (TradePut D t) (\<lambda>_. wp (emitEvent ev) (\<lambda>_. world_ok D) (\<lambda>_. world_ok D)) (\<lambda>_. world_ok D) s"
    "wp (TradePut D t) (\<lambda>_. wp (retE ()) (\<lambda>_. world_ok D) (\<lambda>_. world_ok D)) (\<lambda>_. world_ok D) s"
    if "trade_ok D s t" for t ev
    using wp_putEmit [OF assms(1) that] by (auto intro: wp_mono [OF wp_TradePut [OF assms(1) that]] simp: wp_retE)
  have upd: "trade_ok D s (tr\<lparr>FundedAt := teNow T\<rparr>)" "tradeStatusValid st \<Longrightarrow> trade_ok D s (tr\<lparr>trStatus := st, FundedAt := teNow T\<rparr>)"
    "tradeStatusValid st \<Longrightarrow> trade_ok D s (tr\<lparr>trStatus := st, FundedAt := 0\<rparr>)"
    if "TradeGet tid s = Some tr" for tr st
    using world_trade(2) [OF assms(1) that] assms(2,3) by (simp_all add: trade_ok_update)
  show ?thesis
    unfolding OnFundingProgress_def Let_def fundingStatus_def
    using assms(1) put upd
    by (auto simp: wp_trade split: option.splits sum.splits)
qed

lemma world_HandleEscrowFunded:
  assumes "world_ok D s" and "0 \<le> teNow T" and "teNow T < 2 ^ 63"
  shows "wp (HandleEscrowFunded D T eid) (\<lambda>_. world_ok D) (\<lambda>_. world_ok D) s"
  using assms world_OnFundingProgress [OF assms]
  by (auto simp: HandleEscrowFunded_def TradeLookupByEscrow_def wp_trade split: option.splits sum.splits)

lemma world_TradeDispute:
  assumes "world_ok D s"
  shows "wp (TradeDispute D T tid caller) (\<lambda>_. world_ok D) (\<lambda>_. world_ok D) s"
proof -
  have put: "wp (TradePut D (tr\<lparr>trStatus := TradeDisputed, FundedAt := 0\<rparr>)) (\<lambda>_. wp (emitEvent ev) (\<lambda>_. world_ok D)
      (\<lambda>_. world_ok D)) (\<lambda>_. world_ok D) s" if "TradeGet tid s = Some tr" for tr ev
    by (rule wp_putEmit [OF assms(1) trade_ok_update(1) [OF world_trade(2) [OF assms that]]]) simp_all
  show ?thesis
    unfolding TradeDispute_def Let_def using assms put
    by (auto simp: wp_trade split: option.splits sum.splits)
qed

lemma world_TradeResolve:
  fixes s :: "'x tstate_scheme"
  assumes "world_ok D s"
  shows "wp (TradeResolve D T tid outcome) (\<lambda>_. world_ok D) (\<lambda>_. world_ok D) s"
proof (cases "TradeGet tid s")
  case None
  with assms show ?thesis by (simp add: TradeResolve_def wp_trade)
next
  case (Some tr)
  let ?n = "toLower (trimSpace outcome)"
  define m :: "('x tstate_scheme, unit) op" where "m = (if ?n = ''release_both'' then bindE (releaseBaseLeg D T tr) (\<lambda>_. releaseQuoteLeg D T tr)
            else if ?n = ''refund_both'' then bindE (refundBaseLeg D T tr) (\<lambda>_. refundQuoteLeg D T tr)
            else if ?n = ''release_base_refund_quote'' then bindE (releaseBaseLeg D T tr) (\<lambda>_. refundQuoteLeg D T tr)
            else if ?n = ''release_quote_refund_base'' then bindE (releaseQuoteLeg D T tr) (\<lambda>_. refundBaseLeg D T tr)
            else throwE ''trade: invalid resolution outcome %s'')"
  have "keeps (world_at D (tradeRecs s)) m" unfolding m_def by (rule keeps_rules)+
  from wp_legs_finish [OF this assms Some, of TradeSettled]
  have legs: "wp m (\<lambda>_. wp (finishTrade D tr TradeSettled ev) (\<lambda>_. world_ok D) (\<lambda>_. world_ok D)) (\<lambda>_. world_ok D) s" for ev
    by simp
  show ?thesis
    unfolding TradeResolve_def Let_def
    unfolding wp_bindE [of "loadTrade _"] wp_loadTrade Some option.case m_def [symmetric]
    using assms legs by (auto simp: wp_trade split: sum.split)
qed

lemma world_TradeTryExpire:
  assumes "world_ok D s"
  shows "wp (TradeTryExpire D T tid now) (\<lambda>_. world_ok D) (\<lambda>_. world_ok D) s"
proof (cases "TradeGet tid s")
  case None
  with assms show ?thesis by (simp add: TradeTryExpire_def wp_trade)
next
  case (Some tr)
  note fin = wp_legs_finish [OF _ assms Some, of _ TradeExpired]
  have both: "wp (refundBaseLeg D T tr) (\<lambda>_. wp (bindE (refundQuoteLeg D T tr) (\<lambda>_. finishTrade D tr TradeExpired ev))
      (\<lambda>_. world_ok D) (\<lambda>_. world_ok D)) (\<lambda>_. world_ok D) s" for ev
    unfolding wp_bindE unfolding wp_bindE [symmetric, of "refundBaseLeg D T tr"]
    by (rule fin) (rule keeps_rules | simp)+
  have one: "wp (refundBaseLeg D T tr) (\<lambda>_. wp (finishTrade D tr TradeExpired ev) (\<lambda>_. world_ok D) (\<lambda>_. world_ok D))
      (\<lambda>_. world_ok D) s"
    "wp (refundQuoteLeg D T tr) (\<lambda>_. wp (finishTrade D tr TradeExpired ev) (\<lambda>_. world_ok D) (\<lambda>_. world_ok D))
      (\<lambda>_. world_ok D) s"
    "wp (finishTrade D tr TradeCancelled ev) (\<lambda>_. world_ok D) (\<lambda>_. world_ok D) s" for ev
    using world_trade(2) [OF assms Some] by (auto intro!: fin wp_finishTrade keeps_rules assms)
  show ?thesis
    unfolding TradeTryExpire_def Let_def using assms Some both one
    by (auto simp: wp_trade split: option.splits sum.splits)
qed

text \<open>In an accounted state both legs hold their amounts, so a settlement is the two releases.\<close>

lemma full_settlement:
  assumes "0 < BaseAmount tr" and "0 < QuoteAmount tr"
  shows "computeSettlementAmounts tr (BaseAmount tr) (QuoteAmount tr) = Inr (BaseAmount tr, QuoteAmount tr)"
proof (cases "computeSettlementAmounts tr (BaseAmount tr) (QuoteAmount tr)")
  case (Inl err)
  then have "bestCandidate tr (settlementCandidates (BaseAmount tr) (QuoteAmount tr) (BaseAmount tr) (QuoteAmount tr)) None = None"
    using assms by (simp add: computeSettlementAmounts_def checkS_def split: option.splits)
  from bestCandidate_None [OF this] have "\<not> acceptable tr (BaseAmount tr, QuoteAmount tr)"
    by (simp add: settlementCandidates_def)
  then show ?thesis using assms by (simp add: acceptable_def ensureSlippage_Inr mult.commute)
next
  case (Inr c)
  then show ?thesis using settlement_bounds [of tr "BaseAmount tr" "QuoteAmount tr" "fst c" "snd c"] by (cases c) simp
qed

lemma settleLeg_whole:
  "escAmount esc = amt \<Longrightarrow> 0 < amt \<Longrightarrow> settleLeg D T esc to ret amt amt = Release D (teEscrow T) (escID esc) to"
  by (simp add: settleLeg_def Let_def)

lemma leg_balance:
  assumes "acct_ok D s" and "EscrowGet D eid s = Some e" and "escStatus e = EscrowFunded"
  shows "EscrowBalance eid (escToken e) s = (Inr (escAmount e), s)"
  using acct_ok_loaded(3) [OF assms(1,2)] tracked [OF assms(1,2)] assms(3)
  by (simp add: EscrowBalance_def run_defs held_def)

definition settleBoth :: "'d edeps_scheme \<Rightarrow> tradeEngine \<Rightarrow> Trade \<Rightarrow> ('x tstate_scheme, unit) op" where
  "settleBoth D T tr =
     bindE (Release D (teEscrow T) (EscrowBase tr) (Buyer tr)) (\<lambda>_.
     bindE (Release D (teEscrow T) (EscrowQuote tr) (Seller tr)) (\<lambda>_.
     finishTrade D tr TradeSettled NewTradeSettledEvent))"

lemma SettleAtomic_run:
  fixes s :: "'a tstate_scheme"
  assumes "world_ok D s" and "TradeGet tid s = Some tr" and "EscrowGet D (EscrowBase tr) s = Some b"
    and "EscrowGet D (EscrowQuote tr) s = Some q"
  shows "SettleAtomic D T tid s =
    (case Guard (tePauses T) ''trade'' of Inl e \<Rightarrow> (Inl e, s) | Inr _ \<Rightarrow>
     if trStatus tr = TradeSettled then (Inr (), s)
     else if trStatus tr = TradeDisputed then (Inl ''trade: disputed trade requires resolution'', s)
     else if trDeadline tr > 0 \<and> teNow T > trDeadline tr then (Inl ''trade: settlement deadline elapsed'', s)
     else if escStatus b \<noteq> EscrowFunded \<or> escStatus q \<noteq> EscrowFunded then (Inl ''trade: both escrows must be funded'', s)
     else settleBoth D T tr s)"
proof -
  have ok: "trade_ok D s tr" and acct: "acct_ok D s"
    using world_trade [OF assms(1,2)] assms(1) by (simp_all add: world_ok_def)
  have b: "escAmount b = BaseAmount tr" "escID b = EscrowBase tr" and q: "escAmount q = QuoteAmount tr" "escID q = EscrowQuote tr"
    using ok assms(3,4) by (auto simp: trade_ok_def leg_ok_def terms_def)
  have pos: "0 < BaseAmount tr" "0 < QuoteAmount tr" using ok by (simp_all add: trade_ok_def)
  have "loadTrade tid s = (Inr tr, s)"
    using assms(2) wf_SanitizeTrade [OF TradeGet_wf [OF assms(2)]] by (simp add: loadTrade_def run_defs)
  then have load: "bindE (loadTrade tid) f s = f tr s" for f :: "Trade \<Rightarrow> ('a tstate_scheme, unit) op"
    by (simp add: bindE_def)
  have legs: "bindE (loadLeg D (EscrowBase tr)) f s = f b s" "bindE (loadLeg D (EscrowQuote tr)) f s = f q s"
    for f :: "Escrow \<Rightarrow> ('a tstate_scheme, unit) op"
    using assms(3,4) by (simp_all add: loadLeg_def run_defs)
  note run = load legs tradeGuard_def bindE_def [of "liftE _"] liftE_def bindE_def [of "failIf _ _"] failIf_def retE_def throwE_def
  show ?thesis
  proof (cases "escStatus b = EscrowFunded \<and> escStatus q = EscrowFunded")
    case True
    with leg_balance [OF acct assms(3)] leg_balance [OF acct assms(4)] b q
    have bal: "bindE (EscrowBalance (EscrowBase tr) (escToken b)) f s = f (BaseAmount tr) s"
      "bindE (EscrowBalance (EscrowQuote tr) (escToken q)) f s = f (QuoteAmount tr) s"
      for f :: "int \<Rightarrow> ('a tstate_scheme, unit) op" by (simp_all add: bindE_def)
    have whole: "settleLeg D T b to ret (BaseAmount tr) (BaseAmount tr) = Release D (teEscrow T) (EscrowBase tr) to"
      "settleLeg D T q to ret (QuoteAmount tr) (QuoteAmount tr) = Release D (teEscrow T) (EscrowQuote tr) to" for to ret
      using b q pos by (simp_all add: settleLeg_whole)
    show ?thesis
      using True unfolding SettleAtomic_def settleBoth_def
      by (simp add: run bal full_settlement [OF pos] whole split: sum.split)
  next
    case False
    then show ?thesis unfolding SettleAtomic_def by (auto simp: run split: sum.split)
  qed
qed

lemma world_settleBoth:
  assumes "world_ok D s" and "TradeGet tid s = Some tr"
  shows "wp (settleBoth D T tr) (\<lambda>_. world_ok D) (\<lambda>_. world_ok D) s"
proof -
  have "wp (bindE (Release D (teEscrow T) (EscrowBase tr) (Buyer tr)) (\<lambda>_.
     Release D (teEscrow T) (EscrowQuote tr) (Seller tr)))
     (\<lambda>_. wp (finishTrade D tr TradeSettled NewTradeSettledEvent) (\<lambda>_. world_ok D) (\<lambda>_. world_ok D)) (\<lambda>_. world_ok D) s"
    by (rule wp_legs_finish [OF _ assms]) (rule keeps_rules | simp)+
  then show ?thesis by (simp add: settleBoth_def wp_bindE_fun)
qed

lemma world_SettleAtomic:
  assumes "world_ok D s"
  shows "wp (SettleAtomic D T tid) (\<lambda>_. world_ok D) (\<lambda>_. world_ok D) s"
proof (cases "TradeGet tid s")
  case None
  with assms show ?thesis by (simp add: SettleAtomic_def wp_trade)
next
  case (Some tr)
  from world_trade(2) [OF assms Some] obtain b q
    where "EscrowGet D (EscrowBase tr) s = Some b" "EscrowGet D (EscrowQuote tr) s = Some q"
    by (auto simp: trade_ok_def leg_ok_def)
  from SettleAtomic_run [OF assms Some this] world_settleBoth [OF assms Some, of T] assms show ?thesis
    by (auto simp: wp_def split: sum.splits)
qed

section \<open>Creating a trade\<close>

lemma baseNonce_fresh: "baseNonceOf D tid n \<noteq> n"
proof -
  have "xor n 1 \<noteq> n"
  proof
    assume "xor n 1 = n"
    then have "xor n (xor n 1) = xor n n" by simp
    then show False by simp
  qed
  then show ?thesis by (simp add: baseNonceOf_def Let_def)
qed

lemma create_leg:
  assumes "acct_ok D s" and "0 \<le> engNow E" and "int64 deadline" and "NormalizeToken tok = Inr tok"
    and "Create D E payer payee tok amt 0 deadline nonce None meta [] s = (Inr e, t)"
  shows "leg_ok D t (escID e) payer payee tok amt deadline" and "EscrowGet D (escID e) t = Some e" and "escNonce e = nonce"
  using create_stored [OF assms(1-3) _ assms(5)] assms(4) by (simp_all add: leg_ok_def terms_def trimSpace_def)

lemma created_legs:
  assumes "world_ok D s" and "0 \<le> engNow E" and "int64 (engNow E)" and "int64 deadline"
    and "NormalizeToken qt = Inr qt" and "NormalizeToken bt = Inr bt" and "qn \<noteq> bn"
    and q: "Create D E buyer seller qt qa 0 deadline qn None mq [] s = (Inr eq, t)"
    and b: "Create D E seller buyer bt ba 0 deadline bn None mb [] t = (Inr eb, u)"
  shows "world_ok D u" and "escID eb \<noteq> escID eq" and "leg_ok D u (escID eb) seller buyer bt ba deadline"
    and "leg_ok D u (escID eq) buyer seller qt qa deadline" and "tradeRecs u = tradeRecs s"
proof -
  note kept = world_Create [OF assms(4,3), THEN keeps_run]
  have t: "world_at D (tradeRecs s) t" by (rule kept [OF world_at_here [OF assms(1)] q])
  have "world_at D (tradeRecs s) u" by (rule kept [OF t b])
  then show "world_ok D u" "tradeRecs u = tradeRecs s" by (simp_all add: world_at_def)
  have acct: "acct_ok D s" "acct_ok D t" using t assms(1) by (simp_all add: world_at_def world_ok_def)
  note quote = create_leg [OF acct(1) assms(2,4,5) q] and base = create_leg [OF acct(2) assms(2,4,6) b]
  show "leg_ok D u (escID eb) seller buyer bt ba deadline" by (rule base(1))
  have "esc_rel D sameTerms t u"
    using wp_ok [OF good_Create [OF acct(2) assms(4,3)] b] by (simp add: escrow_good_def)
  with quote(1) show "leg_ok D u (escID eq) buyer seller qt qa deadline" by (rule leg_ok_rel)
  show "escID eb \<noteq> escID eq"
  proof
    assume "escID eb = escID eq"
    moreover have "escID eb = escrowID D seller buyer mb bn"
      using create_stored(2) [OF acct(2) assms(2,4) _ b] by (simp add: trimSpace_def)
    ultimately have "EscrowGet D (escrowID D seller buyer mb bn) t = Some eq" using quote(2) by simp
    with b have "escNonce eq = bn" by (auto simp: Create_Inr)
    with quote(3) assms(7) show False by simp
  qed
qed

lemma world_index: "world_ok D (s\<lparr>tradeIndex := i\<rparr>) = world_ok D s"
proof -
  have "escPart (s\<lparr>tradeIndex := i\<rparr>) = escPart s" by (simp add: escPart_def)
  note part = escPart_good [OF this]
  show ?thesis by (simp add: world_ok_def trades_ok_def trade_ok_def leg_ok_def part)
qed

lemma world_createTail:
  assumes "world_ok D u" and "trade_ok D u tr"
  shows "wp (TradePut D tr) (\<lambda>_. wp (bindE (TradeIndexEscrow e1 i) (\<lambda>_. bindE (TradeIndexEscrow e2 i) (\<lambda>_.
    bindE (emitEvent ev) (\<lambda>_. retE tr)))) (\<lambda>_. world_ok D) (\<lambda>_. world_ok D)) (\<lambda>_. world_ok D) u"
  by (rule wp_mono [OF wp_TradePut [OF assms]])
    (simp_all add: TradeIndexEscrow_def emitEvent_def wp_simps world_emit world_index)

lemma world_createLegs:
  fixes s :: "'x tstate_scheme"
  assumes "world_ok D s" and "0 \<le> teNow T" and "teNow T \<le> deadline" and "0 \<le> engNow (teEscrow T)"
    and "int64 (engNow (teEscrow T))" and "int64 deadline"
    and "NormalizeToken qt = Inr qt" and "NormalizeToken bt = Inr bt" and "0 < qa" and "0 < ba" and "slip \<le> 10000"
  shows "wp (createLegs D T tid offerID buyer seller qt qa bt ba deadline slip) (\<lambda>_. world_ok D) (\<lambda>_. world_ok D) s"
proof -
  note kept = world_Create [OF assms(6,5), THEN keeps_run]
  have dl: "deadline < 2 ^ 63" using assms(6) by (simp add: int64_def)
  have neq: "quoteNonceOf D tid \<noteq> baseNonceOf D tid (quoteNonceOf D tid)"
    using baseNonce_fresh [of D tid "quoteNonceOf D tid"] by simp
  show ?thesis
    unfolding createLegs_def Let_def wp_bindE_fun [of "Create _ _ _ _ _ _ _ _ _ _ _ _"]
  proof (rule wpI, goal_cases)
    case q: (1 eq t)
    show ?case
    proof (rule wpI, goal_cases)
      case b: (1 eb u)
      note c = created_legs [OF assms(1,4,5,6,7,8) neq q b]
      from c(2-4) assms dl show ?case unfolding wp_bindE [of "TradePut _ _"]
        by (intro world_createTail c(1)) (simp add: trade_ok_def trade_wf_def trade_times_def)
    next
      case b: (2 err u)
      from kept [OF kept [OF world_at_here [OF assms(1)] q] b] show ?case by (simp add: world_at_def)
    qed
  next
    case (2 err t)
    from kept [OF world_at_here [OF assms(1)] this] show ?case by (simp add: world_at_def)
  qed
qed

lemma world_CreateTrade:
  assumes "world_ok D s" and "0 \<le> teNow T" and "0 \<le> engNow (teEscrow T)"
    and "int64 (engNow (teEscrow T))" and "int64 deadline"
  shows "wp (CreateTrade D T offerID buyer seller quoteToken qa baseToken ba deadline slip nonce)
    (\<lambda>_. world_ok D) (\<lambda>_. world_ok D) s"
proof -
  note legs = world_createLegs [OF assms(1,2) _ assms(3-5) NormalizeToken_idem NormalizeToken_idem]
  show ?thesis
    unfolding CreateTrade_def Let_def wp_bindE wp_tradeGuard wp_liftE wp_failIf wp_getsE
    using assms(1) by (auto simp: wp_simps not_le not_less intro!: legs split: sum.split option.split)
qed

end
