(* ===== verification/TradeTheorems.thy ===== *)
theory TradeTheorems
  imports TradeProps
begin

text \<open>
  The properties of the trade engine over whole runs: the legs of every trade in all reachable
  states of the trade and the escrow engine together, and the exchange that a settlement makes.
\<close>

section \<open>Calls, steps and reachable states\<close>

datatype trade_call =
  CallCreateTrade string address address string "int option" string "int option" int u32 hash32
| CallOnFundingProgress hash32
| CallHandleEscrowFunded hash32
| CallTradeDispute hash32 address
| CallTradeResolve hash32 string
| CallSettleAtomic hash32
| CallTradeTryExpire hash32 int
| CallEscrow escrow_call

primrec runTradeCall :: "'d edeps_scheme \<Rightarrow> tradeEngine \<Rightarrow> trade_call \<Rightarrow> ('x tstate_scheme, unit) op" where
  "runTradeCall D T (CallCreateTrade offerID buyer seller qt qa bt ba deadline slip nonce) =
     ignoreResult (CreateTrade D T offerID buyer seller qt qa bt ba deadline slip nonce)"
| "runTradeCall D T (CallOnFundingProgress tid) = OnFundingProgress D T tid"
| "runTradeCall D T (CallHandleEscrowFunded eid) = HandleEscrowFunded D T eid"
| "runTradeCall D T (CallTradeDispute tid caller) = TradeDispute D T tid caller"
| "runTradeCall D T (CallTradeResolve tid outcome) = TradeResolve D T tid outcome"
| "runTradeCall D T (CallSettleAtomic tid) = SettleAtomic D T tid"
| "runTradeCall D T (CallTradeTryExpire tid now) = TradeTryExpire D T tid now"
| "runTradeCall D T (CallEscrow c) = runCall D (teEscrow T) c"

text \<open>Clocks give non-negative \<^verbatim>\<open>int64\<close> values, and the arguments of that type are in range.\<close>

definition trade_call_ok :: "tradeEngine \<Rightarrow> trade_call \<Rightarrow> bool" where
  "trade_call_ok T c \<longleftrightarrow> 0 \<le> teNow T \<and> teNow T < 2 ^ 63 \<and> 0 \<le> engNow (teEscrow T) \<and> engNow (teEscrow T) < 2 ^ 63 \<and>
     (case c of CallCreateTrade _ _ _ _ _ _ _ deadline _ _ \<Rightarrow> int64 deadline
      | CallEscrow e \<Rightarrow> call_ok (teEscrow T) e | _ \<Rightarrow> True)"

inductive trade_step :: "'d edeps_scheme \<Rightarrow> 'x tstate_scheme \<Rightarrow> 'x tstate_scheme \<Rightarrow> bool" for D where
  call: "trade_call_ok T c \<Longrightarrow> runTradeCall D T c s = (r, t) \<Longrightarrow> trade_step D s t"
| params: "trade_step D s (s\<lparr>paramVals := p\<rparr>)"
| accounts: "chain.more t = chain.more s \<Longrightarrow> trade_step D s t"

inductive trade_reach :: "'d edeps_scheme \<Rightarrow> 'x tstate_scheme \<Rightarrow> 'x tstate_scheme \<Rightarrow> bool" for D where
  here: "trade_reach D s s"
| more: "trade_reach D s t \<Longrightarrow> trade_step D t u \<Longrightarrow> trade_reach D s u"

inductive_cases trade_stepE: "trade_step D s t"

lemma escMore_ignoreResult: "escMore m \<Longrightarrow> escMore (ignoreResult m)"
  unfolding ignoreResult_def by (rule frame_rules | assumption)+

lemma frame_decision [frame_rules]:
  "frame f a \<Longrightarrow> frame f b \<Longrightarrow> frame f c \<Longrightarrow>
   frame f (case d of DecisionOutcomeUnknown \<Rightarrow> a | DecisionOutcomeRelease \<Rightarrow> b | DecisionOutcomeRefund \<Rightarrow> c)"
  by (cases d) simp_all

lemma escMore_runCall: "escMore (runCall D E c)"
proof (cases c)
  case (CallResolve eid caller outcome)
  then show ?thesis by (simp add: Resolve_def Let_def) (rule frame_rules)+
next
  case (CallResolveWithSignatures eid payload sigs)
  then show ?thesis by (simp add: ResolveWithSignatures_def Let_def storeEscrow_def) (rule frame_rules)+
qed (simp_all add: escMore_ignoreResult escMore_calls)

lemma world_runCall:
  assumes "world_ok D s" and "call_ok E c" and "runCall D E c s = (r, t)"
  shows "world_ok D t"
proof -
  have "good_run D sameTerms (runCall D E c) u" if "acct_ok D u" for u :: "'b tstate_scheme"
    by (rule wp_mono [OF good_runCall [OF that assms(2)]])
      (auto simp: escrow_good_def esc_rel_def dest: call_allows_terms; metis call_allows_terms)+
  from keeps_run [OF keeps_world_escrow [OF this escMore_runCall] world_at_here [OF assms(1)] assms(3)]
  show ?thesis by (simp add: world_at_def)
qed

lemma wp_ignoreResult: "wp m (\<lambda>_. P) R s \<Longrightarrow> wp (ignoreResult m) (\<lambda>_. P) R s"
  unfolding ignoreResult_def wp_bindE by (erule wp_mono) (simp_all add: wp_retE)

lemma world_runTradeCall:
  assumes "world_ok D s" and "trade_call_ok T c" and "runTradeCall D T c s = (r, t)"
  shows "world_ok D t"
proof -
  have i: "int64 (engNow (teEscrow T))" "0 \<le> teNow T" "teNow T < 2 ^ 63" "0 \<le> engNow (teEscrow T)"
    using assms(2) by (auto simp: trade_call_ok_def int64_def)
  show ?thesis
  proof (cases "\<exists>e. c = CallEscrow e")
    case True
    then show ?thesis using world_runCall [OF assms(1)] assms(2,3) by (auto simp: trade_call_ok_def)
  next
    case False
    then have "wp (runTradeCall D T c) (\<lambda>_. world_ok D) (\<lambda>_. world_ok D) s"
      using assms(1,2) i
      by (cases c) (auto simp: trade_call_ok_def intro!: wp_ignoreResult world_CreateTrade world_OnFundingProgress
          world_HandleEscrowFunded world_TradeDispute world_TradeResolve world_SettleAtomic world_TradeTryExpire)
    with assms(3) show ?thesis by (cases r) (auto simp: wp_def)
  qed
qed

lemma world_same:
  fixes s t :: "'x tstate_scheme"
  assumes "escPart t = escPart s" and "tradeRecs t = tradeRecs s"
  shows "world_ok D t = world_ok D s"
  by (simp add: world_ok_def trades_ok_def trade_ok_def leg_ok_def escPart_good [OF assms(1)] assms(2))

lemma tmore_chain:
  fixes s t :: "'x tstate_scheme"
  assumes "chain.more t = chain.more s"
  shows "escrowRecs t = escrowRecs s" "frozenRecs t = frozenRecs s" "vaultBals t = vaultBals s" "tradeRecs t = tradeRecs s"
  using assms by (cases s rule: tstate.cases_scheme; cases t rule: tstate.cases_scheme; simp)+

lemma world_reach:
  assumes "trade_reach D s t" and "world_ok D s"
  shows "world_ok D t"
  using assms
proof induction
  case (more s t u)
  then have ok: "world_ok D t" by blast
  show ?case
    using more.hyps(2)
  proof (cases rule: trade_step.cases)
    case (call T c r)
    with world_runTradeCall [OF ok] show ?thesis by blast
  next
    case (params p)
    then have same: "escPart u = escPart t" "tradeRecs u = tradeRecs t" by (simp_all add: escPart_def)
    from ok show ?thesis by (subst world_same [OF same])
  next
    case accounts
    from tmore_chain [OF accounts] have same: "escPart u = escPart t" "tradeRecs u = tradeRecs t"
      by (simp_all only: escPart_def)
    from ok show ?thesis by (subst world_same [OF same])
  qed
qed

section \<open>The exchange of a settlement\<close>

text \<open>What a settlement does to the balances of one coin.\<close>

definition exchanged :: "'d edeps_scheme \<Rightarrow> Trade \<Rightarrow> coin \<Rightarrow> address \<Rightarrow> int" where
  "exchanged D tr coin a =
     (if coin = tokenCoin (BaseToken tr) then
        (if a = Buyer tr then BaseAmount tr else 0) - (if a = vaultAddr D (BaseToken tr) then BaseAmount tr else 0) else 0)
     + (if coin = tokenCoin (QuoteToken tr) then
        (if a = Seller tr then QuoteAmount tr else 0) - (if a = vaultAddr D (QuoteToken tr) then QuoteAmount tr else 0) else 0)"

definition settledState :: "'d edeps_scheme \<Rightarrow> Trade \<Rightarrow> Escrow \<Rightarrow> Escrow \<Rightarrow> 'x tstate_scheme \<Rightarrow> 'x tstate_scheme \<Rightarrow> bool" where
  "settledState D tr b q s t \<longleftrightarrow>
     TradeGet (trID tr) t = Some (tr\<lparr>trStatus := TradeSettled, FundedAt := 0\<rparr>)
     \<and> EscrowGet D (EscrowBase tr) t = Some (b\<lparr>escStatus := EscrowReleased\<rparr>)
     \<and> EscrowGet D (EscrowQuote tr) t = Some (q\<lparr>escStatus := EscrowReleased\<rparr>)
     \<and> (\<forall>coin a. coinBalance D coin t a = coinBalance D coin s a + exchanged D tr coin a)"

lemma finishTrade_run:
  assumes "world_ok D u" and "trade_ok D u tr" and "tradeStatusValid st"
  shows "finishTrade D tr st ev u = (Inr (), (putTrade (tr\<lparr>trStatus := st, FundedAt := 0\<rparr>) u)
     \<lparr>events := events u @ [ev (tr\<lparr>trStatus := st, FundedAt := 0\<rparr>)]\<rparr>)"
proof -
  have D: "deps_ok D" using assms(1) by (simp add: world_ok_def acct_ok_def store_ok_def)
  have ok: "trade_ok D u (tr\<lparr>trStatus := st, FundedAt := 0\<rparr>)" using trade_ok_update(1) [OF assms(2,3)] by simp
  have "TradePut D (tr\<lparr>trStatus := st, FundedAt := 0\<rparr>) u = (Inr (), putTrade (tr\<lparr>trStatus := st, FundedAt := 0\<rparr>) u)"
    by (rule TradePut_run [OF D]) (use ok in \<open>simp_all add: trade_ok_def trade_times_def\<close>)
  then show ?thesis by (simp add: finishTrade_def Let_def run_defs emitEvent_def putTrade_def)
qed

lemma TradeGet_emit [simp]: "TradeGet tid (s\<lparr>events := ev\<rparr>) = TradeGet tid s"
  by (simp add: TradeGet_def)

lemma EscrowGet_putTrade [simp]: "EscrowGet D eid (putTrade t s) = EscrowGet D eid s"
  by (intro EscrowGet_cong) (simp_all add: putTrade_def)

lemma coinBalance_putTrade [simp]: "coinBalance D c ((putTrade t s)\<lparr>events := ev\<rparr>) = coinBalance D c s"
  by (intro funds_cong) (simp_all add: putTrade_def)

text \<open>The release of one funded leg, and what the next one finds.\<close>

definition funds_ok :: "'d edeps_scheme \<Rightarrow> 'x tstate_scheme \<Rightarrow> bool" where
  "funds_ok D s \<longleftrightarrow> world_ok D s \<and> chain_inv D s \<and> solvent D s \<and> totalSupply D NHB s < 2 ^ 256"

lemma release_leg:
  fixes s :: "'x tstate_scheme"
  assumes "funds_ok D s" and "EscrowGet D eid s = Some e" and "escStatus e = EscrowFunded" and "0 < escAmount e"
    and "escFeeBps e = 0" and "vaultAddr D (escToken e) \<noteq> Payee e" and "Guard (engPauses E) ''escrow'' = Inr ()"
  obtains t where "Release D E eid (Payee e) s = (Inr (), t)" and "EscrowGet D eid t = Some (e\<lparr>escStatus := EscrowReleased\<rparr>)"
    and "pays D (tokenCoin (escToken e)) (vaultAddr D (escToken e)) [(Payee e, escAmount e)] s t"
    and "funds_ok D t" and "tradeRecs t = tradeRecs s"
    and "\<forall>i x. i \<noteq> eid \<longrightarrow> EscrowGet D i s = Some x \<longrightarrow> EscrowGet D i t = Some x"
proof -
  from assms(1) have w: "world_ok D s" and f: "acct_ok D s" "chain_inv D s" "solvent D s" "totalSupply D NHB s < 2 ^ 256"
    by (simp_all add: funds_ok_def world_ok_def)
  obtain t where run: "Release D E eid (Payee e) s = (Inr (), t)"
    and res: "EscrowGet D eid t = Some (e\<lparr>escStatus := EscrowReleased\<rparr>)"
      "pays D (tokenCoin (escToken e)) (vaultAddr D (escToken e)) [(Payee e, escAmount e)] s t"
      "solvent D t" "totalSupply D NHB t < 2 ^ 256"
    using Release_succeeds [OF f assms(2-7)] by blast
  have "world_at D (tradeRecs s) t" by (rule keeps_run [OF world_escrow_calls(1) world_at_here [OF w] run])
  with res pays_inv [OF res(2)] have "funds_ok D t" "tradeRecs t = tradeRecs s"
    by (simp_all add: funds_ok_def world_at_def)
  moreover have "esc_rel D (\<lambda>i _ _. i = eid) s t"
    using wp_ok [OF good_Release [where A = "\<lambda>i _ _. i = eid", OF f(1)] run] by (simp add: escrow_good_def)
  then have "\<forall>i x. i \<noteq> eid \<longrightarrow> EscrowGet D i s = Some x \<longrightarrow> EscrowGet D i t = Some x"
    unfolding esc_rel_def by metis
  ultimately show ?thesis using run res by (intro that)
qed

lemma settleBoth_succeeds:
  fixes s :: "'x tstate_scheme"
  assumes "funds_ok D s" and "TradeGet tid s = Some tr"
    and "EscrowGet D (EscrowBase tr) s = Some b" and "EscrowGet D (EscrowQuote tr) s = Some q"
    and "escStatus b = EscrowFunded" and "escStatus q = EscrowFunded"
    and "Guard (engPauses (teEscrow T)) ''escrow'' = Inr ()"
    and "vaultAddr D (BaseToken tr) \<noteq> Buyer tr" and "vaultAddr D (QuoteToken tr) \<noteq> Seller tr"
  shows "\<exists>t. settleBoth D T tr s = (Inr (), t) \<and> settledState D tr b q s t"
proof -
  let ?E = "teEscrow T" and ?tr = "tr\<lparr>trStatus := TradeSettled, FundedAt := 0\<rparr>"
  have ok: "trade_ok D s tr" using world_trade(2) [of D s tid tr] assms(1,2) by (simp add: funds_ok_def)
  have b: "escAmount b = BaseAmount tr" "Payee b = Buyer tr" "escToken b = BaseToken tr" "escFeeBps b = 0"
    and q: "escAmount q = QuoteAmount tr" "Payee q = Seller tr" "escToken q = QuoteToken tr" "escFeeBps q = 0"
    and pos: "0 < escAmount b" "0 < escAmount q" and dist: "EscrowQuote tr \<noteq> EscrowBase tr"
    and off: "vaultAddr D (escToken b) \<noteq> Payee b" "vaultAddr D (escToken q) \<noteq> Payee q"
    using ok assms(3,4,8,9) by (auto simp: trade_ok_def leg_ok_def terms_def)
  obtain t1 where t1: "Release D ?E (EscrowBase tr) (Payee b) s = (Inr (), t1)"
      "EscrowGet D (EscrowBase tr) t1 = Some (b\<lparr>escStatus := EscrowReleased\<rparr>)"
      "pays D (tokenCoin (escToken b)) (vaultAddr D (escToken b)) [(Payee b, escAmount b)] s t1"
      "funds_ok D t1" "tradeRecs t1 = tradeRecs s"
      "\<forall>i x. i \<noteq> EscrowBase tr \<longrightarrow> EscrowGet D i s = Some x \<longrightarrow> EscrowGet D i t1 = Some x"
    by (rule release_leg [OF assms(1,3,5) pos(1) b(4) off(1) assms(7)])
  obtain t2 where t2: "Release D ?E (EscrowQuote tr) (Payee q) t1 = (Inr (), t2)"
      "EscrowGet D (EscrowQuote tr) t2 = Some (q\<lparr>escStatus := EscrowReleased\<rparr>)"
      "pays D (tokenCoin (escToken q)) (vaultAddr D (escToken q)) [(Payee q, escAmount q)] t1 t2"
      "funds_ok D t2" "tradeRecs t2 = tradeRecs t1"
      "\<forall>i x. i \<noteq> EscrowQuote tr \<longrightarrow> EscrowGet D i t1 = Some x \<longrightarrow> EscrowGet D i t2 = Some x"
    by (rule release_leg [OF t1(4) t1(6) [rule_format, OF dist assms(4)] assms(6) pos(2) q(4) off(2) assms(7)])
  have w2: "world_ok D t2" and get2: "TradeGet tid t2 = Some tr"
    using t2(4,5) t1(5) assms(2) by (simp_all add: funds_ok_def TradeGet_def)
  have ok2: "trade_ok D t2 tr" by (rule world_trade(2) [OF w2 get2])
  note fin = finishTrade_run [OF w2 ok2, of TradeSettled NewTradeSettledEvent]
  have base2: "EscrowGet D (EscrowBase tr) t2 = Some (b\<lparr>escStatus := EscrowReleased\<rparr>)"
    using t2(6) t1(2) dist by simp
  have "trade_wf ?tr" "trade_times ?tr" using ok2 by (simp_all add: trade_ok_def trade_wf_def trade_times_def)
  from TradeGet_putTrade [OF this, of t2] have tr2: "TradeGet (trID tr) (putTrade ?tr t2) = Some ?tr" by simp
  have bal: "coinBalance D coin t2 a = coinBalance D coin s a + exchanged D tr coin a" for coin a
    using t1(3) t2(3) by (auto simp: pays_def exchanged_def b q)
  let ?t = "(putTrade ?tr t2)\<lparr>events := events t2 @ [NewTradeSettledEvent ?tr]\<rparr>"
  have "settleBoth D T tr s = (Inr (), ?t)"
    unfolding settleBoth_def using t1(1) t2(1) fin b(2) q(2) by (simp add: bindE_def)
  moreover have "settledState D tr b q s ?t"
    by (simp add: settledState_def tr2 base2 t2(2) bal)
  ultimately show ?thesis by blast
qed

section \<open>A concrete trade\<close>

text \<open>Seller 2 sells 10 ZNHB to buyer 1 for 30 NHB.\<close>

definition sampleTrade :: "TradeStatus \<Rightarrow> Trade" where
  "sampleTrade st = \<lparr>trID = 7, OfferID = ''o'', Buyer = 1, Seller = 2, QuoteToken = ''NHB'', QuoteAmount = 30,
     EscrowQuote = 82, BaseToken = ''ZNHB'', BaseAmount = 10, EscrowBase = 81, trDeadline = 1000, trCreatedAt = 10,
     FundedAt = 0, SlippageBps = 0, trStatus = st\<rparr>"

definition sampleBase :: "EscrowStatus \<Rightarrow> Escrow" where
  "sampleBase st = \<lparr>escID = 81, Payer = 2, Payee = 1, Mediator = 0, escToken = ''ZNHB'', escAmount = 10,
     escFeeBps = 0, escDeadline = 1000, escCreatedAt = 10, escNonce = 2, MetaHash = 0, escStatus = st,
     escRealmID = [], escFrozenArb = None, ResolutionHash = 0, DisputeReason = []\<rparr>"

definition sampleQuote :: "EscrowStatus \<Rightarrow> Escrow" where
  "sampleQuote st = \<lparr>escID = 82, Payer = 1, Payee = 2, Mediator = 0, escToken = ''NHB'', escAmount = 30,
     escFeeBps = 0, escDeadline = 1000, escCreatedAt = 10, escNonce = 1, MetaHash = 0, escStatus = st,
     escRealmID = [], escFrozenArb = None, ResolutionHash = 0, DisputeReason = []\<rparr>"

lemmas sample_trade_defs = sampleTrade_def sampleBase_def sampleQuote_def

definition emptyTstate :: tstate where
  "emptyTstate = \<lparr>stateAccounts = Map.empty, accountMetas = Map.empty, stakingSnaps = Map.empty,
     events = [], escrowRecs = Map.empty, frozenRecs = Map.empty, vaultBals = (\<lambda>_ _. 0),
     realmRecs = Map.empty, paramVals = Map.empty, tradeRecs = Map.empty, tradeIndex = Map.empty\<rparr>"

text \<open>The trade with its legs in the given states, the vaults holding what is funded.\<close>

definition sampleTstate :: "TradeStatus \<Rightarrow> EscrowStatus \<Rightarrow> EscrowStatus \<Rightarrow> tstate" where
  "sampleTstate tst bst qst = putTrade (sampleTrade tst) (putRec (sampleBase bst) (putRec (sampleQuote qst)
     (setVault 81 ''ZNHB'' (held bst 10) (setVault 82 ''NHB'' (held qst 30)
     (emptyTstate\<lparr>stateAccounts := [23 \<mapsto> Full \<lparr>saNonce = 0, saBalance = held qst 30, saRoot = 1, saCodeHash = []\<rparr>],
        accountMetas := [24 \<mapsto> emptyMetadata\<lparr>mBalanceZNHB := held bst 10\<rparr>]\<rparr>)))))"

lemma sampleTstate_fields [simp]:
  "vaultBals (sampleTstate tst bst qst) = (\<lambda>_ _. 0)(82 := (\<lambda>_. 0)(''NHB'' := held qst 30), 81 := (\<lambda>_. 0)(''ZNHB'' := held bst 10))"
  "escrowRecs (sampleTstate tst bst qst) = [82 \<mapsto> newStoredEscrow (sampleQuote qst), 81 \<mapsto> newStoredEscrow (sampleBase bst)]"
  "stateAccounts (sampleTstate tst bst qst) = [23 \<mapsto> Full \<lparr>saNonce = 0, saBalance = held qst 30, saRoot = 1, saCodeHash = []\<rparr>]"
  "accountMetas (sampleTstate tst bst qst) = [24 \<mapsto> emptyMetadata\<lparr>mBalanceZNHB := held bst 10\<rparr>]"
  "tradeRecs (sampleTstate tst bst qst) = [7 \<mapsto> newStoredTrade (sampleTrade tst)]"
  by (simp_all add: sampleTstate_def putRec_def setVault_def putTrade_def emptyTstate_def sampleTrade_def
      sampleBase_def sampleQuote_def)

lemma sample_legs_wf:
  "statusValid st \<Longrightarrow> escrow_wf D (sampleBase st)" "statusValid st \<Longrightarrow> escrow_wf D (sampleQuote st)"
  by (simp_all add: escrow_wf_def sampleBase_def sampleQuote_def trimSpace_def)

lemma sample_trade_wf: "tradeStatusValid st \<Longrightarrow> trade_wf (sampleTrade st)" "trade_times (sampleTrade st)"
  by (simp_all add: trade_wf_def trade_times_def sampleTrade_def)

lemma sample_trade_get [simp]: "tradeStatusValid st \<Longrightarrow> TradeGet 7 (sampleTstate st bst qst) = Some (sampleTrade st)"
  using TradeGet_putTrade [OF sample_trade_wf] unfolding sampleTstate_def by (simp add: sampleTrade_def)

lemma sample_legs [simp]:
  "statusValid bst \<Longrightarrow> EscrowGet D 81 (sampleTstate tst bst qst) = Some (sampleBase bst)"
  "statusValid qst \<Longrightarrow> EscrowGet D 82 (sampleTstate tst bst qst) = Some (sampleQuote qst)"
proof -
  show "EscrowGet D 81 (sampleTstate tst bst qst) = Some (sampleBase bst)" if "statusValid bst"
    using EscrowGet_putRec [OF sample_legs_wf(1) [OF that, of D]] unfolding sampleTstate_def by (simp add: sampleBase_def)
  show "EscrowGet D 82 (sampleTstate tst bst qst) = Some (sampleQuote qst)" if "statusValid qst"
    using EscrowGet_putRec [OF sample_legs_wf(2) [OF that, of D]] unfolding sampleTstate_def
    by (simp add: EscrowGet_putRec_other sampleBase_def) (simp add: sampleQuote_def)
qed

lemma sample_funds_ok:
  assumes "tradeStatusValid tst" and "statusValid bst" and "statusValid qst"
  shows "funds_ok refEDeps (sampleTstate tst bst qst)"
proof -
  let ?s = "sampleTstate tst bst qst"
  have "rec_ok 81 (newStoredEscrow (sampleBase bst))" "rec_ok 82 (newStoredEscrow (sampleQuote qst))"
    using putRec_rec_ok [OF sample_legs_wf(1) [OF assms(2), of refEDeps]] putRec_rec_ok [OF sample_legs_wf(2) [OF assms(3), of refEDeps]]
    by (simp_all add: sampleBase_def sampleQuote_def)
  then have acct: "acct_ok refEDeps ?s"
    using assms by (auto simp: acct_ok_def store_ok_def track_ok_def newStoredEscrow_def sampleBase_def sampleQuote_def)
  moreover have "trades_ok refEDeps ?s"
    using assms sample_trade_wf [of tst]
    by (auto simp: trades_ok_def trade_ok_def leg_ok_def sampleTrade_def terms_def) (auto simp: sample_trade_defs)
  moreover have bal: "coinBalance refEDeps c ?s a = (if c = NHB \<and> a = 23 then held qst 30 else if c = ZNHB \<and> a = 24 then held bst 10 else 0)" for c a
    by (cases c) (simp_all add: coinBalance_def acctOf_def account_defs run_defs assembleAccount_def
      ensureAccountDefaults_def emptyMetadata_def)
  moreover have "chain_inv refEDeps ?s"
    by (auto simp: chain_inv_def acct_fits_def acct_nonneg_def metaBigInts_def accountMeta_def acctOf_def
      account_defs run_defs assembleAccount_def ensureAccountDefaults_def emptyMetadata_def held_def)
  moreover have "(\<Sum>i\<in>UNIV. if i = 81 then 0 else if i = (82 :: hash32) then v else 0) = v" for v :: int
    by (subst sum.cong [OF refl, of _ _ "\<lambda>i. if i = 82 then v else 0"]) auto
  then have "solvent refEDeps ?s"
    by (simp add: solvent_def trackedTotal_def bal vaultAddr_ref tokenCoin_def fun_upd_apply
      if_distrib [of "\<lambda>f. f _"] cong: if_cong)
  moreover have "totalSupply refEDeps NHB ?s < 2 ^ 256"
    by (simp add: totalSupply_def bal held_def cong: if_cong)
  ultimately show ?thesis by (simp add: funds_ok_def world_ok_def)
qed

definition refTradeEngine :: tradeEngine where
  "refTradeEngine = \<lparr>teNow = 20, tePauses = None, teEscrow = refEngine\<rparr>"

section \<open>Properties\<close>

text \<open>
  Property C14 (legs of a trade). In every state that calls of the trade and the escrow engine can
  reach from one without trades, each stored trade has two distinct stored escrows: the base escrow
  from the seller to the buyer over the base amount and the quote escrow from the buyer to the
  seller over the quote amount, both without fee, realm and mediator and with the deadline of the
  trade, whatever calls, failing ones included, came in between.
\<close>

theorem trade_legs:
  assumes "acct_ok D s" and "tradeRecs s = Map.empty" and "trade_reach D s t" and "TradeGet tid t = Some tr"
  shows "\<exists>b q. EscrowGet D (EscrowBase tr) t = Some b \<and> EscrowGet D (EscrowQuote tr) t = Some q
    \<and> EscrowBase tr \<noteq> EscrowQuote tr \<and> trID tr = tid
    \<and> Payer b = Seller tr \<and> Payee b = Buyer tr \<and> escToken b = BaseToken tr \<and> escAmount b = BaseAmount tr
    \<and> Payer q = Buyer tr \<and> Payee q = Seller tr \<and> escToken q = QuoteToken tr \<and> escAmount q = QuoteAmount tr
    \<and> 0 < BaseAmount tr \<and> 0 < QuoteAmount tr
    \<and> (\<forall>e. e = b \<or> e = q \<longrightarrow> escFeeBps e = 0 \<and> escRealmID e = [] \<and> Mediator e = 0 \<and> escDeadline e = trDeadline tr)"
proof -
  have "world_ok D s" using assms(1,2) by (simp add: world_ok_def trades_ok_def)
  from world_trade [OF world_reach [OF assms(3) this] assms(4)] show ?thesis
    by (auto simp: trade_ok_def leg_ok_def terms_def)
qed

lemma Create_fresh:
  assumes "deps_ok D" and "Guard (engPauses E) ''escrow'' = Inr ()" and "nonce \<noteq> 0" and "0 < amt" and "0 \<le> engNow E"
    and "engNow E \<le> deadline" and "NormalizeToken tok = Inr tok" and "EscrowGet D (escrowID D payer payee meta nonce) s = None"
  obtains e t where "Create D E payer payee tok amt 0 deadline nonce None meta [] s = (Inr e, t)"
    and "escID e = escrowID D payer payee meta nonce"
    and "\<forall>i. i \<noteq> escID e \<longrightarrow> EscrowGet D i t = EscrowGet D i s"
proof -
  let ?e = "\<lparr>escID = escrowID D payer payee meta nonce, Payer = payer, Payee = payee, Mediator = 0, escToken = tok,
    escAmount = amt, escFeeBps = 0, escDeadline = deadline, escCreatedAt = engNow E, escNonce = nonce, MetaHash = meta,
    escStatus = EscrowInit, escRealmID = [], escFrozenArb = None, ResolutionHash = 0, DisputeReason = []\<rparr>"
  let ?t = "(putRec ?e s)\<lparr>events := events s @ [NewCreatedEvent D ?e]\<rparr>"
  have "escrow_wf D ?e" using assms(3,4,7) by (auto simp: escrow_wf_def NormalizeToken_Inr trimSpace_def)
  from EscrowPut_run [OF assms(1) this] have "EscrowPut D ?e s = (Inr (), putRec ?e s)" using assms(5,6) by simp
  then have "createFresh D ?e s = (Inr ?e, ?t)"
    by (subst createFresh_Inr) (simp_all add: emitEvent_def run_defs putRec_def)
  with assms have run: "Create D E payer payee tok amt 0 deadline nonce None meta [] s = (Inr ?e, ?t)"
    unfolding Create_Inr by (simp add: trimSpace_def)
  have "\<forall>i. i \<noteq> escID ?e \<longrightarrow> EscrowGet D i ?t = EscrowGet D i s"
    by (simp add: EscrowGet_putRec_other)
  then show ?thesis by (rule that [OF run, rotated]) simp
qed

lemma baseNonce_nonzero: "baseNonceOf D tid n \<noteq> 0"
proof -
  have "n = 1" if "xor n 1 = 0"
  proof -
    from that have "xor (xor n 1) 1 = 1" by simp
    then show ?thesis by (simp add: xor.assoc)
  qed
  moreover have "xor n 1 \<noteq> n"
  proof
    assume "xor n 1 = n"
    then have "xor n (xor n 1) = xor n n" by simp
    then show False by simp
  qed
  ultimately show ?thesis by (auto simp: baseNonceOf_def Let_def)
qed

lemma createLegs_succeeds:
  fixes s :: "'x tstate_scheme" and buyer seller :: address and tid :: hash32
  assumes "deps_ok D" and "Guard (engPauses (teEscrow T)) ''escrow'' = Inr ()" and "0 < qa" and "0 < ba" and "slip \<le> 10000"
    and "0 \<le> engNow (teEscrow T)" and "0 \<le> teNow T" and "engNow (teEscrow T) \<le> deadline"
    and "NormalizeToken qt = Inr qt" and "NormalizeToken bt = Inr bt"
  defines "q \<equiv> escrowID D buyer seller (keccak256 D (hashBytes tid @ ''quote'')) (quoteNonceOf D tid)"
    and "b \<equiv> escrowID D seller buyer (keccak256 D (hashBytes tid @ ''base'')) (baseNonceOf D tid (quoteNonceOf D tid))"
  assumes "EscrowGet D q s = None" and "EscrowGet D b s = None" and "b \<noteq> q"
  shows "\<exists>tr t. createLegs D T tid offerID buyer seller qt qa bt ba deadline slip s = (Inr tr, t)
    \<and> trID tr = tid \<and> tradeRecs t tid = Some (newStoredTrade tr)"
proof -
  have q0: "quoteNonceOf D tid \<noteq> 0" by (simp add: quoteNonceOf_def Let_def)
  obtain eq t1 where c1: "Create D (teEscrow T) buyer seller qt qa 0 deadline (quoteNonceOf D tid) None
      (keccak256 D (hashBytes tid @ ''quote'')) [] s = (Inr eq, t1)"
    and eq: "escID eq = q" and other: "\<forall>i. i \<noteq> escID eq \<longrightarrow> EscrowGet D i t1 = EscrowGet D i s"
    using Create_fresh [OF assms(1,2) q0 assms(3,6,8,9) assms(13) [unfolded q_def]] unfolding q_def by blast
  have "EscrowGet D b t1 = None" using other eq assms(14,15) by simp
  then obtain eb t2 where c2: "Create D (teEscrow T) seller buyer bt ba 0 deadline (baseNonceOf D tid (quoteNonceOf D tid)) None
      (keccak256 D (hashBytes tid @ ''base'')) [] t1 = (Inr eb, t2)"
    using Create_fresh [OF assms(1,2) baseNonce_nonzero assms(4,6,8,10)] unfolding b_def by blast
  let ?tr = "\<lparr>trID = tid, OfferID = offerID, Buyer = buyer, Seller = seller, QuoteToken = qt, QuoteAmount = qa,
    EscrowQuote = escID eq, BaseToken = bt, BaseAmount = ba, EscrowBase = escID eb, trDeadline = deadline,
    trCreatedAt = teNow T, FundedAt = 0, SlippageBps = slip, trStatus = TradeInit\<rparr>"
  have put: "TradePut D ?tr t2 = (Inr (), putTrade ?tr t2)"
    by (rule TradePut_run [OF assms(1)]) (use assms in \<open>simp_all add: trade_wf_def\<close>)
  obtain t where "createLegs D T tid offerID buyer seller qt qa bt ba deadline slip s = (Inr ?tr, t)"
      "tradeRecs t = tradeRecs (putTrade ?tr t2)"
    unfolding createLegs_def Let_def by (simp add: bindE_def c1 c2 put TradeIndexEscrow_def emitEvent_def modifyE_def retE_def)
  then show ?thesis by (auto simp: putTrade_def)
qed

text \<open>A hash that tells the identifiers of the concrete trade apart.\<close>

definition refTDeps :: edeps where
  "refTDeps = refEDeps\<lparr>keccak256 := (\<lambda>bs. of_nat (length bs * 256 + of_char (last bs)))\<rparr>"

lemma refTDeps_ok [simp]: "deps_ok refTDeps"
  by (auto simp: deps_ok_def refTDeps_def refEDeps_def)

lemma last_beBytes: "0 < n \<Longrightarrow> last (xs @ beBytes n v) = char_of (v mod 256)"
  by (cases n) simp_all

lemma refTDeps_hash:
  "0 < n \<Longrightarrow> keccak256 refTDeps (xs @ beBytes n v) = of_nat ((length xs + n) * 256 + v mod 256)"
  by (simp add: refTDeps_def last_beBytes del: of_nat_add of_nat_mult)

lemma trade_legs_sample:
  obtains t tr where "trade_reach refTDeps emptyTstate t" and "TradeGet 18688 t = Some tr"
proof -
  let ?D = refTDeps and ?T = refTradeEngine
  have none: "EscrowGet ?D i emptyTstate = None" "TradeGet i emptyTstate = None" for i
    by (simp_all add: EscrowGet_def TradeGet_def emptyTstate_def)
  have tid: "keccak256 ?D (trimSpace ''o'' @ addrBytes 1 @ addrBytes 2 @ hashBytes 0) = 18688"
    using refTDeps_hash [of 32 "trimSpace ''o'' @ addrBytes 1 @ addrBytes 2" 0]
    by (simp add: addrBytes_def hashBytes_def trimSpace_def isSpace_def)
  have eid: "escrowID ?D p q m n = of_nat (20480 + unat n mod 256)" for p q m n
    using refTDeps_hash [of 8 "addrBytes p @ addrBytes q @ hashBytes m" "unat n"]
    by (simp add: escrowID_def addrBytes_def hashBytes_def)
  have n1: "quoteNonceOf ?D 18688 = 1"
    by (simp add: quoteNonceOf_def refTDeps_def hashPrefix64_def hashBytes_def)
  have n2: "baseNonceOf ?D 18688 1 = 2"
    by (simp add: baseNonceOf_def refTDeps_def hashPrefix64_def hashBytes_def)
  have "\<exists>tr t. createLegs ?D ?T 18688 ''o'' 1 2 ''NHB'' 30 ''ZNHB'' 10 1000 0 emptyTstate = (Inr tr, t)
    \<and> trID tr = 18688 \<and> tradeRecs t 18688 = Some (newStoredTrade tr)"
    by (rule createLegs_succeeds)
      (simp_all add: none n1 n2 eid refTradeEngine_def refEngine_def Guard_def)
  then obtain tr t where run: "createLegs ?D ?T 18688 ''o'' 1 2 ''NHB'' 30 ''ZNHB'' 10 1000 0 emptyTstate = (Inr tr, t)"
    and rec: "trID tr = 18688" "tradeRecs t 18688 = Some (newStoredTrade tr)" by blast
  let ?c = "CallCreateTrade ''o'' 1 2 ''NHB'' (Some 30) ''ZNHB'' (Some 10) 1000 0 0"
  have "runTradeCall ?D ?T ?c emptyTstate = (Inr (), t)"
    using run by (simp add: ignoreResult_def CreateTrade_def tradeGuard_def run_defs tid none refTradeEngine_def Guard_def
        defaultSlippageBps_def)
  moreover have "trade_call_ok ?T ?c" by (simp add: trade_call_ok_def refTradeEngine_def refEngine_def int64_def)
  ultimately have reach: "trade_reach ?D emptyTstate t" by (intro trade_reach.more [OF trade_reach.here] trade_step.call)
  have "world_ok ?D emptyTstate" using acct_ok_empty [of ?D emptyTstate] by (simp add: world_ok_def trades_ok_def emptyTstate_def)
  from world_reach [OF reach this] rec obtain tr' where "newStoredTrade tr = newStoredTrade tr'" "trID tr' = 18688" "trade_ok ?D t tr'"
    by (auto simp: world_ok_def trades_ok_def)
  with rec have "TradeGet 18688 t = Some tr'" by (simp add: TradeGet_def trade_ok_def toTrade_stored wf_SanitizeTrade)
  with reach show ?thesis by (rule that)
qed

theorem trade_legs_witness:
  "\<exists>t tr b q. trade_reach refTDeps emptyTstate t \<and> TradeGet 18688 t = Some tr
     \<and> EscrowGet refTDeps (EscrowBase tr) t = Some b \<and> EscrowGet refTDeps (EscrowQuote tr) t = Some q
     \<and> EscrowBase tr \<noteq> EscrowQuote tr \<and> Payee b = Buyer tr \<and> Payee q = Seller tr"
proof -
  have acct: "acct_ok refTDeps emptyTstate" by (rule acct_ok_empty) (simp_all add: emptyTstate_def)
  obtain t tr where t: "trade_reach refTDeps emptyTstate t" "TradeGet 18688 t = Some tr" by (rule trade_legs_sample)
  from trade_legs [OF acct _ t] t show ?thesis by (auto simp: emptyTstate_def)
qed

text \<open>
  Property C16 (settlement goes through). When both escrows of a trade are funded, the trade is not
  disputed, not settled and not past its deadline, and neither module is paused, then in a solvent
  state \<^verbatim>\<open>SettleAtomic\<close> succeeds: the buyer receives the base amount and the seller the quote
  amount out of the vaults, no other balance changes, both escrows are released and the trade is
  settled.
\<close>

theorem settle_exchange:
  assumes "funds_ok D s" and "TradeGet tid s = Some tr"
    and "EscrowGet D (EscrowBase tr) s = Some b" and "EscrowGet D (EscrowQuote tr) s = Some q"
    and "escStatus b = EscrowFunded" and "escStatus q = EscrowFunded"
    and "trStatus tr \<noteq> TradeSettled" and "trStatus tr \<noteq> TradeDisputed" and "teNow T \<le> trDeadline tr"
    and "Guard (tePauses T) ''trade'' = Inr ()" and "Guard (engPauses (teEscrow T)) ''escrow'' = Inr ()"
    and "vaultAddr D (BaseToken tr) \<noteq> Buyer tr" and "vaultAddr D (QuoteToken tr) \<noteq> Seller tr"
  shows "\<exists>t. SettleAtomic D T tid s = (Inr (), t) \<and> settledState D tr b q s t"
proof -
  have "world_ok D s" using assms(1) by (simp add: funds_ok_def)
  from SettleAtomic_run [OF this assms(2-4)] have "SettleAtomic D T tid s = settleBoth D T tr s"
    using assms(5-10) by simp
  with settleBoth_succeeds [OF assms(1-6,11-13)] show ?thesis by simp
qed

theorem settle_exchange_witness:
  "\<exists>t. SettleAtomic refEDeps refTradeEngine 7 (sampleTstate TradeFunded EscrowFunded EscrowFunded) = (Inr (), t)
     \<and> settledState refEDeps (sampleTrade TradeFunded) (sampleBase EscrowFunded) (sampleQuote EscrowFunded)
         (sampleTstate TradeFunded EscrowFunded EscrowFunded) t"
  by (rule settle_exchange)
    (simp_all add: sample_funds_ok, simp_all add: sample_trade_defs refTradeEngine_def refEngine_def Guard_def vaultAddr_ref)

text \<open>
  Property C15 (settlement is atomic). In a solvent state a run of \<^verbatim>\<open>SettleAtomic\<close> either leaves the whole
  state as it was, with an error or because the trade is already settled, or it makes the
  complete exchange of a trade whose escrows are both funded: it never pays one leg only.
\<close>

theorem settle_atomic:
  assumes "funds_ok D s" and "SettleAtomic D T tid s = (r, t)"
    and "\<And>tr. TradeGet tid s = Some tr \<Longrightarrow> vaultAddr D (BaseToken tr) \<noteq> Buyer tr \<and> vaultAddr D (QuoteToken tr) \<noteq> Seller tr"
  shows "t = s \<and> (r = Inr () \<longrightarrow> (\<exists>tr. TradeGet tid s = Some tr \<and> trStatus tr = TradeSettled))
    \<or> (\<exists>tr b q. r = Inr () \<and> TradeGet tid s = Some tr \<and> EscrowGet D (EscrowBase tr) s = Some b
        \<and> EscrowGet D (EscrowQuote tr) s = Some q \<and> escStatus b = EscrowFunded \<and> escStatus q = EscrowFunded
        \<and> settledState D tr b q s t)"
proof (cases "TradeGet tid s")
  case None
  then have "t = s \<and> r \<noteq> Inr ()" using assms(2) by (auto simp: SettleAtomic_def loadTrade_def run_defs)
  then show ?thesis by simp
next
  case (Some tr)
  have w: "world_ok D s" using assms(1) by (simp add: funds_ok_def)
  from world_trade(2) [OF w Some] obtain b q
    where legs: "EscrowGet D (EscrowBase tr) s = Some b" "EscrowGet D (EscrowQuote tr) s = Some q"
    by (auto simp: trade_ok_def leg_ok_def)
  note run = SettleAtomic_run [OF w Some legs, of T]
  show ?thesis
  proof (cases "escStatus b = EscrowFunded \<and> escStatus q = EscrowFunded")
    case False
    with run assms(2) Some show ?thesis by (auto split: sum.splits if_splits)
  next
    case funded: True
    show ?thesis
    proof (cases "Guard (engPauses (teEscrow T)) ''escrow''")
      case (Inl e)
      then have "settleBoth D T tr s = (Inl e, s)" by (simp add: settleBoth_def Release_def guardE_def run_defs)
      with run assms(2) Some show ?thesis by (auto split: sum.splits if_splits)
    next
      case (Inr u)
      with settleBoth_succeeds [OF assms(1) Some legs, of T] funded assms(3) [OF Some]
      obtain t' where "settleBoth D T tr s = (Inr (), t')" "settledState D tr b q s t'" by auto
      with run assms(2) Some legs funded show ?thesis by (auto split: sum.splits if_splits)
    qed
  qed
qed

theorem settle_atomic_witness:
  "\<exists>err. SettleAtomic refEDeps refTradeEngine 7 (sampleTstate TradePartialFunded EscrowFunded EscrowInit)
     = (Inl err, sampleTstate TradePartialFunded EscrowFunded EscrowInit)"
proof -
  let ?s = "sampleTstate TradePartialFunded EscrowFunded EscrowInit"
  obtain r t where run: "SettleAtomic refEDeps refTradeEngine 7 ?s = (r, t)" by fastforce
  have "t = ?s \<and> (r = Inr () \<longrightarrow> (\<exists>tr. TradeGet 7 ?s = Some tr \<and> trStatus tr = TradeSettled))
    \<or> (\<exists>tr b q. r = Inr () \<and> TradeGet 7 ?s = Some tr \<and> EscrowGet refEDeps (EscrowBase tr) ?s = Some b
        \<and> EscrowGet refEDeps (EscrowQuote tr) ?s = Some q \<and> escStatus b = EscrowFunded \<and> escStatus q = EscrowFunded
        \<and> settledState refEDeps tr b q ?s t)"
    by (rule settle_atomic [OF _ run]) (simp_all add: sample_funds_ok, auto simp: sampleTrade_def vaultAddr_ref)
  then have "t = ?s \<and> r \<noteq> Inr ()" by (auto simp: sample_trade_defs)
  with run show ?thesis by (cases r) auto
qed

lemma bind_loads:
  fixes s :: "'x tstate_scheme"
  shows "TradeGet tid s = Some tr \<Longrightarrow> bindE (loadTrade tid) f s = f tr s"
    and "EscrowGet D eid s = Some e \<Longrightarrow> bindE (loadLeg D eid) g s = g e s"
    and "Guard (tePauses T) ''trade'' = Inr () \<Longrightarrow> bindE (tradeGuard T) h s = h () s"
  by (simp_all add: loadTrade_def loadLeg_def tradeGuard_def run_defs wf_SanitizeTrade [OF TradeGet_wf])

lemma funds_putTrade:
  fixes s :: "'x tstate_scheme"
  assumes "funds_ok D s" and "trade_ok D s tr"
  shows "funds_ok D ((putTrade tr s)\<lparr>events := ev\<rparr>)"
proof -
  let ?t = "(putTrade tr s)\<lparr>events := ev\<rparr>"
  have bal: "coinBalance D c ?t = coinBalance D c s" for c by simp
  have same: "vaultBals ?t = vaultBals s" by (simp_all add: putTrade_def)
  have "world_ok D ?t" unfolding world_emit by (rule world_putTrade) (use assms in \<open>simp_all add: funds_ok_def\<close>)
  moreover have "chain_inv D ?t = chain_inv D s" by (intro funds_cong) (simp_all add: putTrade_def)
  moreover have "totalSupply D NHB ?t = totalSupply D NHB s" by (simp add: totalSupply_def)
  ultimately show ?thesis using assms(1) bal same by (simp add: funds_ok_def solvent_def trackedTotal_def)
qed

lemma OnFundingProgress_disputed:
  fixes s :: "'x tstate_scheme"
  assumes "world_ok D s" and "TradeGet tid s = Some tr" and "trStatus tr = TradeDisputed"
    and "EscrowGet D (EscrowBase tr) s = Some b" and "EscrowGet D (EscrowQuote tr) s = Some q"
    and "escStatus b = EscrowFunded" and "escStatus q = EscrowFunded"
    and "Guard (tePauses T) ''trade'' = Inr ()" and "0 \<le> teNow T" and "teNow T < 2 ^ 63"
  shows "OnFundingProgress D T tid s = (Inr (), (putTrade (tr\<lparr>trStatus := TradeFunded, FundedAt := teNow T\<rparr>) s)
      \<lparr>events := events s @ [NewTradeFundedEvent (tr\<lparr>trStatus := TradeFunded, FundedAt := teNow T\<rparr>)]\<rparr>)"
    and "trade_ok D s (tr\<lparr>trStatus := TradeFunded, FundedAt := teNow T\<rparr>)"
proof -
  let ?tr = "tr\<lparr>trStatus := TradeFunded, FundedAt := teNow T\<rparr>"
  have D: "deps_ok D" using assms(1) by (simp add: world_ok_def acct_ok_def store_ok_def)
  show ok: "trade_ok D s ?tr" using world_trade(2) [OF assms(1,2)] assms(9,10) by (simp add: trade_ok_update)
  then have put: "TradePut D ?tr s = (Inr (), putTrade ?tr s)"
    by (intro TradePut_run [OF D]) (simp_all add: trade_ok_def trade_times_def)
  show "OnFundingProgress D T tid s = (Inr (), (putTrade ?tr s)\<lparr>events := events s @ [NewTradeFundedEvent ?tr]\<rparr>)"
    unfolding OnFundingProgress_def
    by (simp add: bind_loads(1) [OF assms(2)] bind_loads(2) [OF assms(4)] bind_loads(2) [OF assms(5)]
        bind_loads(3) [OF assms(8)] assms(3,6,7) fundingStatus_def Let_def)
      (simp add: bindE_def put emitEvent_def modifyE_def putTrade_def)
qed

text \<open>
  Property C18 (a dispute is undone). \<^verbatim>\<open>OnFundingProgress\<close> does not look at a dispute. On a disputed trade
  whose escrows are both funded, \<^verbatim>\<open>SettleAtomic\<close> fails and changes nothing; one call of
  \<^verbatim>\<open>OnFundingProgress\<close> sets the status back to funded; and then the same call of \<^verbatim>\<open>SettleAtomic\<close>,
  with the trade still disputed by its parties, succeeds and makes the complete exchange (in a solvent
  state, before the deadline, with both modules unpaused and no party of the trade being a vault).
\<close>

theorem dispute_undone:
  assumes "funds_ok D s" and "TradeGet tid s = Some tr" and "trStatus tr = TradeDisputed"
    and "EscrowGet D (EscrowBase tr) s = Some b" and "EscrowGet D (EscrowQuote tr) s = Some q"
    and "escStatus b = EscrowFunded" and "escStatus q = EscrowFunded"
    and "Guard (tePauses T) ''trade'' = Inr ()" and "Guard (engPauses (teEscrow T)) ''escrow'' = Inr ()"
    and "0 \<le> teNow T" and "teNow T < 2 ^ 63" and "teNow T \<le> trDeadline tr"
    and "vaultAddr D (BaseToken tr) \<noteq> Buyer tr" and "vaultAddr D (QuoteToken tr) \<noteq> Seller tr"
  shows "(\<exists>err. SettleAtomic D T tid s = (Inl err, s))
    \<and> (\<exists>t u. OnFundingProgress D T tid s = (Inr (), t)
         \<and> TradeGet tid t = Some (tr\<lparr>trStatus := TradeFunded, FundedAt := teNow T\<rparr>)
         \<and> SettleAtomic D T tid t = (Inr (), u) \<and> settledState D tr b q s u)"
proof
  have w: "world_ok D s" using assms(1) by (simp add: funds_ok_def)
  show "\<exists>err. SettleAtomic D T tid s = (Inl err, s)"
    using assms(3,8) unfolding SettleAtomic_run [OF w assms(2,4,5)] by simp
  let ?tr = "tr\<lparr>trStatus := TradeFunded, FundedAt := teNow T\<rparr>"
  let ?t = "(putTrade ?tr s)\<lparr>events := events s @ [NewTradeFundedEvent ?tr]\<rparr>"
  note on = OnFundingProgress_disputed [OF w assms(2-8,10,11)]
  have f: "funds_ok D ?t" by (rule funds_putTrade [OF assms(1) on(2)])
  then have wt: "world_ok D ?t" by (simp add: funds_ok_def)
  have get: "TradeGet tid ?t = Some ?tr"
    using TradeGet_putTrade [of ?tr s] on(2) world_trade(1) [OF w assms(2)] by (simp add: trade_ok_def)
  have legs: "EscrowGet D (EscrowBase ?tr) ?t = Some b" "EscrowGet D (EscrowQuote ?tr) ?t = Some q"
    using assms(4,5) by simp_all
  have "SettleAtomic D T tid ?t = settleBoth D T ?tr ?t"
    using SettleAtomic_run [OF wt get legs, of T] assms(6-8,12) by simp
  moreover obtain u where "settleBoth D T ?tr ?t = (Inr (), u)" and u: "settledState D ?tr b q ?t u"
    using settleBoth_succeeds [OF f get legs assms(6,7,9)] assms(13,14) by auto
  moreover have "settledState D tr b q s u" using u by (simp add: settledState_def exchanged_def)
  ultimately show "\<exists>t u. OnFundingProgress D T tid s = (Inr (), t) \<and> TradeGet tid t = Some ?tr
      \<and> SettleAtomic D T tid t = (Inr (), u) \<and> settledState D tr b q s u"
    using on(1) get by metis
qed

theorem dispute_undone_witness:
  "\<exists>t u. OnFundingProgress refEDeps refTradeEngine 7 (sampleTstate TradeDisputed EscrowFunded EscrowFunded) = (Inr (), t)
     \<and> SettleAtomic refEDeps refTradeEngine 7 t = (Inr (), u)
     \<and> settledState refEDeps (sampleTrade TradeDisputed) (sampleBase EscrowFunded) (sampleQuote EscrowFunded)
         (sampleTstate TradeDisputed EscrowFunded EscrowFunded) u"
proof -
  let ?s = "sampleTstate TradeDisputed EscrowFunded EscrowFunded"
  have "funds_ok refEDeps ?s" by (simp add: sample_funds_ok)
  note undone = dispute_undone [OF this, of 7 "sampleTrade TradeDisputed" "sampleBase EscrowFunded" "sampleQuote EscrowFunded" refTradeEngine]
  have "\<exists>t u. OnFundingProgress refEDeps refTradeEngine 7 ?s = (Inr (), t)
      \<and> TradeGet 7 t = Some ((sampleTrade TradeDisputed)\<lparr>trStatus := TradeFunded, FundedAt := teNow refTradeEngine\<rparr>)
      \<and> SettleAtomic refEDeps refTradeEngine 7 t = (Inr (), u)
      \<and> settledState refEDeps (sampleTrade TradeDisputed) (sampleBase EscrowFunded) (sampleQuote EscrowFunded) ?s u"
    by (rule conjunct2, rule undone) (simp_all add: sample_trade_defs refTradeEngine_def refEngine_def Guard_def vaultAddr_ref)
  then show ?thesis by blast
qed

text \<open>
  Expiry of a partly funded trade. After the deadline a trade with exactly one funded
  escrow cannot be expired: \<^verbatim>\<open>TradeTryExpire\<close> refunds the leg with \<^verbatim>\<open>Refund\<close>, which demands that the
  deadline has not passed, so the call fails and changes nothing for as long as the clock runs.
\<close>

theorem partial_trade_stuck:
  assumes "world_ok D s" and "TradeGet tid s = Some tr" and "trStatus tr = TradePartialFunded"
    and "EscrowGet D (EscrowBase tr) s = Some b" and "EscrowGet D (EscrowQuote tr) s = Some q"
    and "(escStatus b = EscrowFunded) \<noteq> (escStatus q = EscrowFunded)"
    and "trDeadline tr \<le> now" and "trDeadline tr \<le> engNow (teEscrow T)"
  shows "\<exists>err. TradeTryExpire D T tid now s = (Inl err, s)"
proof -
  have tr: "trade_ok D s tr" using world_trade [OF assms(1,2)] by simp
  have b: "escDeadline b = trDeadline tr" "Payer b = Seller tr" and q: "escDeadline q = trDeadline tr" "Payer q = Buyer tr"
    using tr assms(4,5) by (auto simp: trade_ok_def leg_ok_def terms_def)
  have refund: "\<exists>err. Refund D (teEscrow T) eid (Payer e) s = (Inl err, s)"
    if "EscrowGet D eid s = Some e" "escStatus e = EscrowFunded" "escDeadline e = trDeadline tr" for eid e
    using that assms(8) by (auto simp: Refund_def guardE_def loadEscrow_def run_defs split: sum.splits)
  show ?thesis
  proof (cases "Guard (tePauses T) ''trade''")
    case (Inl e)
    then show ?thesis by (simp add: TradeTryExpire_def bind_loads(1) [OF assms(2)]) (simp add: tradeGuard_def run_defs)
  next
    case (Inr u)
    then have g: "Guard (tePauses T) ''trade'' = Inr ()" by simp
    note run = TradeTryExpire_def bind_loads(1) [OF assms(2)] bind_loads(2) [OF assms(4)] bind_loads(2) [OF assms(5)] bind_loads(3) [OF g]
    show ?thesis
    proof (cases "escStatus b = EscrowFunded")
      case True
      with refund [OF assms(4)] b obtain err where "Refund D (teEscrow T) (EscrowBase tr) (Seller tr) s = (Inl err, s)" by auto
      with True assms show ?thesis
        by (simp add: run Let_def refundBaseLeg_def bindE_def [of "Refund _ _ _ _"] bindE_def [of "bindE _ _"])
    next
      case False
      with assms(6) refund [OF assms(5)] q obtain err where "Refund D (teEscrow T) (EscrowQuote tr) (Buyer tr) s = (Inl err, s)" by auto
      with False assms show ?thesis
        by (simp add: run Let_def refundQuoteLeg_def bindE_def [of "Refund _ _ _ _"] bindE_def [of "bindE _ _"])
    qed
  qed
qed

theorem partial_trade_stuck_witness:
  "\<exists>err. TradeTryExpire refEDeps (refTradeEngine\<lparr>teEscrow := refEngine\<lparr>engNow := 1000\<rparr>\<rparr>) 7 1000
      (sampleTstate TradePartialFunded EscrowFunded EscrowInit)
    = (Inl err, sampleTstate TradePartialFunded EscrowFunded EscrowInit)"
proof -
  have "world_ok refEDeps (sampleTstate TradePartialFunded EscrowFunded EscrowInit)"
    using sample_funds_ok [of TradePartialFunded EscrowFunded EscrowInit] by (simp add: funds_ok_def)
  from partial_trade_stuck [OF this, of 7 "sampleTrade TradePartialFunded" "sampleBase EscrowFunded" "sampleQuote EscrowInit" 1000]
  show ?thesis by (simp add: sample_trade_defs)
qed

end
