(* ===== verification/Milestone.thy ===== *)
theory Milestone
  imports EscrowTypes
begin

text \<open>
  Milestone projects: \<^verbatim>\<open>native/escrow/types_milestone.go\<close>, \<^verbatim>\<open>native/escrow/engine_milestone.go\<close>, the
  milestone calls of \<^verbatim>\<open>core/node.go\<close>, their events and the parsing of their legs in
  \<^verbatim>\<open>rpc/escrow_milestone_handlers.go\<close>. The engine changes a project in memory; a method that
  gets a pointer returns the changed project. A slot of the leg slice may be a nil pointer.
\<close>

section \<open>Types\<close>

datatype MilestoneStatus =
  MilestoneStatusDraft | MilestoneStatusActive | MilestoneStatusCompleted | MilestoneStatusCancelled

datatype MilestoneLegStatus =
  MilestoneLegPending | MilestoneLegFunded | MilestoneLegReleased | MilestoneLegCancelled | MilestoneLegExpired

datatype MilestoneLegType =
  MilestoneLegTypeUnspecified | MilestoneLegTypeDeliverable | MilestoneLegTypeTimebox

primrec milestoneStatusByte :: "MilestoneStatus \<Rightarrow> nat" where
  "milestoneStatusByte MilestoneStatusDraft = 0"
| "milestoneStatusByte MilestoneStatusActive = 1"
| "milestoneStatusByte MilestoneStatusCompleted = 2"
| "milestoneStatusByte MilestoneStatusCancelled = 3"

primrec legStatusByte :: "MilestoneLegStatus \<Rightarrow> nat" where
  "legStatusByte MilestoneLegPending = 0"
| "legStatusByte MilestoneLegFunded = 1"
| "legStatusByte MilestoneLegReleased = 2"
| "legStatusByte MilestoneLegCancelled = 3"
| "legStatusByte MilestoneLegExpired = 4"

primrec legTypeByte :: "MilestoneLegType \<Rightarrow> nat" where
  "legTypeByte MilestoneLegTypeUnspecified = 0"
| "legTypeByte MilestoneLegTypeDeliverable = 1"
| "legTypeByte MilestoneLegTypeTimebox = 2"

record MilestoneLeg =
  legID :: u64
  legType :: MilestoneLegType
  legTitle :: string
  legDescription :: string
  legToken :: string
  legAmount :: "int option"
  legDeadline :: int
  legStatus :: MilestoneLegStatus
  legFundedAt :: int
  legReleasedAt :: int
  legCancelledAt :: int

record MilestoneSubscription =
  IntervalSeconds :: int
  NextReleaseAt :: int
  subActive :: bool

record MilestoneProject =
  projID :: hash32
  projPayer :: address
  projPayee :: address
  projRealmID :: string
  projCreatedAt :: int
  projUpdatedAt :: int
  projStatus :: MilestoneStatus
  projLegs :: "MilestoneLeg option list"
  projMetadata :: string
  projSubscription :: "MilestoneSubscription option"

abbreviation "ErrMilestoneNotFound \<equiv> ''escrow: milestone leg not found''"
abbreviation "ErrMilestoneInvalidTransition \<equiv> ''escrow: invalid milestone transition''"
abbreviation "ErrInvalidMilestoneLeg \<equiv> ''escrow: invalid milestone leg''"

definition legValidate :: "MilestoneLeg option \<Rightarrow> error + unit" where
  "legValidate l =
     (case l of
        None \<Rightarrow> Inl (ErrInvalidMilestoneLeg @ '': leg must not be nil'')
      | Some leg \<Rightarrow>
          bindS (checkS (legType leg = MilestoneLegTypeUnspecified) (ErrInvalidMilestoneLeg @ '': type required'')) (\<lambda>_.
          bindS (checkS (trimSpace (legTitle leg) = []) (ErrInvalidMilestoneLeg @ '': title required'')) (\<lambda>_.
          bindS (checkS (case legAmount leg of None \<Rightarrow> True | Some a \<Rightarrow> a \<le> 0)
            (ErrInvalidMilestoneLeg @ '': amount must be positive'')) (\<lambda>_.
          checkS (legDeadline leg \<le> 0) (ErrInvalidMilestoneLeg @ '': deadline must be > 0'')))))"

definition subValidate :: "MilestoneSubscription option \<Rightarrow> error + unit" where
  "subValidate so =
     (case so of
        None \<Rightarrow> Inr ()
      | Some sub \<Rightarrow>
          bindS (checkS (IntervalSeconds sub \<le> 0) ''escrow: subscription interval must be positive'') (\<lambda>_.
          checkS (NextReleaseAt sub \<le> 0) ''escrow: subscription next release must be positive''))"

primrec validateLegs :: "MilestoneLeg option list \<Rightarrow> error + unit" where
  "validateLegs [] = Inr ()"
| "validateLegs (l # ls) = bindS (legValidate l) (\<lambda>_. validateLegs ls)"

primrec findLeg :: "u64 \<Rightarrow> MilestoneLeg option list \<Rightarrow> MilestoneLeg option" where
  "findLeg i [] = None"
| "findLeg i (l # ls) =
     (case l of None \<Rightarrow> findLeg i ls | Some leg \<Rightarrow> if legID leg = i then Some leg else findLeg i ls)"

definition FindLeg :: "MilestoneProject \<Rightarrow> u64 \<Rightarrow> MilestoneLeg option" where
  "FindLeg p i = findLeg i (projLegs p)"

text \<open>Writing through the pointer that \<^verbatim>\<open>FindLeg\<close> returns.\<close>

primrec updateLeg :: "u64 \<Rightarrow> (MilestoneLeg \<Rightarrow> MilestoneLeg) \<Rightarrow> MilestoneLeg option list \<Rightarrow> MilestoneLeg option list" where
  "updateLeg i f [] = []"
| "updateLeg i f (l # ls) =
     (case l of None \<Rightarrow> l # updateLeg i f ls
      | Some leg \<Rightarrow> if legID leg = i then Some (f leg) # ls else l # updateLeg i f ls)"

definition RequiresFunding :: "MilestoneProject \<Rightarrow> bool" where
  "RequiresFunding p = list_ex (\<lambda>l. case l of None \<Rightarrow> False | Some leg \<Rightarrow> legStatus leg = MilestoneLegPending) (projLegs p)"

text \<open>The scan of \<^verbatim>\<open>NextDueLeg\<close>: the index of the selected leg so far.\<close>

primrec dueScan :: "int \<Rightarrow> nat \<Rightarrow> MilestoneLeg option list \<Rightarrow> (nat \<times> MilestoneLeg) option \<Rightarrow> (nat \<times> MilestoneLeg) option" where
  "dueScan now i [] sel = sel"
| "dueScan now i (l # ls) sel =
     (case l of
        None \<Rightarrow> dueScan now (Suc i) ls sel
      | Some leg \<Rightarrow>
          if legStatus leg \<noteq> MilestoneLegFunded then dueScan now (Suc i) ls sel
          else if legDeadline leg > now then dueScan now (Suc i) ls sel
          else dueScan now (Suc i) ls
            (case sel of None \<Rightarrow> Some (i, leg)
             | Some (j, best) \<Rightarrow> if legDeadline leg < legDeadline best then Some (i, leg) else sel))"

definition NextDueLeg :: "MilestoneProject \<Rightarrow> int \<Rightarrow> (nat \<times> MilestoneLeg) option" where
  "NextDueLeg p now = dueScan now 0 (projLegs p) None"

definition SanitizeMilestoneProject :: "MilestoneProject \<Rightarrow> error + MilestoneProject" where
  "SanitizeMilestoneProject p =
     bindS (validateLegs (projLegs p)) (\<lambda>_.
     bindS (subValidate (projSubscription p)) (\<lambda>_. Inr p))"

section \<open>Events\<close>

definition newMilestoneEvent :: "string \<Rightarrow> MilestoneProject \<Rightarrow> MilestoneLeg option \<Rightarrow> event" where
  "newMilestoneEvent eventType project leg =
     (case SanitizeMilestoneProject project of
        Inl _ \<Rightarrow> \<lparr>evType = eventType, evAttributes = Map.empty\<rparr>
      | Inr sz \<Rightarrow>
          (let a1 = [''projectId'' \<mapsto> hexEncode (hashBytes (projID sz)),
                     ''payer'' \<mapsto> hexEncode (addrBytes (projPayer sz)),
                     ''payee'' \<mapsto> hexEncode (addrBytes (projPayee sz)),
                     ''realmId'' \<mapsto> projRealmID sz,
                     ''status'' \<mapsto> formatNat (milestoneStatusByte (projStatus sz))];
               a2 = (case projSubscription sz of None \<Rightarrow> a1 | Some sub \<Rightarrow>
                     a1(''subscriptionInterval'' \<mapsto> formatInt (IntervalSeconds sub),
                        ''subscriptionNext'' \<mapsto> formatInt (NextReleaseAt sub),
                        ''subscriptionActive'' \<mapsto> (if subActive sub then ''true'' else ''false'')));
               a3 = (case leg of None \<Rightarrow> a2 | Some l \<Rightarrow>
                     a2(''legId'' \<mapsto> formatWord (legID l),
                        ''legType'' \<mapsto> formatNat (legTypeByte (legType l)),
                        ''legAmount'' \<mapsto> (case legAmount l of None \<Rightarrow> ''<nil>'' | Some a \<Rightarrow> formatInt a),
                        ''legDeadline'' \<mapsto> formatInt (legDeadline l),
                        ''legStatus'' \<mapsto> formatNat (legStatusByte (legStatus l))))
           in \<lparr>evType = eventType, evAttributes = a3\<rparr>))"

definition NewMilestoneCreatedEvent :: "MilestoneProject \<Rightarrow> event" where
  "NewMilestoneCreatedEvent p = newMilestoneEvent ''escrow.milestone.created'' p None"

definition NewMilestoneFundedEvent :: "MilestoneProject \<Rightarrow> MilestoneLeg option \<Rightarrow> event" where
  "NewMilestoneFundedEvent p l = newMilestoneEvent ''escrow.milestone.funded'' p l"

definition NewMilestoneReleasedEvent :: "MilestoneProject \<Rightarrow> MilestoneLeg option \<Rightarrow> event" where
  "NewMilestoneReleasedEvent p l = newMilestoneEvent ''escrow.milestone.released'' p l"

definition NewMilestoneCancelledEvent :: "MilestoneProject \<Rightarrow> MilestoneLeg option \<Rightarrow> event" where
  "NewMilestoneCancelledEvent p l = newMilestoneEvent ''escrow.milestone.cancelled'' p l"

definition NewMilestoneDueEvent :: "MilestoneProject \<Rightarrow> MilestoneLeg option \<Rightarrow> event" where
  "NewMilestoneDueEvent p l = newMilestoneEvent ''escrow.milestone.leg_due'' p l"

section \<open>The engine\<close>

definition CreateProject :: "int \<Rightarrow> MilestoneProject \<Rightarrow> error + MilestoneProject" where
  "CreateProject now p =
     bindS (case projSubscription p of None \<Rightarrow> Inr () | Some _ \<Rightarrow> subValidate (projSubscription p)) (\<lambda>_.
     bindS (validateLegs (projLegs p)) (\<lambda>_.
     Inr (p\<lparr>projCreatedAt := now, projUpdatedAt := now, projStatus := MilestoneStatusDraft\<rparr>)))"

definition FundLeg :: "int \<Rightarrow> MilestoneProject \<Rightarrow> u64 \<Rightarrow> error + MilestoneProject" where
  "FundLeg now p i =
     (case FindLeg p i of
        None \<Rightarrow> Inl ErrMilestoneNotFound
      | Some leg \<Rightarrow>
          bindS (checkS (legStatus leg \<noteq> MilestoneLegPending) (ErrMilestoneInvalidTransition @ '': leg %d not pending'')) (\<lambda>_.
          Inr (p\<lparr>projLegs := updateLeg i (\<lambda>l. l\<lparr>legStatus := MilestoneLegFunded, legFundedAt := now\<rparr>) (projLegs p),
                projUpdatedAt := now,
                projStatus := (if projStatus p = MilestoneStatusDraft then MilestoneStatusActive else projStatus p)\<rparr>)))"

definition allLegsReleased :: "MilestoneProject \<Rightarrow> bool" where
  "allLegsReleased p = list_all (\<lambda>l. case l of None \<Rightarrow> True
     | Some leg \<Rightarrow> legStatus leg = MilestoneLegReleased \<or> legStatus leg = MilestoneLegCancelled) (projLegs p)"

definition ReleaseLeg :: "int \<Rightarrow> MilestoneProject \<Rightarrow> u64 \<Rightarrow> error + MilestoneProject" where
  "ReleaseLeg now p i =
     (case FindLeg p i of
        None \<Rightarrow> Inl ErrMilestoneNotFound
      | Some leg \<Rightarrow>
          bindS (checkS (legStatus leg \<noteq> MilestoneLegFunded) (ErrMilestoneInvalidTransition @ '': leg %d must be funded'')) (\<lambda>_.
          let p1 = p\<lparr>projLegs := updateLeg i (\<lambda>l. l\<lparr>legStatus := MilestoneLegReleased, legReleasedAt := now\<rparr>) (projLegs p),
                     projUpdatedAt := now\<rparr>
          in Inr (if allLegsReleased p1 then p1\<lparr>projStatus := MilestoneStatusCompleted\<rparr> else p1)))"

definition CancelLeg :: "int \<Rightarrow> MilestoneProject \<Rightarrow> u64 \<Rightarrow> error + MilestoneProject" where
  "CancelLeg now p i =
     (case FindLeg p i of
        None \<Rightarrow> Inl ErrMilestoneNotFound
      | Some leg \<Rightarrow>
          bindS (checkS (legStatus leg = MilestoneLegReleased) (ErrMilestoneInvalidTransition @ '': leg %d already released'')) (\<lambda>_.
          if legStatus leg = MilestoneLegCancelled then Inr p else
          let p1 = p\<lparr>projLegs := updateLeg i (\<lambda>l. l\<lparr>legStatus := MilestoneLegCancelled, legCancelledAt := now\<rparr>) (projLegs p),
                     projUpdatedAt := now\<rparr>
          in Inr (if \<not> RequiresFunding p1 then p1\<lparr>projStatus := MilestoneStatusCancelled\<rparr> else p1)))"

text \<open>The loop of \<^verbatim>\<open>AdvanceSubscription\<close>; \<open>None\<close> is a loop that does not end.\<close>

partial_function (option) advanceLoop :: "int \<Rightarrow> int \<Rightarrow> int \<Rightarrow> int option" where
  "advanceLoop interval now release =
     (if release \<le> now then advanceLoop interval now (wrap64 (release + interval)) else Some release)"

definition AdvanceSubscription :: "int \<Rightarrow> MilestoneProject \<Rightarrow> MilestoneProject option" where
  "AdvanceSubscription now p =
     (case projSubscription p of
        None \<Rightarrow> Some p
      | Some sub \<Rightarrow>
          if \<not> subActive sub then Some p else
          (case advanceLoop (IntervalSeconds sub) now (NextReleaseAt sub) of
             None \<Rightarrow> None
           | Some release \<Rightarrow> Some (p\<lparr>projSubscription := Some (sub\<lparr>NextReleaseAt := release\<rparr>), projUpdatedAt := now\<rparr>)))"

definition ExpireDueLeg :: "int \<Rightarrow> MilestoneProject \<Rightarrow> MilestoneProject \<times> MilestoneLeg option" where
  "ExpireDueLeg now p =
     (case NextDueLeg p now of
        None \<Rightarrow> (p, None)
      | Some (i, leg) \<Rightarrow>
          (let leg1 = leg\<lparr>legStatus := MilestoneLegExpired\<rparr>
           in (p\<lparr>projLegs := (projLegs p)[i := Some leg1], projUpdatedAt := now\<rparr>, Some leg1)))"

section \<open>Calls of the node\<close>

text \<open>The Go types of what is stored, as far as an encoder driven by reflection tells them apart.\<close>

datatype go_type =
  GoBool | GoUint | GoInt | GoBigInt | GoString | GoBytes
| GoPtr go_type | GoSlice go_type | GoStruct "go_type list"

definition milestoneLegType :: go_type where
  "milestoneLegType = GoStruct [GoUint, GoUint, GoString, GoString, GoString, GoPtr GoBigInt, GoInt, GoUint, GoInt, GoInt, GoInt]"

definition milestoneSubscriptionType :: go_type where
  "milestoneSubscriptionType = GoStruct [GoInt, GoInt, GoBool]"

definition milestoneProjectType :: go_type where
  "milestoneProjectType = GoStruct [GoBytes, GoBytes, GoBytes, GoString, GoInt, GoInt, GoUint,
     GoSlice (GoPtr milestoneLegType), GoBytes, GoPtr milestoneSubscriptionType]"

text \<open>
  \<^verbatim>\<open>sha256\<close> of the standard library is a function of the bytes. The RLP package of go-ethereum decides by
  the Go type whether it has an encoding for it: the parameter \<open>rlpType\<close>. \<open>rlpProject\<close> tells whether a
  value of an encodable type is refused for its contents (a negative big integer). What was
  encoded decodes to itself.
\<close>

record mdeps =
  sha256 :: "string \<Rightarrow> hash32"
  rlpType :: "go_type \<Rightarrow> bool"
  rlpProject :: "MilestoneProject \<Rightarrow> bool"

text \<open>The documented rules of that package: signed integers are not supported, and a pointer, a slice or a
  structure is encoded through its components.\<close>

definition rlp_rules :: "mdeps \<Rightarrow> bool" where
  "rlp_rules M \<longleftrightarrow> \<not> rlpType M GoInt
     \<and> (\<forall>t. rlpType M (GoPtr t) \<longrightarrow> rlpType M t) \<and> (\<forall>t. rlpType M (GoSlice t) \<longrightarrow> rlpType M t)
     \<and> (\<forall>ts. rlpType M (GoStruct ts) \<longrightarrow> list_all (rlpType M) ts)"

type_synonym milestone_store = "hash32 \<rightharpoonup> MilestoneProject"

abbreviation "errRlpType \<equiv> ''rlp: type int64 is not RLP-serializable''"
abbreviation "errRlpValue \<equiv> ''rlp: cannot encode negative big.Int''"

definition putProject :: "mdeps \<Rightarrow> MilestoneProject \<Rightarrow> (milestone_store, unit) op" where
  "putProject M p = wrapE ''persist milestone''
     (bindE (failIf (\<not> rlpType M (GoPtr milestoneProjectType)) errRlpType) (\<lambda>_.
      bindE (failIf (\<not> rlpProject M p) errRlpValue) (\<lambda>_. modifyE (\<lambda>s. s(projID p \<mapsto> p)))))"

definition EscrowMilestoneGet :: "mdeps \<Rightarrow> hash32 \<Rightarrow> (milestone_store, MilestoneProject) op" where
  "EscrowMilestoneGet M i =
     bindE (getsE (\<lambda>s. s i)) (\<lambda>found.
     case found of
       None \<Rightarrow> throwE ErrMilestoneNotFound
     | Some p \<Rightarrow>
         bindE (wrapE ''read milestone'' (failIf (\<not> rlpType M (GoPtr milestoneProjectType)) errRlpType)) (\<lambda>_. retE p))"

definition EscrowMilestoneCreate :: "mdeps \<Rightarrow> int \<Rightarrow> MilestoneProject \<Rightarrow> (milestone_store, MilestoneProject) op" where
  "EscrowMilestoneCreate M now project =
     bindE (liftE (CreateProject now project)) (\<lambda>p.
     let p1 = p\<lparr>projID := sha256 M (addrBytes (projPayer p) @ addrBytes (projPayee p) @ projRealmID p
                 @ formatInt (projCreatedAt p))\<rparr>
     in bindE (putProject M p1) (\<lambda>_. retE p1))"

definition EscrowMilestoneFund :: "mdeps \<Rightarrow> int \<Rightarrow> hash32 \<Rightarrow> u64 \<Rightarrow> address \<Rightarrow> (milestone_store, unit) op" where
  "EscrowMilestoneFund M now i leg caller =
     bindE (EscrowMilestoneGet M i) (\<lambda>p. bindE (liftE (FundLeg now p leg)) (\<lambda>p1. putProject M p1))"

definition EscrowMilestoneRelease :: "mdeps \<Rightarrow> int \<Rightarrow> hash32 \<Rightarrow> u64 \<Rightarrow> address \<Rightarrow> (milestone_store, unit) op" where
  "EscrowMilestoneRelease M now i leg caller =
     bindE (EscrowMilestoneGet M i) (\<lambda>p. bindE (liftE (ReleaseLeg now p leg)) (\<lambda>p1. putProject M p1))"

definition EscrowMilestoneCancel :: "mdeps \<Rightarrow> int \<Rightarrow> hash32 \<Rightarrow> u64 \<Rightarrow> address \<Rightarrow> (milestone_store, unit) op" where
  "EscrowMilestoneCancel M now i leg caller =
     bindE (EscrowMilestoneGet M i) (\<lambda>p. bindE (liftE (CancelLeg now p leg)) (\<lambda>p1. putProject M p1))"

definition EscrowMilestoneSubscriptionUpdate ::
  "mdeps \<Rightarrow> int \<Rightarrow> hash32 \<Rightarrow> address \<Rightarrow> bool \<Rightarrow> (milestone_store, MilestoneProject) op" where
  "EscrowMilestoneSubscriptionUpdate M now i caller active =
     bindE (EscrowMilestoneGet M i) (\<lambda>p.
     case projSubscription p of
       None \<Rightarrow> throwE ''escrow: project does not have a subscription''
     | Some sub \<Rightarrow>
         let p1 = p\<lparr>projSubscription := Some (sub\<lparr>subActive := active\<rparr>), projUpdatedAt := now\<rparr>
         in bindE (putProject M p1) (\<lambda>_. retE p1))"

section \<open>Reading the legs of a request\<close>

record milestoneLegParam =
  plID :: u64
  plType :: string
  plTitle :: string
  plDescription :: string
  plToken :: string
  plAmount :: string
  plDeadline :: int

definition parsePositiveBigInt :: "string \<Rightarrow> error + int" where
  "parsePositiveBigInt value =
     (let trimmed = trimSpace value in
      if trimmed = [] then Inl ''amount required''
      else case parseBigInt trimmed of
        None \<Rightarrow> Inl ''invalid amount''
      | Some amount \<Rightarrow> if amount \<le> 0 then Inl ''amount must be positive'' else Inr amount)"

definition parseMilestoneLegType :: "string \<Rightarrow> error + MilestoneLegType" where
  "parseMilestoneLegType value =
     (let normalized = toLower (trimSpace value) in
      if normalized = ''deliverable'' then Inr MilestoneLegTypeDeliverable
      else if normalized = ''timebox'' \<or> normalized = ''subscription'' then Inr MilestoneLegTypeTimebox
      else Inl ''unsupported leg type %s'')"

definition deadlineSkewSeconds :: int where
  "deadlineSkewSeconds = 5"

primrec parseLegsFrom :: "int \<Rightarrow> u64 list \<Rightarrow> milestoneLegParam list \<Rightarrow> error + MilestoneLeg option list" where
  "parseLegsFrom now seen [] = Inr []"
| "parseLegsFrom now seen (l # ls) =
     bindS (checkS (plID l = 0) ''leg id must be > 0'') (\<lambda>_.
     bindS (checkS (plID l \<in> set seen) ''duplicate leg id %d'') (\<lambda>_.
     bindS (parseMilestoneLegType (plType l)) (\<lambda>ty.
     let token = toUpper (trimSpace (plToken l)) in
     bindS (checkS (token = []) ''leg token required'') (\<lambda>_.
     bindS (parsePositiveBigInt (plAmount l)) (\<lambda>amount.
     bindS (checkS (plDeadline l \<le> wrap64 (now - deadlineSkewSeconds)) ''leg deadline must be in the future'') (\<lambda>_.
     bindS (parseLegsFrom now (plID l # seen) ls) (\<lambda>rest.
     Inr (Some \<lparr>legID = plID l, legType = ty, legTitle = trimSpace (plTitle l),
            legDescription = trimSpace (plDescription l), legToken = token, legAmount = Some amount,
            legDeadline = plDeadline l, legStatus = MilestoneLegPending, legFundedAt = 0, legReleasedAt = 0,
            legCancelledAt = 0\<rparr> # rest))))))))"

definition parseMilestoneLegs :: "int \<Rightarrow> milestoneLegParam list \<Rightarrow> error + MilestoneLeg option list" where
  "parseMilestoneLegs now input =
     (if input = [] then Inl ''at least one leg required'' else parseLegsFrom now [] input)"

section \<open>The subscription clock\<close>

text \<open>A loop that returns has passed the clock at the first checkpoint.\<close>

lemma advance_steps:
  assumes "0 < interval" and "now + interval < 2 ^ 63" and "- (2 ^ 63) \<le> release" and "release \<le> now"
    and "release + int k * interval \<le> now"
  shows "advanceLoop interval now release = advanceLoop interval now (release + int (Suc k) * interval)"
  using assms(5)
proof (induction k)
  case 0
  have "wrap64 (release + interval) = release + interval" using assms by (intro wrap64_id) auto
  with assms show ?case by (subst advanceLoop.simps) simp
next
  case (Suc k)
  have "release + int k * interval \<le> release + int (Suc k) * interval" using assms(1) by (simp add: algebra_simps)
  with Suc.prems have "release + int k * interval \<le> now" by linarith
  with Suc.IH have "advanceLoop interval now release = advanceLoop interval now (release + int (Suc k) * interval)" by simp
  also have "\<dots> = advanceLoop interval now (release + int (Suc (Suc k)) * interval)"
  proof -
    have "0 \<le> int (Suc k) * interval" using assms(1) by simp
    then have "- (2 ^ 63) \<le> release + int (Suc k) * interval + interval" using assms(1,3) by linarith
    moreover have "release + int (Suc k) * interval + interval < 2 ^ 63" using Suc.prems assms(2) by linarith
    ultimately have "wrap64 (release + int (Suc k) * interval + interval) = release + int (Suc k) * interval + interval"
      by (rule wrap64_id)
    with Suc.prems show ?thesis by (subst advanceLoop.simps) (simp add: algebra_simps)
  qed
  finally show ?case .
qed

lemma advance_result:
  assumes "0 < interval" and "now + interval < 2 ^ 63" and "- (2 ^ 63) \<le> release"
  shows "\<exists>k. advanceLoop interval now release = Some (release + int k * interval) \<and> now < release + int k * interval
    \<and> (\<forall>j < k. release + int j * interval \<le> now)"
proof (cases "release \<le> now")
  case False
  then show ?thesis by (intro exI [of _ 0]) (subst advanceLoop.simps, simp)
next
  case True
  define n where "n = nat ((now - release) div interval)"
  have n: "int n = (now - release) div interval" using True assms(1) by (simp add: n_def pos_imp_zdiv_nonneg_iff)
  have le: "int n * interval \<le> now - release" unfolding n using assms(1)
    by (metis div_mult_mod_eq le_add_same_cancel1 pos_mod_sign)
  have lt: "now - release < int (Suc n) * interval"
  proof -
    have "now - release = int n * interval + (now - release) mod interval" unfolding n by simp
    also have "\<dots> < int n * interval + interval" using pos_mod_bound [OF assms(1)] by simp
    finally show ?thesis by (simp add: algebra_simps)
  qed
  have "release + int j * interval \<le> now" if "j < Suc n" for j
  proof -
    have "int j * interval \<le> int n * interval" using that assms(1) by (intro mult_right_mono) auto
    with le show ?thesis by linarith
  qed
  moreover have "advanceLoop interval now release = advanceLoop interval now (release + int (Suc n) * interval)"
    using assms True le by (intro advance_steps) auto
  moreover have "advanceLoop interval now (release + int (Suc n) * interval) = Some (release + int (Suc n) * interval)"
    using lt by (subst advanceLoop.simps) simp
  ultimately show ?thesis using lt by (intro exI [of _ "Suc n"]) simp
qed

lemma advance_stuck:
  assumes "release \<le> now" and "- (2 ^ 63) \<le> release" and "release < 2 ^ 63"
  shows "advanceLoop 0 now release = None"
proof -
  have "i = 0 \<longrightarrow> - (2 ^ 63) \<le> x \<longrightarrow> x < 2 ^ 63 \<longrightarrow> n < x" if "advanceLoop i n x = Some r" for i n x r
    using that
  proof (rule advanceLoop.raw_induct [rotated])
    fix loop i n x r
    assume ih: "\<And>i n x r. loop i n x = Some r \<Longrightarrow> i = 0 \<longrightarrow> - (2 ^ 63) \<le> x \<longrightarrow> x < 2 ^ 63 \<longrightarrow> n < x"
      and run: "(if x \<le> n then loop i n (wrap64 (x + i)) else Some x) = Some r"
    show "i = 0 \<longrightarrow> - (2 ^ 63) \<le> x \<longrightarrow> x < 2 ^ 63 \<longrightarrow> n < x"
      using ih [of i n x r] run by (auto simp: wrap64_id split: if_splits)
  qed
  with assms show ?thesis by (cases "advanceLoop 0 now release") force+
qed

text \<open>
  Property C20 (the subscription loop returns). For a subscription that \<^verbatim>\<open>Validate\<close> accepts, with a
  clock that is not within one interval of the end of \<^verbatim>\<open>int64\<close>, the loop of \<^verbatim>\<open>AdvanceSubscription\<close>
  ends: the next release is the first checkpoint of the schedule after the clock, no checkpoint
  is skipped, and nothing else of the project but its update time changes.
\<close>

theorem advance_subscription:
  assumes "projSubscription p = Some sub" and "subActive sub" and "subValidate (Some sub) = Inr ()"
    and "now + IntervalSeconds sub < 2 ^ 63"
  shows "\<exists>k. AdvanceSubscription now p = Some (p\<lparr>projUpdatedAt := now,
       projSubscription := Some (sub\<lparr>NextReleaseAt := NextReleaseAt sub + int k * IntervalSeconds sub\<rparr>)\<rparr>)
    \<and> now < NextReleaseAt sub + int k * IntervalSeconds sub
    \<and> (\<forall>j < k. NextReleaseAt sub + int j * IntervalSeconds sub \<le> now)"
proof -
  have "0 < IntervalSeconds sub" "0 < NextReleaseAt sub" using assms(3) by (auto simp: subValidate_def)
  with advance_result [of "IntervalSeconds sub" now "NextReleaseAt sub"] assms(4) obtain k
    where "advanceLoop (IntervalSeconds sub) now (NextReleaseAt sub) = Some (NextReleaseAt sub + int k * IntervalSeconds sub)"
      "now < NextReleaseAt sub + int k * IntervalSeconds sub" "\<forall>j < k. NextReleaseAt sub + int j * IntervalSeconds sub \<le> now"
    by auto
  with assms(1,2) show ?thesis by (intro exI [of _ k]) (simp add: AdvanceSubscription_def)
qed

definition sampleProject :: "MilestoneLegStatus \<Rightarrow> MilestoneProject" where
  "sampleProject st = \<lparr>projID = 1, projPayer = 1, projPayee = 2, projRealmID = [], projCreatedAt = 5, projUpdatedAt = 5,
     projStatus = MilestoneStatusDraft,
     projLegs = [Some \<lparr>legID = 1, legType = MilestoneLegTypeDeliverable, legTitle = ''t'', legDescription = [], legToken = ''NHB'',
       legAmount = Some 10, legDeadline = 100, legStatus = st, legFundedAt = 0, legReleasedAt = 0, legCancelledAt = 0\<rparr>],
     projMetadata = [], projSubscription = Some \<lparr>IntervalSeconds = 60, NextReleaseAt = 100, subActive = True\<rparr>\<rparr>"

theorem advance_subscription_witness:
  "\<exists>k. AdvanceSubscription 250 (sampleProject MilestoneLegPending) = Some ((sampleProject MilestoneLegPending)\<lparr>projUpdatedAt := 250,
       projSubscription := Some \<lparr>IntervalSeconds = 60, NextReleaseAt = 100 + int k * 60, subActive = True\<rparr>\<rparr>)
     \<and> 250 < 100 + int k * 60"
proof -
  let ?sub = "\<lparr>IntervalSeconds = 60, NextReleaseAt = 100, subActive = True\<rparr>"
  have "projSubscription (sampleProject MilestoneLegPending) = Some ?sub" by (simp add: sampleProject_def)
  from advance_subscription [OF this, of 250] show ?thesis by (auto simp: subValidate_def checkS_def)
qed

section \<open>The life cycle of a project\<close>

text \<open>The first leg with an identifier, and the list with that leg replaced.\<close>

lemma findLeg_split:
  assumes "findLeg i ls = Some leg"
  obtains xs ys where "ls = xs @ Some leg # ys" and "\<And>f. updateLeg i f ls = xs @ Some (f leg) # ys"
  using assms
proof (induction ls arbitrary: thesis)
  case (Cons l ls)
  show ?case
  proof (cases "case l of None \<Rightarrow> False | Some x \<Rightarrow> legID x = i")
    case True
    with Cons.prems show ?thesis by (intro Cons.prems(1) [of "[]" ls]) (auto split: option.splits)
  next
    case False
    with Cons.prems(2) have "findLeg i ls = Some leg" by (auto split: option.splits if_splits)
    from Cons.IH [OF _ this] obtain xs ys where *: "ls = xs @ Some leg # ys" "\<And>f. updateLeg i f ls = xs @ Some (f leg) # ys" by blast
    with False show ?thesis by (intro Cons.prems(1) [of "l # xs" ys]) (auto split: option.splits)
  qed
qed simp

lemma dueScan_Some:
  assumes "dueScan now i ls sel = Some (j, leg)"
  shows "sel = Some (j, leg) \<or> (i \<le> j \<and> j < i + length ls \<and> ls ! (j - i) = Some leg
    \<and> legStatus leg = MilestoneLegFunded \<and> legDeadline leg \<le> now)"
  using assms
proof (induction ls arbitrary: i sel)
  case (Cons l ls)
  show ?case
  proof (cases "dueScan now (Suc i) ls sel = Some (j, leg)")
    case True
    from Cons.IH [OF this] show ?thesis by (auto simp: nth_Cons')
  next
    case False
    with Cons.prems obtain x sel' where x: "l = Some x" "legStatus x = MilestoneLegFunded" "legDeadline x \<le> now"
      and run: "dueScan now (Suc i) ls sel' = Some (j, leg)" and sel': "sel' = Some (i, x) \<or> sel' = sel"
      by (auto split: option.splits if_splits)
    from Cons.IH [OF run] sel' False run x show ?thesis by (auto simp: nth_Cons')
  qed
qed simp

text \<open>How the status of a leg may develop.\<close>

fun leg_later :: "MilestoneLegStatus \<Rightarrow> MilestoneLegStatus \<Rightarrow> bool" where
  "leg_later MilestoneLegPending st' = True"
| "leg_later MilestoneLegFunded st' = (st' \<noteq> MilestoneLegPending)"
| "leg_later MilestoneLegExpired st' = (st' = MilestoneLegExpired \<or> st' = MilestoneLegCancelled)"
| "leg_later st st' = (st' = st)"

definition leg_evolves :: "MilestoneLeg option \<Rightarrow> MilestoneLeg option \<Rightarrow> bool" where
  "leg_evolves l l' = (case (l, l') of
     (Some x, Some y) \<Rightarrow> leg_later (legStatus x) (legStatus y) \<and> legID y = legID x \<and> legType y = legType x
        \<and> legTitle y = legTitle x \<and> legDescription y = legDescription x \<and> legToken y = legToken x
        \<and> legAmount y = legAmount x \<and> legDeadline y = legDeadline x
   | (None, None) \<Rightarrow> True | _ \<Rightarrow> False)"

lemma leg_later_refl: "leg_later st st"
  by (cases st) simp_all

lemma leg_later_trans: "leg_later a b \<Longrightarrow> leg_later b c \<Longrightarrow> leg_later a c"
  by (cases a; cases b; cases c) simp_all

lemma leg_evolves_refl [simp]: "leg_evolves l l"
  by (simp add: leg_evolves_def leg_later_refl split: option.splits)

lemma leg_evolves_trans: "leg_evolves a b \<Longrightarrow> leg_evolves b c \<Longrightarrow> leg_evolves a c"
  by (auto simp: leg_evolves_def intro: leg_later_trans split: option.splits)

lemma legs_evolve_refl [simp]: "list_all2 leg_evolves ls ls"
  by (rule list_all2_refl) simp

lemma legs_evolve_one: "leg_evolves l l' \<Longrightarrow> list_all2 leg_evolves (xs @ l # ys) (xs @ l' # ys)"
  by (simp add: list_all2_appendI)

definition statuses :: "MilestoneProject \<Rightarrow> MilestoneLegStatus set" where
  "statuses p = {legStatus leg | leg. Some leg \<in> set (projLegs p)}"

text \<open>The status of a project says what its legs can be.\<close>

definition project_ok :: "MilestoneProject \<Rightarrow> bool" where
  "project_ok p = (case projStatus p of
     MilestoneStatusDraft \<Rightarrow> statuses p \<subseteq> {MilestoneLegPending, MilestoneLegCancelled}
   | MilestoneStatusActive \<Rightarrow> True
   | MilestoneStatusCompleted \<Rightarrow> statuses p \<subseteq> {MilestoneLegReleased, MilestoneLegCancelled}
   | MilestoneStatusCancelled \<Rightarrow> MilestoneLegPending \<notin> statuses p)"

inductive milestone_step :: "MilestoneProject \<Rightarrow> MilestoneProject \<Rightarrow> bool" where
  fund: "FundLeg now p i = Inr q \<Longrightarrow> milestone_step p q"
| release: "ReleaseLeg now p i = Inr q \<Longrightarrow> milestone_step p q"
| cancel: "CancelLeg now p i = Inr q \<Longrightarrow> milestone_step p q"
| expire: "ExpireDueLeg now p = (q, l) \<Longrightarrow> milestone_step p q"
| advance: "AdvanceSubscription now p = Some q \<Longrightarrow> milestone_step p q"
| subscription: "milestone_step p (p\<lparr>projSubscription := sub, projUpdatedAt := now\<rparr>)"

inductive milestone_reach :: "MilestoneProject \<Rightarrow> MilestoneProject \<Rightarrow> bool" where
  here: "milestone_reach p p"
| more: "milestone_reach p q \<Longrightarrow> milestone_step q r \<Longrightarrow> milestone_reach p r"

text \<open>A step that changes one leg.\<close>

definition replaces :: "MilestoneProject \<Rightarrow> MilestoneLeg \<Rightarrow> MilestoneLeg \<Rightarrow> MilestoneProject \<Rightarrow> bool" where
  "replaces p leg leg' q \<longleftrightarrow> (\<exists>xs ys. projLegs p = xs @ Some leg # ys \<and> projLegs q = xs @ Some leg' # ys)"

lemma replaces_statuses:
  assumes "replaces p leg leg' q"
  shows "statuses q \<subseteq> insert (legStatus leg') (statuses p)" and "legStatus leg \<in> statuses p"
    and "leg_evolves (Some leg) (Some leg') \<Longrightarrow> list_all2 leg_evolves (projLegs p) (projLegs q)"
  using assms by (auto simp: replaces_def statuses_def intro: legs_evolve_one)

lemma FindLeg_replaces:
  assumes "FindLeg p i = Some leg" and "projLegs q = updateLeg i f (projLegs p)"
  shows "replaces p leg (f leg) q"
  using assms findLeg_split [of i "projLegs p" leg] by (metis FindLeg_def replaces_def)

lemma status_tests:
  "RequiresFunding p \<longleftrightarrow> MilestoneLegPending \<in> statuses p"
  "allLegsReleased p \<longleftrightarrow> statuses p \<subseteq> {MilestoneLegReleased, MilestoneLegCancelled}"
  by (force simp: RequiresFunding_def allLegsReleased_def statuses_def list_ex_iff list_all_iff split: option.splits)+

lemma statuses_update [simp]: "statuses (p\<lparr>projStatus := st\<rparr>) = statuses p" "statuses (p\<lparr>projUpdatedAt := t\<rparr>) = statuses p"
  "statuses (p\<lparr>projSubscription := sub\<rparr>) = statuses p"
  by (simp_all add: statuses_def)

lemma step_FundLeg:
  assumes "FundLeg now p i = Inr q" and "project_ok p"
  shows "project_ok q" and "list_all2 leg_evolves (projLegs p) (projLegs q)"
proof -
  let ?f = "\<lambda>l. l\<lparr>legStatus := MilestoneLegFunded, legFundedAt := now\<rparr>"
  from assms(1) obtain leg where leg: "FindLeg p i = Some leg" "legStatus leg = MilestoneLegPending"
    and q: "projLegs q = updateLeg i ?f (projLegs p)"
      "projStatus q = (if projStatus p = MilestoneStatusDraft then MilestoneStatusActive else projStatus p)"
    by (auto simp: FundLeg_def bindS_Inr split: option.splits)
  note r = FindLeg_replaces [OF leg(1) q(1)]
  from replaces_statuses(2) [OF r] leg(2) assms(2) show "project_ok q"
    by (auto simp: project_ok_def q(2) split: MilestoneStatus.splits)
  show "list_all2 leg_evolves (projLegs p) (projLegs q)"
    by (rule replaces_statuses(3) [OF r]) (simp add: leg_evolves_def leg(2))
qed

lemma step_ReleaseLeg:
  assumes "ReleaseLeg now p i = Inr q" and "project_ok p"
  shows "project_ok q" and "list_all2 leg_evolves (projLegs p) (projLegs q)"
proof -
  let ?f = "\<lambda>l. l\<lparr>legStatus := MilestoneLegReleased, legReleasedAt := now\<rparr>"
  let ?p = "p\<lparr>projLegs := updateLeg i ?f (projLegs p), projUpdatedAt := now\<rparr>"
  from assms(1) obtain leg where leg: "FindLeg p i = Some leg" "legStatus leg = MilestoneLegFunded"
    and q: "q = (if allLegsReleased ?p then ?p\<lparr>projStatus := MilestoneStatusCompleted\<rparr> else ?p)"
    by (auto simp: ReleaseLeg_def bindS_Inr Let_def split: option.splits if_splits)
  have r: "replaces p leg (?f leg) ?p" by (rule FindLeg_replaces [OF leg(1)]) simp
  from replaces_statuses(1,2) [OF r] leg(2) assms(2) show "project_ok q"
    by (auto simp: project_ok_def q status_tests split: MilestoneStatus.splits)
  have "list_all2 leg_evolves (projLegs p) (projLegs ?p)"
    by (rule replaces_statuses(3) [OF r]) (simp add: leg_evolves_def leg(2))
  then show "list_all2 leg_evolves (projLegs p) (projLegs q)" by (simp add: q)
qed

lemma step_CancelLeg:
  assumes "CancelLeg now p i = Inr q" and "project_ok p"
  shows "project_ok q" and "list_all2 leg_evolves (projLegs p) (projLegs q)"
proof -
  let ?f = "\<lambda>l. l\<lparr>legStatus := MilestoneLegCancelled, legCancelledAt := now\<rparr>"
  let ?p = "p\<lparr>projLegs := updateLeg i ?f (projLegs p), projUpdatedAt := now\<rparr>"
  from assms(1) obtain leg where leg: "FindLeg p i = Some leg" "legStatus leg \<noteq> MilestoneLegReleased"
    and q: "q = (if legStatus leg = MilestoneLegCancelled then p
      else if \<not> RequiresFunding ?p then ?p\<lparr>projStatus := MilestoneStatusCancelled\<rparr> else ?p)"
    by (auto simp: CancelLeg_def bindS_Inr Let_def split: option.splits if_splits)
  have r: "replaces p leg (?f leg) ?p" by (rule FindLeg_replaces [OF leg(1)]) simp
  from replaces_statuses(1,2) [OF r] leg(2) assms(2) show "project_ok q"
    by (auto simp: project_ok_def q status_tests split: MilestoneStatus.splits)
  have "list_all2 leg_evolves (projLegs p) (projLegs ?p)"
    using leg(2) by (intro replaces_statuses(3) [OF r]) (cases "legStatus leg"; simp add: leg_evolves_def)
  then show "list_all2 leg_evolves (projLegs p) (projLegs q)" by (simp add: q)
qed

lemma step_ExpireDueLeg:
  assumes "ExpireDueLeg now p = (q, l)" and "project_ok p"
  shows "project_ok q" and "list_all2 leg_evolves (projLegs p) (projLegs q)"
proof -
  have "project_ok q \<and> list_all2 leg_evolves (projLegs p) (projLegs q)"
  proof (cases "NextDueLeg p now")
    case None
    with assms show ?thesis by (simp add: ExpireDueLeg_def)
  next
    case (Some r)
    then obtain j leg where due: "NextDueLeg p now = Some (j, leg)" by (cases r) auto
    with dueScan_Some [of now 0 "projLegs p" None j leg] have j: "j < length (projLegs p)" "projLegs p ! j = Some leg"
      and st: "legStatus leg = MilestoneLegFunded" by (auto simp: NextDueLeg_def)
    let ?leg = "leg\<lparr>legStatus := MilestoneLegExpired\<rparr>"
    have q: "projStatus q = projStatus p" "projLegs q = (projLegs p)[j := Some ?leg]"
      using assms(1) due by (auto simp: ExpireDueLeg_def Let_def)
    have "replaces p leg ?leg q"
      unfolding replaces_def q(2) using j by (metis id_take_nth_drop upd_conv_take_nth_drop)
    from replaces_statuses [OF this] st assms(2) show ?thesis
      by (auto simp: project_ok_def q(1) leg_evolves_def split: MilestoneStatus.splits)
  qed
  then show "project_ok q" "list_all2 leg_evolves (projLegs p) (projLegs q)" by auto
qed

lemma milestone_step_ok:
  assumes "milestone_step p q" and "project_ok p"
  shows "project_ok q \<and> list_all2 leg_evolves (projLegs p) (projLegs q)"
  using assms
proof cases
  case (advance now)
  then have "projLegs q = projLegs p" "projStatus q = projStatus p"
    by (auto simp: AdvanceSubscription_def split: option.splits if_splits)
  moreover from this have "statuses q = statuses p" by (simp add: statuses_def)
  ultimately show ?thesis using assms(2) by (cases "projStatus p") (simp_all add: project_ok_def)
next
  case (subscription sub now)
  with assms(2) show ?thesis by (cases "projStatus p") (simp_all add: project_ok_def)
qed (use assms(2) in \<open>auto intro: step_FundLeg step_ReleaseLeg step_CancelLeg step_ExpireDueLeg\<close>)

lemma milestone_reach_ok:
  assumes "milestone_reach p q" and "project_ok p"
  shows "project_ok q \<and> list_all2 leg_evolves (projLegs p) (projLegs q)"
  using assms
proof (induction rule: milestone_reach.induct)
  case (more p q r)
  then have "project_ok q" "list_all2 leg_evolves (projLegs p) (projLegs q)" by auto
  with milestone_step_ok [OF more.hyps(2)] show ?case by (auto intro: list_all2_trans [OF leg_evolves_trans])
qed simp

lemma created_ok:
  assumes "CreateProject now p = Inr q" and "statuses p \<subseteq> {MilestoneLegPending}"
  shows "project_ok q" and "projLegs q = projLegs p"
proof -
  from assms(1) have q: "q = p\<lparr>projCreatedAt := now, projUpdatedAt := now, projStatus := MilestoneStatusDraft\<rparr>"
    by (auto simp: CreateProject_def bindS_Inr)
  then show "projLegs q = projLegs p" by simp
  then have "statuses q = statuses p" by (simp add: statuses_def)
  with assms(2) q show "project_ok q" by (auto simp: project_ok_def)
qed

text \<open>
  Property C19 (milestone life cycle). From a project created with pending legs, through any
  sequence of engine calls, the legs keep their terms and their status only moves forward
  (a released or cancelled leg is final, an expired one can only be cancelled), a draft project
  has no funded, released or expired leg, a completed one has only released or cancelled legs, and
  a cancelled one has none that could still be funded.
\<close>

theorem milestone_lifecycle:
  assumes "CreateProject now p = Inr p'" and "statuses p \<subseteq> {MilestoneLegPending}" and "milestone_reach p' q"
  shows "list_all2 leg_evolves (projLegs p) (projLegs q) \<and> project_ok q"
  using milestone_reach_ok [OF assms(3)] created_ok [OF assms(1,2)] by simp

theorem milestone_lifecycle_witness:
  "\<exists>q. milestone_reach (sampleProject MilestoneLegPending) q \<and> projStatus q = MilestoneStatusCompleted
     \<and> list_all2 leg_evolves (projLegs (sampleProject MilestoneLegPending)) (projLegs q) \<and> project_ok q"
proof -
  let ?p = "sampleProject MilestoneLegPending"
  obtain q1 where q1: "FundLeg 6 ?p 1 = Inr q1" "projStatus q1 = MilestoneStatusActive"
      "projLegs q1 = [Some \<lparr>legID = 1, legType = MilestoneLegTypeDeliverable, legTitle = ''t'', legDescription = [], legToken = ''NHB'',
        legAmount = Some 10, legDeadline = 100, legStatus = MilestoneLegFunded, legFundedAt = 6, legReleasedAt = 0, legCancelledAt = 0\<rparr>]"
    by (simp add: FundLeg_def FindLeg_def sampleProject_def checkS_def)
  obtain q2 where q2: "ReleaseLeg 7 q1 1 = Inr q2" "projStatus q2 = MilestoneStatusCompleted"
    using q1(3) by (simp add: ReleaseLeg_def FindLeg_def checkS_def allLegsReleased_def)
  have create: "CreateProject 5 ?p = Inr ?p"
    by (simp add: CreateProject_def sampleProject_def subValidate_def legValidate_def checkS_def trimSpace_def isSpace_def)
  have pend: "statuses ?p \<subseteq> {MilestoneLegPending}" by (auto simp: statuses_def sampleProject_def)
  have reach: "milestone_reach ?p q2"
    by (rule milestone_reach.more [OF milestone_reach.more [OF milestone_reach.here milestone_step.fund [OF q1(1)]]
        milestone_step.release [OF q2(1)]])
  from milestone_lifecycle [OF create pend reach] reach q2(2) show ?thesis by blast
qed

section \<open>Projects are never stored\<close>

datatype node_milestone_call =
  NodeMilestoneCreate MilestoneProject
| NodeMilestoneFund hash32 u64 address
| NodeMilestoneRelease hash32 u64 address
| NodeMilestoneCancel hash32 u64 address
| NodeMilestoneSubscription hash32 address bool

primrec runNodeMilestone :: "mdeps \<Rightarrow> int \<Rightarrow> node_milestone_call \<Rightarrow> (milestone_store, unit) op" where
  "runNodeMilestone M now (NodeMilestoneCreate p) = bindE (EscrowMilestoneCreate M now p) (\<lambda>_. retE ())"
| "runNodeMilestone M now (NodeMilestoneFund i l c) = EscrowMilestoneFund M now i l c"
| "runNodeMilestone M now (NodeMilestoneRelease i l c) = EscrowMilestoneRelease M now i l c"
| "runNodeMilestone M now (NodeMilestoneCancel i l c) = EscrowMilestoneCancel M now i l c"
| "runNodeMilestone M now (NodeMilestoneSubscription i c a) = bindE (EscrowMilestoneSubscriptionUpdate M now i c a) (\<lambda>_. retE ())"

text \<open>The rules of RLP as a function, for a concrete encoder.\<close>

fun rlpSupported :: "go_type \<Rightarrow> bool" where
  "rlpSupported GoInt = False"
| "rlpSupported (GoPtr t) = rlpSupported t"
| "rlpSupported (GoSlice t) = rlpSupported t"
| "rlpSupported (GoStruct ts) = list_all rlpSupported ts"
| "rlpSupported _ = True"

lemma project_not_encodable: "rlp_rules M \<Longrightarrow> \<not> rlpType M (GoPtr milestoneProjectType)"
proof
  assume rules: "rlp_rules M" and "rlpType M (GoPtr milestoneProjectType)"
  then have "rlpType M milestoneProjectType" unfolding rlp_rules_def by blast
  with rules have "list_all (rlpType M) [GoBytes, GoBytes, GoBytes, GoString, GoInt, GoInt, GoUint,
      GoSlice (GoPtr milestoneLegType), GoBytes, GoPtr milestoneSubscriptionType]"
    unfolding rlp_rules_def milestoneProjectType_def by blast
  then have "rlpType M GoInt" by simp
  with rules show False unfolding rlp_rules_def by blast
qed

lemma putProject_refused:
  "rlp_rules M \<Longrightarrow> putProject M p s = (Inl (''persist milestone: '' @ errRlpType), s)"
  by (simp add: putProject_def wrapE_def run_defs project_not_encodable)

lemma bind_fails: "\<exists>err. m s = (Inl err, s) \<Longrightarrow> \<exists>err. bindE m f s = (Inl err, s)"
  by (auto simp: bindE_def)

lemma EscrowMilestoneGet_fails: "rlp_rules M \<Longrightarrow> \<exists>err. EscrowMilestoneGet M i s = (Inl err, s)"
  by (auto simp: EscrowMilestoneGet_def wrapE_def run_defs project_not_encodable split: option.splits)

text \<open>
  Property C21 (projects cannot be persisted). RLP has no encoding for signed integers and encodes a
  structure through its fields; \<^verbatim>\<open>MilestoneProject\<close>, its legs and its subscription have fields of type
  \<^verbatim>\<open>int64\<close>. So \<^verbatim>\<open>EscrowMilestoneCreate\<close> of a project that the engine accepts ends with the error of
  the encoder and an unchanged store, and every milestone call of the node, in any state of the store, fails
  and leaves it unchanged.
\<close>

theorem milestone_never_stored:
  assumes "rlp_rules M"
  shows "(CreateProject now p = Inr q \<longrightarrow>
      EscrowMilestoneCreate M now p s = (Inl (''persist milestone: '' @ errRlpType), s))
    \<and> (\<exists>err. runNodeMilestone M now c s = (Inl err, s))"
proof
  note put = putProject_refused [OF assms]
  show "CreateProject now p = Inr q \<longrightarrow> EscrowMilestoneCreate M now p s = (Inl (''persist milestone: '' @ errRlpType), s)"
    by (simp add: EscrowMilestoneCreate_def run_defs put Let_def)
  have get: "\<exists>err. bindE (EscrowMilestoneGet M i) f s = (Inl err, s)" for i
    and f :: "MilestoneProject \<Rightarrow> (milestone_store, unit) op"
    by (rule bind_fails [OF EscrowMilestoneGet_fails [OF assms]])
  have sub: "\<exists>err. bindE (EscrowMilestoneSubscriptionUpdate M now i a b) f s = (Inl err, s)" for i a b
    and f :: "MilestoneProject \<Rightarrow> (milestone_store, unit) op"
    unfolding EscrowMilestoneSubscriptionUpdate_def by (intro bind_fails EscrowMilestoneGet_fails [OF assms])
  have create: "\<exists>err. EscrowMilestoneCreate M now p' s = (Inl err, s)" for p'
    by (cases "CreateProject now p'") (simp_all add: EscrowMilestoneCreate_def run_defs put Let_def)
  show "\<exists>err. runNodeMilestone M now c s = (Inl err, s)"
    by (cases c) (simp_all add: get sub bind_fails [where m = "EscrowMilestoneCreate M now _" and s = s, OF create]
        EscrowMilestoneFund_def EscrowMilestoneRelease_def EscrowMilestoneCancel_def)
qed

theorem milestone_never_stored_witness:
  "EscrowMilestoneCreate \<lparr>sha256 = (\<lambda>_. 0), rlpType = rlpSupported, rlpProject = (\<lambda>_. True)\<rparr> 5
     (sampleProject MilestoneLegPending) Map.empty = (Inl (''persist milestone: '' @ errRlpType), Map.empty)"
proof -
  let ?M = "\<lparr>sha256 = (\<lambda>_. 0), rlpType = rlpSupported, rlpProject = (\<lambda>_. True)\<rparr>"
  have rules: "rlp_rules ?M" by (simp add: rlp_rules_def)
  have "CreateProject 5 (sampleProject MilestoneLegPending) = Inr (sampleProject MilestoneLegPending)"
    by (simp add: CreateProject_def sampleProject_def subValidate_def legValidate_def checkS_def trimSpace_def isSpace_def)
  then show ?thesis by (rule milestone_never_stored [OF rules, THEN conjunct1, THEN mp])
qed

end
