(* ===== verification/LendingMath.thy ===== *)
theory LendingMath
  imports Complex_Main Prelude
begin

text \<open>
  The fixed-point arithmetic and the interest model of the lending module:
  \<^verbatim>\<open>native/lending/math.go\<close> and \<^verbatim>\<open>native/lending/interest.go\<close>. A \<^verbatim>\<open>big.Rat\<close> is a \<open>rat\<close>, whose
  \<open>quotient_of\<close> is the reduced fraction that \<^verbatim>\<open>Num\<close> and \<^verbatim>\<open>Denom\<close> return; a nil number is zero.
\<close>

section \<open>Fixed-point arithmetic\<close>

definition basisPoints :: int where "basisPoints = 10000"

definition ray :: int where "ray = 1000000000000000000000000000"

definition halfRay :: int where "halfRay = ray div 2"

definition minLiquidity :: int where "minLiquidity = 1000000000000000000"

definition blocksPerYear :: int where "blocksPerYear = 31536000"

definition halfUp :: "int \<Rightarrow> int" where
  "halfUp x = (if x \<le> 0 then 0 else (x + 1) div 2)"

definition rayMul :: "int \<Rightarrow> int \<Rightarrow> int" where
  "rayMul a b = bigQuo (a * b + halfRay) ray"

definition rayDiv :: "int \<Rightarrow> int \<Rightarrow> int" where
  "rayDiv a b = (if b = 0 then 0 else bigQuo (a * ray + halfUp b) b)"

definition ratToRay :: "rat \<Rightarrow> int" where
  "ratToRay r =
     (let (num, den) = quotient_of (r * of_int ray);
          result = bigQuo (num + halfUp den) den
      in if result = 0 then ray else result)"

definition rateFactor :: "rat \<Rightarrow> u64 \<Rightarrow> int" where
  "rateFactor rate delta =
     (if rate = 0 \<or> delta = 0 then ray
      else ratToRay (1 + rate / of_int blocksPerYear * of_int (uint delta)))"

definition computeInterest :: "int \<Rightarrow> rat \<Rightarrow> u64 \<Rightarrow> int" where
  "computeInterest totalBorrowed rate delta =
     (if totalBorrowed = 0 \<or> rate = 0 \<or> delta = 0 then 0 else
      let interest = rate / of_int blocksPerYear * of_int (uint delta) * of_int totalBorrowed in
      if interest \<le> 0 then 0 else
      let (num, den) = quotient_of interest in bigQuo (num + halfUp den) den)"

definition sharesFromLiquidity :: "int \<Rightarrow> int \<Rightarrow> int" where
  "sharesFromLiquidity amount index =
     (if amount \<le> 0 \<or> index = 0 then 0 else bigQuo (amount * ray + halfUp index) index)"

definition liquidityFromShares :: "int \<Rightarrow> int \<Rightarrow> int" where
  "liquidityFromShares shares index =
     (if shares \<le> 0 \<or> index = 0 then 0 else bigQuo (shares * index + halfRay) ray)"

definition scaledDebtFromAmount :: "int \<Rightarrow> int \<Rightarrow> int" where
  "scaledDebtFromAmount amount index =
     (if amount \<le> 0 \<or> index = 0 then 0 else
      let scaled = bigQuo (amount * ray + halfUp index) index
      in if scaled = 0 \<and> amount > 0 then 1 else scaled)"

definition debtFromScaled :: "int \<Rightarrow> int \<Rightarrow> int" where
  "debtFromScaled scaled index =
     (if scaled = 0 \<or> index = 0 then 0 else bigQuo (scaled * index + halfRay) ray)"

section \<open>The interest model\<close>

record InterestModel =
  BaseRate :: rat
  Slope1 :: rat
  Slope2 :: rat
  Kink :: rat

definition Utilisation :: "int \<Rightarrow> int \<Rightarrow> rat" where
  "Utilisation totalBorrowed totalSupplied =
     (if totalBorrowed = 0 then 0 else if totalSupplied = 0 then 0
      else of_int totalBorrowed / of_int totalSupplied)"

definition BorrowAPR :: "InterestModel \<Rightarrow> int \<Rightarrow> int \<Rightarrow> rat" where
  "BorrowAPR m totalBorrowed totalSupplied =
     (let u = Utilisation totalBorrowed totalSupplied in
      if u = 0 then BaseRate m
      else if Kink m = 0 \<or> u \<le> Kink m then BaseRate m + Slope1 m * u
      else let rate = BaseRate m + Slope1 m * Kink m;
               excess = u - Kink m;
               excess1 = (if excess < 0 then 0 else excess)
           in rate + Slope2 m * excess1)"

definition SupplyAPY :: "InterestModel \<Rightarrow> int \<Rightarrow> int \<Rightarrow> u64 \<Rightarrow> rat" where
  "SupplyAPY m totalBorrowed totalSupplied reserveFactorBps =
     (let borrowAPR = BorrowAPR m totalBorrowed totalSupplied in
      if borrowAPR = 0 then 0 else
      let u = Utilisation totalBorrowed totalSupplied in
      if u = 0 then 0 else
      let oneMinusReserve = 1 - of_int (sint reserveFactorBps) / 10000
      in borrowAPR * u * (if oneMinusReserve < 0 then 0 else oneMinusReserve))"

section \<open>Rounding\<close>

lemma ray_pos [simp]: "0 < ray" "0 \<le> ray" "ray \<noteq> 0"
  by (simp_all add: ray_def)

lemma blocksPerYear_pos [simp]: "0 < blocksPerYear"
  by (simp add: blocksPerYear_def)

lemma halfRay_ray: "2 * halfRay = ray"
  by (simp add: halfRay_def ray_def)

lemma halfUp_bounds: "0 < x \<Longrightarrow> x \<le> 2 * halfUp x \<and> 2 * halfUp x \<le> x + 1"
  by (auto simp: halfUp_def)

text \<open>A quotient of non-negative numbers rounded by adding half the divisor: it is within half a unit
  of the exact value.\<close>

lemma round_bounds:
  assumes "0 \<le> a" and "0 < d" and "0 \<le> h"
  shows "d * bigQuo (a + h) d \<le> a + h" and "a + h < d * bigQuo (a + h) d + d"
proof -
  have q: "bigQuo (a + h) d = (a + h) div d"
    using assms by (simp add: bigQuo_nonneg)
  have "d * ((a + h) div d) + (a + h) mod d = a + h" by simp
  moreover have "0 \<le> (a + h) mod d" "(a + h) mod d < d" using assms(2) by simp_all
  ultimately show "d * bigQuo (a + h) d \<le> a + h" "a + h < d * bigQuo (a + h) d + d"
    unfolding q by linarith+
qed

lemma rayMul_bounds:
  assumes "0 \<le> a" and "0 \<le> b"
  shows "2 * (ray * rayMul a b) \<le> 2 * (a * b) + ray" and "2 * (a * b) < 2 * (ray * rayMul a b) + ray"
proof -
  have h: "0 \<le> halfRay" using halfRay_ray ray_pos(1) by linarith
  have "0 \<le> a * b" using assms by simp
  note round_bounds [OF this ray_pos(1) h]
  then show "2 * (ray * rayMul a b) \<le> 2 * (a * b) + ray" "2 * (a * b) < 2 * (ray * rayMul a b) + ray"
    using halfRay_ray unfolding rayMul_def by linarith+
qed

text \<open>Multiplying by a factor of at least one does not make a value smaller.\<close>

lemma rayMul_ge:
  assumes "0 \<le> a" and "ray \<le> f"
  shows "a \<le> rayMul a f"
proof (rule ccontr)
  assume "\<not> a \<le> rayMul a f"
  then have "ray * (rayMul a f + 1) \<le> ray * a" by (intro mult_left_mono) simp_all
  moreover have "ray * a \<le> a * f" using mult_left_mono [OF assms(2,1)] by (simp add: mult.commute)
  moreover have "2 * (a * f) < 2 * (ray * rayMul a f) + ray"
    using rayMul_bounds(2) [of a f] assms ray_pos by simp
  moreover have "ray * (rayMul a f + 1) = ray * rayMul a f + ray" by (simp add: distrib_left)
  ultimately show False using ray_pos(1) by linarith
qed

lemma quotient_of_pos: "quotient_of r = (n, d) \<Longrightarrow> 0 < d \<and> r = of_int n / of_int d"
  by (simp add: quotient_of_denom_pos quotient_of_div)

lemma ratToRay_ge:
  assumes "1 \<le> r"
  shows "ray \<le> ratToRay r"
proof -
  obtain n d where q: "quotient_of (r * of_int ray) = (n, d)" by (cases "quotient_of (r * of_int ray)")
  from quotient_of_pos [OF q] have d: "0 < d" and nd: "r * of_int ray = of_int n / (of_int d :: rat)"
    by auto
  have "(of_int ray :: rat) \<le> r * of_int ray" using assms by (simp add: ray_def)
  then have "of_int (ray * d) \<le> (of_int n :: rat)" using d by (simp add: nd pos_le_divide_eq)
  then have le: "ray * d \<le> n" by (simp only: of_int_le_iff)
  have "0 \<le> ray * d" using d ray_pos by simp
  with le have n: "0 \<le> n" by linarith
  have h: "0 \<le> halfUp d" using halfUp_bounds [OF d] d by linarith
  have "ray \<le> (n + halfUp d) div d" using zdiv_mono1 [of "ray * d" "n + halfUp d" d] le h d by simp
  then have "ray \<le> bigQuo (n + halfUp d) d" using n h d by (simp add: bigQuo_nonneg)
  then show ?thesis by (simp add: ratToRay_def q Let_def)
qed

lemma rateFactor_ge:
  assumes "0 \<le> rate"
  shows "ray \<le> rateFactor rate delta"
proof -
  have "(0 :: rat) \<le> of_int (uint delta)" by (simp only: of_int_0_le_iff unsigned_greater_eq)
  moreover have "0 \<le> rate / of_int blocksPerYear" using assms by (intro divide_nonneg_pos) simp_all
  ultimately have "0 \<le> rate / of_int blocksPerYear * of_int (uint delta)"
    by (rule mult_nonneg_nonneg [rotated])
  then show ?thesis by (auto simp: rateFactor_def intro!: ratToRay_ge)
qed

lemma computeInterest_nonneg: "0 \<le> computeInterest b rate delta"
proof (cases "rate / of_int blocksPerYear * of_int (uint delta) * of_int b \<le> 0")
  case False
  let ?i = "rate / of_int blocksPerYear * of_int (uint delta) * of_int b"
  obtain n d where q: "quotient_of ?i = (n, d)" by (cases "quotient_of ?i")
  from quotient_of_pos [OF q] have d: "0 < d" and nd: "?i = of_int n / (of_int d :: rat)" by auto
  have "0 < of_int n / (of_int d :: rat)" using False unfolding nd by simp
  then have "0 < n" using d by (simp add: zero_less_divide_iff)
  moreover have "0 \<le> halfUp d" using halfUp_bounds [OF d] d by linarith
  ultimately show ?thesis using q d by (simp add: computeInterest_def Let_def bigQuo_ge_0)
qed (simp add: computeInterest_def Let_def)

lemma Utilisation_nonneg: "0 \<le> b \<Longrightarrow> 0 \<le> s \<Longrightarrow> 0 \<le> Utilisation b s"
  by (simp add: Utilisation_def)

text \<open>A model whose rates are not negative gives a borrow rate that is not negative.\<close>

definition model_ok :: "InterestModel \<Rightarrow> bool" where
  "model_ok m \<longleftrightarrow> 0 \<le> BaseRate m \<and> 0 \<le> Slope1 m \<and> 0 \<le> Slope2 m \<and> 0 \<le> Kink m"

lemma BorrowAPR_nonneg:
  assumes "model_ok m" and "0 \<le> b" and "0 \<le> s"
  shows "0 \<le> BorrowAPR m b s"
  using assms Utilisation_nonneg [OF assms(2,3)]
  by (simp add: BorrowAPR_def model_ok_def Let_def)

end
