(* ===== verification/LendingEngine.thy ===== *)
theory LendingEngine
  imports LendingMath Accounts Common
begin

text \<open>
  The lending module: the data of \<^verbatim>\<open>native/lending/types.go\<close>, \<^verbatim>\<open>params.go\<close> and \<^verbatim>\<open>config.go\<close>, the
  lending records of the state manager (\<^verbatim>\<open>core/state/manager.go\<close>), the engine
  (\<^verbatim>\<open>native/lending/engine.go\<close>) and the calls of \<^verbatim>\<open>rpc/modules/lending.go\<close> that configure an
  engine and run it.

  A \<^verbatim>\<open>crypto.Address\<close> that may be unset is an option (\<open>None\<close> has no bytes); the addresses of
  users and of the module are always 20 bytes. A nil number is zero, which the engine treats the
  same way on every path. \<^verbatim>\<open>int64(x)\<close> of a \<^verbatim>\<open>uint64\<close> is \<open>sint\<close>. A market and a user loaded from
  the store are values the engine updates and writes back at the end of an operation; each
  account is written by its own \<open>PutAccount\<close> on the way.
\<close>

section \<open>Data\<close>

record Market =
  PoolID :: string
  DeveloperOwner :: "address option"
  DeveloperFeeCollector :: "address option"
  DeveloperFeeBps :: u64
  TotalNHBSupplied :: int
  TotalSupplyShares :: int
  TotalNHBBorrowed :: int
  SupplyIndex :: int
  BorrowIndex :: int
  LastUpdateBlock :: u64
  ReserveFactor :: u64
  BorrowedThisBlock :: int
  LastBorrowBlock :: u64
  OracleMedianWei :: int
  OraclePrevMedianWei :: int
  OracleUpdatedBlock :: u64

record CollateralRouting =
  LiquidatorBps :: u64
  DeveloperBps :: u64
  DeveloperTarget :: "address option"
  ProtocolBps :: u64
  ProtocolTarget :: "address option"

record UserAccount =
  userAddress :: address
  CollateralZNHB :: int
  SupplyShares :: int
  DebtNHB :: int
  ScaledDebt :: int

record BorrowCaps =
  PerBlock :: int
  capTotal :: int
  UtilisationBps :: u64

record ActionPauses =
  pauseSupply :: bool
  pauseBorrow :: bool
  pauseRepay :: bool
  pauseLiquidate :: bool

record OracleConfig =
  MaxAgeBlocks :: u64
  MaxDeviationBps :: u64

record RiskParameters =
  MaxLTV :: u64
  LiquidationThreshold :: u64
  LiquidationBonus :: u64
  OracleAddress :: "address option"
  CircuitBreakerActive :: bool
  DeveloperFeeCapBps :: u64
  riskCaps :: BorrowCaps
  riskOracle :: OracleConfig
  riskPauses :: ActionPauses

record FeeAccrual =
  ProtocolFeesWei :: int
  DeveloperFeesWei :: int

section \<open>Stored records\<close>

record storedLendingMarket =
  smPoolID :: string
  smDeveloperOwner :: address
  smDeveloperCollector :: address
  smDeveloperFeeBps :: u64
  smTotalNHBSupplied :: int
  smTotalSupplyShares :: int
  smTotalNHBBorrowed :: int
  smSupplyIndex :: int
  smBorrowIndex :: int
  smLastUpdateBlock :: u64
  smReserveFactor :: u64

record storedLendingFees =
  sfProtocolFeesWei :: int
  sfDeveloperFeesWei :: int

record storedLendingUser =
  suAddress :: address
  suCollateralZNHB :: int
  suSupplyShares :: int
  suDebtNHB :: int
  suScaledDebt :: int

definition newStoredLendingMarket :: "Market \<Rightarrow> storedLendingMarket" where
  "newStoredLendingMarket market =
     \<lparr>smPoolID = trimSpace (PoolID market),
      smDeveloperOwner = (case DeveloperOwner market of None \<Rightarrow> 0 | Some a \<Rightarrow> a),
      smDeveloperCollector = (case DeveloperFeeCollector market of None \<Rightarrow> 0 | Some a \<Rightarrow> a),
      smDeveloperFeeBps = DeveloperFeeBps market,
      smTotalNHBSupplied = TotalNHBSupplied market,
      smTotalSupplyShares = TotalSupplyShares market,
      smTotalNHBBorrowed = TotalNHBBorrowed market,
      smSupplyIndex = SupplyIndex market, smBorrowIndex = BorrowIndex market,
      smLastUpdateBlock = LastUpdateBlock market, smReserveFactor = ReserveFactor market\<rparr>"

definition toMarket :: "storedLendingMarket \<Rightarrow> Market" where
  "toMarket s =
     \<lparr>PoolID = trimSpace (smPoolID s),
      DeveloperOwner = (if smDeveloperOwner s \<noteq> 0 then Some (smDeveloperOwner s) else None),
      DeveloperFeeCollector =
        (if smDeveloperCollector s \<noteq> 0 then Some (smDeveloperCollector s) else None),
      DeveloperFeeBps = smDeveloperFeeBps s,
      TotalNHBSupplied = smTotalNHBSupplied s, TotalSupplyShares = smTotalSupplyShares s,
      TotalNHBBorrowed = smTotalNHBBorrowed s,
      SupplyIndex = smSupplyIndex s, BorrowIndex = smBorrowIndex s,
      LastUpdateBlock = smLastUpdateBlock s, ReserveFactor = smReserveFactor s,
      BorrowedThisBlock = 0, LastBorrowBlock = 0, OracleMedianWei = 0, OraclePrevMedianWei = 0,
      OracleUpdatedBlock = 0\<rparr>"

definition newStoredLendingFees :: "FeeAccrual \<Rightarrow> storedLendingFees" where
  "newStoredLendingFees fees =
     \<lparr>sfProtocolFeesWei = ProtocolFeesWei fees, sfDeveloperFeesWei = DeveloperFeesWei fees\<rparr>"

definition toFeeAccrual :: "storedLendingFees \<Rightarrow> FeeAccrual" where
  "toFeeAccrual s =
     \<lparr>ProtocolFeesWei = sfProtocolFeesWei s, DeveloperFeesWei = sfDeveloperFeesWei s\<rparr>"

definition newStoredLendingUser :: "UserAccount \<Rightarrow> storedLendingUser" where
  "newStoredLendingUser account =
     \<lparr>suAddress = userAddress account, suCollateralZNHB = CollateralZNHB account,
      suSupplyShares = SupplyShares account, suDebtNHB = DebtNHB account,
      suScaledDebt = ScaledDebt account\<rparr>"

definition toUserAccount :: "storedLendingUser \<Rightarrow> UserAccount" where
  "toUserAccount s =
     \<lparr>userAddress = suAddress s, CollateralZNHB = suCollateralZNHB s,
      SupplyShares = suSupplyShares s, DebtNHB = suDebtNHB s, ScaledDebt = suScaledDebt s\<rparr>"

section \<open>The lending records of the state manager\<close>

text \<open>A user record is under the key of its pool and its address.\<close>

record lstate = chain +
  lendMarkets :: "string \<rightharpoonup> storedLendingMarket"
  lendFees :: "string \<rightharpoonup> storedLendingFees"
  lendUsers :: "string \<times> address \<rightharpoonup> storedLendingUser"
  lendPools :: "string list"

definition normalizePoolID :: "string \<Rightarrow> error + string" where
  "normalizePoolID poolID =
     (let trimmed = trimSpace poolID
      in if trimmed = [] then Inl ''lending: pool id required'' else Inr trimmed)"

definition lendingSavePoolIDs :: "string list \<Rightarrow> ('x lstate_scheme, unit) op" where
  "lendingSavePoolIDs ids = modifyE (\<lambda>s. s\<lparr>lendPools := map trimSpace ids\<rparr>)"

definition lendingEnsurePoolIndexed :: "string \<Rightarrow> ('x lstate_scheme, unit) op" where
  "lendingEnsurePoolIndexed poolID =
     bindE (liftE (normalizePoolID poolID)) (\<lambda>normalized.
     bindE (getsE lendPools) (\<lambda>ids.
     if normalized \<in> set ids then retE ()
     else lendingSavePoolIDs (ids @ [normalized])))"

definition LendingGetMarket :: "string \<Rightarrow> ('x lstate_scheme, Market option) op" where
  "LendingGetMarket poolID =
     bindE (liftE (normalizePoolID poolID)) (\<lambda>normalized.
     getsE (\<lambda>s. case lendMarkets s normalized of
         None \<Rightarrow> None
       | Some stored \<Rightarrow> Some ((toMarket stored)\<lparr>PoolID := normalized\<rparr>)))"

definition LendingPutMarket ::
  "'d deps_scheme \<Rightarrow> string \<Rightarrow> Market \<Rightarrow> ('x lstate_scheme, unit) op" where
  "LendingPutMarket D poolID market =
     bindE (liftE (normalizePoolID poolID)) (\<lambda>normalized.
     let stored = newStoredLendingMarket (market\<lparr>PoolID := normalized\<rparr>) in
     bindE (failIf (rlpFails D [smTotalNHBSupplied stored, smTotalSupplyShares stored,
       smTotalNHBBorrowed stored, smSupplyIndex stored, smBorrowIndex stored]) errRlp) (\<lambda>_.
     bindE (modifyE (\<lambda>s. s\<lparr>lendMarkets := (lendMarkets s)(normalized \<mapsto> stored)\<rparr>)) (\<lambda>_.
     lendingEnsurePoolIndexed normalized)))"

definition LendingGetFeeAccrual :: "string \<Rightarrow> ('x lstate_scheme, FeeAccrual option) op" where
  "LendingGetFeeAccrual poolID =
     bindE (liftE (normalizePoolID poolID)) (\<lambda>normalized.
     getsE (\<lambda>s. map_option toFeeAccrual (lendFees s normalized)))"

definition LendingPutFeeAccrual ::
  "'d deps_scheme \<Rightarrow> string \<Rightarrow> FeeAccrual \<Rightarrow> ('x lstate_scheme, unit) op" where
  "LendingPutFeeAccrual D poolID fees =
     bindE (liftE (normalizePoolID poolID)) (\<lambda>normalized.
     bindE (failIf (rlpFails D [ProtocolFeesWei fees, DeveloperFeesWei fees]) errRlp) (\<lambda>_.
     modifyE (\<lambda>s. s\<lparr>lendFees := (lendFees s)(normalized \<mapsto> newStoredLendingFees fees)\<rparr>)))"

definition LendingGetUserAccount ::
  "string \<Rightarrow> address \<Rightarrow> ('x lstate_scheme, UserAccount option) op" where
  "LendingGetUserAccount poolID addr =
     bindE (liftE (normalizePoolID poolID)) (\<lambda>normalized.
     getsE (\<lambda>s. map_option toUserAccount (lendUsers s (normalized, addr))))"

definition LendingPutUserAccount ::
  "'d deps_scheme \<Rightarrow> string \<Rightarrow> UserAccount \<Rightarrow> ('x lstate_scheme, unit) op" where
  "LendingPutUserAccount D poolID account =
     bindE (liftE (normalizePoolID poolID)) (\<lambda>normalized.
     bindE (failIf (rlpFails D [CollateralZNHB account, SupplyShares account, DebtNHB account,
       ScaledDebt account]) errRlp) (\<lambda>_.
     modifyE (\<lambda>s. s\<lparr>lendUsers :=
       (lendUsers s)((normalized, userAddress account) \<mapsto> newStoredLendingUser account)\<rparr>)))"

section \<open>The engine\<close>

record lengine =
  moduleAddress :: address
  collateralAddress :: address
  lparams :: RiskParameters
  interestModel :: "InterestModel option"
  reserveFactorBps :: u64
  protocolFeeBps :: u64
  blockHeight :: u64
  enginePool :: string
  developerFeeBps :: u64
  developerFeeAddr :: "address option"
  collateralRouting :: CollateralRouting
  lpauses :: pause_view

abbreviation "errNilMarket \<equiv> ''lending engine: market not initialised''"
abbreviation "errInvalidAmount \<equiv> ''lending engine: amount must be positive''"
abbreviation "errInsufficientBalance \<equiv> ''lending engine: insufficient balance''"
abbreviation "errInsufficientLiquidity \<equiv> ''lending engine: insufficient liquidity''"
abbreviation "errHealthCheckFailed \<equiv> ''lending engine: borrower health factor below 1''"
abbreviation "errNoDebtToRepay \<equiv> ''lending engine: no outstanding debt to repay''"
abbreviation "errNotLiquidatable \<equiv> ''lending engine: borrower not eligible for liquidation''"
abbreviation "errDeveloperFeeRecipient \<equiv> ''lending engine: developer fee recipient not configured''"
abbreviation "errDeveloperFeeCap \<equiv> ''lending engine: developer fee exceeds cap''"
abbreviation "errPoolNotConfigured \<equiv> ''lending engine: pool identifier not configured''"
abbreviation "errCollateralRoutingBps \<equiv> ''lending engine: collateral routing exceeds 100%''"
abbreviation "errDeveloperCollateral \<equiv> ''lending engine: developer collateral recipient not configured''"
abbreviation "errProtocolCollateral \<equiv> ''lending engine: protocol collateral recipient not configured''"
abbreviation "errSupplyPaused \<equiv> ''lending engine: supply operations paused''"
abbreviation "errBorrowPaused \<equiv> ''lending engine: borrow operations paused''"
abbreviation "errRepayPaused \<equiv> ''lending engine: repay operations paused''"
abbreviation "errLiquidationsPaused \<equiv> ''lending engine: liquidation operations paused''"
abbreviation "errDepositTooSmall \<equiv> ''lending engine: deposit below minimum liquidity''"
abbreviation "errBorrowCapPerBlock \<equiv> ''lending engine: borrow exceeds per-block cap''"
abbreviation "errBorrowCapGlobal \<equiv> ''lending engine: borrow exceeds global cap''"
abbreviation "errBorrowCapUtilisation \<equiv> ''lending engine: borrow exceeds utilisation cap''"
abbreviation "errOracleStale \<equiv> ''lending engine: oracle quote stale''"
abbreviation "errOracleDeviation \<equiv> ''lending engine: oracle deviation too large''"

subsection \<open>Helpers\<close>

definition ensureMarket :: "lengine \<Rightarrow> ('x lstate_scheme, Market) op" where
  "ensureMarket E =
     bindE (failIf (trimSpace (enginePool E) = []) errPoolNotConfigured) (\<lambda>_.
     bindE (LendingGetMarket (enginePool E)) (\<lambda>market.
     case market of
       None \<Rightarrow> throwE errNilMarket
     | Some m \<Rightarrow> retE (m\<lparr>SupplyIndex := (if SupplyIndex m = 0 then ray else SupplyIndex m),
                          BorrowIndex := (if BorrowIndex m = 0 then ray else BorrowIndex m)\<rparr>)))"

definition ensureUserAccount :: "lengine \<Rightarrow> address \<Rightarrow> ('x lstate_scheme, UserAccount) op" where
  "ensureUserAccount E addr =
     bindE (failIf (trimSpace (enginePool E) = []) errPoolNotConfigured) (\<lambda>_.
     bindE (LendingGetUserAccount (enginePool E) addr) (\<lambda>user.
     retE (case user of
         None \<Rightarrow> \<lparr>userAddress = addr, CollateralZNHB = 0, SupplyShares = 0, DebtNHB = 0,
                  ScaledDebt = 0\<rparr>
       | Some u \<Rightarrow> u)))"

definition ensureFeeAccrual :: "lengine \<Rightarrow> ('x lstate_scheme, FeeAccrual) op" where
  "ensureFeeAccrual E =
     bindE (failIf (trimSpace (enginePool E) = []) errPoolNotConfigured) (\<lambda>_.
     bindE (LendingGetFeeAccrual (enginePool E)) (\<lambda>fees.
     retE (case fees of
         None \<Rightarrow> \<lparr>ProtocolFeesWei = 0, DeveloperFeesWei = 0\<rparr>
       | Some f \<Rightarrow> f)))"

definition availableLiquidity :: "Market \<Rightarrow> int" where
  "availableLiquidity market =
     (let liquidity = TotalNHBSupplied market - TotalNHBBorrowed market
      in if liquidity < 0 then 0 else liquidity)"

definition guardOracle :: "lengine \<Rightarrow> Market \<Rightarrow> error + unit" where
  "guardOracle E market =
     (let cfg = riskOracle (lparams E) in
      bindS (checkS (MaxAgeBlocks cfg > 0 \<and>
               (OracleUpdatedBlock market = 0 \<or>
                (blockHeight E > OracleUpdatedBlock market \<and>
                 blockHeight E - OracleUpdatedBlock market > MaxAgeBlocks cfg))) errOracleStale) (\<lambda>_.
      checkS (MaxDeviationBps cfg > 0 \<and> OraclePrevMedianWei market > 0 \<and> OracleMedianWei market > 0 \<and>
              \<bar>OracleMedianWei market - OraclePrevMedianWei market\<bar>
                > bigQuo (OraclePrevMedianWei market * sint (MaxDeviationBps cfg)) basisPoints)
        errOracleDeviation))"

definition positionHealthy :: "lengine \<Rightarrow> int \<Rightarrow> int \<Rightarrow> bool" where
  "positionHealthy E collateral debt =
     (if debt = 0 then True
      else if collateral = 0 then False
      else collateral * sint (LiquidationThreshold (lparams E)) \<ge> debt * basisPoints)"

definition utilisation :: "int \<Rightarrow> int \<Rightarrow> u64" where
  "utilisation borrowed supplied =
     (if borrowed \<le> 0 then 0 else if supplied \<le> 0 then 0
      else let ratio = bigQuo (borrowed * basisPoints) supplied
           in if ratio < 0 then 0 else if 2 ^ 64 \<le> ratio then maxUint64 else of_int ratio)"

text \<open>\<^verbatim>\<open>accrueInterest\<close> returns the fee totals and whether they changed; the market it mutates is
  the first component. \<open>applyInterest\<close> is the part after the early returns.\<close>

definition applyInterest ::
  "lengine \<Rightarrow> Market \<Rightarrow> FeeAccrual \<Rightarrow> rat \<Rightarrow> rat \<Rightarrow> u64 \<Rightarrow> Market \<times> FeeAccrual \<times> bool" where
  "applyInterest E market fees borrowAPR util delta =
     (let combined0 = reserveFactorBps E + protocolFeeBps E;
          combined = (if combined0 > 10000 then 10000 else combined0);
          oneMinus0 = 1 - of_int (sint combined) / 10000;
          oneMinus = (if oneMinus0 < 0 then 0 else oneMinus0);
          supplyRate = borrowAPR * util * oneMinus;
          interest = computeInterest (TotalNHBBorrowed market) borrowAPR delta;
          reserveShare = bigQuo (interest * uint (reserveFactorBps E)) basisPoints;
          protocolShare = bigQuo (interest * uint (protocolFeeBps E)) basisPoints;
          applied = (interest > 0);
          fees1 = (if applied \<and> reserveShare > 0
                   then fees\<lparr>ProtocolFeesWei := ProtocolFeesWei fees + reserveShare\<rparr> else fees);
          fees2 = (if applied \<and> protocolShare > 0
                   then fees1\<lparr>ProtocolFeesWei := ProtocolFeesWei fees1 + protocolShare\<rparr> else fees1)
      in (market\<lparr>BorrowIndex := rayMul (BorrowIndex market) (rateFactor borrowAPR delta),
                 SupplyIndex := rayMul (SupplyIndex market) (rateFactor supplyRate delta),
                 TotalNHBBorrowed := (if applied then TotalNHBBorrowed market + interest
                                      else TotalNHBBorrowed market),
                 TotalNHBSupplied := (if applied then TotalNHBSupplied market + interest
                                      else TotalNHBSupplied market),
                 LastUpdateBlock := blockHeight E\<rparr>, fees2, applied))"

definition accrueMarket ::
  "lengine \<Rightarrow> Market \<Rightarrow> FeeAccrual \<Rightarrow> Market \<times> FeeAccrual \<times> bool" where
  "accrueMarket E market0 fees =
     (let market = market0\<lparr>SupplyIndex := (if SupplyIndex market0 = 0 then ray else SupplyIndex market0),
                           BorrowIndex := (if BorrowIndex market0 = 0 then ray else BorrowIndex market0),
                           ReserveFactor := reserveFactorBps E\<rparr>;
          delta = (if blockHeight E > LastUpdateBlock market
                   then blockHeight E - LastUpdateBlock market else 0);
          bumped = (if blockHeight E > LastUpdateBlock market
                    then market\<lparr>LastUpdateBlock := blockHeight E\<rparr> else market)
      in case interestModel E of
           None \<Rightarrow> (bumped, fees, False)
         | Some model \<Rightarrow>
             if delta = 0 \<or> TotalNHBBorrowed market = 0 then (bumped, fees, False)
             else let borrowAPR = BorrowAPR model (TotalNHBBorrowed market) (TotalNHBSupplied market)
                  in if borrowAPR = 0 then (market\<lparr>LastUpdateBlock := blockHeight E\<rparr>, fees, False)
                     else applyInterest E market fees borrowAPR
                       (Utilisation (TotalNHBBorrowed market) (TotalNHBSupplied market)) delta)"

definition accrueInterest ::
  "lengine \<Rightarrow> Market \<Rightarrow> ('x lstate_scheme, Market \<times> FeeAccrual \<times> bool) op" where
  "accrueInterest E market =
     bindE (ensureFeeAccrual E) (\<lambda>fees. retE (accrueMarket E market fees))"

definition syncDebt :: "UserAccount \<Rightarrow> Market \<Rightarrow> UserAccount" where
  "syncDebt user market =
     (if ScaledDebt user = 0 then user\<lparr>DebtNHB := 0\<rparr>
      else if BorrowIndex market = 0 then user\<lparr>DebtNHB := 0\<rparr>
      else user\<lparr>DebtNHB := debtFromScaled (ScaledDebt user) (BorrowIndex market)\<rparr>)"

abbreviation guardLending :: "lengine \<Rightarrow> ('x lstate_scheme, unit) op" where
  "guardLending E \<equiv> liftE (Guard (lpauses E) ''lending'')"

abbreviation putFeesIf ::
  "'d deps_scheme \<Rightarrow> lengine \<Rightarrow> bool \<Rightarrow> FeeAccrual \<Rightarrow> ('x lstate_scheme, unit) op" where
  "putFeesIf D E changed fees \<equiv>
     (if changed then LendingPutFeeAccrual D (enginePool E) fees else retE ())"

subsection \<open>Suppliers\<close>

definition Supply :: "'d deps_scheme \<Rightarrow> lengine \<Rightarrow> address \<Rightarrow> int \<Rightarrow> ('x lstate_scheme, int) op" where
  "Supply D E supplier amount =
     bindE (guardLending E) (\<lambda>_.
     bindE (failIf (pauseSupply (riskPauses (lparams E))) errSupplyPaused) (\<lambda>_.
     bindE (failIf (amount \<le> 0) errInvalidAmount) (\<lambda>_.
     bindE (ensureMarket E) (\<lambda>market0.
     bindE (accrueInterest E market0) (\<lambda>(market, fees, feesChanged).
     bindE (GetAccount D supplier) (\<lambda>supplierAcc.
     bindE (failIf (BalanceNHB supplierAcc < amount) errInsufficientBalance) (\<lambda>_.
     bindE (GetAccount D (moduleAddress E)) (\<lambda>moduleAcc.
     bindE (failIf (TotalSupplyShares market = 0 \<and> amount < minLiquidity) errDepositTooSmall) (\<lambda>_.
     let mintedShares = sharesFromLiquidity amount (SupplyIndex market) in
     bindE (failIf (mintedShares = 0) errDepositTooSmall) (\<lambda>_.
     bindE (PutAccount D supplier (supplierAcc\<lparr>BalanceNHB := BalanceNHB supplierAcc - amount\<rparr>)) (\<lambda>_.
     bindE (PutAccount D (moduleAddress E)
       (moduleAcc\<lparr>BalanceNHB := BalanceNHB moduleAcc + amount\<rparr>)) (\<lambda>_.
     bindE (ensureUserAccount E supplier) (\<lambda>user.
     bindE (putFeesIf D E feesChanged fees) (\<lambda>_.
     bindE (LendingPutUserAccount D (enginePool E)
       (user\<lparr>SupplyShares := SupplyShares user + mintedShares\<rparr>)) (\<lambda>_.
     bindE (LendingPutMarket D (enginePool E)
       (market\<lparr>TotalNHBSupplied := TotalNHBSupplied market + amount,
               TotalSupplyShares := TotalSupplyShares market + mintedShares\<rparr>)) (\<lambda>_.
     retE mintedShares))))))))))))))))"

definition Withdraw :: "'d deps_scheme \<Rightarrow> lengine \<Rightarrow> address \<Rightarrow> int \<Rightarrow> ('x lstate_scheme, int) op" where
  "Withdraw D E supplier amountLP =
     bindE (guardLending E) (\<lambda>_.
     bindE (failIf (amountLP \<le> 0) errInvalidAmount) (\<lambda>_.
     bindE (ensureMarket E) (\<lambda>market0.
     bindE (accrueInterest E market0) (\<lambda>(market, fees, feesChanged).
     bindE (failIf (TotalSupplyShares market = 0) errInsufficientLiquidity) (\<lambda>_.
     bindE (ensureUserAccount E supplier) (\<lambda>user.
     bindE (failIf (SupplyShares user < amountLP) errInsufficientBalance) (\<lambda>_.
     let redeemAmount = liquidityFromShares amountLP (SupplyIndex market) in
     bindE (failIf (availableLiquidity market < redeemAmount) errInsufficientLiquidity) (\<lambda>_.
     bindE (GetAccount D supplier) (\<lambda>supplierAcc.
     bindE (GetAccount D (moduleAddress E)) (\<lambda>moduleAcc.
     bindE (failIf (BalanceNHB moduleAcc < redeemAmount) errInsufficientLiquidity) (\<lambda>_.
     bindE (PutAccount D (moduleAddress E)
       (moduleAcc\<lparr>BalanceNHB := BalanceNHB moduleAcc - redeemAmount\<rparr>)) (\<lambda>_.
     bindE (PutAccount D supplier
       (supplierAcc\<lparr>BalanceNHB := BalanceNHB supplierAcc + redeemAmount\<rparr>)) (\<lambda>_.
     bindE (putFeesIf D E feesChanged fees) (\<lambda>_.
     bindE (LendingPutUserAccount D (enginePool E)
       (user\<lparr>SupplyShares := SupplyShares user - amountLP\<rparr>)) (\<lambda>_.
     bindE (LendingPutMarket D (enginePool E)
       (market\<lparr>TotalSupplyShares := TotalSupplyShares market - amountLP,
               TotalNHBSupplied := TotalNHBSupplied market - redeemAmount\<rparr>)) (\<lambda>_.
     retE redeemAmount))))))))))))))))"

subsection \<open>Collateral\<close>

definition DepositCollateral ::
  "'d deps_scheme \<Rightarrow> lengine \<Rightarrow> address \<Rightarrow> int \<Rightarrow> ('x lstate_scheme, unit) op" where
  "DepositCollateral D E userAddr amount =
     bindE (guardLending E) (\<lambda>_.
     bindE (failIf (amount \<le> 0) errInvalidAmount) (\<lambda>_.
     bindE (GetAccount D userAddr) (\<lambda>userAcc.
     bindE (failIf (BalanceZNHB userAcc < amount) errInsufficientBalance) (\<lambda>_.
     bindE (GetAccount D (collateralAddress E)) (\<lambda>moduleAcc.
     bindE (PutAccount D userAddr (userAcc\<lparr>BalanceZNHB := BalanceZNHB userAcc - amount\<rparr>)) (\<lambda>_.
     bindE (PutAccount D (collateralAddress E)
       (moduleAcc\<lparr>BalanceZNHB := BalanceZNHB moduleAcc + amount\<rparr>)) (\<lambda>_.
     bindE (ensureUserAccount E userAddr) (\<lambda>user.
     LendingPutUserAccount D (enginePool E)
       (user\<lparr>CollateralZNHB := CollateralZNHB user + amount\<rparr>)))))))))"

definition WithdrawCollateral ::
  "'d deps_scheme \<Rightarrow> lengine \<Rightarrow> address \<Rightarrow> int \<Rightarrow> ('x lstate_scheme, unit) op" where
  "WithdrawCollateral D E userAddr amount =
     bindE (guardLending E) (\<lambda>_.
     bindE (failIf (amount \<le> 0) errInvalidAmount) (\<lambda>_.
     bindE (ensureUserAccount E userAddr) (\<lambda>user0.
     bindE (failIf (CollateralZNHB user0 < amount) errInsufficientBalance) (\<lambda>_.
     bindE (ensureMarket E) (\<lambda>market0.
     bindE (accrueInterest E market0) (\<lambda>(market, fees, feesChanged).
     let user = syncDebt user0 market;
         remaining = CollateralZNHB user - amount in
     bindE (failIf (\<not> positionHealthy E remaining (DebtNHB user)) errHealthCheckFailed) (\<lambda>_.
     bindE (GetAccount D (collateralAddress E)) (\<lambda>collateralAcc.
     bindE (failIf (BalanceZNHB collateralAcc < amount) errInsufficientLiquidity) (\<lambda>_.
     bindE (GetAccount D userAddr) (\<lambda>userAcc.
     bindE (PutAccount D (collateralAddress E)
       (collateralAcc\<lparr>BalanceZNHB := BalanceZNHB collateralAcc - amount\<rparr>)) (\<lambda>_.
     bindE (PutAccount D userAddr (userAcc\<lparr>BalanceZNHB := BalanceZNHB userAcc + amount\<rparr>)) (\<lambda>_.
     bindE (putFeesIf D E feesChanged fees) (\<lambda>_.
     bindE (LendingPutUserAccount D (enginePool E) (user\<lparr>CollateralZNHB := remaining\<rparr>)) (\<lambda>_.
     LendingPutMarket D (enginePool E) market))))))))))))))"

subsection \<open>Borrowers\<close>

text \<open>The fee of a borrow: the caller's, or the engine's default when the caller names neither a
  rate nor a recipient.\<close>

definition borrowFee :: "lengine \<Rightarrow> address option \<Rightarrow> u64 \<Rightarrow> error + address option \<times> u64" where
  "borrowFee E feeRecipient feeBps =
     bindS (if feeBps = 0 \<and> feeRecipient = None \<and> developerFeeBps E > 0
            then bindS (checkS (developerFeeAddr E = None) errDeveloperFeeRecipient) (\<lambda>_.
                 Inr (developerFeeAddr E, developerFeeBps E))
            else Inr (feeRecipient, feeBps)) (\<lambda>(recipient, bps).
     bindS (checkS (bps > 0 \<and> recipient = None) errDeveloperFeeRecipient) (\<lambda>_.
     bindS (checkS (bps > 0 \<and> (DeveloperFeeCapBps (lparams E) = 0 \<or> bps > DeveloperFeeCapBps (lparams E)))
       errDeveloperFeeCap) (\<lambda>_.
     Inr (recipient, bps))))"

text \<open>The throttles; the per-block one resets the market's counter in a new block.\<close>

definition borrowCaps :: "lengine \<Rightarrow> Market \<Rightarrow> int \<Rightarrow> error + Market" where
  "borrowCaps E market totalOut =
     (let caps = riskCaps (lparams E);
          market1 = (if PerBlock caps > 0 \<and> LastBorrowBlock market \<noteq> blockHeight E
                     then market\<lparr>LastBorrowBlock := blockHeight E, BorrowedThisBlock := 0\<rparr> else market);
          projected = TotalNHBBorrowed market1 + totalOut in
      bindS (checkS (PerBlock caps > 0 \<and> BorrowedThisBlock market1 + totalOut > PerBlock caps)
        errBorrowCapPerBlock) (\<lambda>_.
      bindS (checkS (capTotal caps > 0 \<and> projected > capTotal caps) errBorrowCapGlobal) (\<lambda>_.
      bindS (checkS (UtilisationBps caps > 0 \<and>
        utilisation projected (TotalNHBSupplied market1) > UtilisationBps caps) errBorrowCapUtilisation) (\<lambda>_.
      Inr market1))))"

text \<open>The balances a borrow moves: the account of the fee recipient is loaded before any of the
  three accounts is written.\<close>

definition borrowPay ::
  "'d deps_scheme \<Rightarrow> lengine \<Rightarrow> address \<Rightarrow> int \<Rightarrow> address option \<Rightarrow> int \<Rightarrow> ('x lstate_scheme, unit) op"
where
  "borrowPay D E borrower amount recipient feeAmount =
     (let totalOut = amount + feeAmount in
      bindE (GetAccount D (moduleAddress E)) (\<lambda>moduleAcc.
      bindE (failIf (BalanceNHB moduleAcc < totalOut) errInsufficientLiquidity) (\<lambda>_.
      bindE (GetAccount D borrower) (\<lambda>borrowerAcc.
      bindE (case recipient of
           Some r \<Rightarrow> if feeAmount > 0 then bindE (GetAccount D r) (\<lambda>acc. retE (Some (r, acc))) else retE None
         | None \<Rightarrow> retE None) (\<lambda>feeAcc.
      bindE (PutAccount D (moduleAddress E)
        (moduleAcc\<lparr>BalanceNHB := BalanceNHB moduleAcc - totalOut\<rparr>)) (\<lambda>_.
      bindE (PutAccount D borrower (borrowerAcc\<lparr>BalanceNHB := BalanceNHB borrowerAcc + amount\<rparr>)) (\<lambda>_.
      case feeAcc of
        Some (r, acc) \<Rightarrow> PutAccount D r (acc\<lparr>BalanceNHB := BalanceNHB acc + feeAmount\<rparr>)
      | None \<Rightarrow> retE ())))))))"

definition Borrow ::
  "'d deps_scheme \<Rightarrow> lengine \<Rightarrow> address \<Rightarrow> int \<Rightarrow> address option \<Rightarrow> u64 \<Rightarrow> ('x lstate_scheme, int) op"
where
  "Borrow D E borrower amount feeRecipient0 feeBps0 =
     bindE (guardLending E) (\<lambda>_.
     bindE (failIf (pauseBorrow (riskPauses (lparams E)) \<or> CircuitBreakerActive (lparams E))
       errBorrowPaused) (\<lambda>_.
     bindE (failIf (amount \<le> 0) errInvalidAmount) (\<lambda>_.
     bindE (ensureMarket E) (\<lambda>market0.
     bindE (liftE (guardOracle E market0)) (\<lambda>_.
     bindE (accrueInterest E market0) (\<lambda>(market1, fees, feesChanged).
     bindE (liftE (borrowFee E feeRecipient0 feeBps0)) (\<lambda>(feeRecipient, feeBps).
     let feeAmount = (if feeBps > 0 then bigQuo (amount * uint feeBps) basisPoints else 0);
         totalOut = amount + feeAmount in
     bindE (liftE (borrowCaps E market1 totalOut)) (\<lambda>market.
     bindE (failIf (availableLiquidity market < totalOut) errInsufficientLiquidity) (\<lambda>_.
     bindE (ensureUserAccount E borrower) (\<lambda>user0.
     let user = syncDebt user0 market in
     bindE (failIf (\<not> positionHealthy E (CollateralZNHB user) (DebtNHB user + totalOut))
       errHealthCheckFailed) (\<lambda>_.
     bindE (borrowPay D E borrower amount feeRecipient feeAmount) (\<lambda>_.
     let scaled = ScaledDebt user + scaledDebtFromAmount totalOut (BorrowIndex market) in
     bindE (LendingPutUserAccount D (enginePool E)
       (user\<lparr>ScaledDebt := scaled, DebtNHB := debtFromScaled scaled (BorrowIndex market)\<rparr>)) (\<lambda>_.
     bindE (LendingPutMarket D (enginePool E)
       (market\<lparr>TotalNHBBorrowed := TotalNHBBorrowed market + totalOut,
               BorrowedThisBlock := (if PerBlock (riskCaps (lparams E)) > 0
                 then BorrowedThisBlock market + totalOut else BorrowedThisBlock market)\<rparr>)) (\<lambda>_.
     bindE (if feeAmount > 0
            then LendingPutFeeAccrual D (enginePool E)
                   (fees\<lparr>DeveloperFeesWei := DeveloperFeesWei fees + feeAmount\<rparr>)
            else putFeesIf D E feesChanged fees) (\<lambda>_.
     retE feeAmount)))))))))))))))"

definition Repay :: "'d deps_scheme \<Rightarrow> lengine \<Rightarrow> address \<Rightarrow> int \<Rightarrow> ('x lstate_scheme, int) op" where
  "Repay D E borrower amount =
     bindE (guardLending E) (\<lambda>_.
     bindE (failIf (pauseRepay (riskPauses (lparams E))) errRepayPaused) (\<lambda>_.
     bindE (failIf (amount \<le> 0) errInvalidAmount) (\<lambda>_.
     bindE (ensureMarket E) (\<lambda>market0.
     bindE (accrueInterest E market0) (\<lambda>(market, fees, feesChanged).
     bindE (ensureUserAccount E borrower) (\<lambda>user0.
     let user = syncDebt user0 market in
     bindE (failIf (DebtNHB user = 0) errNoDebtToRepay) (\<lambda>_.
     let repayAmount = (if amount > DebtNHB user then DebtNHB user else amount) in
     bindE (GetAccount D borrower) (\<lambda>borrowerAcc.
     bindE (failIf (BalanceNHB borrowerAcc < repayAmount) errInsufficientBalance) (\<lambda>_.
     bindE (GetAccount D (moduleAddress E)) (\<lambda>moduleAcc.
     bindE (PutAccount D borrower
       (borrowerAcc\<lparr>BalanceNHB := BalanceNHB borrowerAcc - repayAmount\<rparr>)) (\<lambda>_.
     bindE (PutAccount D (moduleAddress E)
       (moduleAcc\<lparr>BalanceNHB := BalanceNHB moduleAcc + repayAmount\<rparr>)) (\<lambda>_.
     let scaledRepay0 = scaledDebtFromAmount repayAmount (BorrowIndex market);
         scaledRepay = (if scaledRepay0 > ScaledDebt user then ScaledDebt user else scaledRepay0);
         scaled = ScaledDebt user - scaledRepay in
     bindE (LendingPutUserAccount D (enginePool E)
       (user\<lparr>ScaledDebt := scaled, DebtNHB := debtFromScaled scaled (BorrowIndex market)\<rparr>)) (\<lambda>_.
     bindE (LendingPutMarket D (enginePool E)
       (market\<lparr>TotalNHBBorrowed := TotalNHBBorrowed market - repayAmount\<rparr>)) (\<lambda>_.
     bindE (putFeesIf D E feesChanged fees) (\<lambda>_.
     retE repayAmount)))))))))))))))"

subsection \<open>Liquidation\<close>

definition computeShare :: "int \<Rightarrow> u64 \<Rightarrow> int" where
  "computeShare amount bps =
     (if amount = 0 \<or> bps = 0 then 0
      else let share = bigQuo (amount * uint bps) basisPoints in if share < 0 then 0 else share)"

definition isZeroAddress :: "address option \<Rightarrow> bool" where
  "isZeroAddress addr = (case addr of None \<Rightarrow> True | Some a \<Rightarrow> a = 0)"

definition seizeAmountOf :: "lengine \<Rightarrow> int \<Rightarrow> int \<Rightarrow> int" where
  "seizeAmountOf E repayAmount collateral =
     (let seize = bigQuo (repayAmount * sint (10000 + LiquidationBonus (lparams E))) basisPoints
      in if seize > collateral then collateral else seize)"

text \<open>The shares of the liquidator, the developer and the protocol.\<close>

definition routeCollateral :: "CollateralRouting \<Rightarrow> int \<Rightarrow> error + int \<times> int \<times> int" where
  "routeCollateral routing seizeAmount =
     (let developerShare = computeShare seizeAmount (DeveloperBps routing);
          protocolShare = computeShare seizeAmount (ProtocolBps routing) in
      bindS (checkS (developerShare > 0 \<and> isZeroAddress (DeveloperTarget routing))
        errDeveloperCollateral) (\<lambda>_.
      bindS (checkS (protocolShare > 0 \<and> isZeroAddress (ProtocolTarget routing))
        errProtocolCollateral) (\<lambda>_.
      let liquidatorShare0 = seizeAmount - developerShare - protocolShare;
          liquidatorShare1 = (if liquidatorShare0 < 0 then 0 else liquidatorShare0);
          allocated = liquidatorShare1 + developerShare + protocolShare;
          liquidatorShare = (if allocated < seizeAmount
                             then liquidatorShare1 + (seizeAmount - allocated) else liquidatorShare1)
      in Inr (liquidatorShare, developerShare, protocolShare))))"

definition loadShareAccount ::
  "'d deps_scheme \<Rightarrow> address option \<Rightarrow> int \<Rightarrow> ('x lstate_scheme, (address \<times> Account) option) op" where
  "loadShareAccount D target share =
     (case target of
        Some a \<Rightarrow> if share > 0
          then bindE (GetAccount D a) (\<lambda>acc. retE (Some (a, acc\<lparr>BalanceZNHB := BalanceZNHB acc + share\<rparr>)))
          else retE None
      | None \<Rightarrow> retE None)"

text \<open>The accounts are written in this order: the liquidator, the borrower, the module, the
  collateral account, and the targets that have a share.\<close>

primrec persistAccounts :: "'d deps_scheme \<Rightarrow> (address \<times> Account) list \<Rightarrow> ('x lstate_scheme, unit) op" where
  "persistAccounts D [] = retE ()"
| "persistAccounts D (x # xs) = bindE (PutAccount D (fst x) (snd x)) (\<lambda>_. persistAccounts D xs)"

definition liquidatePersist ::
  "'d deps_scheme \<Rightarrow> (address \<times> Account) list \<Rightarrow> (address \<times> Account) option \<Rightarrow>
   (address \<times> Account) option \<Rightarrow> ('x lstate_scheme, unit) op" where
  "liquidatePersist D accs developerAcc protocolAcc =
     persistAccounts D (accs
       @ (case developerAcc of Some x \<Rightarrow> [x] | None \<Rightarrow> [])
       @ (case protocolAcc of Some x \<Rightarrow> [x] | None \<Rightarrow> []))"

definition Liquidate ::
  "'d deps_scheme \<Rightarrow> lengine \<Rightarrow> address \<Rightarrow> address \<Rightarrow> ('x lstate_scheme, int \<times> int) op" where
  "Liquidate D E liquidator borrower =
     bindE (guardLending E) (\<lambda>_.
     bindE (failIf (pauseLiquidate (riskPauses (lparams E))) errLiquidationsPaused) (\<lambda>_.
     bindE (ensureMarket E) (\<lambda>market0.
     bindE (accrueInterest E market0) (\<lambda>(market, fees, feesChanged).
     bindE (ensureUserAccount E borrower) (\<lambda>user0.
     let user = syncDebt user0 market in
     bindE (failIf (DebtNHB user = 0) errNoDebtToRepay) (\<lambda>_.
     bindE (failIf (positionHealthy E (CollateralZNHB user) (DebtNHB user)) errNotLiquidatable) (\<lambda>_.
     let repayAmount = DebtNHB user in
     bindE (GetAccount D liquidator) (\<lambda>liquidatorAcc.
     bindE (failIf (BalanceNHB liquidatorAcc < repayAmount) errInsufficientBalance) (\<lambda>_.
     bindE (GetAccount D borrower) (\<lambda>borrowerAcc.
     bindE (GetAccount D (moduleAddress E)) (\<lambda>moduleAcc.
     let seizeAmount = seizeAmountOf E repayAmount (CollateralZNHB user);
         routing = collateralRouting E in
     bindE (failIf (LiquidatorBps routing + DeveloperBps routing + ProtocolBps routing > 10000)
       errCollateralRoutingBps) (\<lambda>_.
     bindE (GetAccount D (collateralAddress E)) (\<lambda>collateralAcc.
     bindE (failIf (BalanceZNHB collateralAcc < seizeAmount) errInsufficientLiquidity) (\<lambda>_.
     bindE (liftE (routeCollateral routing seizeAmount)) (\<lambda>(liquidatorShare, developerShare, protocolShare).
     bindE (loadShareAccount D (DeveloperTarget routing) developerShare) (\<lambda>developerAcc.
     bindE (loadShareAccount D (ProtocolTarget routing) protocolShare) (\<lambda>protocolAcc.
     bindE (liquidatePersist D
       [(liquidator, liquidatorAcc\<lparr>BalanceNHB := BalanceNHB liquidatorAcc - repayAmount,
                                   BalanceZNHB := BalanceZNHB liquidatorAcc + liquidatorShare\<rparr>),
        (borrower, borrowerAcc),
        (moduleAddress E, moduleAcc\<lparr>BalanceNHB := BalanceNHB moduleAcc + repayAmount\<rparr>),
        (collateralAddress E, collateralAcc\<lparr>BalanceZNHB := BalanceZNHB collateralAcc - seizeAmount\<rparr>)]
       developerAcc protocolAcc) (\<lambda>_.
     bindE (LendingPutUserAccount D (enginePool E)
       (user\<lparr>DebtNHB := 0, ScaledDebt := 0, CollateralZNHB := CollateralZNHB user - seizeAmount\<rparr>)) (\<lambda>_.
     bindE (LendingPutMarket D (enginePool E)
       (market\<lparr>TotalNHBBorrowed := TotalNHBBorrowed market - repayAmount\<rparr>)) (\<lambda>_.
     bindE (putFeesIf D E feesChanged fees) (\<lambda>_.
     retE (repayAmount, seizeAmount))))))))))))))))))))))"

subsection \<open>Fees\<close>

definition withdrawFees ::
  "'d deps_scheme \<Rightarrow> lengine \<Rightarrow> address \<Rightarrow> int \<Rightarrow> bool \<Rightarrow> ('x lstate_scheme, int) op" where
  "withdrawFees D E recipient amount protocol =
     bindE (guardLending E) (\<lambda>_.
     bindE (failIf (amount \<le> 0) errInvalidAmount) (\<lambda>_.
     bindE (ensureMarket E) (\<lambda>market.
     bindE (ensureFeeAccrual E) (\<lambda>fees.
     bindE (failIf ((if protocol then ProtocolFeesWei fees else DeveloperFeesWei fees) < amount)
       errInsufficientLiquidity) (\<lambda>_.
     bindE (GetAccount D (moduleAddress E)) (\<lambda>moduleAcc.
     bindE (failIf (BalanceNHB moduleAcc < amount) errInsufficientLiquidity) (\<lambda>_.
     bindE (GetAccount D recipient) (\<lambda>recipientAcc.
     bindE (PutAccount D (moduleAddress E) (moduleAcc\<lparr>BalanceNHB := BalanceNHB moduleAcc - amount\<rparr>)) (\<lambda>_.
     bindE (PutAccount D recipient (recipientAcc\<lparr>BalanceNHB := BalanceNHB recipientAcc + amount\<rparr>)) (\<lambda>_.
     bindE (LendingPutFeeAccrual D (enginePool E)
       (if protocol then fees\<lparr>ProtocolFeesWei := ProtocolFeesWei fees - amount\<rparr>
        else fees\<lparr>DeveloperFeesWei := DeveloperFeesWei fees - amount\<rparr>)) (\<lambda>_.
     bindE (LendingPutMarket D (enginePool E)
       (market\<lparr>TotalNHBSupplied := TotalNHBSupplied market - amount\<rparr>)) (\<lambda>_.
     retE amount))))))))))))"

abbreviation "WithdrawProtocolFees D E recipient amount \<equiv> withdrawFees D E recipient amount True"
abbreviation "WithdrawDeveloperFees D E recipient amount \<equiv> withdrawFees D E recipient amount False"

section \<open>The RPC module\<close>

text \<open>The node's lending configuration. The transaction hash a call reports is a hash of the
  current time; the numbers it is built from are returned instead.\<close>

record lending_node =
  lendingModuleAddr :: address
  lendingCollateralAddr :: address
  lendingParams :: RiskParameters
  lendingInterestModel :: "InterestModel option"
  lendingReserveFactorBps :: u64
  lendingProtocolFeeBps :: u64
  lendingDeveloperFeeBps :: u64
  lendingDeveloperFeeCollector :: "address option"
  lendingCollateralRouting :: CollateralRouting
  nodeHeight :: u64
  nodePauses :: pause_view
  treasuryAllowList :: "address list"

definition IsTreasuryAllowListed :: "lending_node \<Rightarrow> address \<Rightarrow> bool" where
  "IsTreasuryAllowListed N addr = (treasuryAllowList N = [] \<or> addr \<in> set (treasuryAllowList N))"

definition poolOf :: "string \<Rightarrow> string" where
  "poolOf poolID = (let i = trimSpace poolID in if i = [] then ''default'' else i)"

definition withEngine ::
  "lending_node \<Rightarrow> string \<Rightarrow> (lengine \<Rightarrow> ('x lstate_scheme, 'a) op) \<Rightarrow> ('x lstate_scheme, 'a) op" where
  "withEngine N poolID fn =
     bindE (LendingGetMarket (poolOf poolID)) (\<lambda>stored.
     let (bps, collector) = (case stored of
             Some m \<Rightarrow> (DeveloperFeeBps m, DeveloperFeeCollector m)
           | None \<Rightarrow> (lendingDeveloperFeeBps N, lendingDeveloperFeeCollector N))
     in fn \<lparr>moduleAddress = lendingModuleAddr N, collateralAddress = lendingCollateralAddr N,
            lparams = lendingParams N, interestModel = lendingInterestModel N,
            reserveFactorBps = lendingReserveFactorBps N, protocolFeeBps = lendingProtocolFeeBps N,
            blockHeight = nodeHeight N, enginePool = trimSpace (poolOf poolID),
            developerFeeBps = bps, developerFeeAddr = collector,
            collateralRouting = lendingCollateralRouting N, lpauses = nodePauses N\<rparr>)"

definition CreatePool ::
  "'d deps_scheme \<Rightarrow> lending_node \<Rightarrow> string \<Rightarrow> address \<Rightarrow> ('x lstate_scheme, Market) op" where
  "CreatePool D N poolID owner =
     (let i = trimSpace poolID in
      bindE (failIf (i = []) ''poolId required'') (\<lambda>_.
      bindE (LendingGetMarket i) (\<lambda>existing.
      bindE (failIf (existing \<noteq> None) ''lending: pool %s already exists'') (\<lambda>_.
      let market = \<lparr>PoolID = i, DeveloperOwner = Some owner,
            DeveloperFeeCollector = lendingDeveloperFeeCollector N,
            DeveloperFeeBps = lendingDeveloperFeeBps N,
            TotalNHBSupplied = 0, TotalSupplyShares = 0, TotalNHBBorrowed = 0,
            SupplyIndex = 0, BorrowIndex = 0, LastUpdateBlock = nodeHeight N,
            ReserveFactor = lendingReserveFactorBps N, BorrowedThisBlock = 0, LastBorrowBlock = 0,
            OracleMedianWei = 0, OraclePrevMedianWei = 0, OracleUpdatedBlock = 0\<rparr> in
      bindE (LendingPutMarket D i market) (\<lambda>_. retE market)))))"

definition SupplyNHB where
  "SupplyNHB D N poolID addr amount = withEngine N poolID (\<lambda>E. Supply D E addr amount)"

definition WithdrawNHB where
  "WithdrawNHB D N poolID addr amount = withEngine N poolID (\<lambda>E. Withdraw D E addr amount)"

definition DepositZNHB where
  "DepositZNHB D N poolID addr amount = withEngine N poolID (\<lambda>E. DepositCollateral D E addr amount)"

definition WithdrawZNHB where
  "WithdrawZNHB D N poolID addr amount = withEngine N poolID (\<lambda>E. WithdrawCollateral D E addr amount)"

definition BorrowNHB where
  "BorrowNHB D N poolID addr amount = withEngine N poolID (\<lambda>E. Borrow D E addr amount (Some addr) 0)"

definition BorrowNHBWithFee where
  "BorrowNHBWithFee D N poolID borrower amount =
     bindE (LendingGetMarket (poolOf poolID)) (\<lambda>market.
     case market of
       None \<Rightarrow> throwE ''pool not initialised''
     | Some m \<Rightarrow>
         bindE (failIf (DeveloperFeeBps m = 0) ''developer fee disabled'') (\<lambda>_.
         case DeveloperFeeCollector m of
           None \<Rightarrow> throwE ''developer fee collector not configured''
         | Some collector \<Rightarrow>
             bindE (failIf (\<not> IsTreasuryAllowListed N collector)
               ''developer fee collector not authorised'') (\<lambda>_.
             withEngine N poolID (\<lambda>E. Borrow D E borrower amount (Some collector) (DeveloperFeeBps m)))))"

definition RepayNHB where
  "RepayNHB D N poolID addr amount = withEngine N poolID (\<lambda>E. Repay D E addr amount)"

definition LiquidateNHB where
  "LiquidateNHB D N poolID liquidator borrower = withEngine N poolID (\<lambda>E. Liquidate D E liquidator borrower)"

end
