(* ===== verification/LendingProps.thy ===== *)
theory LendingProps
  imports LendingEngine
begin

text \<open>
  The books of the lending module. \<open>lend_inv\<close> relates the stored records to the balances of the
  two module accounts; every call of the RPC module keeps it on every outcome. The sums over
  stored records are \<open>msum\<close>, the sum of a function over the entries of a finite map.
\<close>

section \<open>The books\<close>

definition pool_ok :: "string \<Rightarrow> bool" where
  "pool_ok p \<longleftrightarrow> p \<noteq> [] \<and> trimSpace p = p"

definition poolLiquidity :: "storedLendingMarket \<Rightarrow> int" where
  "poolLiquidity st = smTotalNHBSupplied st - smTotalNHBBorrowed st"

definition market_nonneg :: "storedLendingMarket \<Rightarrow> bool" where
  "market_nonneg st \<longleftrightarrow> 0 \<le> smTotalNHBSupplied st \<and> 0 \<le> smTotalSupplyShares st
     \<and> 0 \<le> smTotalNHBBorrowed st \<and> 0 \<le> smSupplyIndex st \<and> 0 \<le> smBorrowIndex st"

definition user_nonneg :: "storedLendingUser \<Rightarrow> bool" where
  "user_nonneg u \<longleftrightarrow> 0 \<le> suCollateralZNHB u \<and> 0 \<le> suSupplyShares u \<and> 0 \<le> suDebtNHB u \<and> 0 \<le> suScaledDebt u"

definition fees_nonneg :: "storedLendingFees \<Rightarrow> bool" where
  "fees_nonneg f \<longleftrightarrow> 0 \<le> sfProtocolFeesWei f \<and> 0 \<le> sfDeveloperFeesWei f"

definition shareAt :: "string \<Rightarrow> string \<times> address \<Rightarrow> storedLendingUser \<Rightarrow> int" where
  "shareAt p k u = (if fst k = p then suSupplyShares u else 0)"

text \<open>The stored records are well formed; the shares of a pool's users add up to the pool's
  total; the module account holds at least the liquidity of all pools, and the collateral account
  at least the collateral of all users; no pool has lent out more than it has.\<close>

definition records_ok ::
  "address \<Rightarrow> (string \<rightharpoonup> storedLendingMarket) \<Rightarrow> (string \<rightharpoonup> storedLendingFees) \<Rightarrow>
   (string \<times> address \<rightharpoonup> storedLendingUser) \<Rightarrow> string list \<Rightarrow> bool" where
  "records_ok mo M F U P \<longleftrightarrow> finite (dom U) \<and> dom M = set P
     \<and> (\<forall>p st. M p = Some st \<longrightarrow> pool_ok p \<and> market_nonneg st \<and> 0 \<le> poolLiquidity st
          \<and> (smDeveloperCollector st = mo \<longrightarrow> mo = 0))
     \<and> (\<forall>p f. F p = Some f \<longrightarrow> fees_nonneg f)
     \<and> (\<forall>p a u. U (p, a) = Some u \<longrightarrow> suAddress u = a \<and> user_nonneg u)"

definition books ::
  "address \<Rightarrow> address \<Rightarrow> (coin \<Rightarrow> address \<Rightarrow> int) \<Rightarrow> (string \<rightharpoonup> storedLendingMarket) \<Rightarrow>
   (string \<rightharpoonup> storedLendingFees) \<Rightarrow> (string \<times> address \<rightharpoonup> storedLendingUser) \<Rightarrow> string list \<Rightarrow> bool"
where
  "books mo co b M F U P \<longleftrightarrow> records_ok mo M F U P
     \<and> (\<forall>p. msum (shareAt p) U = oval (\<lambda>_. smTotalSupplyShares) M p)
     \<and> msum (\<lambda>_. poolLiquidity) M \<le> b NHB mo
     \<and> msum (\<lambda>_. suCollateralZNHB) U \<le> b ZNHB co
     \<and> (\<Sum>a\<in>UNIV. b NHB a) < 2 ^ 256"

definition lend_inv :: "'d deps_scheme \<Rightarrow> address \<Rightarrow> address \<Rightarrow> 'x lstate_scheme \<Rightarrow> bool" where
  "lend_inv D mo co s \<longleftrightarrow> chain_inv D s
     \<and> books mo co (\<lambda>c. coinBalance D c s) (lendMarkets s) (lendFees s) (lendUsers s) (lendPools s)"

text \<open>Writing a user record, and a user record together with the market of its pool.\<close>

lemma books_user:
  assumes "books mo co b M F U P" and "suAddress u = a" and "user_nonneg u"
    and "suSupplyShares u = oval (\<lambda>_. suSupplyShares) U (p, a)"
    and "b NHB mo \<le> b' NHB mo"
    and "b ZNHB co + suCollateralZNHB u \<le> b' ZNHB co + oval (\<lambda>_. suCollateralZNHB) U (p, a)"
    and "(\<Sum>a\<in>UNIV. b' NHB a) \<le> (\<Sum>a\<in>UNIV. b NHB a)"
  shows "books mo co b' M F (U((p, a) \<mapsto> u)) P"
proof -
  from assms(1) have fin: "finite (dom U)" by (simp add: books_def records_ok_def)
  have "oval (shareAt q) U (p, a) = shareAt q (p, a) u" for q
    using assms(4) by (auto simp: shareAt_def split: option.splits)
  then have "msum (shareAt q) (U((p, a) \<mapsto> u)) = msum (shareAt q) U" for q
    by (simp add: msum_upd [OF fin])
  with assms show ?thesis
    by (auto simp: books_def records_ok_def msum_upd [OF fin])
qed

lemma books_market:
  assumes "books mo co b M F U P" and "M p = Some st" and "\<forall>p f. F' p = Some f \<longrightarrow> fees_nonneg f"
    and "market_nonneg st'" and "0 \<le> poolLiquidity st'"
    and "smDeveloperCollector st' = smDeveloperCollector st"
    and "suAddress u = a" and "user_nonneg u"
    and "smTotalSupplyShares st' + oval (\<lambda>_. suSupplyShares) U (p, a) = smTotalSupplyShares st + suSupplyShares u"
    and "b NHB mo + poolLiquidity st' \<le> b' NHB mo + poolLiquidity st"
    and "b ZNHB co + suCollateralZNHB u \<le> b' ZNHB co + oval (\<lambda>_. suCollateralZNHB) U (p, a)"
    and "(\<Sum>a\<in>UNIV. b' NHB a) \<le> (\<Sum>a\<in>UNIV. b NHB a)"
  shows "books mo co b' (M(p \<mapsto> st')) F' (U((p, a) \<mapsto> u)) P"
proof -
  from assms(1) have R: "records_ok mo M F U P" and fin: "finite (dom U)" and finM: "finite (dom M)"
    and sh: "msum (shareAt p) U = oval (\<lambda>_. smTotalSupplyShares) M p" for p
    by (simp_all add: books_def records_ok_def)
  have "oval (shareAt q) U (p, a) = (if q = p then oval (\<lambda>_. suSupplyShares) U (p, a) else 0)" for q
    by (auto simp: shareAt_def split: option.splits)
  then have "msum (shareAt q) (U((p, a) \<mapsto> u)) = oval (\<lambda>_. smTotalSupplyShares) (M(p \<mapsto> st')) q" for q
    using assms(9) by (simp add: msum_upd [OF fin] sh assms(2) shareAt_def)
  moreover have "msum (\<lambda>_. poolLiquidity) (M(p \<mapsto> st')) \<le> b' NHB mo"
    using assms(1,10) by (simp add: msum_upd [OF finM] assms(2) books_def)
  moreover have "msum (\<lambda>_. suCollateralZNHB) (U((p, a) \<mapsto> u)) \<le> b' ZNHB co"
    using assms(1,11) by (simp add: msum_upd [OF fin] books_def)
  moreover have "records_ok mo (M(p \<mapsto> st')) F' (U((p, a) \<mapsto> u)) P"
    using R assms(2-8) by (auto simp: records_ok_def)
  ultimately show ?thesis using assms(1,12) by (simp add: books_def)
qed

section \<open>Running the parts of a call\<close>

lemma acctOf_lend [simp]:
  "acctOf D (s\<lparr>lendMarkets := M\<rparr>) = acctOf D s" "acctOf D (s\<lparr>lendFees := F\<rparr>) = acctOf D s"
  "acctOf D (s\<lparr>lendUsers := U\<rparr>) = acctOf D s" "acctOf D (s\<lparr>lendPools := P\<rparr>) = acctOf D s"
  by (simp_all add: fun_eq_iff acctOf_def account_defs run_defs)

lemma chain_inv_lend [simp]:
  "chain_inv D (s\<lparr>lendMarkets := M\<rparr>) = chain_inv D s" "chain_inv D (s\<lparr>lendFees := F\<rparr>) = chain_inv D s"
  "chain_inv D (s\<lparr>lendUsers := U\<rparr>) = chain_inv D s" "chain_inv D (s\<lparr>lendPools := P\<rparr>) = chain_inv D s"
  by (simp_all add: chain_inv_def)

lemma coinBalance_lend [simp]:
  "coinBalance D c (s\<lparr>lendMarkets := M\<rparr>) = coinBalance D c s"
  "coinBalance D c (s\<lparr>lendFees := F\<rparr>) = coinBalance D c s"
  "coinBalance D c (s\<lparr>lendUsers := U\<rparr>) = coinBalance D c s"
  "coinBalance D c (s\<lparr>lendPools := P\<rparr>) = coinBalance D c s"
  by (simp_all add: fun_eq_iff coinBalance_def)

lemma totalSupply_lend [simp]:
  "totalSupply D c (s\<lparr>lendMarkets := M\<rparr>) = totalSupply D c s"
  "totalSupply D c (s\<lparr>lendFees := F\<rparr>) = totalSupply D c s"
  "totalSupply D c (s\<lparr>lendUsers := U\<rparr>) = totalSupply D c s"
  "totalSupply D c (s\<lparr>lendPools := P\<rparr>) = totalSupply D c s"
  by (simp_all add: totalSupply_def)

lemma lend_more:
  assumes "chain.more t = chain.more s"
  shows "lendMarkets t = lendMarkets s" "lendFees t = lendFees s" "lendUsers t = lendUsers s"
    "lendPools t = lendPools s"
  using assms by (cases s rule: lstate.cases_scheme; cases t rule: lstate.cases_scheme; simp)+

text \<open>What the engine loads.\<close>

definition loadedMarket :: "string \<Rightarrow> storedLendingMarket \<Rightarrow> Market" where
  "loadedMarket p st = (toMarket st)\<lparr>PoolID := p,
     SupplyIndex := (if smSupplyIndex st = 0 then ray else smSupplyIndex st),
     BorrowIndex := (if smBorrowIndex st = 0 then ray else smBorrowIndex st)\<rparr>"

definition loadedUser :: "'x lstate_scheme \<Rightarrow> string \<Rightarrow> address \<Rightarrow> UserAccount" where
  "loadedUser s p a = (case lendUsers s (p, a) of
     None \<Rightarrow> \<lparr>userAddress = a, CollateralZNHB = 0, SupplyShares = 0, DebtNHB = 0, ScaledDebt = 0\<rparr>
   | Some u \<Rightarrow> toUserAccount u)"

definition loadedFees :: "'x lstate_scheme \<Rightarrow> string \<Rightarrow> FeeAccrual" where
  "loadedFees s p = (case lendFees s p of
     None \<Rightarrow> \<lparr>ProtocolFeesWei = 0, DeveloperFeesWei = 0\<rparr> | Some f \<Rightarrow> toFeeAccrual f)"

lemma normalizePoolID_ok [simp]: "pool_ok p \<Longrightarrow> normalizePoolID p = Inr p"
  by (simp add: pool_ok_def normalizePoolID_def)

declare wp_GetAccount [wp_simps]

lemma wp_ensureMarket:
  "pool_ok (enginePool E) \<Longrightarrow> wp (ensureMarket E) Q R s =
     (case lendMarkets s (enginePool E) of
        None \<Rightarrow> R errNilMarket s | Some st \<Rightarrow> Q (loadedMarket (enginePool E) st) s)"
  by (simp add: ensureMarket_def LendingGetMarket_def wp_simps loadedMarket_def pool_ok_def
      normalizePoolID_def toMarket_def split: option.splits)

lemma wp_ensureUserAccount:
  "pool_ok (enginePool E) \<Longrightarrow>
     wp (ensureUserAccount E a) Q R s = Q (loadedUser s (enginePool E) a) s"
  by (simp add: ensureUserAccount_def LendingGetUserAccount_def wp_simps loadedUser_def pool_ok_def
      normalizePoolID_def split: option.splits)

lemma wp_ensureFeeAccrual:
  "pool_ok (enginePool E) \<Longrightarrow> wp (ensureFeeAccrual E) Q R s = Q (loadedFees s (enginePool E)) s"
  by (simp add: ensureFeeAccrual_def LendingGetFeeAccrual_def wp_simps loadedFees_def pool_ok_def
      normalizePoolID_def split: option.splits)

lemma wp_accrueInterest:
  "pool_ok (enginePool E) \<Longrightarrow>
     wp (accrueInterest E m) Q R s = Q (accrueMarket E m (loadedFees s (enginePool E))) s"
  by (simp add: accrueInterest_def wp_simps wp_ensureFeeAccrual)

lemma wp_putUser:
  "deps_ok D \<Longrightarrow> pool_ok p \<Longrightarrow> wp (LendingPutUserAccount D p u) Q R s =
     (if user_nonneg (newStoredLendingUser u)
      then Q () (s\<lparr>lendUsers := (lendUsers s)((p, userAddress u) \<mapsto> newStoredLendingUser u)\<rparr>)
      else R errRlp s)"
  by (simp add: LendingPutUserAccount_def wp_simps deps_ok_def rlpFails_def user_nonneg_def
      newStoredLendingUser_def)

lemma wp_putFees:
  "deps_ok D \<Longrightarrow> pool_ok p \<Longrightarrow> wp (LendingPutFeeAccrual D p f) Q R s =
     (if fees_nonneg (newStoredLendingFees f)
      then Q () (s\<lparr>lendFees := (lendFees s)(p \<mapsto> newStoredLendingFees f)\<rparr>) else R errRlp s)"
  by (simp add: LendingPutFeeAccrual_def wp_simps deps_ok_def rlpFails_def fees_nonneg_def
      newStoredLendingFees_def)

text \<open>The market that is stored, for a pool that is already indexed.\<close>

abbreviation storedAt :: "string \<Rightarrow> Market \<Rightarrow> storedLendingMarket" where
  "storedAt p m \<equiv> newStoredLendingMarket (m\<lparr>PoolID := p\<rparr>)"

lemma wp_putMarket:
  "deps_ok D \<Longrightarrow> pool_ok p \<Longrightarrow> p \<in> set (lendPools s) \<Longrightarrow> wp (LendingPutMarket D p m) Q R s =
     (if market_nonneg (storedAt p m)
      then Q () (s\<lparr>lendMarkets := (lendMarkets s)(p \<mapsto> storedAt p m)\<rparr>) else R errRlp s)"
  by (simp add: LendingPutMarket_def wp_simps deps_ok_def rlpFails_def market_nonneg_def Let_def
      newStoredLendingMarket_def lendingEnsurePoolIndexed_def)

lemmas wp_lending = wp_simps wp_ensureMarket wp_ensureUserAccount wp_ensureFeeAccrual
  wp_accrueInterest

section \<open>Accrual\<close>

definition fees_ok :: "FeeAccrual \<Rightarrow> bool" where
  "fees_ok f \<longleftrightarrow> 0 \<le> ProtocolFeesWei f \<and> 0 \<le> DeveloperFeesWei f"

definition engine_ok :: "lengine \<Rightarrow> bool" where
  "engine_ok E \<longleftrightarrow> (case interestModel E of None \<Rightarrow> True | Some m \<Rightarrow> model_ok m)"

lemma applyInterest_props:
  assumes "applyInterest E m f apr util delta = (m', f', ch)"
    and "0 \<le> apr" and "0 \<le> util" and "fees_ok f" and "0 \<le> BorrowIndex m" and "0 \<le> SupplyIndex m"
  shows "TotalNHBSupplied m' - TotalNHBBorrowed m' = TotalNHBSupplied m - TotalNHBBorrowed m"
    and "TotalNHBBorrowed m \<le> TotalNHBBorrowed m'" and "BorrowIndex m \<le> BorrowIndex m'"
    and "SupplyIndex m \<le> SupplyIndex m'" and "fees_ok f'"
    and "DeveloperFeesWei f' = DeveloperFeesWei f"
    and "TotalSupplyShares m' = TotalSupplyShares m"
    and "DeveloperFeeCollector m' = DeveloperFeeCollector m"
    and "PoolID m' = PoolID m"
proof -
  let ?i = "computeInterest (TotalNHBBorrowed m) apr delta"
  have b: "0 \<le> ?i" by (rule computeInterest_nonneg)
  have q: "0 \<le> bigQuo (?i * uint w) basisPoints" for w :: u64
    using b by (simp add: bigQuo_ge_0 basisPoints_def)
  have rf: "ray \<le> rateFactor apr delta" by (rule rateFactor_ge) (rule assms)
  have sf: "ray \<le> rateFactor (apr * util * (if x < 0 then 0 else x)) delta" for x :: rat
    using assms by (intro rateFactor_ge) auto
  note ge = rayMul_ge [OF assms(5) rf] rayMul_ge [OF assms(6) sf]
  have m: "m' = fst (applyInterest E m f apr util delta)"
    and f: "f' = fst (snd (applyInterest E m f apr util delta))" using assms(1) by simp_all
  show "BorrowIndex m \<le> BorrowIndex m'"
    unfolding m applyInterest_def Let_def by (simp add: ge split del: if_split)
  have upd: "SupplyIndex (m\<lparr>BorrowIndex := a, SupplyIndex := b, TotalNHBBorrowed := c,
      TotalNHBSupplied := d, LastUpdateBlock := e\<rparr>) = b" for a b c d e by simp
  show "SupplyIndex m \<le> SupplyIndex m'"
    unfolding m applyInterest_def Let_def fst_conv upd by (rule ge)
  show "TotalNHBSupplied m' - TotalNHBBorrowed m' = TotalNHBSupplied m - TotalNHBBorrowed m"
    and "TotalNHBBorrowed m \<le> TotalNHBBorrowed m'"
    and "TotalSupplyShares m' = TotalSupplyShares m"
    and "DeveloperFeeCollector m' = DeveloperFeeCollector m" and "PoolID m' = PoolID m"
    unfolding m applyInterest_def Let_def by simp_all
  show "fees_ok f'" and "DeveloperFeesWei f' = DeveloperFeesWei f"
    using assms(4) unfolding f applyInterest_def Let_def by (auto simp: fees_ok_def)
qed

text \<open>What an operation knows of the market after accrual: the pool's liquidity, shares and fee
  collector are those of the stored record, and the indexes have not fallen.\<close>

definition accrued :: "storedLendingMarket \<Rightarrow> FeeAccrual \<Rightarrow> Market \<Rightarrow> FeeAccrual \<Rightarrow> bool" where
  "accrued st f0 m f \<longleftrightarrow>
     TotalNHBSupplied m - TotalNHBBorrowed m = poolLiquidity st
     \<and> smTotalNHBBorrowed st \<le> TotalNHBBorrowed m
     \<and> 0 < BorrowIndex m \<and> smBorrowIndex st \<le> BorrowIndex m
     \<and> 0 < SupplyIndex m \<and> smSupplyIndex st \<le> SupplyIndex m
     \<and> fees_ok f \<and> DeveloperFeesWei f = DeveloperFeesWei f0
     \<and> TotalSupplyShares m = smTotalSupplyShares st
     \<and> DeveloperFeeCollector m = DeveloperFeeCollector (toMarket st)"

lemma accrueMarket_accrued:
  assumes "accrueMarket E (loadedMarket p st) f0 = (m, f, ch)"
    and "engine_ok E" and "market_nonneg st" and "fees_ok f0"
  shows "accrued st f0 m f"
proof -
  let ?m = "(loadedMarket p st)\<lparr>ReserveFactor := reserveFactorBps E\<rparr>"
  have idx: "0 < BorrowIndex ?m" "0 < SupplyIndex ?m" "smBorrowIndex st \<le> BorrowIndex ?m"
      "smSupplyIndex st \<le> SupplyIndex ?m"
    using assms(3) by (auto simp: loadedMarket_def market_nonneg_def)
  have same: "TotalNHBSupplied ?m = smTotalNHBSupplied st" "TotalNHBBorrowed ?m = smTotalNHBBorrowed st"
      "TotalSupplyShares ?m = smTotalSupplyShares st"
      "DeveloperFeeCollector ?m = DeveloperFeeCollector (toMarket st)"
    by (simp_all add: loadedMarket_def toMarket_def)
  have load: "(loadedMarket p st)
      \<lparr>SupplyIndex := if SupplyIndex (loadedMarket p st) = 0 then ray else SupplyIndex (loadedMarket p st),
       BorrowIndex := if BorrowIndex (loadedMarket p st) = 0 then ray else BorrowIndex (loadedMarket p st),
       ReserveFactor := reserveFactorBps E\<rparr> = ?m"
    using idx by simp
  have base: "accrued st f0 (?m\<lparr>LastUpdateBlock := h\<rparr>) f0" "accrued st f0 ?m f0" for h
    using idx same assms(3,4) by (simp_all add: accrued_def poolLiquidity_def)
  have bump: "accrued st f0 (if c then ?m\<lparr>LastUpdateBlock := h\<rparr> else ?m) f0" for c h
    using base by simp
  have app: "accrued st f0 m f"
    if mod: "interestModel E = Some mo"
      and run: "applyInterest E ?m f0 (BorrowAPR mo (smTotalNHBBorrowed st) (smTotalNHBSupplied st))
        (Utilisation (smTotalNHBBorrowed st) (smTotalNHBSupplied st)) d = (m, f, ch)" for mo d
  proof -
    have nn: "0 \<le> smTotalNHBBorrowed st" "0 \<le> smTotalNHBSupplied st"
      using assms(3) by (simp_all add: market_nonneg_def)
    have "model_ok mo" using assms(2) mod by (simp add: engine_ok_def)
    note apr = BorrowAPR_nonneg [OF this nn]
    have ix: "0 \<le> BorrowIndex ?m" "0 \<le> SupplyIndex ?m" using idx by linarith+
    note props = applyInterest_props [OF run apr Utilisation_nonneg [OF nn] assms(4) ix]
    show ?thesis unfolding accrued_def using props same idx by (simp add: poolLiquidity_def)
  qed
  show ?thesis
    using assms(1) bump base app unfolding accrueMarket_def load Let_def same
    by (cases "interestModel E") (auto split: if_splits)
qed

lemma fees_ok_loaded: "(\<forall>p f. lendFees s p = Some f \<longrightarrow> fees_nonneg f) \<Longrightarrow> fees_ok (loadedFees s p)"
  by (auto simp: loadedFees_def fees_ok_def fees_nonneg_def toFeeAccrual_def split: option.splits)

lemma wp_PutAccount_fits:
  assumes "chain_inv D s" and "acct_fits acc"
    and "\<And>t. chain_inv D t \<Longrightarrow> (\<And>c. coinBalance D c t = (coinBalance D c s)(a := coinOf c acc)) \<Longrightarrow>
      chain.more t = chain.more s \<Longrightarrow> Q () t"
  shows "wp (PutAccount D a acc) Q R s"
proof -
  obtain t where t: "PutAccount D a acc s = (Inr (), t)" "chain_inv D t" "acct_eq (acctOf D t a) acc"
      "\<And>b. b \<noteq> a \<Longrightarrow> acctOf D t b = acctOf D s b"
    using al.put_ok [OF assms(1,2)] by blast
  have "coinBalance D c t = (coinBalance D c s)(a := coinOf c acc)" for c
    using t(3,4) by (auto simp: fun_eq_iff coinBalance_def acct_eq_coin)
  from assms(3) [OF t(2) this frameD [OF chainOnly_PutAccount t(1)]] show ?thesis
    by (simp add: wp_def t(1))
qed

lemma acct_fits_upd:
  "acct_fits acc \<Longrightarrow> 0 \<le> x \<Longrightarrow> x < 2 ^ 256 \<Longrightarrow> acct_fits (acc\<lparr>BalanceNHB := x\<rparr>)"
  "acct_fits acc \<Longrightarrow> 0 \<le> x \<Longrightarrow> acct_fits (acc\<lparr>BalanceZNHB := x\<rparr>)"
  using acct_nonneg_setCoin [of acc x NHB] acct_nonneg_setCoin [of acc x ZNHB]
  by (auto simp: acct_fits_def)

lemma Balance_coin:
  "BalanceNHB (acctOf D s a) = coinBalance D NHB s a" "BalanceZNHB (acctOf D s a) = coinBalance D ZNHB s a"
  by (simp_all add: coinBalance_def)

lemma coinBalance_nonneg: "chain_inv D s \<Longrightarrow> 0 \<le> coinBalance D c s a"
  using al.bal_nonneg [of D s c a] by (simp add: al_bal_fun)

lemma acctOf_fits: "chain_inv D s \<Longrightarrow> acct_fits (acctOf D s a)"
  by (simp add: chain_inv_def)

text \<open>When all the NHB fits 256 bits, so does any amount moved between accounts.\<close>

lemma two_le_total:
  assumes "chain_inv D s" and "a \<noteq> b"
  shows "coinBalance D c s a + coinBalance D c s b \<le> totalSupply D c s"
proof -
  have "(\<Sum>x\<in>{a, b}. coinBalance D c s x) \<le> (\<Sum>x\<in>UNIV. coinBalance D c s x)"
    by (rule sum_mono2) (auto simp: coinBalance_nonneg [OF assms(1)])
  with assms(2) show ?thesis by (simp add: totalSupply_def)
qed

definition engine_at :: "address \<Rightarrow> address \<Rightarrow> lengine \<Rightarrow> bool" where
  "engine_at mo co E \<longleftrightarrow> moduleAddress E = mo \<and> collateralAddress E = co \<and> mo \<noteq> co
     \<and> engine_ok E \<and> pool_ok (enginePool E)"

text \<open>Moving an amount of one coin between two accounts.\<close>

lemma wp_move:
  assumes "chain_inv D s" and "totalSupply D NHB s < 2 ^ 256" and "a \<noteq> b"
    and "0 \<le> v" and "v \<le> coinBalance D c s a"
    and "\<And>t. chain_inv D t \<Longrightarrow> coinBalance D c t =
        (coinBalance D c s)(a := coinBalance D c s a - v, b := coinBalance D c s b + v) \<Longrightarrow>
      (\<And>c'. c' \<noteq> c \<Longrightarrow> coinBalance D c' t = coinBalance D c' s) \<Longrightarrow> chain.more t = chain.more s \<Longrightarrow> Q () t"
  shows "wp (PutAccount D a (setCoin c (coinBalance D c s a - v) (acctOf D s a)))
      (\<lambda>_. wp (PutAccount D b (setCoin c (coinBalance D c s b + v) (acctOf D s b))) Q R) R s"
proof (rule wp_PutAccount_fits [OF assms(1)])
  note tot = two_le_total [OF assms(1,3), of NHB] and nn = coinBalance_nonneg [OF assms(1)]
  have nnv: "0 \<le> coinBalance D c s b + v" using assms(4) nn [of c b] by linarith
  have bnd: "c = NHB \<Longrightarrow> coinBalance D c s a - v < 2 ^ 256" "c = NHB \<Longrightarrow> coinBalance D c s b + v < 2 ^ 256"
    using tot assms(2,4,5) nn [of NHB b] by auto
  show "acct_fits (setCoin c (coinBalance D c s a - v) (acctOf D s a))"
    using assms(5) bnd acctOf_fits [OF assms(1)] by (cases c) (auto intro!: acct_fits_upd)
  have fb: "acct_fits (setCoin c (coinBalance D c s b + v) (acctOf D s b))"
    using nnv bnd acctOf_fits [OF assms(1)] by (cases c) (auto intro!: acct_fits_upd)
  fix t
  assume t: "chain_inv D t" "\<And>c'. coinBalance D c' t =
      (coinBalance D c' s)(a := coinOf c' (setCoin c (coinBalance D c s a - v) (acctOf D s a)))"
    "chain.more t = chain.more s"
  show "wp (PutAccount D b (setCoin c (coinBalance D c s b + v) (acctOf D s b))) Q R t"
  proof (rule wp_PutAccount_fits [OF t(1) fb])
    fix u
    assume u: "chain_inv D u" "\<And>c'. coinBalance D c' u =
        (coinBalance D c' t)(b := coinOf c' (setCoin c (coinBalance D c s b + v) (acctOf D s b)))"
      "chain.more u = chain.more t"
    show "Q () u"
      by (rule assms(6) [OF u(1)]) (auto simp: u t fun_eq_iff coinBalance_def)
  qed
qed

lemmas wp_moveNHB = wp_move [where c = NHB, unfolded setCoin.simps]
lemmas wp_moveZNHB = wp_move [where c = ZNHB, unfolded setCoin.simps]

lemma loaded_more:
  assumes "chain.more t = chain.more s"
  shows "loadedUser t p a = loadedUser s p a" "loadedFees t p = loadedFees s p"
  by (simp_all add: loadedUser_def loadedFees_def lend_more [OF assms])

lemma lend_invD:
  assumes "lend_inv D mo co s"
  shows "chain_inv D s" and "deps_ok D" and "totalSupply D NHB s < 2 ^ 256"
    and "lendMarkets s p = Some st \<Longrightarrow> market_nonneg st \<and> 0 \<le> poolLiquidity st \<and> p \<in> set (lendPools s) \<and> pool_ok p"
    and "fees_ok (loadedFees s p)"
    and "userAddress (loadedUser s p a) = a" and "user_nonneg (newStoredLendingUser (loadedUser s p a))"
  using assms
  by (auto simp: lend_inv_def books_def records_ok_def chain_inv_def loadedUser_def totalSupply_def toUserAccount_def
      newStoredLendingUser_def user_nonneg_def split: option.splits intro: fees_ok_loaded)

lemma lend_inv_run:
  "lend_inv D mo co s \<Longrightarrow> engine_at mo co E \<Longrightarrow> lendMarkets s (enginePool E) = Some st \<Longrightarrow>
   accrueMarket E (loadedMarket (enginePool E) st) (loadedFees s (enginePool E)) = (m, f, ch) \<Longrightarrow>
   accrued st (loadedFees s (enginePool E)) m f"
  by (rule accrueMarket_accrued) (auto simp: engine_at_def dest: lend_invD)

section \<open>Stepping through a call\<close>

text \<open>One rule for each kind of statement a call is made of.\<close>

lemma seq_basic:
  "(b \<Longrightarrow> R e s) \<Longrightarrow> (\<not> b \<Longrightarrow> wp (k ()) Q R s) \<Longrightarrow> wp (bindE (failIf b e) k) Q R s"
  "(\<And>e. r = Inl e \<Longrightarrow> R e s) \<Longrightarrow> (\<And>x. r = Inr x \<Longrightarrow> wp (l x) Q R s) \<Longrightarrow> wp (bindE (liftE r) l) Q R s"
  "wp (g (acctOf D s a)) Q R s \<Longrightarrow> wp (bindE (GetAccount D a) g) Q R s"
  "(\<And>y. y = x \<Longrightarrow> wp (h y) Q R s) \<Longrightarrow> wp (let y = x in h y) Q R s"
  "Q v s \<Longrightarrow> wp (retE v) Q R s"
  by (auto simp: wp_simps split: sum.splits)

lemma seq_load:
  assumes "pool_ok (enginePool E)"
  shows "(lendMarkets s (enginePool E) = None \<Longrightarrow> R errNilMarket s) \<Longrightarrow>
      (\<And>st. lendMarkets s (enginePool E) = Some st \<Longrightarrow> wp (k (loadedMarket (enginePool E) st)) Q R s) \<Longrightarrow>
      wp (bindE (ensureMarket E) k) Q R s"
    and "wp (l (loadedUser s (enginePool E) a)) Q R s \<Longrightarrow> wp (bindE (ensureUserAccount E a) l) Q R s"
    and "(\<And>m f ch. accrueMarket E m0 (loadedFees s (enginePool E)) = (m, f, ch) \<Longrightarrow> wp (g m f ch) Q R s) \<Longrightarrow>
      wp (bindE (accrueInterest E m0) (\<lambda>(m, f, ch). g m f ch)) Q R s"
    and "wp (h (loadedFees s (enginePool E))) Q R s \<Longrightarrow> wp (bindE (ensureFeeAccrual E) h) Q R s"
  using assms by (auto simp: wp_lending split: option.splits prod.splits)

lemma seq_put:
  assumes "deps_ok D" and "pool_ok (enginePool E)"
  shows "fees_ok f \<Longrightarrow> (\<And>F. F = (if ch then (lendFees s)(enginePool E \<mapsto> newStoredLendingFees f) else lendFees s) \<Longrightarrow>
        wp (k ()) Q R (s\<lparr>lendFees := F\<rparr>)) \<Longrightarrow> wp (bindE (putFeesIf D E ch f) k) Q R s"
    and "user_nonneg (newStoredLendingUser u) \<Longrightarrow>
      wp (k ()) Q R (s\<lparr>lendUsers := (lendUsers s)((enginePool E, userAddress u) \<mapsto> newStoredLendingUser u)\<rparr>) \<Longrightarrow>
      wp (bindE (LendingPutUserAccount D (enginePool E) u) k) Q R s"
    and "enginePool E \<in> set (lendPools s) \<Longrightarrow>
      (\<not> market_nonneg (storedAt (enginePool E) m) \<Longrightarrow> R errRlp s) \<Longrightarrow>
      (market_nonneg (storedAt (enginePool E) m) \<Longrightarrow>
        wp (k ()) Q R (s\<lparr>lendMarkets := (lendMarkets s)(enginePool E \<mapsto> storedAt (enginePool E) m)\<rparr>)) \<Longrightarrow>
      wp (bindE (LendingPutMarket D (enginePool E) m) k) Q R s"
  using assms
  by (auto simp: wp_simps wp_putFees wp_putUser wp_putMarket fees_ok_def fees_nonneg_def newStoredLendingFees_def)

text \<open>The lending records after a step that only touched accounts.\<close>

definition same_records :: "'x lstate_scheme \<Rightarrow> 'x lstate_scheme \<Rightarrow> bool" where
  "same_records s t \<longleftrightarrow> chain.more t = chain.more s"

lemma same_recordsD:
  assumes "same_records s t"
  shows "lendMarkets t = lendMarkets s" "lendFees t = lendFees s" "lendUsers t = lendUsers s"
    "lendPools t = lendPools s" "loadedUser t p a = loadedUser s p a"
  using assms lend_more [of t s] loaded_more [of t s] by (simp_all add: same_records_def)

lemma total_upd:
  assumes "coinBalance D NHB t = (coinBalance D NHB s)(a := coinBalance D NHB s a - v, b := coinBalance D NHB s b + v)"
    and "a \<noteq> b"
  shows "totalSupply D NHB t = totalSupply D NHB s"
  using assms(2) unfolding totalSupply_allOf assms(1) allOf_upd by simp

lemma seq_move:
  assumes "chain_inv D s" and "totalSupply D NHB s < 2 ^ 256" and "a \<noteq> b"
  shows "0 \<le> v \<Longrightarrow> v \<le> coinBalance D NHB s a \<Longrightarrow>
      (\<And>t. chain_inv D t \<Longrightarrow> coinBalance D NHB t =
        (coinBalance D NHB s)(a := coinBalance D NHB s a - v, b := coinBalance D NHB s b + v) \<Longrightarrow>
        coinBalance D ZNHB t = coinBalance D ZNHB s \<Longrightarrow> same_records s t \<Longrightarrow> totalSupply D NHB t = totalSupply D NHB s \<Longrightarrow> wp (k ()) Q R t) \<Longrightarrow>
      wp (bindE (PutAccount D a (acctOf D s a\<lparr>BalanceNHB := BalanceNHB (acctOf D s a) - v\<rparr>)) (\<lambda>_.
        bindE (PutAccount D b (acctOf D s b\<lparr>BalanceNHB := BalanceNHB (acctOf D s b) + v\<rparr>)) k)) Q R s"
    and "0 \<le> v \<Longrightarrow> v \<le> coinBalance D ZNHB s a \<Longrightarrow>
      (\<And>t. chain_inv D t \<Longrightarrow> coinBalance D ZNHB t =
        (coinBalance D ZNHB s)(a := coinBalance D ZNHB s a - v, b := coinBalance D ZNHB s b + v) \<Longrightarrow>
        coinBalance D NHB t = coinBalance D NHB s \<Longrightarrow> same_records s t \<Longrightarrow> totalSupply D NHB t = totalSupply D NHB s \<Longrightarrow> wp (k ()) Q R t) \<Longrightarrow>
      wp (bindE (PutAccount D a (acctOf D s a\<lparr>BalanceZNHB := BalanceZNHB (acctOf D s a) - v\<rparr>)) (\<lambda>_.
        bindE (PutAccount D b (acctOf D s b\<lparr>BalanceZNHB := BalanceZNHB (acctOf D s b) + v\<rparr>)) k)) Q R s"
  unfolding wp_bindE Balance_coin same_records_def
  using assms(3)
  by (rule_tac wp_moveNHB [OF assms], auto simp: wp_bindE total_upd, rule_tac wp_moveZNHB [OF assms],
      auto simp: wp_bindE totalSupply_def)

lemma accruedD:
  assumes "accrued st f0 m f" and "market_nonneg st" and "0 \<le> poolLiquidity st"
  shows "TotalNHBSupplied m = TotalNHBBorrowed m + poolLiquidity st"
    and "0 \<le> TotalNHBBorrowed m" and "0 < BorrowIndex m" and "0 < SupplyIndex m"
    and "fees_ok f" and "TotalSupplyShares m = smTotalSupplyShares st" and "0 \<le> smTotalSupplyShares st"
  using assms by (auto simp: accrued_def market_nonneg_def)

lemma seq_accrue:
  assumes "lend_inv D mo co s" and "engine_at mo co E"
  shows "lendMarkets s (enginePool E) = Some st \<Longrightarrow>
    (\<And>m f ch. accrued st (loadedFees s (enginePool E)) m f \<Longrightarrow>
       TotalNHBSupplied m = TotalNHBBorrowed m + poolLiquidity st \<Longrightarrow>
       0 \<le> TotalNHBBorrowed m \<Longrightarrow> 0 < BorrowIndex m \<Longrightarrow> 0 < SupplyIndex m \<Longrightarrow> fees_ok f \<Longrightarrow>
       TotalSupplyShares m = smTotalSupplyShares st \<Longrightarrow> 0 \<le> smTotalSupplyShares st \<Longrightarrow>
       0 \<le> poolLiquidity st \<Longrightarrow> enginePool E \<in> set (lendPools s) \<Longrightarrow>
       accrueMarket E (loadedMarket (enginePool E) st) (loadedFees s (enginePool E)) = (m, f, ch) \<Longrightarrow> wp (g m f ch) Q R s) \<Longrightarrow>
    wp (bindE (accrueInterest E (loadedMarket (enginePool E) st)) (\<lambda>(m, f, ch). g m f ch)) Q R s"
proof (rule seq_load(3))
  show "pool_ok (enginePool E)" using assms(2) by (simp add: engine_at_def)
  fix m f ch
  assume st: "lendMarkets s (enginePool E) = Some st"
    and run: "accrueMarket E (loadedMarket (enginePool E) st) (loadedFees s (enginePool E)) = (m, f, ch)"
    and k: "\<And>m f ch. accrued st (loadedFees s (enginePool E)) m f \<Longrightarrow>
       TotalNHBSupplied m = TotalNHBBorrowed m + poolLiquidity st \<Longrightarrow>
       0 \<le> TotalNHBBorrowed m \<Longrightarrow> 0 < BorrowIndex m \<Longrightarrow> 0 < SupplyIndex m \<Longrightarrow> fees_ok f \<Longrightarrow>
       TotalSupplyShares m = smTotalSupplyShares st \<Longrightarrow> 0 \<le> smTotalSupplyShares st \<Longrightarrow>
       0 \<le> poolLiquidity st \<Longrightarrow> enginePool E \<in> set (lendPools s) \<Longrightarrow>
       accrueMarket E (loadedMarket (enginePool E) st) (loadedFees s (enginePool E)) = (m, f, ch) \<Longrightarrow> wp (g m f ch) Q R s"
  note A = lend_inv_run [OF assms st run]
  from lend_invD(4) [OF assms(1) st] have M: "market_nonneg st" "0 \<le> poolLiquidity st" "enginePool E \<in> set (lendPools s)"
    by simp_all
  show "wp (g m f ch) Q R s" by (rule k [OF A accruedD [OF A M(1,2)] M(2,3) run])
qed

lemma lend_inv_settle:
  assumes "lend_inv D mo co s" and "lendMarkets s p = Some st" and "accrued st f0 m0 f"
    and "chain_inv D t" and "lendPools t = lendPools s"
    and "lendFees t = (if ch then (lendFees s)(p \<mapsto> newStoredLendingFees f') else lendFees s)" and "fees_ok f'"
    and "lendUsers t = (lendUsers s)((p, a) \<mapsto> newStoredLendingUser u)"
    and "lendMarkets t = (lendMarkets s)(p \<mapsto> storedAt p m)"
    and "market_nonneg (storedAt p m)" and "user_nonneg (newStoredLendingUser u)" and "userAddress u = a"
    and "DeveloperFeeCollector m = DeveloperFeeCollector m0"
    and "0 \<le> TotalNHBSupplied m - TotalNHBBorrowed m"
    and "TotalSupplyShares m + SupplyShares (loadedUser s p a) = smTotalSupplyShares st + SupplyShares u"
    and "coinBalance D NHB s mo + (TotalNHBSupplied m - TotalNHBBorrowed m) \<le> coinBalance D NHB t mo + poolLiquidity st"
    and "coinBalance D ZNHB s co + CollateralZNHB u \<le> coinBalance D ZNHB t co + CollateralZNHB (loadedUser s p a)"
    and "totalSupply D NHB t \<le> totalSupply D NHB s"
  shows "lend_inv D mo co t"
proof -
  from assms(1) have B: "books mo co (\<lambda>c. coinBalance D c s) (lendMarkets s) (lendFees s) (lendUsers s) (lendPools s)"
    by (simp add: lend_inv_def)
  have coll: "smDeveloperCollector (storedAt p m) = smDeveloperCollector st"
    using assms(3,13) by (auto simp: accrued_def newStoredLendingMarket_def toMarket_def split: option.splits if_splits)
  have fees: "\<forall>p f. lendFees t p = Some f \<longrightarrow> fees_nonneg f"
    using assms(1,6,7) by (auto simp: lend_inv_def books_def records_ok_def fees_ok_def fees_nonneg_def newStoredLendingFees_def)
  have u: "oval (\<lambda>_. suSupplyShares) (lendUsers s) (p, a) = SupplyShares (loadedUser s p a)"
      "oval (\<lambda>_. suCollateralZNHB) (lendUsers s) (p, a) = CollateralZNHB (loadedUser s p a)"
    by (simp_all add: loadedUser_def toUserAccount_def split: option.splits)
  have "books mo co (\<lambda>c. coinBalance D c t) ((lendMarkets s)(p \<mapsto> storedAt p m)) (lendFees t)
      ((lendUsers s)((p, a) \<mapsto> newStoredLendingUser u)) (lendPools s)"
    by (rule books_market [OF B, where p = p and st = st])
      (use assms fees coll in \<open>auto simp: u lend_inv_def newStoredLendingUser_def newStoredLendingMarket_def poolLiquidity_def totalSupply_def\<close>)
  with assms show ?thesis by (simp add: lend_inv_def)
qed

section \<open>Every call keeps the books\<close>

lemma loadedUser_nonneg:
  assumes "lend_inv D mo co s"
  shows "0 \<le> CollateralZNHB (loadedUser s p a)" "0 \<le> SupplyShares (loadedUser s p a)"
    "0 \<le> DebtNHB (loadedUser s p a)" "0 \<le> ScaledDebt (loadedUser s p a)"
  using lend_invD(7) [OF assms, of p a] by (simp_all add: user_nonneg_def newStoredLendingUser_def)

lemma shares_nonneg: "0 < i \<Longrightarrow> 0 \<le> sharesFromLiquidity v i"
  by (auto simp: sharesFromLiquidity_def halfUp_def intro!: bigQuo_ge_0 add_nonneg_nonneg)

lemma stored_nonneg:
  "user_nonneg (newStoredLendingUser u) \<longleftrightarrow>
     0 \<le> CollateralZNHB u \<and> 0 \<le> SupplyShares u \<and> 0 \<le> DebtNHB u \<and> 0 \<le> ScaledDebt u"
  "market_nonneg (newStoredLendingMarket m) \<longleftrightarrow>
     0 \<le> TotalNHBSupplied m \<and> 0 \<le> TotalSupplyShares m \<and> 0 \<le> TotalNHBBorrowed m
     \<and> 0 \<le> SupplyIndex m \<and> 0 \<le> BorrowIndex m"
  by (simp_all add: newStoredLendingUser_def newStoredLendingMarket_def user_nonneg_def market_nonneg_def)

lemmas step_simps = Balance_coin same_recordsD stored_nonneg

text \<open>The end of a call: the fee totals, the user and the market are written. \<open>settled\<close> is what
  the books require of them; the market's debt may have become negative, which its encoding refuses.\<close>

definition settled ::
  "'d deps_scheme \<Rightarrow> address \<Rightarrow> address \<Rightarrow> 'x lstate_scheme \<Rightarrow> 'x lstate_scheme \<Rightarrow> string \<Rightarrow>
   storedLendingMarket \<Rightarrow> address \<Rightarrow> UserAccount \<Rightarrow> Market \<Rightarrow> bool" where
  "settled D mo co s t p st a u m \<longleftrightarrow>
     user_nonneg (newStoredLendingUser u) \<and> userAddress u = a
     \<and> 0 \<le> TotalNHBSupplied m - TotalNHBBorrowed m
     \<and> TotalSupplyShares m + SupplyShares (loadedUser s p a) = smTotalSupplyShares st + SupplyShares u
     \<and> coinBalance D NHB s mo + (TotalNHBSupplied m - TotalNHBBorrowed m) \<le> coinBalance D NHB t mo + poolLiquidity st
     \<and> coinBalance D ZNHB s co + CollateralZNHB u \<le> coinBalance D ZNHB t co + CollateralZNHB (loadedUser s p a)
     \<and> totalSupply D NHB t \<le> totalSupply D NHB s"

lemma settled_inv:
  assumes "lend_inv D mo co s" and "lendMarkets s p = Some st" and "accrued st f0 m0 f"
    and "chain_inv D t" and "same_records s t" and "settled D mo co s t p st a u m"
    and "market_nonneg (storedAt p m)" and "DeveloperFeeCollector m = DeveloperFeeCollector m0"
    and "fees_ok f'"
    and "v = t\<lparr>lendFees := (if ch then (lendFees t)(p \<mapsto> newStoredLendingFees f') else lendFees t),
      lendUsers := (lendUsers t)((p, a) \<mapsto> newStoredLendingUser u),
      lendMarkets := (lendMarkets t)(p \<mapsto> storedAt p m)\<rparr>"
  shows "lend_inv D mo co v"
  by (rule lend_inv_settle [OF assms(1-3), where ch = ch and f' = f' and u = u and m = m and a = a])
    (use assms(4-9) in \<open>simp_all add: assms(10) same_recordsD settled_def\<close>)

lemma user_inv:
  assumes "lend_inv D mo co s" and "chain_inv D t" and "same_records s t"
    and "user_nonneg (newStoredLendingUser u)" and "userAddress u = a"
    and "SupplyShares u = SupplyShares (loadedUser s p a)" and "coinBalance D NHB s mo \<le> coinBalance D NHB t mo"
    and "coinBalance D ZNHB s co + CollateralZNHB u \<le> coinBalance D ZNHB t co + CollateralZNHB (loadedUser s p a)"
    and "totalSupply D NHB t \<le> totalSupply D NHB s"
  shows "lend_inv D mo co (t\<lparr>lendUsers := (lendUsers t)((p, a) \<mapsto> newStoredLendingUser u)\<rparr>)"
proof -
  from assms(1) have B: "books mo co (\<lambda>c. coinBalance D c s) (lendMarkets s) (lendFees s) (lendUsers s) (lendPools s)"
    by (simp add: lend_inv_def)
  have u: "oval (\<lambda>_. suSupplyShares) (lendUsers s) (p, a) = SupplyShares (loadedUser s p a)"
      "oval (\<lambda>_. suCollateralZNHB) (lendUsers s) (p, a) = CollateralZNHB (loadedUser s p a)"
    by (simp_all add: loadedUser_def toUserAccount_def split: option.splits)
  have "books mo co (\<lambda>c. coinBalance D c t) (lendMarkets s) (lendFees s)
      ((lendUsers s)((p, a) \<mapsto> newStoredLendingUser u)) (lendPools s)"
    by (rule books_user [OF B])
      (use assms(4-9) in \<open>simp_all add: u totalSupply_def\<close>, simp_all add: newStoredLendingUser_def)
  with assms(2,3) show ?thesis by (simp add: lend_inv_def same_recordsD)
qed

lemma user_settled_inv:
  assumes "lend_inv D mo co s" and "chain_inv D t" and "same_records s t"
    and "settled D mo co s t p st a u m"
    and "SupplyShares u = SupplyShares (loadedUser s p a)" and "coinBalance D NHB s mo \<le> coinBalance D NHB t mo"
  shows "lend_inv D mo co (t\<lparr>lendUsers := (lendUsers t)((p, a) \<mapsto> newStoredLendingUser u)\<rparr>)"
  by (rule user_inv [OF assms(1-3)]) (use assms(4-6) in \<open>simp_all add: settled_def\<close>)

lemma seq_settle:
  assumes "lend_inv D mo co s" and "engine_at mo co E"
    and "lendMarkets s (enginePool E) = Some st" and "accrued st f0 m0 f" and "fees_ok f'"
    and "chain_inv D t" and "same_records s t" and "settled D mo co s t (enginePool E) st a u m"
    and "DeveloperFeeCollector m = DeveloperFeeCollector m0"
    and "0 \<le> TotalSupplyShares m" and "0 \<le> SupplyIndex m" and "0 \<le> BorrowIndex m"
  shows "0 \<le> TotalNHBBorrowed m \<Longrightarrow>
      wp (bindE (putFeesIf D E ch f') (\<lambda>_. bindE (LendingPutUserAccount D (enginePool E) u) (\<lambda>_.
        bindE (LendingPutMarket D (enginePool E) m) (\<lambda>_. retE x))))
        (\<lambda>_. lend_inv D mo co) (\<lambda>_. lend_inv D mo co) t"
    and "0 \<le> TotalNHBBorrowed m \<or>
        (SupplyShares u = SupplyShares (loadedUser s (enginePool E) a) \<and> coinBalance D NHB s mo \<le> coinBalance D NHB t mo) \<Longrightarrow>
      wp (bindE (LendingPutUserAccount D (enginePool E) u) (\<lambda>_.
        bindE (LendingPutMarket D (enginePool E) m) (\<lambda>_. bindE (putFeesIf D E ch f') (\<lambda>_. retE x))))
        (\<lambda>_. lend_inv D mo co) (\<lambda>_. lend_inv D mo co) t"
proof -
  let ?p = "enginePool E"
  note I = lend_invD [OF assms(1)]
  have P: "pool_ok ?p" using assms(2) by (simp add: engine_at_def)
  have idx: "?p \<in> set (lendPools t)" using I(4) [OF assms(3)] assms(7) by (simp add: same_recordsD)
  have u: "user_nonneg (newStoredLendingUser u)" "userAddress u = a" using assms(8) by (simp_all add: settled_def)
  have nn: "market_nonneg (storedAt ?p m) \<longleftrightarrow> 0 \<le> TotalNHBBorrowed m"
    using assms(8,10-12) by (auto simp: stored_nonneg settled_def)
  note fin = settled_inv [OF assms(1,3,4,6,7,8) _ assms(9,5), where ch = ch]
  show "wp (bindE (putFeesIf D E ch f') (\<lambda>_. bindE (LendingPutUserAccount D ?p u) (\<lambda>_.
        bindE (LendingPutMarket D ?p m) (\<lambda>_. retE x)))) (\<lambda>_. lend_inv D mo co) (\<lambda>_. lend_inv D mo co) t"
    if "0 \<le> TotalNHBBorrowed m"
    by (intro seq_put [OF I(2) P] seq_basic assms(5) u) (use idx that nn in \<open>auto simp: u intro: fin\<close>)
  show "wp (bindE (LendingPutUserAccount D ?p u) (\<lambda>_. bindE (LendingPutMarket D ?p m) (\<lambda>_.
        bindE (putFeesIf D E ch f') (\<lambda>_. retE x)))) (\<lambda>_. lend_inv D mo co) (\<lambda>_. lend_inv D mo co) t"
    if "0 \<le> TotalNHBBorrowed m \<or>
        (SupplyShares u = SupplyShares (loadedUser s ?p a) \<and> coinBalance D NHB s mo \<le> coinBalance D NHB t mo)"
    by (intro seq_put [OF I(2) P] seq_basic assms(5) u)
      (use idx that nn user_settled_inv [OF assms(1,6,7,8)] in \<open>auto simp: u intro: fin\<close>)
qed

lemma bindE_unit: "bindE m (\<lambda>_. retE ()) = m"
  by (auto simp: fun_eq_iff bindE_def retE_def split: prod.splits sum.splits)

lemmas seq_settle_last = seq_settle(1) [where x = "()", unfolded bindE_unit]

lemma liquidity_nonneg: "0 < i \<Longrightarrow> 0 \<le> liquidityFromShares v i"
  by (auto simp: liquidityFromShares_def halfRay_def intro!: bigQuo_ge_0 add_nonneg_nonneg)

lemma debt_nonneg: "0 \<le> v \<Longrightarrow> 0 \<le> i \<Longrightarrow> 0 \<le> debtFromScaled v i"
  by (auto simp: debtFromScaled_def halfRay_def intro!: bigQuo_ge_0 add_nonneg_nonneg)

lemma scaledDebt_nonneg: "0 < i \<Longrightarrow> 0 \<le> scaledDebtFromAmount v i"
  by (auto simp: scaledDebtFromAmount_def Let_def halfUp_def intro!: bigQuo_ge_0 add_nonneg_nonneg)

lemma syncDebt_simps [simp]:
  "userAddress (syncDebt u m) = userAddress u" "CollateralZNHB (syncDebt u m) = CollateralZNHB u"
  "SupplyShares (syncDebt u m) = SupplyShares u" "ScaledDebt (syncDebt u m) = ScaledDebt u"
  by (simp_all add: syncDebt_def)

lemma syncDebt_nonneg: "0 \<le> ScaledDebt u \<Longrightarrow> 0 < BorrowIndex m \<Longrightarrow> 0 \<le> DebtNHB (syncDebt u m)"
  by (simp add: syncDebt_def debt_nonneg)

text \<open>A user's shares are part of the pool's total.\<close>

lemma share_le_total:
  assumes "lend_inv D mo co s" and "lendMarkets s p = Some st"
  shows "SupplyShares (loadedUser s p a) \<le> smTotalSupplyShares st"
proof (cases "lendUsers s (p, a)")
  case None
  with lend_invD(4) [OF assms] show ?thesis by (simp add: loadedUser_def market_nonneg_def)
next
  case (Some u)
  have "shareAt p (p, a) u \<le> msum (shareAt p) (lendUsers s)"
    by (rule msum_single_le)
      (use assms(1) Some in \<open>auto simp: lend_inv_def books_def records_ok_def shareAt_def user_nonneg_def\<close>)
  with assms Some show ?thesis
    by (simp add: lend_inv_def books_def shareAt_def loadedUser_def toUserAccount_def)
qed

lemmas step_nonneg = shares_nonneg liquidity_nonneg debt_nonneg scaledDebt_nonneg syncDebt_nonneg

lemma Supply_inv:
  assumes "lend_inv D mo co s" and "engine_at mo co E" and "a \<noteq> mo"
  shows "wp (Supply D E a amt) (\<lambda>_. lend_inv D mo co) (\<lambda>_. lend_inv D mo co) s"
proof -
  note I = lend_invD [OF assms(1)] and U = loadedUser_nonneg [OF assms(1)]
  have P: "pool_ok (enginePool E)" and mo: "moduleAddress E = mo" using assms(2) by (simp_all add: engine_at_def)
  show ?thesis unfolding Supply_def mo
    by (intro seq_settle(1) [OF assms(1,2), where a = a] seq_basic seq_accrue [OF assms(1,2)]
        seq_load(1,2) [OF P] seq_move(1) [OF I(1,3) assms(3)])
      (simp_all add: assms step_simps step_nonneg U I(6) settled_def, simp_all)
qed

lemma Withdraw_inv:
  assumes "lend_inv D mo co s" and "engine_at mo co E" and "a \<noteq> mo"
  shows "wp (Withdraw D E a amt) (\<lambda>_. lend_inv D mo co) (\<lambda>_. lend_inv D mo co) s"
proof -
  note I = lend_invD [OF assms(1)] and U = loadedUser_nonneg [OF assms(1)]
  have P: "pool_ok (enginePool E)" and mo: "moduleAddress E = mo" using assms(2) by (simp_all add: engine_at_def)
  have le: "lendMarkets s p = Some st \<Longrightarrow> \<not> SupplyShares (loadedUser s p a) < v \<Longrightarrow> v \<le> smTotalSupplyShares st" for p st v
    using share_le_total [OF assms(1), of p st a] by linarith
  show ?thesis unfolding Withdraw_def mo
    by (intro seq_settle(1) [OF assms(1,2), where a = a] seq_basic seq_accrue [OF assms(1,2)]
        seq_load(1,2) [OF P] seq_move(1) [OF I(1,3) assms(3) [symmetric]])
      (simp_all add: assms assms(3) [symmetric] step_simps step_nonneg U I(6) settled_def le availableLiquidity_def Let_def
        split: if_splits, simp_all)
qed

lemma DepositCollateral_inv:
  assumes "lend_inv D mo co s" and "engine_at mo co E" and "a \<noteq> co"
  shows "wp (DepositCollateral D E a amt) (\<lambda>_. lend_inv D mo co) (\<lambda>_. lend_inv D mo co) s"
proof -
  note I = lend_invD [OF assms(1)] and U = loadedUser_nonneg [OF assms(1)]
  have P: "pool_ok (enginePool E)" and co: "collateralAddress E = co" using assms(2) by (simp_all add: engine_at_def)
  show ?thesis unfolding DepositCollateral_def co
    by (intro seq_basic seq_load(1,2) [OF P] seq_move(2) [OF I(1,3) assms(3)])
      (simp_all add: assms step_simps wp_putUser [OF I(2) P] U I(6),
       use user_inv [OF assms(1)] in \<open>simp_all add: step_simps U I(6)\<close>)
qed

lemma WithdrawCollateral_inv:
  assumes "lend_inv D mo co s" and "engine_at mo co E" and "a \<noteq> co"
  shows "wp (WithdrawCollateral D E a amt) (\<lambda>_. lend_inv D mo co) (\<lambda>_. lend_inv D mo co) s"
proof -
  note I = lend_invD [OF assms(1)] and U = loadedUser_nonneg [OF assms(1)]
  have P: "pool_ok (enginePool E)" and co: "collateralAddress E = co" using assms(2) by (simp_all add: engine_at_def)
  have le: "0 \<le> v - w" if "\<not> v < w" for v w :: int using that by simp
  show ?thesis unfolding WithdrawCollateral_def co
    by (intro seq_settle_last [OF assms(1,2), where a = a] seq_basic seq_accrue [OF assms(1,2)]
        seq_load(1,2) [OF P] seq_move(2) [OF I(1,3) assms(3) [symmetric]])
      (simp_all add: assms assms(3) [symmetric] step_simps step_nonneg U I(6) settled_def le, simp_all)
qed

lemma Repay_inv:
  assumes "lend_inv D mo co s" and "engine_at mo co E" and "a \<noteq> mo"
  shows "wp (Repay D E a amt) (\<lambda>_. lend_inv D mo co) (\<lambda>_. lend_inv D mo co) s"
proof -
  note I = lend_invD [OF assms(1)] and U = loadedUser_nonneg [OF assms(1)]
  have P: "pool_ok (enginePool E)" and mo: "moduleAddress E = mo" using assms(2) by (simp_all add: engine_at_def)
  have D0: "0 < BorrowIndex m \<Longrightarrow> 0 \<le> DebtNHB (syncDebt (loadedUser s p a) m)" for m p
    by (simp add: syncDebt_nonneg U)
  show ?thesis unfolding Repay_def mo
    by (intro seq_settle(2) [OF assms(1,2), where a = a] seq_basic seq_accrue [OF assms(1,2)]
        seq_load(1,2) [OF P] seq_move(1) [OF I(1,3) assms(3)])
      (simp_all add: assms step_simps step_nonneg U I(6) settled_def D0, simp_all add: D0 split: if_splits)
qed

lemma seq_prod: "(\<And>a b. x = (a, b) \<Longrightarrow> wp (g a b) Q R s) \<Longrightarrow> wp (case x of (a, b) \<Rightarrow> g a b) Q R s"
  by (cases x) simp

text \<open>Writing a list of accounts.\<close>

definition writes :: "coin \<Rightarrow> (address \<times> Account) list \<Rightarrow> (address \<Rightarrow> int) \<Rightarrow> address \<Rightarrow> int" where
  "writes c xs b = foldl (\<lambda>b x. b(fst x := coinOf c (snd x))) b xs"

lemma same_records_trans: "same_records s t \<Longrightarrow> same_records t u \<Longrightarrow> same_records s u"
  by (simp add: same_records_def)

lemma wp_persistAccounts:
  assumes "chain_inv D s" and "\<forall>x\<in>set xs. acct_fits (snd x)"
    and "\<And>t. chain_inv D t \<Longrightarrow> (\<And>c. coinBalance D c t = writes c xs (coinBalance D c s)) \<Longrightarrow>
      same_records s t \<Longrightarrow> Q () t"
  shows "wp (persistAccounts D xs) Q R s"
  using assms
proof (induction xs arbitrary: s)
  case Nil
  then show ?case by (simp add: wp_simps writes_def same_records_def)
next
  case (Cons x xs)
  have "wp (PutAccount D (fst x) (snd x)) (\<lambda>_. wp (persistAccounts D xs) Q R) R s"
  proof (rule wp_PutAccount_fits)
    show "chain_inv D s" "acct_fits (snd x)" using Cons.prems by simp_all
    fix u
    assume u: "chain_inv D u" "\<And>c. coinBalance D c u = (coinBalance D c s)(fst x := coinOf c (snd x))"
      "chain.more u = chain.more s"
    show "wp (persistAccounts D xs) Q R u"
    proof (rule Cons.IH [OF u(1)])
      show "\<forall>x\<in>set xs. acct_fits (snd x)" using Cons.prems(2) by simp
      fix t
      assume t: "chain_inv D t" "\<And>c. coinBalance D c t = writes c xs (coinBalance D c u)" "same_records u t"
      show "Q () t"
        by (rule Cons.prems(3)) (use t u in \<open>simp_all add: writes_def same_records_def\<close>)
    qed
  qed
  then show ?case by (simp add: wp_bindE)
qed

text \<open>The accounts a borrow writes.\<close>

definition borrowWrites ::
  "'d deps_scheme \<Rightarrow> 'x lstate_scheme \<Rightarrow> lengine \<Rightarrow> address \<Rightarrow> int \<Rightarrow> address option \<Rightarrow> int \<Rightarrow>
   (address \<times> Account) list" where
  "borrowWrites D s E b v r fee =
     [(moduleAddress E, acctOf D s (moduleAddress E)\<lparr>BalanceNHB := coinBalance D NHB s (moduleAddress E) - (v + fee)\<rparr>),
      (b, acctOf D s b\<lparr>BalanceNHB := coinBalance D NHB s b + v\<rparr>)]
     @ (case r of Some x \<Rightarrow> if fee > 0 then [(x, acctOf D s x\<lparr>BalanceNHB := coinBalance D NHB s x + fee\<rparr>)] else []
        | None \<Rightarrow> [])"

lemma borrowPay_run:
  "borrowPay D E b v r fee s =
     (if coinBalance D NHB s (moduleAddress E) < v + fee then (Inl errInsufficientLiquidity, s)
      else persistAccounts D (borrowWrites D s E b v r fee) s)"
  by (auto simp: borrowPay_def borrowWrites_def Let_def bindE_unit bindE_def GetAccount_acctOf retE_def failIf_def
      throwE_def Balance_coin split: option.splits sum.splits prod.splits)

lemma acct_fits_add:
  assumes "chain_inv D s" and "totalSupply D NHB s < 2 ^ 256" and "a \<noteq> b" and "0 \<le> v" and "v \<le> coinBalance D NHB s b"
  shows "acct_fits (acctOf D s a\<lparr>BalanceNHB := BalanceNHB (acctOf D s a) + v\<rparr>)"
  using two_le_total [OF assms(1,3), of NHB] assms(2-5) coinBalance_nonneg [OF assms(1), of NHB a]
  by (intro acct_fits_upd acctOf_fits [OF assms(1)]) (simp_all add: Balance_coin)

lemma acct_fits_sub:
  assumes "chain_inv D s" and "0 \<le> v" and "v \<le> coinBalance D NHB s a"
  shows "acct_fits (acctOf D s a\<lparr>BalanceNHB := BalanceNHB (acctOf D s a) - v\<rparr>)"
  using assms(2,3) acctOf_fits [OF assms(1), of a]
  by (intro acct_fits_upd acctOf_fits [OF assms(1)]) (simp_all add: Balance_coin acct_fits_def)

lemma writes_same:
  "\<forall>x\<in>set xs. coinOf c (snd x) = b (fst x) \<Longrightarrow> writes c xs b = b"
  by (induction xs) (simp_all add: writes_def fun_upd_idem)

lemma writes_append: "writes c (xs @ ys) b = writes c ys (writes c xs b)"
  by (simp add: writes_def)

lemma writes_other: "\<forall>x\<in>set xs. fst x \<noteq> y \<Longrightarrow> writes c xs b y = b y"
  by (induction xs arbitrary: b) (auto simp: writes_def)

lemma borrowWrites_fits:
  assumes "chain_inv D s" and "totalSupply D NHB s < 2 ^ 256" and "b \<noteq> moduleAddress E"
    and "r \<noteq> Some (moduleAddress E)" and "0 \<le> v" and "0 \<le> fee"
    and "v + fee \<le> coinBalance D NHB s (moduleAddress E)"
  shows "\<forall>x\<in>set (borrowWrites D s E b v r fee). acct_fits (snd x)"
  using acct_fits_sub [OF assms(1), of "v + fee" "moduleAddress E"] assms
    acct_fits_add [OF assms(1,2), of b "moduleAddress E" v] acct_fits_add [OF assms(1,2), of _ "moduleAddress E" fee]
  by (auto simp: borrowWrites_def Balance_coin split: option.splits)

lemma seq_borrowPay:
  assumes "chain_inv D s" and "totalSupply D NHB s < 2 ^ 256" and "b \<noteq> moduleAddress E"
    and "r \<noteq> Some (moduleAddress E)" and "0 \<le> v" and "0 \<le> fee"
    and "coinBalance D NHB s (moduleAddress E) < v + fee \<Longrightarrow> R errInsufficientLiquidity s"
    and k: "\<And>t. chain_inv D t \<Longrightarrow> v + fee \<le> coinBalance D NHB s (moduleAddress E) \<Longrightarrow>
      coinBalance D NHB t (moduleAddress E) = coinBalance D NHB s (moduleAddress E) - (v + fee) \<Longrightarrow>
      coinBalance D ZNHB t = coinBalance D ZNHB s \<Longrightarrow> same_records s t \<Longrightarrow>
      totalSupply D NHB t \<le> totalSupply D NHB s \<Longrightarrow>
      (r \<noteq> Some b \<or> fee = 0 \<longrightarrow> coinBalance D NHB t b = coinBalance D NHB s b + v) \<Longrightarrow>
      (\<forall>x. r = Some x \<longrightarrow> 0 < fee \<longrightarrow> coinBalance D NHB t x = coinBalance D NHB s x + fee) \<Longrightarrow> wp (k ()) Q R t"
  shows "wp (bindE (borrowPay D E b v r fee) k) Q R s"
proof (cases "coinBalance D NHB s (moduleAddress E) < v + fee")
  case True
  with assms(7) show ?thesis by (simp add: wp_bindE wp_def [of "borrowPay D E b v r fee"] borrowPay_run)
next
  case False
  let ?xs = "borrowWrites D s E b v r fee"
  from False have le: "v + fee \<le> coinBalance D NHB s (moduleAddress E)" by simp
  have "wp (persistAccounts D ?xs) (\<lambda>x. wp (k x) Q R) R s"
  proof (rule wp_persistAccounts [OF assms(1) borrowWrites_fits [OF assms(1-6) le]])
    fix t
    assume t: "chain_inv D t" "\<And>c. coinBalance D c t = writes c ?xs (coinBalance D c s)" "same_records s t"
    have "totalSupply D NHB t \<le> totalSupply D NHB s"
      using assms(3-6) unfolding totalSupply_allOf t(2)
      by (auto simp: writes_def borrowWrites_def allOf_upd split: option.splits)
    moreover have "writes ZNHB ?xs (coinBalance D ZNHB s) = coinBalance D ZNHB s"
      by (rule writes_same) (auto simp: borrowWrites_def Balance_coin split: option.splits)
    moreover have "writes NHB ?xs (coinBalance D NHB s) (moduleAddress E)
        = coinBalance D NHB s (moduleAddress E) - (v + fee)"
      using assms(3,4) by (auto simp: writes_def borrowWrites_def split: option.splits)
    moreover have "r \<noteq> Some b \<or> fee = 0 \<Longrightarrow> writes NHB ?xs (coinBalance D NHB s) b = coinBalance D NHB s b + v"
      by (auto simp: writes_def borrowWrites_def split: option.splits)
    moreover have "r = Some x \<Longrightarrow> 0 < fee \<Longrightarrow> writes NHB ?xs (coinBalance D NHB s) x = coinBalance D NHB s x + fee" for x
      by (simp add: writes_def borrowWrites_def)
    ultimately show "wp (k ()) Q R t" by (intro k t(1,3) le) (auto simp: t(2))
  qed
  with False show ?thesis
    by (simp add: wp_bindE wp_def [of "borrowPay D E b v r fee"] wp_def [of "persistAccounts D ?xs"] borrowPay_run)
qed

lemma borrowCaps_same:
  assumes "borrowCaps E m v = Inr m'"
  shows "TotalNHBSupplied m' = TotalNHBSupplied m" "TotalNHBBorrowed m' = TotalNHBBorrowed m"
    "TotalSupplyShares m' = TotalSupplyShares m" "BorrowIndex m' = BorrowIndex m"
    "SupplyIndex m' = SupplyIndex m" "DeveloperFeeCollector m' = DeveloperFeeCollector m"
  using assms by (auto simp: borrowCaps_def Let_def)

lemma borrowFee_recipient:
  assumes "borrowFee E r b = Inr (r', b')"
  shows "r' = r \<or> r' = developerFeeAddr E" and "b' > 0 \<Longrightarrow> r' \<noteq> None"
  using assms by (auto simp: borrowFee_def split: if_splits)

lemma putFees_merge:
  "(if b then LendingPutFeeAccrual D p f1 else if ch then LendingPutFeeAccrual D p f2 else retE ())
   = (if b \<or> ch then LendingPutFeeAccrual D p (if b then f1 else f2) else retE ())"
  by simp

lemma Borrow_inv:
  assumes "lend_inv D mo co s" and "engine_at mo co E" and "a \<noteq> mo"
    and "r \<noteq> Some mo" and "developerFeeAddr E \<noteq> Some mo"
  shows "wp (Borrow D E a amt r bps) (\<lambda>_. lend_inv D mo co) (\<lambda>_. lend_inv D mo co) s"
proof -
  note I = lend_invD [OF assms(1)] and U = loadedUser_nonneg [OF assms(1)]
  have P: "pool_ok (enginePool E)" and mo: "moduleAddress E = mo" using assms(2) by (simp_all add: engine_at_def)
  have rec: "r' \<noteq> Some mo" if "borrowFee E r bps = Inr (r', b)" for r' b
    using borrowFee_recipient(1) [OF that] assms(4,5) by auto
  have fee: "0 \<le> (if 0 < b then bigQuo (amt * uint b) basisPoints else 0)" if "\<not> amt \<le> 0" for b :: u64
    using that by (simp add: bigQuo_ge_0 basisPoints_def)
  have fo: "fees_ok (if 0 < v then f\<lparr>DeveloperFeesWei := DeveloperFeesWei f + v\<rparr> else f)" if "fees_ok f" for f v
    using that by (simp add: fees_ok_def)
  have nn: "0 \<le> amt + v" if "\<not> amt \<le> 0" and "0 \<le> v" for v using that by simp
  show ?thesis unfolding Borrow_def putFees_merge
    by (intro seq_settle(2) [OF assms(1,2), where a = a] seq_basic seq_accrue [OF assms(1,2)]
        seq_load(1,2) [OF P] seq_prod seq_borrowPay [OF I(1,3)])
      (simp_all add: assms(1-3) mo step_simps step_nonneg U I(6) settled_def rec fee fo borrowCaps_same
        split del: if_split cong: if_cong,
       simp_all add: fo availableLiquidity_def Let_def borrowCaps_same split: if_splits)
qed

text \<open>The account of a collateral target with its share added.\<close>

definition shareWrites ::
  "'d deps_scheme \<Rightarrow> 'x lstate_scheme \<Rightarrow> address option \<Rightarrow> int \<Rightarrow> (address \<times> Account) option" where
  "shareWrites D s target share = (case target of
     Some a \<Rightarrow> if share > 0 then Some (a, acctOf D s a\<lparr>BalanceZNHB := BalanceZNHB (acctOf D s a) + share\<rparr>) else None
   | None \<Rightarrow> None)"

lemma seq_share:
  "wp (k (shareWrites D s target share)) Q R s \<Longrightarrow> wp (bindE (loadShareAccount D target share) k) Q R s"
  by (auto simp: loadShareAccount_def shareWrites_def wp_simps split: option.splits)

lemma shareWrites_props:
  assumes "chain_inv D s" and "shareWrites D s target share = Some x"
  shows "acct_fits (snd x)" and "coinOf NHB (snd x) = coinBalance D NHB s (fst x)" and "target = Some (fst x)"
  using assms acctOf_fits [OF assms(1)] coinBalance_nonneg [OF assms(1), of ZNHB]
  by (auto simp: shareWrites_def Balance_coin split: option.splits if_splits intro!: acct_fits_upd)

definition liquidationWrites ::
  "'d deps_scheme \<Rightarrow> 'x lstate_scheme \<Rightarrow> lengine \<Rightarrow> address \<Rightarrow> address \<Rightarrow> int \<Rightarrow> int \<Rightarrow> int \<Rightarrow> (address \<times> Account) list"
where
  "liquidationWrites D s E liq bor repay lshare seize =
     [(liq, acctOf D s liq\<lparr>BalanceNHB := BalanceNHB (acctOf D s liq) - repay,
                           BalanceZNHB := BalanceZNHB (acctOf D s liq) + lshare\<rparr>),
      (bor, acctOf D s bor),
      (moduleAddress E, acctOf D s (moduleAddress E)\<lparr>BalanceNHB := BalanceNHB (acctOf D s (moduleAddress E)) + repay\<rparr>),
      (collateralAddress E,
       acctOf D s (collateralAddress E)\<lparr>BalanceZNHB := BalanceZNHB (acctOf D s (collateralAddress E)) - seize\<rparr>)]"

lemma liquidationWrites_fits:
  assumes "chain_inv D s" and "totalSupply D NHB s < 2 ^ 256" and "liq \<noteq> moduleAddress E"
    and "0 \<le> repay" and "repay \<le> coinBalance D NHB s liq" and "0 \<le> lshare"
    and "seize \<le> coinBalance D ZNHB s (collateralAddress E)"
  shows "\<forall>x\<in>set (liquidationWrites D s E liq bor repay lshare seize). acct_fits (snd x)"
proof -
  have "acct_fits ((acctOf D s liq\<lparr>BalanceNHB := BalanceNHB (acctOf D s liq) - repay\<rparr>)
      \<lparr>BalanceZNHB := BalanceZNHB (acctOf D s liq) + lshare\<rparr>)"
    using acct_fits_sub [OF assms(1,4,5)] coinBalance_nonneg [OF assms(1), of ZNHB liq] assms(6)
    by (intro acct_fits_upd(2)) (simp_all add: Balance_coin)
  moreover have "acct_fits (acctOf D s (moduleAddress E)\<lparr>BalanceNHB := BalanceNHB (acctOf D s (moduleAddress E)) + repay\<rparr>)"
    by (rule acct_fits_add [OF assms(1,2), of _ liq]) (use assms in auto)
  moreover have "acct_fits (acctOf D s (collateralAddress E)
      \<lparr>BalanceZNHB := BalanceZNHB (acctOf D s (collateralAddress E)) - seize\<rparr>)"
    using assms(7) by (intro acct_fits_upd(2) acctOf_fits [OF assms(1)]) (simp add: Balance_coin)
  ultimately show ?thesis using acctOf_fits [OF assms(1)] by (simp add: liquidationWrites_def)
qed

lemma seq_liquidatePersist:
  assumes "chain_inv D s" and "totalSupply D NHB s < 2 ^ 256"
    and "liq \<notin> {moduleAddress E, collateralAddress E, bor}" and "moduleAddress E \<noteq> collateralAddress E"
    and "\<forall>t\<in>{dt, pt}. t \<notin> {Some (moduleAddress E), Some (collateralAddress E), Some liq}"
    and "0 \<le> repay" and "repay \<le> coinBalance D NHB s liq" and "0 \<le> lshare"
    and "seize \<le> coinBalance D ZNHB s (collateralAddress E)"
    and k: "\<And>t. chain_inv D t \<Longrightarrow>
      coinBalance D NHB t (moduleAddress E) = coinBalance D NHB s (moduleAddress E) + repay \<Longrightarrow>
      coinBalance D ZNHB t (collateralAddress E) = coinBalance D ZNHB s (collateralAddress E) - seize \<Longrightarrow>
      same_records s t \<Longrightarrow> totalSupply D NHB t \<le> totalSupply D NHB s \<Longrightarrow> wp (k ()) Q R t"
  shows "wp (bindE (liquidatePersist D (liquidationWrites D s E liq bor repay lshare seize)
      (shareWrites D s dt ds) (shareWrites D s pt ps)) k) Q R s"
proof -
  let ?ts = "(case shareWrites D s dt ds of Some x \<Rightarrow> [x] | None \<Rightarrow> []) @ (case shareWrites D s pt ps of Some x \<Rightarrow> [x] | None \<Rightarrow> [])"
  let ?xs = "liquidationWrites D s E liq bor repay lshare seize @ ?ts"
  have ts: "acct_fits (snd x)" "coinOf NHB (snd x) = coinBalance D NHB s (fst x)"
      "fst x \<noteq> moduleAddress E" "fst x \<noteq> collateralAddress E" "fst x \<noteq> liq" if "x \<in> set ?ts" for x
    using that assms(5) shareWrites_props [OF assms(1), of dt ds x] shareWrites_props [OF assms(1), of pt ps x]
    by (auto split: option.splits)
  have other: "writes c ?ts b (collateralAddress E) = b (collateralAddress E)" for c b
    by (rule writes_other) (use ts(4) in blast)
  have same: "writes NHB ?ts b = b"
    if "\<forall>x\<in>set ?ts. coinBalance D NHB s (fst x) = b (fst x)" for b
    by (rule writes_same) (use that ts(2) in metis)
  have "wp (persistAccounts D ?xs) (\<lambda>x. wp (k x) Q R) R s"
  proof (rule wp_persistAccounts [OF assms(1)])
    show "\<forall>x\<in>set ?xs. acct_fits (snd x)"
      using liquidationWrites_fits [OF assms(1,2) _ assms(6-9), of bor] assms(3) ts(1)
      by (auto simp del: set_append simp: set_append [of "liquidationWrites D s E liq bor repay lshare seize"])
    fix t
    assume t: "chain_inv D t" "\<And>c. coinBalance D c t = writes c ?xs (coinBalance D c s)" "same_records s t"
    let ?b = "writes NHB (liquidationWrites D s E liq bor repay lshare seize) (coinBalance D NHB s)"
    have b: "?b = (coinBalance D NHB s)(liq := coinBalance D NHB s liq - repay,
        moduleAddress E := coinBalance D NHB s (moduleAddress E) + repay)"
      using assms(3,4) by (auto simp: writes_def liquidationWrites_def Balance_coin fun_eq_iff)
    have "coinBalance D NHB t = writes NHB ?ts ?b" by (simp only: t(2) writes_append)
    also have "\<dots> = ?b" by (rule same) (use ts(3,5) in \<open>simp add: b\<close>)
    finally have tb: "coinBalance D NHB t = ?b" .
    show "wp (k ()) Q R t"
    proof (rule k [OF t(1) _ _ t(3)])
      show "coinBalance D NHB t (moduleAddress E) = coinBalance D NHB s (moduleAddress E) + repay"
        by (simp add: tb b)
      show "coinBalance D ZNHB t (collateralAddress E) = coinBalance D ZNHB s (collateralAddress E) - seize"
        unfolding t(2) writes_append [of _ _ ?ts] other by (simp add: writes_def liquidationWrites_def Balance_coin)
      show "totalSupply D NHB t \<le> totalSupply D NHB s"
        using assms(3) by (auto simp: totalSupply_allOf tb b allOf_upd)
    qed
  qed
  then show ?thesis by (simp add: liquidatePersist_def wp_bindE)
qed

lemma routeCollateral_nonneg: "routeCollateral c v = Inr (l, d, p) \<Longrightarrow> 0 \<le> l"
  by (auto simp: routeCollateral_def Let_def split: if_splits)

lemma seizeAmountOf_le: "seizeAmountOf E v w \<le> w"
  by (simp add: seizeAmountOf_def Let_def)

lemma Liquidate_inv:
  assumes "lend_inv D mo co s" and "engine_at mo co E" and "liq \<notin> {mo, co, bor}"
    and "\<forall>t\<in>{DeveloperTarget (collateralRouting E), ProtocolTarget (collateralRouting E)}.
      t \<notin> {Some mo, Some co, Some liq}"
  shows "wp (Liquidate D E liq bor) (\<lambda>_. lend_inv D mo co) (\<lambda>_. lend_inv D mo co) s"
proof -
  note I = lend_invD [OF assms(1)] and U = loadedUser_nonneg [OF assms(1)]
  have P: "pool_ok (enginePool E)" and mo: "moduleAddress E = mo" and co: "collateralAddress E = co" and ne: "mo \<noteq> co"
    using assms(2) by (simp_all add: engine_at_def)
  note seq = seq_liquidatePersist [OF I(1,3), unfolded liquidationWrites_def]
  show ?thesis unfolding Liquidate_def
    by (intro seq_settle(2) [OF assms(1,2), where a = bor] seq_basic seq_accrue [OF assms(1,2)]
        seq_load(1,2) [OF P] seq_prod seq_share seq)
      (simp_all add: assms(1,2) mo co ne step_simps step_nonneg U I(6) settled_def routeCollateral_nonneg seizeAmountOf_le,
       use assms(3,4) in simp_all)
qed

text \<open>What is asked of the node's configuration: the module accounts differ from each other and from
  the accounts fees and seized collateral go to, and no rate of the interest model is negative.\<close>

definition node_ok :: "address \<Rightarrow> address \<Rightarrow> lending_node \<Rightarrow> bool" where
  "node_ok mo co N \<longleftrightarrow> lendingModuleAddr N = mo \<and> lendingCollateralAddr N = co \<and> mo \<noteq> co
     \<and> (case lendingInterestModel N of None \<Rightarrow> True | Some m \<Rightarrow> model_ok m)
     \<and> lendingDeveloperFeeCollector N \<noteq> Some mo
     \<and> (\<forall>t\<in>{DeveloperTarget (lendingCollateralRouting N), ProtocolTarget (lendingCollateralRouting N)}.
          t \<notin> {Some mo, Some co})"

lemma pool_ok_trim: "pool_ok (trimSpace (poolOf p))"
  by (auto simp: pool_ok_def poolOf_def Let_def) (simp add: trimSpace_def isSpace_def)

lemma poolOf_trim: "trimSpace (poolOf p) = poolOf p"
  by (auto simp: poolOf_def Let_def) (simp add: trimSpace_def isSpace_def)

lemma collector_ne:
  assumes "lend_inv D mo co s" and "lendMarkets s p = Some st"
  shows "DeveloperFeeCollector (toMarket st) \<noteq> Some mo"
  using assms by (auto simp: lend_inv_def books_def records_ok_def toMarket_def split: if_splits)

text \<open>The engine a call runs with.\<close>

lemma wp_withEngine:
  assumes "lend_inv D mo co s" and "node_ok mo co N"
    and "\<And>E. engine_at mo co E \<Longrightarrow> developerFeeAddr E \<noteq> Some mo \<Longrightarrow>
      collateralRouting E = lendingCollateralRouting N \<Longrightarrow> lparams E = lendingParams N \<Longrightarrow>
      enginePool E = poolOf p \<Longrightarrow> wp (fn E) Q R s"
  shows "wp (withEngine N p fn) Q R s"
proof -
  have P: "pool_ok (poolOf p)" using pool_ok_trim [of p] by (simp add: poolOf_trim)
  show ?thesis
    using assms(2) collector_ne [OF assms(1), of "poolOf p"]
    by (auto simp: withEngine_def LendingGetMarket_def wp_simps normalizePoolID_ok [OF P] Let_def
        split: option.splits intro!: assms(3))
      (auto simp: engine_at_def engine_ok_def node_ok_def P poolOf_trim)
qed

lemma books_create:
  assumes "books mo co b M F U P" and "M p = None" and "market_nonneg st" and "poolLiquidity st = 0"
    and "smTotalSupplyShares st = 0" and "smDeveloperCollector st = mo \<longrightarrow> mo = 0" and "pool_ok p"
  shows "books mo co b (M(p \<mapsto> st)) F U (P @ [p])"
proof -
  have fin: "finite (dom M)" using assms(1) by (simp add: books_def records_ok_def)
  have "msum (shareAt q) U = oval (\<lambda>_. smTotalSupplyShares) (M(p \<mapsto> st)) q" for q
    using assms(1,2,5) by (auto simp: books_def dest: spec [of _ p])
  with assms show ?thesis by (auto simp: books_def records_ok_def msum_upd [OF fin])
qed

lemma CreatePool_inv:
  assumes "lend_inv D mo co s" and "node_ok mo co N"
  shows "wp (CreatePool D N p owner) (\<lambda>_. lend_inv D mo co) (\<lambda>_. lend_inv D mo co) s"
proof (cases "trimSpace p = [] \<or> lendMarkets s (trimSpace p) \<noteq> None")
  case True
  with assms(1) show ?thesis
    by (auto simp: CreatePool_def LendingGetMarket_def wp_simps Let_def normalizePoolID_def split: option.splits)
next
  case False
  let ?p = "trimSpace p"
  from False have P: "pool_ok ?p" by (simp add: pool_ok_def)
  have dm: "dom (lendMarkets s) = set (lendPools s)" and ok: "\<forall>q st. lendMarkets s q = Some st \<longrightarrow> trimSpace q = q"
    using assms(1) by (simp_all add: lend_inv_def books_def records_ok_def pool_ok_def)
  have new: "?p \<notin> set (lendPools s)" using False dm by (metis domIff)
  have trims: "\<forall>q\<in>set (lendPools s). trimSpace q = q" using dm ok by (metis domD)
  have "map trimSpace (lendPools s) = lendPools s" using trims by (simp add: map_idI)
  with False assms new P show ?thesis
    by (simp add: CreatePool_def LendingGetMarket_def LendingPutMarket_def wp_simps Let_def
        lendingEnsurePoolIndexed_def lendingSavePoolIDs_def lend_inv_def chain_inv_def deps_ok_def rlpFails_def newStoredLendingMarket_def)
      (auto intro!: books_create simp: market_nonneg_def poolLiquidity_def node_ok_def split: option.splits)
qed

end
