(* ===== verification/LendingTheorems.thy ===== *)
theory LendingTheorems
  imports LendingProps
begin

text \<open>
  What the lending module guarantees. \<open>lend_reach\<close> are the states reached by calls of the RPC module,
  whatever their outcome, and by changes of accounts by the rest of the chain that take nothing from
  the two module accounts. The configuration may change from call to call; excluded are one whose fee
  collector or collateral routing targets are the module's own accounts (\<open>node_ok\<close>), callers that are
  those accounts, and a liquidator who is the borrower or a routing target (\<open>call_ok\<close>): for
  these the books do not balance, as \<open>self_liquidation\<close> of \<open>LendingCalls\<close> shows. The books balance in every
  reachable state; suppliers can redeem whatever the market's own books say is there; and the
  places where the code departs from what it intends are stated as they are.
\<close>

section \<open>Calls and reachable states\<close>

datatype lend_call =
  CallSupply string address int
| CallWithdraw string address int
| CallDeposit string address int
| CallWithdrawCollateral string address int
| CallBorrow string address int
| CallBorrowWithFee string address int
| CallRepay string address int
| CallLiquidate string address address
| CallCreatePool string address

definition dropE :: "('s, 'a) op \<Rightarrow> ('s, unit) op" where
  "dropE m = bindE m (\<lambda>_. retE ())"

primrec runLend :: "'d deps_scheme \<Rightarrow> lending_node \<Rightarrow> lend_call \<Rightarrow> ('x lstate_scheme, unit) op" where
  "runLend D N (CallSupply p a v) = dropE (SupplyNHB D N p a v)"
| "runLend D N (CallWithdraw p a v) = dropE (WithdrawNHB D N p a v)"
| "runLend D N (CallDeposit p a v) = dropE (DepositZNHB D N p a v)"
| "runLend D N (CallWithdrawCollateral p a v) = dropE (WithdrawZNHB D N p a v)"
| "runLend D N (CallBorrow p a v) = dropE (BorrowNHB D N p a v)"
| "runLend D N (CallBorrowWithFee p a v) = dropE (BorrowNHBWithFee D N p a v)"
| "runLend D N (CallRepay p a v) = dropE (RepayNHB D N p a v)"
| "runLend D N (CallLiquidate p l b) = dropE (LiquidateNHB D N p l b)"
| "runLend D N (CallCreatePool p a) = dropE (CreatePool D N p a)"

text \<open>The callers are not the module's own accounts, and a liquidator liquidates someone else and is
  not a collateral target.\<close>

fun call_ok :: "address \<Rightarrow> address \<Rightarrow> lending_node \<Rightarrow> lend_call \<Rightarrow> bool" where
  "call_ok mo co N (CallLiquidate p l b) \<longleftrightarrow> l \<notin> {mo, co, b}
     \<and> Some l \<noteq> DeveloperTarget (lendingCollateralRouting N)
     \<and> Some l \<noteq> ProtocolTarget (lendingCollateralRouting N)"
| "call_ok mo co N (CallCreatePool p a) \<longleftrightarrow> True"
| "call_ok mo co N (CallSupply p a v) \<longleftrightarrow> a \<notin> {mo, co}"
| "call_ok mo co N (CallWithdraw p a v) \<longleftrightarrow> a \<notin> {mo, co}"
| "call_ok mo co N (CallDeposit p a v) \<longleftrightarrow> a \<notin> {mo, co}"
| "call_ok mo co N (CallWithdrawCollateral p a v) \<longleftrightarrow> a \<notin> {mo, co}"
| "call_ok mo co N (CallBorrow p a v) \<longleftrightarrow> a \<notin> {mo, co}"
| "call_ok mo co N (CallBorrowWithFee p a v) \<longleftrightarrow> a \<notin> {mo, co}"
| "call_ok mo co N (CallRepay p a v) \<longleftrightarrow> a \<notin> {mo, co}"

inductive lend_reach :: "'d deps_scheme \<Rightarrow> address \<Rightarrow> address \<Rightarrow> 'x lstate_scheme \<Rightarrow> bool"
  for D mo co where
  init: "chain_inv D s \<Longrightarrow> totalSupply D NHB s < 2 ^ 256 \<Longrightarrow> lendMarkets s = Map.empty \<Longrightarrow>
    lendFees s = Map.empty \<Longrightarrow> lendUsers s = Map.empty \<Longrightarrow> lendPools s = [] \<Longrightarrow> lend_reach D mo co s"
| call: "lend_reach D mo co s \<Longrightarrow> node_ok mo co N \<Longrightarrow> call_ok mo co N c \<Longrightarrow>
    runLend D N c s = (r, t) \<Longrightarrow> lend_reach D mo co t"
| other: "lend_reach D mo co s \<Longrightarrow> chain_inv D t \<Longrightarrow> same_records s t \<Longrightarrow>
    coinBalance D NHB s mo \<le> coinBalance D NHB t mo \<Longrightarrow>
    coinBalance D ZNHB s co \<le> coinBalance D ZNHB t co \<Longrightarrow>
    totalSupply D NHB t < 2 ^ 256 \<Longrightarrow> lend_reach D mo co t"

inductive_cases lend_reachE: "lend_reach D mo co s"

lemma wp_dropE: "wp (dropE m) Q R s = wp m (\<lambda>_. Q ()) R s"
  by (auto simp: dropE_def wp_def bindE_def retE_def split: prod.splits sum.splits)

lemma BorrowNHBWithFee_inv:
  assumes "lend_inv D mo co s" and "node_ok mo co N" and "a \<notin> {mo, co}"
  shows "wp (BorrowNHBWithFee D N p a v) (\<lambda>_. lend_inv D mo co) (\<lambda>_. lend_inv D mo co) s"
proof -
  have P: "pool_ok (poolOf p)" using pool_ok_trim [of p] by (simp add: poolOf_trim)
  have "wp (withEngine N p (\<lambda>E. Borrow D E a v (Some c) b)) (\<lambda>_. lend_inv D mo co) (\<lambda>_. lend_inv D mo co) s"
    if "c \<noteq> mo" for c b
    by (rule wp_withEngine [OF assms(1,2)]) (use assms that in \<open>auto intro!: Borrow_inv\<close>)
  then show ?thesis
    using assms(1) collector_ne [OF assms(1), of "poolOf p"]
    by (auto simp: BorrowNHBWithFee_def LendingGetMarket_def wp_simps normalizePoolID_ok [OF P] split: option.splits)
qed

lemma runLend_inv:
  assumes "lend_inv D mo co s" and "node_ok mo co N" and "call_ok mo co N c"
  shows "wp (runLend D N c) (\<lambda>_. lend_inv D mo co) (\<lambda>_. lend_inv D mo co) s"
proof -
  note E = wp_withEngine [OF assms(1,2)]
  have routing: "DeveloperTarget (lendingCollateralRouting N) \<noteq> Some x" "ProtocolTarget (lendingCollateralRouting N) \<noteq> Some x"
    if "x \<in> {mo, co}" for x using that assms(2) by (auto simp: node_ok_def)
  show ?thesis
    using assms(3)
    by (cases c) (auto simp: wp_dropE SupplyNHB_def WithdrawNHB_def DepositZNHB_def WithdrawZNHB_def BorrowNHB_def
        RepayNHB_def LiquidateNHB_def routing
        intro!: E Supply_inv Withdraw_inv DepositCollateral_inv WithdrawCollateral_inv Borrow_inv Repay_inv Liquidate_inv
          BorrowNHBWithFee_inv CreatePool_inv assms(1,2))
qed

lemma lend_reach_inv: "lend_reach D mo co s \<Longrightarrow> lend_inv D mo co s"
proof (induction rule: lend_reach.induct)
  case (init s)
  then show ?case
    by (auto simp: lend_inv_def books_def records_ok_def totalSupply_def intro: coinBalance_nonneg)
next
  case (call s N c r t)
  from runLend_inv [OF call.IH call.hyps(2,3)] call.hyps(4) show ?case
    by (cases r) (auto dest: wp_ok wp_err)
next
  case (other s t)
  then show ?case by (simp add: lend_inv_def books_def same_recordsD totalSupply_def)
qed

section \<open>A concrete chain\<close>

text \<open>Module account 1, collateral account 2; account 7 holds NHB and account 8 holds ZNHB.\<close>

definition sampleRisk :: RiskParameters where
  "sampleRisk = \<lparr>MaxLTV = 7000, LiquidationThreshold = 8000, LiquidationBonus = 500, OracleAddress = None,
     CircuitBreakerActive = False, DeveloperFeeCapBps = 100,
     riskCaps = \<lparr>PerBlock = 0, capTotal = 0, UtilisationBps = 0\<rparr>,
     riskOracle = \<lparr>MaxAgeBlocks = 0, MaxDeviationBps = 0\<rparr>,
     riskPauses = \<lparr>pauseSupply = False, pauseBorrow = False, pauseRepay = False, pauseLiquidate = False\<rparr>\<rparr>"

definition sampleNode :: lending_node where
  "sampleNode = \<lparr>lendingModuleAddr = 1, lendingCollateralAddr = 2, lendingParams = sampleRisk,
     lendingInterestModel = None, lendingReserveFactorBps = 0, lendingProtocolFeeBps = 0,
     lendingDeveloperFeeBps = 0, lendingDeveloperFeeCollector = None,
     lendingCollateralRouting = \<lparr>LiquidatorBps = 10000, DeveloperBps = 0, DeveloperTarget = None,
       ProtocolBps = 0, ProtocolTarget = None\<rparr>,
     nodeHeight = 100, nodePauses = None, treasuryAllowList = []\<rparr>"

definition sampleAccount :: "int \<Rightarrow> stored_account" where
  "sampleAccount v = Full \<lparr>saNonce = 0, saBalance = v, saRoot = 1, saCodeHash = hashBytes 2\<rparr>"

definition sampleLend :: lstate where
  "sampleLend = \<lparr>stateAccounts = [7 \<mapsto> sampleAccount 5000000000000000000],
     accountMetas = [8 \<mapsto> emptyMetadata\<lparr>mBalanceZNHB := 900\<rparr>], stakingSnaps = Map.empty, events = [],
     lendMarkets = Map.empty, lendFees = Map.empty, lendUsers = Map.empty, lendPools = []\<rparr>"

lemma acctOf_records:
  "BalanceNHB (acctOf D s a) = (case loadedState D s a of None \<Rightarrow> 0 | Some sa \<Rightarrow> saBalance sa)"
  "accountMeta (acctOf D s a) = loadedMeta s a"
  by (simp_all add: acctOf_eq assembleAccount_def ensureAccountDefaults_def accountMeta_def)

lemmas loaded_defs = loadedState_def loadStateAccount_def loadedMeta_def loadAccountMetadata_def getsE_def

lemma chain_inv_sample:
  assumes "\<And>a. case stateAccounts s a of None \<Rightarrow> True | Some (Full sa) \<Rightarrow> 0 \<le> saBalance sa \<and> saBalance sa < 2 ^ 256 | _ \<Rightarrow> False"
    and "\<And>a. case accountMetas s a of None \<Rightarrow> True | Some m \<Rightarrow> list_all (\<lambda>x. 0 \<le> x) (metaBigInts m)"
  shows "chain_inv refDeps s"
proof -
  have "acct_fits (acctOf refDeps s a)" for a
    using assms(1) [of a] assms(2) [of a]
    by (auto simp: acct_fits_def acct_nonneg_def acctOf_records loaded_defs metaBigInts_def emptyMetadata_def
        split: option.splits stored_account.splits)
  then show ?thesis by (simp add: chain_inv_def refDeps_ok)
qed

lemma sampleLend_inv: "chain_inv refDeps sampleLend"
  by (rule chain_inv_sample) (auto simp: sampleLend_def sampleAccount_def metaBigInts_def emptyMetadata_def)

lemma sampleLend_balance:
  "coinBalance refDeps NHB sampleLend = (\<lambda>_. 0)(7 := 5000000000000000000)"
  by (auto simp: fun_eq_iff coinBalance_def acctOf_records loaded_defs sampleLend_def sampleAccount_def)

lemma sampleLend_reach: "lend_reach refDeps 1 2 sampleLend"
  by (rule lend_reach.init [OF sampleLend_inv])
    (simp_all add: totalSupply_allOf sampleLend_balance allOf_upd, simp_all add: allOf_def sampleLend_def)

lemma sampleNode_ok: "node_ok 1 2 sampleNode"
  by (simp add: node_ok_def sampleNode_def)

definition samplePool :: lstate where
  "samplePool = snd (CreatePool refDeps sampleNode ''p'' 9 sampleLend)"

definition sampleSupplied :: lstate where
  "sampleSupplied = snd (SupplyNHB refDeps sampleNode ''p'' 7 2000000000000000000 samplePool)"

lemma reach_run: "lend_reach D mo co s \<Longrightarrow> node_ok mo co N \<Longrightarrow> call_ok mo co N c \<Longrightarrow> lend_reach D mo co (snd (runLend D N c s))"
  by (cases "runLend D N c s") (auto intro: lend_reach.call)

lemma snd_dropE: "snd (dropE m s) = snd (m s)"
  by (auto simp: dropE_def bindE_def retE_def split: prod.splits sum.splits)

lemma samplePool_reach: "lend_reach refDeps 1 2 samplePool"
  using reach_run [OF sampleLend_reach sampleNode_ok, of "CallCreatePool ''p'' 9"] by (simp add: samplePool_def snd_dropE)

lemma sampleSupplied_reach: "lend_reach refDeps 1 2 sampleSupplied"
  using reach_run [OF samplePool_reach sampleNode_ok, of "CallSupply ''p'' 7 2000000000000000000"]
  by (simp add: sampleSupplied_def snd_dropE)

text \<open>The engine of a pool.\<close>

definition engineOf :: "lending_node \<Rightarrow> string \<Rightarrow> storedLendingMarket option \<Rightarrow> lengine" where
  "engineOf N p stored =
     \<lparr>moduleAddress = lendingModuleAddr N, collateralAddress = lendingCollateralAddr N,
      lparams = lendingParams N, interestModel = lendingInterestModel N,
      reserveFactorBps = lendingReserveFactorBps N, protocolFeeBps = lendingProtocolFeeBps N,
      blockHeight = nodeHeight N, enginePool = p,
      developerFeeBps = (case stored of None \<Rightarrow> lendingDeveloperFeeBps N | Some m \<Rightarrow> smDeveloperFeeBps m),
      developerFeeAddr = (case stored of None \<Rightarrow> lendingDeveloperFeeCollector N
                          | Some m \<Rightarrow> DeveloperFeeCollector (toMarket m)),
      collateralRouting = lendingCollateralRouting N, lpauses = nodePauses N\<rparr>"

lemma withEngine_run: "withEngine N p fn s = fn (engineOf N (poolOf p) (lendMarkets s (poolOf p))) s"
proof -
  have P: "pool_ok (poolOf p)" using pool_ok_trim [of p] by (simp add: poolOf_trim)
  show ?thesis
    by (simp add: withEngine_def LendingGetMarket_def normalizePoolID_ok [OF P] bindE_def liftE_def getsE_def engineOf_def
        poolOf_trim toMarket_def split: option.splits)
qed

lemma engineOf_at:
  "node_ok mo co N \<Longrightarrow> pool_ok p \<Longrightarrow> engine_at mo co (engineOf N p st)"
  by (simp add: engine_at_def engineOf_def engine_ok_def node_ok_def)

definition samplePoolMarket :: storedLendingMarket where
  "samplePoolMarket = \<lparr>smPoolID = ''p'', smDeveloperOwner = 9, smDeveloperCollector = 0, smDeveloperFeeBps = 0,
     smTotalNHBSupplied = 0, smTotalSupplyShares = 0, smTotalNHBBorrowed = 0, smSupplyIndex = 0,
     smBorrowIndex = 0, smLastUpdateBlock = 100, smReserveFactor = 0\<rparr>"

lemma poolOf_p: "poolOf ''p'' = ''p''" "trimSpace ''p'' = ''p''" "pool_ok ''p''"
  by (simp_all add: poolOf_def trimSpace_def isSpace_def pool_ok_def)

lemma samplePool_eq:
  "samplePool = sampleLend\<lparr>lendMarkets := [''p'' \<mapsto> samplePoolMarket], lendPools := [''p'']\<rparr>"
  by (simp add: samplePool_def CreatePool_def LendingGetMarket_def LendingPutMarket_def run_defs Let_def normalizePoolID_def
      poolOf_p sampleLend_def samplePoolMarket_def newStoredLendingMarket_def sampleNode_def rlpFails_def refDeps_def
      lendingEnsurePoolIndexed_def lendingSavePoolIDs_def)

section \<open>Successful calls\<close>

text \<open>The records and balances after a call whose guards all pass.\<close>

lemma seq_known:
  assumes "pool_ok (enginePool E)" and "lendMarkets s (enginePool E) = Some st"
    and "accrueMarket E (loadedMarket (enginePool E) st) (loadedFees s (enginePool E)) = (m, f, ch)"
  shows "wp (k (loadedMarket (enginePool E) st)) Q R s \<Longrightarrow> wp (bindE (ensureMarket E) k) Q R s"
    and "wp (g m f ch) Q R s \<Longrightarrow>
      wp (bindE (accrueInterest E (loadedMarket (enginePool E) st)) (\<lambda>(m, f, ch). g m f ch)) Q R s"
  using assms by (simp_all add: wp_lending)

lemma Supply_run:
  assumes "lend_inv D mo co s" and "engine_at mo co E" and "a \<noteq> mo"
    and "Guard (lpauses E) ''lending'' = Inr ()" and "\<not> pauseSupply (riskPauses (lparams E))" and "0 < v"
    and "lendMarkets s (enginePool E) = Some st"
    and "accrueMarket E (loadedMarket (enginePool E) st) (loadedFees s (enginePool E)) = (m, f, ch)"
    and "v \<le> coinBalance D NHB s a" and "TotalSupplyShares m = 0 \<longrightarrow> minLiquidity \<le> v"
    and "sharesFromLiquidity v (SupplyIndex m) \<noteq> 0"
  shows "wp (Supply D E a v) (\<lambda>x t. x = sharesFromLiquidity v (SupplyIndex m)
      \<and> coinBalance D NHB t = (coinBalance D NHB s)(a := coinBalance D NHB s a - v, mo := coinBalance D NHB s mo + v)
      \<and> coinBalance D ZNHB t = coinBalance D ZNHB s
      \<and> lendMarkets t = (lendMarkets s)(enginePool E \<mapsto> storedAt (enginePool E)
          (m\<lparr>TotalNHBSupplied := TotalNHBSupplied m + v, TotalSupplyShares := TotalSupplyShares m + x\<rparr>))
      \<and> lendUsers t = (lendUsers s)((enginePool E, a) \<mapsto> newStoredLendingUser
          ((loadedUser s (enginePool E) a)\<lparr>SupplyShares := SupplyShares (loadedUser s (enginePool E) a) + x\<rparr>))
      \<and> lendPools t = lendPools s) (\<lambda>_ _. False) s"
proof -
  note I = lend_invD [OF assms(1)] and U = loadedUser_nonneg [OF assms(1)]
  have P: "pool_ok (enginePool E)" and mo: "moduleAddress E = mo" using assms(2) by (simp_all add: engine_at_def)
  note A = lend_inv_run [OF assms(1,2,7,8)]
  have M: "market_nonneg st" "0 \<le> poolLiquidity st" "enginePool E \<in> set (lendPools s)" using I(4) [OF assms(7)] by simp_all
  note B = accruedD [OF A M(1,2)]
  show ?thesis unfolding Supply_def mo
    by (intro seq_basic seq_known [OF P assms(7,8)] seq_load(2) [OF P] seq_put [OF I(2) P] seq_move(1) [OF I(1,3) assms(3)])
      (use assms(6,9-11) M B in \<open>simp_all add: assms(4,5) step_simps step_nonneg U I(6)\<close>)
qed

lemma Withdraw_run:
  assumes "lend_inv D mo co s" and "engine_at mo co E" and "a \<noteq> mo"
    and "Guard (lpauses E) ''lending'' = Inr ()" and "0 < v"
    and "lendMarkets s (enginePool E) = Some st"
    and "accrueMarket E (loadedMarket (enginePool E) st) (loadedFees s (enginePool E)) = (m, f, ch)"
    and "v \<le> SupplyShares (loadedUser s (enginePool E) a)"
    and "liquidityFromShares v (SupplyIndex m) \<le> poolLiquidity st"
  shows "wp (Withdraw D E a v) (\<lambda>x t. x = liquidityFromShares v (SupplyIndex m)
      \<and> coinBalance D NHB t = (coinBalance D NHB s)(mo := coinBalance D NHB s mo - x, a := coinBalance D NHB s a + x)
      \<and> coinBalance D ZNHB t = coinBalance D ZNHB s
      \<and> lendMarkets t = (lendMarkets s)(enginePool E \<mapsto> storedAt (enginePool E)
          (m\<lparr>TotalSupplyShares := TotalSupplyShares m - v, TotalNHBSupplied := TotalNHBSupplied m - x\<rparr>))
      \<and> lendUsers t = (lendUsers s)((enginePool E, a) \<mapsto> newStoredLendingUser
          ((loadedUser s (enginePool E) a)\<lparr>SupplyShares := SupplyShares (loadedUser s (enginePool E) a) - v\<rparr>)))
      (\<lambda>_ _. False) s"
proof -
  note I = lend_invD [OF assms(1)] and U = loadedUser_nonneg [OF assms(1)]
  have P: "pool_ok (enginePool E)" and mo: "moduleAddress E = mo" using assms(2) by (simp_all add: engine_at_def)
  note A = lend_inv_run [OF assms(1,2,6,7)]
  have M: "market_nonneg st" "0 \<le> poolLiquidity st" "enginePool E \<in> set (lendPools s)" using I(4) [OF assms(6)] by simp_all
  note B = accruedD [OF A M(1,2)]
  have sh: "v \<le> smTotalSupplyShares st" using share_le_total [OF assms(1,6), of a] assms(8) by simp
  have "poolLiquidity st \<le> msum (\<lambda>_. poolLiquidity) (lendMarkets s)"
    by (rule msum_single_le) (use assms(1,6) in \<open>auto simp: lend_inv_def books_def records_ok_def\<close>)
  then have cash: "liquidityFromShares v (SupplyIndex m) \<le> coinBalance D NHB s mo"
    using assms(1,9) by (simp add: lend_inv_def books_def)
  show ?thesis unfolding Withdraw_def mo
    by (intro seq_basic seq_known [OF P assms(6,7)] seq_load(2) [OF P] seq_put [OF I(2) P]
        seq_move(1) [OF I(1,3) assms(3) [symmetric]])
      (use assms(5,8,9) M B sh cash in
        \<open>simp_all add: assms(4) step_simps step_nonneg U I(6) availableLiquidity_def Let_def\<close>)
qed

lemma sampleSupplied_run:
  "lendPools sampleSupplied = [''p''] \<and> (\<exists>st. lendMarkets sampleSupplied = [''p'' \<mapsto> st]
     \<and> smTotalSupplyShares st = 2000000000000000000 \<and> poolLiquidity st = 2000000000000000000
     \<and> smSupplyIndex st = ray \<and> smTotalNHBBorrowed st = 0 \<and> smBorrowIndex st = ray \<and> smLastUpdateBlock st = 100)
   \<and> lendUsers sampleSupplied = [(''p'', 7) \<mapsto> \<lparr>suAddress = 7, suCollateralZNHB = 0,
       suSupplyShares = 2000000000000000000, suDebtNHB = 0, suScaledDebt = 0\<rparr>]"
proof -
  let ?E = "engineOf sampleNode ''p'' (Some samplePoolMarket)" and ?v = "2000000000000000000 :: int"
  let ?m = "(loadedMarket ''p'' samplePoolMarket)\<lparr>ReserveFactor := 0\<rparr>"
  have inv: "lend_inv refDeps 1 2 samplePool" by (rule lend_reach_inv [OF samplePool_reach])
  have at: "engine_at 1 2 ?E" by (rule engineOf_at [OF sampleNode_ok poolOf_p(3)])
  have E: "enginePool ?E = ''p''" "lpauses ?E = None" "\<not> pauseSupply (riskPauses (lparams ?E))"
    "interestModel ?E = None" "blockHeight ?E = 100" "reserveFactorBps ?E = 0"
    by (simp_all add: engineOf_def sampleNode_def sampleRisk_def)
  have idx: "SupplyIndex ?m = ray" "TotalSupplyShares ?m = 0" "LastUpdateBlock ?m = 100" "BorrowIndex ?m = ray"
      "TotalNHBBorrowed ?m = 0" "TotalNHBSupplied ?m = 0"
    by (simp_all add: loadedMarket_def samplePoolMarket_def toMarket_def)
  have acc: "accrueMarket ?E (loadedMarket ''p'' samplePoolMarket) f = (?m, f, False)" for f
    using idx by (simp add: accrueMarket_def E Let_def)
  have sh: "sharesFromLiquidity ?v ray = ?v"
    by (simp add: sharesFromLiquidity_def ray_def halfUp_def bigQuo_def)
  have bal: "coinBalance refDeps NHB samplePool 7 = 5000000000000000000"
    by (simp add: samplePool_eq sampleLend_balance)
  have user: "loadedUser samplePool ''p'' 7 = \<lparr>userAddress = 7, CollateralZNHB = 0, SupplyShares = 0, DebtNHB = 0, ScaledDebt = 0\<rparr>"
    by (simp add: samplePool_eq sampleLend_def loadedUser_def)
  have recs: "lendMarkets samplePool = [''p'' \<mapsto> samplePoolMarket]" "lendPools samplePool = [''p'']"
    "lendUsers samplePool = Map.empty"
    by (simp_all add: samplePool_eq sampleLend_def)
  note run = Supply_run [OF inv at, of 7 ?v samplePoolMarket ?m "loadedFees samplePool ''p''" False, unfolded E(1)]
  obtain x t where xt: "Supply refDeps ?E 7 ?v samplePool = (x, t)" by fastforce
  have "t = sampleSupplied"
    using xt by (simp add: sampleSupplied_def SupplyNHB_def withEngine_run poolOf_p recs)
  with run [unfolded wp_def xt] show ?thesis
    using E idx sh bal user recs acc
    by (auto simp: Guard_def minLiquidity_def newStoredLendingUser_def newStoredLendingMarket_def poolLiquidity_def
        split: sum.splits)
qed

text \<open>
  Property C22 (solvency of the lending module). In every state reached by calls of the module,
  whatever their outcome, and by changes elsewhere that take nothing from its accounts (where callers, fee
  collector and routing targets are not the module's own accounts, and nobody liquidates their own
  position or one whose collateral is routed to them): the module
  account holds at least what all pools together have not lent out (supplied minus borrowed, which
  is not negative for any pool), and the collateral account holds at least the collateral recorded
  for all users.
\<close>

theorem lending_solvent:
  assumes "lend_reach D mo co s"
  shows "(\<Sum>p\<in>set (lendPools s). poolLiquidity (the (lendMarkets s p))) \<le> coinBalance D NHB s mo
    \<and> (\<forall>p st. lendMarkets s p = Some st \<longrightarrow> 0 \<le> smTotalNHBBorrowed st \<and> smTotalNHBBorrowed st \<le> smTotalNHBSupplied st)
    \<and> (\<Sum>k\<in>dom (lendUsers s). suCollateralZNHB (the (lendUsers s k))) \<le> coinBalance D ZNHB s co"
  using lend_reach_inv [OF assms]
  by (auto simp: lend_inv_def books_def records_ok_def msum_def poolLiquidity_def market_nonneg_def)

theorem lending_solvent_witness:
  "lendPools sampleSupplied = [''p'']
   \<and> 2000000000000000000 \<le> coinBalance refDeps NHB sampleSupplied 1"
  using lending_solvent [OF sampleSupplied_reach] sampleSupplied_run by auto

text \<open>
  Property C23 (shares). In every reachable state the supply shares of a pool's users add up to the
  pool's total, and each user's record is stored under the user's own address with no negative
  number in it.
\<close>

theorem lending_shares:
  assumes "lend_reach D mo co s" and "lendMarkets s p = Some st"
  shows "(\<Sum>k\<in>{k \<in> dom (lendUsers s). fst k = p}. suSupplyShares (the (lendUsers s k))) = smTotalSupplyShares st
    \<and> (\<forall>a u. lendUsers s (p, a) = Some u \<longrightarrow> suAddress u = a \<and> 0 \<le> suSupplyShares u \<and> suSupplyShares u \<le> smTotalSupplyShares st)"
proof -
  note inv = lend_reach_inv [OF assms(1)]
  have fin: "finite (dom (lendUsers s))" using inv by (simp add: lend_inv_def books_def records_ok_def)
  have "msum (shareAt p) (lendUsers s)
      = (\<Sum>k\<in>{k \<in> dom (lendUsers s). fst k = p}. suSupplyShares (the (lendUsers s k)))"
    unfolding msum_def shareAt_def by (simp add: sum.inter_filter [OF fin])
  moreover have "suSupplyShares u \<le> smTotalSupplyShares st" if "lendUsers s (p, a) = Some u" for a u
    using share_le_total [OF inv assms(2), of a] that by (simp add: loadedUser_def toUserAccount_def)
  ultimately show ?thesis
    using inv assms(2) by (auto simp: lend_inv_def books_def records_ok_def user_nonneg_def)
qed

theorem lending_shares_witness:
  "\<exists>st. lendMarkets sampleSupplied ''p'' = Some st \<and> smTotalSupplyShares st = 2000000000000000000
     \<and> (\<Sum>k\<in>{k \<in> dom (lendUsers sampleSupplied). fst k = ''p''}. suSupplyShares (the (lendUsers sampleSupplied k)))
       = 2000000000000000000"
  using sampleSupplied_run lending_shares [OF sampleSupplied_reach, of "''p''"] by auto

text \<open>
  Property C24 (suppliers can redeem). In a reachable state, a supplier who asks for no more shares
  than they hold is paid, provided the module is not paused and the pool's supplied minus borrowed
  amount, after accrual, covers the redeemed amount. The checks on the module's actual balance never
  stop them.
\<close>

theorem withdraw_succeeds:
  assumes "lend_reach D mo co s" and "node_ok mo co N" and "a \<noteq> mo"
    and "Guard (nodePauses N) ''lending'' = Inr ()" and "0 < v"
    and "lendMarkets s (poolOf p) = Some st"
    and "accrueMarket (engineOf N (poolOf p) (Some st)) (loadedMarket (poolOf p) st) (loadedFees s (poolOf p)) = (m, f, ch)"
    and "v \<le> SupplyShares (loadedUser s (poolOf p) a)"
    and "liquidityFromShares v (SupplyIndex m) \<le> TotalNHBSupplied m - TotalNHBBorrowed m"
  shows "\<exists>t. WithdrawNHB D N p a v s = (Inr (liquidityFromShares v (SupplyIndex m)), t)
    \<and> coinBalance D NHB t a = coinBalance D NHB s a + liquidityFromShares v (SupplyIndex m)"
proof -
  let ?E = "engineOf N (poolOf p) (Some st)"
  note inv = lend_reach_inv [OF assms(1)]
  have P: "pool_ok (poolOf p)" using pool_ok_trim [of p] by (simp add: poolOf_trim)
  have E: "enginePool ?E = poolOf p" "lpauses ?E = nodePauses N" by (simp_all add: engineOf_def)
  note at = engineOf_at [OF assms(2) P, of "Some st"]
  have A: "accrued st (loadedFees s (poolOf p)) m f"
    using lend_inv_run [OF inv at, unfolded E, OF assms(6,7)] .
  have "liquidityFromShares v (SupplyIndex m) \<le> poolLiquidity st" using A assms(9) by (simp add: accrued_def)
  from Withdraw_run [OF inv at assms(3), unfolded E, OF assms(4-8) this]
  show ?thesis using assms(3)
    by (auto simp: WithdrawNHB_def withEngine_run assms(6) wp_def split: prod.splits sum.splits)
qed

theorem withdraw_succeeds_witness:
  "\<exists>t. WithdrawNHB refDeps sampleNode ''p'' 7 1500000000000000000 sampleSupplied = (Inr 1500000000000000000, t)
     \<and> coinBalance refDeps NHB t 7 = coinBalance refDeps NHB sampleSupplied 7 + 1500000000000000000"
proof -
  obtain st where st: "lendMarkets sampleSupplied = [''p'' \<mapsto> st]" "smTotalSupplyShares st = 2000000000000000000"
      "poolLiquidity st = 2000000000000000000" "smSupplyIndex st = ray" "smTotalNHBBorrowed st = 0" "smBorrowIndex st = ray"
      "smLastUpdateBlock st = 100"
      "lendUsers sampleSupplied = [(''p'', 7) \<mapsto> \<lparr>suAddress = 7, suCollateralZNHB = 0,
       suSupplyShares = 2000000000000000000, suDebtNHB = 0, suScaledDebt = 0\<rparr>]"
    using sampleSupplied_run by blast
  let ?m = "(loadedMarket ''p'' st)\<lparr>ReserveFactor := 0\<rparr>"
  have idx: "SupplyIndex ?m = ray" "LastUpdateBlock ?m = 100" "TotalNHBBorrowed ?m = 0" "BorrowIndex ?m = ray"
      "TotalNHBSupplied ?m = 2000000000000000000"
    using st by (simp_all add: loadedMarket_def toMarket_def poolLiquidity_def)
  have acc: "accrueMarket (engineOf sampleNode ''p'' (Some st)) (loadedMarket ''p'' st) f = (?m, f, False)" for f
    using idx by (simp add: accrueMarket_def engineOf_def sampleNode_def Let_def)
  have liq: "liquidityFromShares 1500000000000000000 ray = 1500000000000000000"
    by (simp add: liquidityFromShares_def ray_def halfRay_def bigQuo_def)
  have "SupplyShares (loadedUser sampleSupplied ''p'' 7) = 2000000000000000000"
    by (simp add: loadedUser_def st toUserAccount_def)
  with withdraw_succeeds [OF sampleSupplied_reach sampleNode_ok, of 7 1500000000000000000 "''p''" st ?m
      "loadedFees sampleSupplied ''p''" False] st acc idx liq
  show ?thesis by (simp add: poolOf_p sampleNode_def Guard_def)
qed

section \<open>Accrual\<close>

lemma bps_split:
  assumes "0 \<le> i" and "0 \<le> r" and "0 \<le> q" and "r + q \<le> 10000"
  shows "bigQuo (i * r) basisPoints + bigQuo (i * q) basisPoints \<le> i"
proof -
  have "bigQuo (i * r) basisPoints * 10000 \<le> i * r" "bigQuo (i * q) basisPoints * 10000 \<le> i * q"
    using assms by (simp_all add: bigQuo_nonneg basisPoints_def div_times_less_eq_dividend)
  moreover have "i * r + i * q \<le> i * 10000"
    using mult_left_mono [OF assms(4,1)] by (simp add: distrib_left)
  ultimately show ?thesis by linarith
qed

lemma applyInterest_fees:
  assumes "applyInterest E m f apr util delta = (m', f', ch)"
    and "uint (reserveFactorBps E) + uint (protocolFeeBps E) \<le> 10000"
  shows "ProtocolFeesWei f \<le> ProtocolFeesWei f'
    \<and> ProtocolFeesWei f' - ProtocolFeesWei f \<le> TotalNHBBorrowed m' - TotalNHBBorrowed m"
proof -
  let ?i = "computeInterest (TotalNHBBorrowed m) apr delta"
  have i: "0 \<le> ?i" by (rule computeInterest_nonneg)
  have q: "0 \<le> bigQuo (?i * uint w) basisPoints" for w :: u64
    using i by (simp add: bigQuo_ge_0 basisPoints_def)
  note split = bps_split [OF i _ _ assms(2)]
  have m: "m' = fst (applyInterest E m f apr util delta)"
    and f: "f' = fst (snd (applyInterest E m f apr util delta))" using assms(1) by simp_all
  show ?thesis unfolding m f applyInterest_def Let_def
    using split q [of "reserveFactorBps E"] q [of "protocolFeeBps E"] i by auto
qed

lemma accrueMarket_fees:
  assumes "accrueMarket E (loadedMarket p st) f0 = (m, f, ch)"
    and "uint (reserveFactorBps E) + uint (protocolFeeBps E) \<le> 10000"
  shows "ProtocolFeesWei f0 \<le> ProtocolFeesWei f
    \<and> ProtocolFeesWei f - ProtocolFeesWei f0 \<le> TotalNHBBorrowed m - smTotalNHBBorrowed st"
proof -
  have b: "TotalNHBBorrowed (loadedMarket p st) = smTotalNHBBorrowed st" by (simp add: loadedMarket_def toMarket_def)
  show ?thesis
    using assms(1) unfolding accrueMarket_def Let_def
    by (auto simp: b split: option.splits if_splits dest: applyInterest_fees [OF _ assms(2)])
qed

text \<open>
  Rounding of interest. The interest charged differs from the exact value by less than
  a half downwards and at most one upwards; when the exact value is a whole number of wei it is
  always one wei too much.
\<close>

theorem interest_rounding:
  assumes "x = rate / of_int blocksPerYear * of_int (uint delta) * of_int b" and "0 < x"
  shows "x - 1 / 2 < of_int (computeInterest b rate delta) \<and> of_int (computeInterest b rate delta) \<le> x + 1
    \<and> (\<forall>k. x = of_int k \<longrightarrow> computeInterest b rate delta = k + 1)"
proof -
  obtain n d where q: "quotient_of x = (n, d)" by (cases "quotient_of x")
  from quotient_of_pos [OF q] have d: "0 < d" and nd: "x = of_int n / (of_int d :: rat)" by auto
  let ?r = "bigQuo (n + halfUp d) d"
  have "rate \<noteq> 0" "delta \<noteq> 0" "b \<noteq> 0" using assms by auto
  then have c: "computeInterest b rate delta = ?r"
    using assms q by (simp add: computeInterest_def Let_def)
  have n: "0 < n" using assms(2) d by (simp add: nd zero_less_divide_iff)
  note h = halfUp_bounds [OF d]
  have nn: "0 \<le> n" "0 \<le> halfUp d" using n h d by linarith+
  note b = round_bounds [OF nn(1) d nn(2)]
  have "2 * n - d < 2 * (d * ?r)" "2 * (d * ?r) \<le> 2 * n + d + 1" using b h by linarith+
  moreover have "2 * (d * ?r) \<le> 2 * n + 2 * d" using \<open>2 * (d * ?r) \<le> 2 * n + d + 1\<close> d by linarith
  ultimately have "of_int (2 * n - d) < (of_int (2 * (d * ?r)) :: rat)" "of_int (2 * (d * ?r)) \<le> (of_int (2 * n + 2 * d) :: rat)"
    by (simp_all only: of_int_less_iff of_int_le_iff)
  then have "x - 1 / 2 < of_int ?r" "of_int ?r \<le> x + 1" using d by (simp_all add: nd field_simps)
  moreover have "?r = k + 1" if "x = of_int k" for k
    using q that by (auto simp: halfUp_def bigQuo_nonneg n) (use n in \<open>simp add: bigQuo_def\<close>)
  ultimately show ?thesis by (simp add: c)
qed

theorem interest_rounding_witness:
  "computeInterest 500 (1 / 10) 31536000 = 51
   \<and> (1 / 10) / of_int blocksPerYear * of_int (uint (31536000 :: u64)) * of_int 500 = (50 :: rat)"
  using interest_rounding [OF refl, of "1 / 10" 31536000 500] by (auto simp: blocksPerYear_def)

text \<open>
  Property C25 (accrual). Accruing interest on a stored market with no negative number in it, under an
  interest model with no negative rate and with reserve and protocol rates of at most 100% together,
  never lowers the supply or the borrow index, adds the same amount to what is supplied and to what
  is borrowed, leaves the shares and the developer fees alone, and books protocol fees of at most
  the interest charged.
\<close>

theorem accrual_sound:
  assumes "accrueMarket E (loadedMarket p st) f0 = (m, f, ch)" and "engine_ok E" and "market_nonneg st"
    and "fees_ok f0" and "uint (reserveFactorBps E) + uint (protocolFeeBps E) \<le> 10000"
  shows "smSupplyIndex st \<le> SupplyIndex m \<and> smBorrowIndex st \<le> BorrowIndex m
    \<and> smTotalNHBBorrowed st \<le> TotalNHBBorrowed m
    \<and> TotalNHBSupplied m - smTotalNHBSupplied st = TotalNHBBorrowed m - smTotalNHBBorrowed st
    \<and> TotalSupplyShares m = smTotalSupplyShares st \<and> DeveloperFeesWei f = DeveloperFeesWei f0
    \<and> ProtocolFeesWei f0 \<le> ProtocolFeesWei f
    \<and> ProtocolFeesWei f - ProtocolFeesWei f0 \<le> TotalNHBBorrowed m - smTotalNHBBorrowed st"
  using accrueMarket_accrued [OF assms(1-4)] accrueMarket_fees [OF assms(1,5)]
  by (simp add: accrued_def poolLiquidity_def)

text \<open>A year at a flat rate of one tenth on 500 borrowed out of 1000, a fifth of it to the reserve.\<close>

definition sampleAccrual :: lengine where
  "sampleAccrual = (engineOf sampleNode ''p'' None)\<lparr>
     interestModel := Some \<lparr>BaseRate = 1 / 10, Slope1 = 0, Slope2 = 0, Kink = 0\<rparr>,
     reserveFactorBps := 2000, blockHeight := 31536000\<rparr>"

definition sampleBorrowed :: storedLendingMarket where
  "sampleBorrowed = samplePoolMarket\<lparr>smTotalNHBSupplied := 1000, smTotalSupplyShares := 1000, smTotalNHBBorrowed := 500,
     smSupplyIndex := ray, smBorrowIndex := ray, smLastUpdateBlock := 0\<rparr>"

theorem accrual_sound_witness:
  "(case accrueMarket sampleAccrual (loadedMarket ''p'' sampleBorrowed) \<lparr>ProtocolFeesWei = 3, DeveloperFeesWei = 4\<rparr> of
      (m, f, ch) \<Rightarrow> TotalNHBBorrowed m = 551 \<and> ProtocolFeesWei f = 13 \<and> ray \<le> SupplyIndex m
        \<and> TotalNHBSupplied m = 1051)"
proof -
  let ?f = "\<lparr>ProtocolFeesWei = 3, DeveloperFeesWei = 4\<rparr> :: FeeAccrual"
  obtain m f ch where run: "accrueMarket sampleAccrual (loadedMarket ''p'' sampleBorrowed) ?f = (m, f, ch)"
    by (cases "accrueMarket sampleAccrual (loadedMarket ''p'' sampleBorrowed) ?f")
  have ok: "engine_ok sampleAccrual" "market_nonneg sampleBorrowed" "fees_ok ?f"
    "uint (reserveFactorBps sampleAccrual) + uint (protocolFeeBps sampleAccrual) \<le> 10000"
    by (simp_all add: engine_ok_def sampleAccrual_def model_ok_def market_nonneg_def sampleBorrowed_def samplePoolMarket_def
        fees_ok_def engineOf_def sampleNode_def)
  have ci: "computeInterest 500 (1 / 10) 31536000 = 51"
    by (simp add: computeInterest_def blocksPerYear_def Let_def halfUp_def bigQuo_def)
  have "TotalNHBBorrowed m = 551 \<and> ProtocolFeesWei f = 13"
    using run by (auto simp: ci basisPoints_def bigQuo_def accrueMarket_def sampleAccrual_def engineOf_def sampleNode_def loadedMarket_def toMarket_def
        sampleBorrowed_def samplePoolMarket_def Let_def BorrowAPR_def Utilisation_def applyInterest_def)
  with accrual_sound [OF run ok] run show ?thesis by (simp add: sampleBorrowed_def)
qed

end
