(* ===== verification/LendingCalls.thy ===== *)
theory LendingCalls
  imports LendingTheorems
begin

text \<open>
  What single calls of the lending engine do: the effect of a borrow, the health check of a
  collateral withdrawal, and the calls whose outcome is not the intended one (the oracle guard that
  always fires, a repayment reported as failed after it was made, and the liquidation of one's own
  position).
\<close>

section \<open>A concrete loan\<close>

text \<open>A pool \<open>p\<close> with 1000 supplied by account 7 and \<open>b\<close> lent to account 8, which has 900 of
  collateral and the scaled debt \<open>d\<close> at the borrow index \<open>i\<close>.\<close>

definition loanMarket :: "int \<Rightarrow> int \<Rightarrow> storedLendingMarket" where
  "loanMarket i b = samplePoolMarket\<lparr>smTotalNHBSupplied := 1000, smTotalSupplyShares := 1000, smTotalNHBBorrowed := b,
     smSupplyIndex := ray, smBorrowIndex := i\<rparr>"

definition sampleLoan :: "int \<Rightarrow> int \<Rightarrow> int \<Rightarrow> lstate" where
  "sampleLoan i b d = \<lparr>stateAccounts = [1 \<mapsto> sampleAccount (1000 - b), 8 \<mapsto> sampleAccount 1000],
     accountMetas = [2 \<mapsto> emptyMetadata\<lparr>mBalanceZNHB := 900\<rparr>], stakingSnaps = Map.empty, events = [],
     lendMarkets = [''p'' \<mapsto> loanMarket i b], lendFees = Map.empty,
     lendUsers = [(''p'', 7) \<mapsto> \<lparr>suAddress = 7, suCollateralZNHB = 0, suSupplyShares = 1000, suDebtNHB = 0,
         suScaledDebt = 0\<rparr>,
       (''p'', 8) \<mapsto> \<lparr>suAddress = 8, suCollateralZNHB = 900, suSupplyShares = 0, suDebtNHB = d, suScaledDebt = d\<rparr>],
     lendPools = [''p'']\<rparr>"

lemma sampleLoan_balance:
  "coinBalance refDeps NHB (sampleLoan i b d) = (\<lambda>_. 0)(1 := 1000 - b, 8 := 1000)"
  "coinBalance refDeps ZNHB (sampleLoan i b d) = (\<lambda>_. 0)(2 := 900)"
proof -
  have meta: "BalanceZNHB acc = mBalanceZNHB (accountMeta acc)" for acc by (simp add: accountMeta_def)
  show "coinBalance refDeps NHB (sampleLoan i b d) = (\<lambda>_. 0)(1 := 1000 - b, 8 := 1000)"
    by (auto simp: fun_eq_iff coinBalance_def acctOf_records loaded_defs sampleLoan_def sampleAccount_def)
  show "coinBalance refDeps ZNHB (sampleLoan i b d) = (\<lambda>_. 0)(2 := 900)"
    by (auto simp: fun_eq_iff coinBalance_def meta acctOf_records loaded_defs sampleLoan_def emptyMetadata_def)
qed

lemma sampleLoan_inv:
  assumes "0 \<le> b" and "b \<le> 1000" and "0 \<le> i" and "0 \<le> d"
  shows "lend_inv refDeps 1 2 (sampleLoan i b d)"
proof -
  have "chain_inv refDeps (sampleLoan i b d)"
    by (rule chain_inv_sample) (use assms in \<open>auto simp: sampleLoan_def sampleAccount_def metaBigInts_def emptyMetadata_def\<close>)
  moreover have "totalSupply refDeps NHB (sampleLoan i b d) < 2 ^ 256"
    using assms by (simp add: totalSupply_allOf sampleLoan_balance allOf_upd) (simp add: allOf_def)
  ultimately show ?thesis
    using assms
    by (auto simp: lend_inv_def books_def sampleLoan_balance totalSupply_def)
      (auto simp: sampleLoan_def records_ok_def loanMarket_def samplePoolMarket_def poolOf_p market_nonneg_def poolLiquidity_def
        user_nonneg_def msum_upd shareAt_def)
qed

definition loanEngine :: "int \<Rightarrow> int \<Rightarrow> lengine" where
  "loanEngine i b = engineOf sampleNode ''p'' (Some (loanMarket i b))"

lemma loanEngine_at: "engine_at 1 2 (loanEngine i b)"
  unfolding loanEngine_def by (rule engineOf_at [OF sampleNode_ok poolOf_p(3)])

lemma loan_engine:
  "enginePool (loanEngine i b) = ''p''" "moduleAddress (loanEngine i b) = 1" "collateralAddress (loanEngine i b) = 2"
  "lparams (loanEngine i b) = sampleRisk" "Guard (lpauses (loanEngine i b)) ''lending'' = Inr ()"
  "developerFeeAddr (loanEngine i b) = None" "developerFeeBps (loanEngine i b) = 0"
  "collateralRouting (loanEngine i b) = lendingCollateralRouting sampleNode"
  by (simp_all add: loanEngine_def engineOf_def sampleNode_def Guard_def loanMarket_def samplePoolMarket_def toMarket_def)

definition loadedLoan :: "int \<Rightarrow> int \<Rightarrow> Market" where
  "loadedLoan i b = (loadedMarket ''p'' (loanMarket i b))\<lparr>ReserveFactor := 0\<rparr>"

lemma loan_accrue:
  "i \<noteq> 0 \<Longrightarrow> accrueMarket (loanEngine i b) (loadedMarket ''p'' (loanMarket i b)) f = (loadedLoan i b, f, False)"
  by (simp add: accrueMarket_def loanEngine_def engineOf_def sampleNode_def Let_def loadedLoan_def loadedMarket_def
      loanMarket_def samplePoolMarket_def toMarket_def)

lemma loan_loaded:
  "i \<noteq> 0 \<Longrightarrow> BorrowIndex (loadedLoan i b) = i" "SupplyIndex (loadedLoan i b) = ray"
  "TotalNHBSupplied (loadedLoan i b) = 1000" "TotalNHBBorrowed (loadedLoan i b) = b"
  "TotalSupplyShares (loadedLoan i b) = 1000"
  by (simp_all add: loadedLoan_def loadedMarket_def loanMarket_def samplePoolMarket_def toMarket_def)

lemma loan_records:
  "lendMarkets (sampleLoan i b d) ''p'' = Some (loanMarket i b)" "lendPools (sampleLoan i b d) = [''p'']"
  "loadedUser (sampleLoan i b d) ''p'' 8 = \<lparr>userAddress = 8, CollateralZNHB = 900, SupplyShares = 0, DebtNHB = d, ScaledDebt = d\<rparr>"
  by (simp_all add: sampleLoan_def loadedUser_def toUserAccount_def)

lemmas loan_simps = loan_engine loan_accrue loan_loaded loan_records sampleLoan_balance

lemma wp_False: "wp m Q (\<lambda>_ _. False) s \<Longrightarrow> \<exists>x t. m s = (Inr x, t) \<and> Q x t"
  by (auto simp: wp_def split: prod.splits sum.splits)

lemma syncDebt_ray:
  "BorrowIndex m = ray \<Longrightarrow> 0 \<le> d \<Longrightarrow> ScaledDebt u = d \<Longrightarrow> DebtNHB (syncDebt u m) = d"
  by (simp add: syncDebt_def debtFromScaled_def bigQuo_nonneg halfRay_def ray_def)

section \<open>Borrowing\<close>

lemma stored_sel:
  "suScaledDebt (newStoredLendingUser u) = ScaledDebt u" "suDebtNHB (newStoredLendingUser u) = DebtNHB u"
  "suCollateralZNHB (newStoredLendingUser u) = CollateralZNHB u"
  "smTotalNHBBorrowed (newStoredLendingMarket m) = TotalNHBBorrowed m"
  "sfDeveloperFeesWei (newStoredLendingFees f) = DeveloperFeesWei f"
  by (simp_all add: newStoredLendingUser_def newStoredLendingMarket_def newStoredLendingFees_def)

text \<open>
  Property C26 (borrow). When a borrow returns, the module has paid the amount and the fee, the
  borrower has received the amount unless they are also the fee recipient, the recipient has received
  the fee, the market's debt and the borrower's scaled debt have grown by amount and fee, and the
  debt with amount and fee was within the liquidation threshold of the collateral. The fee is also
  added to the developer fees that remain to be withdrawn from the module.
\<close>

theorem borrow_effect:
  assumes inv: "lend_inv D mo co s" and "engine_at mo co E" and "a \<noteq> mo" and "r \<noteq> Some mo"
    and "developerFeeAddr E \<noteq> Some mo" and "Borrow D E a v r bps s = (Inr fee, t)"
  shows "\<exists>st m f ch recipient rate.
      lendMarkets s (enginePool E) = Some st
    \<and> accrueMarket E (loadedMarket (enginePool E) st) (loadedFees s (enginePool E)) = (m, f, ch)
    \<and> borrowFee E r bps = Inr (recipient, rate) \<and> 0 \<le> fee
    \<and> v + fee \<le> TotalNHBSupplied m - TotalNHBBorrowed m
    \<and> positionHealthy E (CollateralZNHB (loadedUser s (enginePool E) a))
        (DebtNHB (syncDebt (loadedUser s (enginePool E) a) m) + (v + fee))
    \<and> coinBalance D NHB t mo = coinBalance D NHB s mo - (v + fee)
    \<and> (recipient \<noteq> Some a \<or> fee = 0 \<longrightarrow> coinBalance D NHB t a = coinBalance D NHB s a + v)
    \<and> (\<forall>x. recipient = Some x \<longrightarrow> 0 < fee \<longrightarrow> coinBalance D NHB t x = coinBalance D NHB s x + fee)
    \<and> (\<exists>st'. lendMarkets t (enginePool E) = Some st' \<and> smTotalNHBBorrowed st' = TotalNHBBorrowed m + (v + fee))
    \<and> (\<exists>u. lendUsers t (enginePool E, a) = Some u \<and> suScaledDebt u =
          ScaledDebt (loadedUser s (enginePool E) a) + scaledDebtFromAmount (v + fee) (BorrowIndex m))
    \<and> (0 < fee \<longrightarrow> (\<exists>sf. lendFees t (enginePool E) = Some sf \<and> sfDeveloperFeesWei sf = DeveloperFeesWei f + fee))"
  (is "?P fee t")
proof -
  note I = lend_invD [OF inv] and U = loadedUser_nonneg [OF inv]
  have P: "pool_ok (enginePool E)" and mo: "moduleAddress E = mo" using assms(2) by (simp_all add: engine_at_def)
  have rec: "r' \<noteq> Some mo" if "borrowFee E r bps = Inr (r', b)" for r' b
    using borrowFee_recipient(1) [OF that] assms(4,5) by auto
  have fee: "0 \<le> (if 0 < b then bigQuo (v * uint b) basisPoints else 0)" if "\<not> v \<le> 0" for b :: u64
    using that by (simp add: bigQuo_ge_0 basisPoints_def)
  have fo: "fees_ok (if 0 < w then f\<lparr>DeveloperFeesWei := DeveloperFeesWei f + w\<rparr> else f)" if "fees_ok f" for f w
    using that by (simp add: fees_ok_def)
  have sync: "syncDebt u m' = syncDebt u m" if "borrowCaps E m w = Inr m'" for u m m' w
    by (simp add: syncDebt_def borrowCaps_same [OF that])
  have av: "w \<le> TotalNHBSupplied m - TotalNHBBorrowed m"
    if "\<not> availableLiquidity m' < w" and "borrowCaps E m w = Inr m'" and "0 < w" for m m' w
    using that(1,3) by (simp add: availableLiquidity_def Let_def borrowCaps_same [OF that(2)] split: if_splits)
  have "wp (Borrow D E a v r bps) ?P (\<lambda>_ _. True) s"
    unfolding Borrow_def putFees_merge
    by (intro seq_basic seq_accrue [OF inv assms(2)] seq_load(1,2) [OF P] seq_put [OF I(2) P] seq_prod
        seq_borrowPay [OF I(1,3)])
      (simp_all add: mo assms(3) rec fee fo step_simps step_nonneg U I(6) borrowCaps_same sync stored_sel
        split del: if_split cong: if_cong, simp_all add: fo, auto dest: av)
  then show ?thesis using assms(6) by (rule wp_ok)
qed

lemma loan_known:
  assumes "i \<noteq> 0"
  shows "wp (k (loadedMarket ''p'' (loanMarket i b))) Q R (sampleLoan i b d) \<Longrightarrow>
      wp (bindE (ensureMarket (loanEngine i b)) k) Q R (sampleLoan i b d)"
    and "wp (g (loadedLoan i b) (loadedFees (sampleLoan i b d) ''p'') False) Q R (sampleLoan i b d) \<Longrightarrow>
      wp (bindE (accrueInterest (loanEngine i b) (loadedMarket ''p'' (loanMarket i b))) (\<lambda>(m, f, ch). g m f ch)) Q R
        (sampleLoan i b d)"
  using seq_known [of "loanEngine i b" "sampleLoan i b d" "loanMarket i b" "loadedLoan i b" "loadedFees (sampleLoan i b d) ''p''" False]
    assms by (simp_all add: loan_simps poolOf_p)

lemma loan_borrow:
  "\<exists>t. Borrow refDeps (loanEngine ray 400) 8 100 (Some 8) 0 (sampleLoan ray 400 400) = (Inr 0, t)"
proof -
  let ?E = "loanEngine ray 400" and ?s = "sampleLoan ray 400 400"
  have inv: "lend_inv refDeps 1 2 ?s" by (rule sampleLoan_inv) simp_all
  note I = lend_invD [OF inv] and U = loadedUser_nonneg [OF inv]
  have P: "pool_ok (enginePool ?E)" by (simp add: loan_engine poolOf_p)
  have sync: "DebtNHB (syncDebt (loadedUser ?s ''p'' 8) (loadedLoan ray 400)) = 400"
    by (rule syncDebt_ray) (simp_all add: loan_simps)
  have pure: "guardOracle ?E (loadedMarket ''p'' (loanMarket ray 400)) = Inr ()" "borrowFee ?E (Some 8) 0 = Inr (Some 8, 0)"
    "borrowCaps ?E (loadedLoan ray 400) 100 = Inr (loadedLoan ray 400)"
    by (simp_all add: guardOracle_def borrowFee_def borrowCaps_def loan_simps sampleRisk_def checkS_def)
  have "wp (Borrow refDeps ?E 8 100 (Some 8) 0) (\<lambda>x _. x = 0) (\<lambda>_ _. False) ?s"
    unfolding Borrow_def putFees_merge
    by (intro seq_basic loan_known seq_load(2) [OF P] seq_put [OF I(2) P] seq_prod seq_borrowPay [OF I(1,3)])
      (auto simp: pure loan_simps sync [unfolded loan_records] sampleRisk_def availableLiquidity_def positionHealthy_def
        basisPoints_def step_simps step_nonneg I(5))
  then show ?thesis by (auto dest!: wp_False)
qed

theorem borrow_effect_witness:
  "\<exists>t. Borrow refDeps (loanEngine ray 400) 8 100 (Some 8) 0 (sampleLoan ray 400 400) = (Inr 0, t)
     \<and> coinBalance refDeps NHB t 1 = 500 \<and> coinBalance refDeps NHB t 8 = 1100"
proof -
  obtain t where t: "Borrow refDeps (loanEngine ray 400) 8 100 (Some 8) 0 (sampleLoan ray 400 400) = (Inr 0, t)"
    using loan_borrow by blast
  from borrow_effect [OF sampleLoan_inv loanEngine_at _ _ _ t] show ?thesis
    by (auto simp: t loan_simps)
qed

section \<open>Withdrawing collateral\<close>

text \<open>
  Property C27 (collateral withdrawals stay healthy). When a collateral withdrawal returns, the
  collateral left in the user's record covers, at the liquidation threshold, the user's debt at the
  borrow index of the moment, which is the debt recorded; and the user has received the amount.
\<close>

theorem collateral_healthy:
  assumes inv: "lend_inv D mo co s" and "engine_at mo co E" and "a \<noteq> co"
    and "WithdrawCollateral D E a v s = (Inr (), t)"
  shows "\<exists>st m f ch u. lendMarkets s (enginePool E) = Some st
    \<and> accrueMarket E (loadedMarket (enginePool E) st) (loadedFees s (enginePool E)) = (m, f, ch)
    \<and> lendUsers t (enginePool E, a) = Some u
    \<and> suCollateralZNHB u = CollateralZNHB (loadedUser s (enginePool E) a) - v \<and> 0 \<le> suCollateralZNHB u
    \<and> suDebtNHB u = DebtNHB (syncDebt (loadedUser s (enginePool E) a) m)
    \<and> positionHealthy E (suCollateralZNHB u) (suDebtNHB u)
    \<and> coinBalance D ZNHB t a = coinBalance D ZNHB s a + v"
  (is "?P () t")
proof -
  note I = lend_invD [OF inv] and U = loadedUser_nonneg [OF inv]
  have P: "pool_ok (enginePool E)" and co: "collateralAddress E = co" using assms(2) by (simp_all add: engine_at_def)
  have "wp (WithdrawCollateral D E a v) ?P (\<lambda>_ _. True) s"
    unfolding WithdrawCollateral_def co
    by (intro seq_basic seq_accrue [OF inv assms(2)] seq_load(1,2) [OF P] seq_put [OF I(2) P]
        seq_move(2) [OF I(1,3) assms(3) [symmetric]])
      (auto simp: assms(3) assms(3) [symmetric] step_simps step_nonneg U I(6) stored_sel wp_putMarket [OF I(2) P])
  then show ?thesis using assms(4) by (rule wp_ok)
qed

theorem collateral_healthy_witness:
  "\<exists>t u. WithdrawCollateral refDeps (loanEngine ray 400) 8 100 (sampleLoan ray 400 400) = (Inr (), t)
     \<and> lendUsers t (''p'', 8) = Some u \<and> suCollateralZNHB u = 800 \<and> suDebtNHB u = 400
     \<and> coinBalance refDeps ZNHB t 8 = 100"
proof -
  let ?E = "loanEngine ray 400" and ?s = "sampleLoan ray 400 400"
  have inv: "lend_inv refDeps 1 2 ?s" by (rule sampleLoan_inv) simp_all
  note I = lend_invD [OF inv]
  have P: "pool_ok (enginePool ?E)" and ne: "2 \<noteq> (8 :: address)" by (simp_all add: loan_engine poolOf_p)
  have sync: "DebtNHB (syncDebt (loadedUser ?s ''p'' 8) (loadedLoan ray 400)) = 400"
    by (rule syncDebt_ray) (simp_all add: loan_simps)
  have "wp (WithdrawCollateral refDeps ?E 8 100) (\<lambda>_ _. True) (\<lambda>_ _. False) ?s"
    unfolding WithdrawCollateral_def loan_engine
    by (intro seq_basic loan_known seq_load(2) [OF P] seq_put [OF I(2) P] seq_move(2) [OF I(1,3) ne])
      (auto simp: loan_simps sync [unfolded loan_records] sampleRisk_def positionHealthy_def basisPoints_def step_simps
        step_nonneg I(5) seq_put(2) [OF I(2) P, unfolded loan_engine] wp_putMarket [OF I(2) P, unfolded loan_engine] wp_simps
        wp_putUser [OF I(2) P, unfolded loan_engine])
  then obtain t where t: "WithdrawCollateral refDeps ?E 8 100 ?s = (Inr (), t)" by (auto dest!: wp_False)
  from collateral_healthy [OF inv loanEngine_at _ t] sync show ?thesis
    by (auto simp: t loan_simps)
qed

section \<open>The oracle guard\<close>

text \<open>
  The oracle guard always fires. The stored market keeps neither the block of the last
  oracle update nor the medians, so a loaded market looks as if it had never been updated: with a
  maximum oracle age configured, every borrow fails and changes nothing.
\<close>

theorem borrow_oracle_stale:
  assumes "0 < MaxAgeBlocks (riskOracle (lparams E))"
  shows "\<exists>e. Borrow D E a v r bps s = (Inl e, s)"
proof -
  have stale: "guardOracle E m = Inl errOracleStale" if "OracleUpdatedBlock m = 0" for m
    using assms that by (simp add: guardOracle_def Let_def checkS_def)
  have upd: "OracleUpdatedBlock m = 0" if "ensureMarket E s = (Inr m, t)" for m t
    using that by (auto simp: ensureMarket_def LendingGetMarket_def run_simps toMarket_def split: option.splits)
  have pure: "snd (ensureMarket E s) = s"
    by (simp add: ensureMarket_def LendingGetMarket_def run_defs split: sum.splits option.splits)
  show ?thesis
    using stale upd pure unfolding Borrow_def
    by (cases "ensureMarket E s"; cases "fst (ensureMarket E s)")
      (auto simp: bindE_def liftE_def failIf_def throwE_def retE_def split: sum.splits)
qed

theorem borrow_oracle_stale_witness:
  "\<exists>e. Borrow refDeps ((loanEngine ray 400)\<lparr>lparams := sampleRisk\<lparr>riskOracle := \<lparr>MaxAgeBlocks = 10, MaxDeviationBps = 0\<rparr>\<rparr>\<rparr>)
     8 100 (Some 8) 0 (sampleLoan ray 400 400) = (Inl e, sampleLoan ray 400 400)"
  by (rule borrow_oracle_stale) simp

section \<open>Repayments\<close>

lemma Repay_negative:
  assumes inv: "lend_inv D mo co s" and "engine_at mo co E" and "a \<noteq> mo"
    and "Guard (lpauses E) ''lending'' = Inr ()" and "\<not> pauseRepay (riskPauses (lparams E))"
    and "lendMarkets s (enginePool E) = Some st"
    and "accrueMarket E (loadedMarket (enginePool E) st) (loadedFees s (enginePool E)) = (m, f, ch)"
    and "d = DebtNHB (syncDebt (loadedUser s (enginePool E) a) m)" and "TotalNHBBorrowed m < d"
    and "d \<le> v" and "d \<le> coinBalance D NHB s a"
  shows "wp (Repay D E a v) (\<lambda>_ _. False) (\<lambda>e t. e = errRlp \<and> coinBalance D NHB t a = coinBalance D NHB s a - d
      \<and> coinBalance D NHB t mo = coinBalance D NHB s mo + d \<and> lendMarkets t = lendMarkets s
      \<and> (\<exists>u. lendUsers t (enginePool E, a) = Some u \<and> suScaledDebt u < ScaledDebt (loadedUser s (enginePool E) a))) s"
proof -
  note I = lend_invD [OF inv] and U = loadedUser_nonneg [OF inv]
  have P: "pool_ok (enginePool E)" and mo: "moduleAddress E = mo" using assms(2) by (simp_all add: engine_at_def)
  note A = lend_inv_run [OF inv assms(2,6,7)]
  have M: "market_nonneg st" "0 \<le> poolLiquidity st" "enginePool E \<in> set (lendPools s)" using I(4) [OF assms(6)] by simp_all
  note B = accruedD [OF A M(1,2)]
  have d: "0 < d" using assms(9) B(2) by linarith
  have sd: "0 < ScaledDebt (loadedUser s (enginePool E) a)"
    using d assms(8) U(4) [of "enginePool E" a] by (auto simp: syncDebt_def split: if_splits)
  have cap: "(if d < v then d else v) = d" and v: "\<not> v \<le> 0" using assms(10) d by simp_all
  have sr: "0 < scaledDebtFromAmount d (BorrowIndex m)"
    using d B(3) scaledDebt_nonneg [OF B(3), of d] by (auto simp: scaledDebtFromAmount_def Let_def split: if_splits)
  show ?thesis unfolding Repay_def mo
    by (intro seq_basic seq_known [OF P assms(6,7)] seq_load(2) [OF P] seq_put [OF I(2) P]
        seq_move(1) [OF I(1,3) assms(3)], insert assms(3,9,11) d sd sr B M)
      (simp_all add: assms(4,5) assms(8) [symmetric] cap v step_simps step_nonneg U I(6) stored_sel cong: if_cong)
qed

text \<open>
  Property C28 (a repayment in full can be reported as failed after it was made). When the borrower's
  debt, rounded from its scaled value, exceeds the market's total debt, repaying it returns an
  encoding error; by then the borrower has paid, the module has been paid, and the borrower's debt
  record has been reduced, while the market still shows the debt.
\<close>

theorem repay_rejected:
  assumes "lend_inv D mo co s" and "engine_at mo co E" and "a \<noteq> mo"
    and "Guard (lpauses E) ''lending'' = Inr ()" and "\<not> pauseRepay (riskPauses (lparams E))"
    and "lendMarkets s (enginePool E) = Some st"
    and "accrueMarket E (loadedMarket (enginePool E) st) (loadedFees s (enginePool E)) = (m, f, ch)"
    and "d = DebtNHB (syncDebt (loadedUser s (enginePool E) a) m)" and "TotalNHBBorrowed m < d"
    and "d \<le> v" and "d \<le> coinBalance D NHB s a"
  shows "\<exists>t. Repay D E a v s = (Inl errRlp, t) \<and> coinBalance D NHB t a = coinBalance D NHB s a - d
    \<and> coinBalance D NHB t mo = coinBalance D NHB s mo + d \<and> lendMarkets t = lendMarkets s
    \<and> (\<exists>u. lendUsers t (enginePool E, a) = Some u \<and> suScaledDebt u < ScaledDebt (loadedUser s (enginePool E) a))"
  using Repay_negative [OF assms] by (auto simp: wp_def split: prod.splits sum.splits)

theorem repay_rejected_witness:
  "\<exists>t. Repay refDeps (loanEngine 1500000000000000000000000000 1) 8 2 (sampleLoan 1500000000000000000000000000 1 1) = (Inl errRlp, t)
     \<and> coinBalance refDeps NHB t 8 = 998"
proof -
  let ?i = "1500000000000000000000000000 :: int"
  have inv: "lend_inv refDeps 1 2 (sampleLoan ?i 1 1)" by (rule sampleLoan_inv) simp_all
  have "DebtNHB (syncDebt (loadedUser (sampleLoan ?i 1 1) ''p'' 8) (loadedLoan ?i 1)) = 2"
    by (simp add: loan_simps syncDebt_def debtFromScaled_def halfRay_def ray_def bigQuo_def)
  with repay_rejected [OF inv loanEngine_at [of ?i 1], of 8 "loanMarket ?i 1" "loadedLoan ?i 1" "loadedFees (sampleLoan ?i 1 1) ''p''" False 2 2]
  show ?thesis by (auto simp: loan_simps sampleRisk_def)
qed

section \<open>Liquidating one's own position\<close>

lemma seq_selfLiquidate:
  assumes "chain_inv D s" and "totalSupply D NHB s < 2 ^ 256"
    and "a \<notin> {moduleAddress E, collateralAddress E}" and "moduleAddress E \<noteq> collateralAddress E"
    and "0 \<le> repay" and "repay \<le> coinBalance D NHB s a" and "0 \<le> lshare"
    and "seize \<le> coinBalance D ZNHB s (collateralAddress E)" and "sd = None" and "sp = None"
    and k: "\<And>t. chain_inv D t \<Longrightarrow>
      coinBalance D NHB t = (coinBalance D NHB s)(moduleAddress E := coinBalance D NHB s (moduleAddress E) + repay) \<Longrightarrow>
      coinBalance D ZNHB t = (coinBalance D ZNHB s)(collateralAddress E := coinBalance D ZNHB s (collateralAddress E) - seize) \<Longrightarrow>
      same_records s t \<Longrightarrow> wp (k ()) Q R t"
  shows "wp (bindE (liquidatePersist D (liquidationWrites D s E a a repay lshare seize) sd sp) k) Q R s"
proof -
  let ?xs = "liquidationWrites D s E a a repay lshare seize"
  have "wp (persistAccounts D ?xs) (\<lambda>x. wp (k x) Q R) R s"
  proof (rule wp_persistAccounts [OF assms(1)])
    show "\<forall>x\<in>set ?xs. acct_fits (snd x)"
      using liquidationWrites_fits [OF assms(1,2) _ assms(5-8), of a] assms(3) by auto
    fix t
    assume t: "chain_inv D t" "\<And>c. coinBalance D c t = writes c ?xs (coinBalance D c s)" "same_records s t"
    show "wp (k ()) Q R t"
      by (rule k [OF t(1) _ _ t(3)])
        (use assms(3,4) in \<open>auto simp: t(2) writes_def liquidationWrites_def Balance_coin fun_eq_iff\<close>)
  qed
  then show ?thesis by (simp add: liquidatePersist_def wp_bindE assms(9,10))
qed

text \<open>
  Property C29 (liquidating one's own position creates NHB). When the liquidator and the borrower are
  the same account and no collateral routing targets are configured, a successful liquidation clears the debt and credits the module with the repaid
  amount, but the account pays nothing and receives nothing: its balances are written back as they
  were before, so the total supply of NHB grows by the repaid amount and the seized collateral is
  lost.
\<close>

theorem self_liquidation:
  assumes inv: "lend_inv D mo co s" and "engine_at mo co E" and "a \<notin> {mo, co}"
    and "DeveloperTarget (collateralRouting E) = None" and "ProtocolTarget (collateralRouting E) = None"
    and "Liquidate D E a a s = (Inr (x, y), t)"
  shows "0 < x \<and> coinBalance D NHB t a = coinBalance D NHB s a \<and> coinBalance D ZNHB t a = coinBalance D ZNHB s a
    \<and> coinBalance D NHB t mo = coinBalance D NHB s mo + x \<and> totalSupply D NHB t = totalSupply D NHB s + x
    \<and> totalSupply D ZNHB t = totalSupply D ZNHB s - y
    \<and> (\<exists>u. lendUsers t (enginePool E, a) = Some u \<and> suScaledDebt u = 0)"
proof -
  let ?P = "\<lambda>(x, y) t. 0 < x \<and> coinBalance D NHB t a = coinBalance D NHB s a \<and> coinBalance D ZNHB t a = coinBalance D ZNHB s a
    \<and> coinBalance D NHB t mo = coinBalance D NHB s mo + x \<and> totalSupply D NHB t = totalSupply D NHB s + x
    \<and> totalSupply D ZNHB t = totalSupply D ZNHB s - y
    \<and> (\<exists>u. lendUsers t (enginePool E, a) = Some u \<and> suScaledDebt u = 0)"
  note I = lend_invD [OF inv] and U = loadedUser_nonneg [OF inv]
  have P: "pool_ok (enginePool E)" and mo: "moduleAddress E = mo" and co: "collateralAddress E = co" and ne: "mo \<noteq> co"
    using assms(2) by (simp_all add: engine_at_def)
  have ns: "shareWrites D s None v = None" for v by (simp add: shareWrites_def)
  have pos: "0 < DebtNHB (syncDebt (loadedUser s (enginePool E) a) m)"
    if "DebtNHB (syncDebt (loadedUser s (enginePool E) a) m) \<noteq> 0" and "0 < BorrowIndex m" for m
    using that syncDebt_nonneg [OF U(4) that(2), of "enginePool E" a] by simp
  have "wp (Liquidate D E a a) ?P (\<lambda>_ _. True) s"
    unfolding Liquidate_def
    by (intro seq_basic seq_accrue [OF inv assms(2)] seq_load(1,2) [OF P] seq_prod seq_share seq_put [OF I(2) P]
        seq_selfLiquidate [OF I(1,3), unfolded liquidationWrites_def], insert assms(3) ne)
      (simp_all add: mo co step_simps step_nonneg U I(6) routeCollateral_nonneg seizeAmountOf_le stored_sel pos
        assms(4,5) ns totalSupply_allOf allOf_upd)
  then show ?thesis using assms(6) by (auto dest: wp_ok)
qed

theorem self_liquidation_witness:
  "\<exists>t. Liquidate refDeps (loanEngine ray 800) 8 8 (sampleLoan ray 800 800) = (Inr (800, 840), t)
     \<and> coinBalance refDeps NHB t 8 = 1000 \<and> coinBalance refDeps NHB t 1 = 1000"
proof -
  let ?E = "loanEngine ray 800" and ?s = "sampleLoan ray 800 800"
  have inv: "lend_inv refDeps 1 2 ?s" by (rule sampleLoan_inv) simp_all
  note I = lend_invD [OF inv]
  have P: "pool_ok (enginePool ?E)" by (simp add: loan_engine poolOf_p)
  have sync: "DebtNHB (syncDebt (loadedUser ?s ''p'' 8) (loadedLoan ray 800)) = 800"
    by (rule syncDebt_ray) (simp_all add: loan_simps)
  have seize: "seizeAmountOf ?E 800 900 = 840"
    by (simp add: seizeAmountOf_def loan_simps sampleRisk_def basisPoints_def bigQuo_def)
  have route: "routeCollateral (lendingCollateralRouting sampleNode) 840 = Inr (840, 0, 0)"
    by (simp add: routeCollateral_def sampleNode_def computeShare_def isZeroAddress_def checkS_def Let_def)
  have targets: "DeveloperTarget (collateralRouting ?E) = None" "ProtocolTarget (collateralRouting ?E) = None"
    "LiquidatorBps (collateralRouting ?E) + DeveloperBps (collateralRouting ?E) + ProtocolBps (collateralRouting ?E) = 10000"
    by (simp_all add: loan_engine sampleNode_def)
  have ns: "shareWrites refDeps ?s None v = None" for v by (simp add: shareWrites_def)
  have "wp (Liquidate refDeps ?E 8 8) (\<lambda>x _. x = (800, 840)) (\<lambda>_ _. False) ?s"
    unfolding Liquidate_def
    by (intro seq_basic loan_known seq_load(2) [OF P] seq_prod seq_share seq_put [OF I(2) P]
        seq_selfLiquidate [OF I(1,3), unfolded liquidationWrites_def])
      (auto simp: loan_simps sync [unfolded loan_records] seize route targets [unfolded loan_engine] ns sampleRisk_def
        positionHealthy_def basisPoints_def step_simps step_nonneg I(5))
  then obtain t where t: "Liquidate refDeps ?E 8 8 ?s = (Inr (800, 840), t)" by (auto dest!: wp_False)
  from self_liquidation [OF inv loanEngine_at _ targets(1,2) t] show ?thesis by (simp add: t loan_simps)
qed

end
