(* ===== verification/BFTEngine.thy ===== *)
theory BFTEngine
  imports Prelude "HOL-Library.List_Lexorder" "HOL-Library.Char_ord"
begin

text \<open>
  The consensus engine of a validator: \<^verbatim>\<open>consensus/bft/bft.go\<close>, \<^verbatim>\<open>types.go\<close> and \<^verbatim>\<open>interface.go\<close>, with
  the block header of \<^verbatim>\<open>core/types/block.go\<close>.

  The engine is written against the interface \<^verbatim>\<open>NodeInterface\<close>; the node is a state of type \<open>'n\<close> with
  the interface's methods as functions in \<open>bdeps\<close>. There too are the encoders (\<^verbatim>\<open>json.Marshal\<close> of a
  header, a vote, a proposal), the hash functions, the signature schemes and the validator's key:
  the theorems hold for every choice of them. \<open>marshals\<close> tells whether \<^verbatim>\<open>json.Marshal\<close> encodes a message for
  the network. \<^verbatim>\<open>CommitBlock\<close> gets a pointer and fills in a missing state root, so it returns the block as
  it leaves it. A transaction is its encoding.

  \<open>hasBroadcaster\<close> tells whether the engine was given a broadcaster. Both programs that build an
  engine give one; without it \<^verbatim>\<open>broadcastVote\<close> and \<^verbatim>\<open>propose\<close> panic in Go, which is not modelled.

  The engine runs in one goroutine, \<^verbatim>\<open>runRound\<close> in a loop; \<^verbatim>\<open>HandleProposal\<close> and \<^verbatim>\<open>HandleVote\<close> are called
  from others and only read the current state and append to a channel, so each of them and each
  iteration of the loop is one step. A Go map is an association list with distinct keys (the
  validator set), a function (the votes) or a list of its true keys (\<^verbatim>\<open>committedBlocks\<close>). What
  the code prints is left out.
\<close>

section \<open>Messages\<close>

definition Prevote :: u8 where "Prevote = 1"

definition Precommit :: u8 where "Precommit = 2"

record Signature =
  Scheme :: string
  sigBytes :: string
  PublicKey :: string

record Vote =
  voteHash :: string
  voteRound :: int
  voteType :: u8
  voteHeight :: u64

record SignedVote =
  svVote :: "Vote option"
  svValidator :: string
  svSignature :: "Signature option"

record BlockHeader =
  bhHeight :: u64
  bhTimestamp :: int
  PrevHash :: string
  StateRoot :: string
  TxRoot :: string
  bhValidator :: string

record Block =
  Header :: "BlockHeader option"
  Transactions :: "string list"

record Proposal =
  propBlock :: "Block option"
  propRound :: int

record SignedProposal =
  spProposal :: "Proposal option"
  spProposer :: string
  spSignature :: "Signature option"

text \<open>A message for the network; \<open>MsgEmptyVote\<close> is a vote message without a payload.\<close>

datatype message = MsgProposal SignedProposal | MsgVote SignedVote | MsgEmptyVote

section \<open>What the engine is given\<close>

record 'n bdeps =
  getMempool :: "'n \<Rightarrow> string list"
  createBlock :: "string list \<Rightarrow> 'n \<Rightarrow> (error + Block option) \<times> 'n"
  commitBlock :: "Block \<Rightarrow> 'n \<Rightarrow> (error + Block) \<times> 'n"
  getValidatorSet :: "'n \<Rightarrow> (string \<times> int) list"
  getStake :: "'n \<Rightarrow> string \<Rightarrow> error + int \<times> u64"
  getLastCommitHash :: "'n \<Rightarrow> string"
  getHeight :: "'n \<Rightarrow> u64"
  marshalHeader :: "BlockHeader \<Rightarrow> error + string"
  marshalVote :: "Vote \<Rightarrow> string"
  marshalProposal :: "Proposal \<Rightarrow> string"
  marshals :: "message \<Rightarrow> bool"
  hasBroadcaster :: bool
  sha256 :: "string \<Rightarrow> string"
  keccak256 :: "string \<Rightarrow> string"
  sigToPub :: "string \<Rightarrow> string \<Rightarrow> error + string"
  pubkeyToAddress :: "string \<Rightarrow> string"
  ed25519Verify :: "string \<Rightarrow> string \<Rightarrow> string \<Rightarrow> bool"
  signHash :: "string \<Rightarrow> error + string"
  myAddr :: string

definition headerHash :: "'n bdeps \<Rightarrow> BlockHeader \<Rightarrow> error + string" where
  "headerHash D hdr = bindS (marshalHeader D hdr) (\<lambda>b. Inr (sha256 D b))"

section \<open>The state of the engine\<close>

text \<open>\<open>outbox\<close> lists what was handed to the broadcaster. \<open>commitLog\<close> is a history variable: for each block
  the node accepted, the height and round of the engine, the block the votes were for, the block as
  the node left it, the precommits and the validator set it was committed with.\<close>

record commit_rec =
  cHeight :: u64
  cRound :: int
  cBlock :: Block
  cStored :: Block
  cVotes :: "string \<Rightarrow> SignedVote option"
  cSet :: "(string \<times> int) list"

record 'n bft =
  validatorSet :: "(string \<times> int) list"
  stHeight :: u64
  stRound :: int
  activeProposal :: "SignedProposal option"
  receivedVotes :: "u8 \<Rightarrow> string \<Rightarrow> SignedVote option"
  receivedPower :: "u8 \<Rightarrow> int option"
  totalVotingPower :: int
  committedBlocks :: "u64 list"
  proposalCh :: "SignedProposal list"
  voteCh :: "SignedVote list"
  voteCap :: nat
  prevoteSent :: bool
  precommitSent :: bool
  node :: 'n
  outbox :: "message list"
  commitLog :: "commit_rec list"

definition calculateVoteQueueCapacity :: "(string \<times> int) list \<Rightarrow> nat" where
  "calculateVoteQueueCapacity vs =
     (if length vs = 0 then 128 else if length vs * 2 < 128 then 128 else length vs * 2)"

definition totalWeight :: "(string \<times> int) list \<Rightarrow> int" where
  "totalWeight vs = sum_list (map snd vs)"

definition NewEngine :: "'n bdeps \<Rightarrow> 'n \<Rightarrow> 'n bft" where
  "NewEngine D n = (let vs = getValidatorSet D n in
     \<lparr>validatorSet = vs, stHeight = getHeight D n + 1, stRound = 0, activeProposal = None,
      receivedVotes = (\<lambda>_ _. None), receivedPower = [Prevote \<mapsto> 0, Precommit \<mapsto> 0],
      totalVotingPower = totalWeight vs, committedBlocks = [], proposalCh = [], voteCh = [],
      voteCap = calculateVoteQueueCapacity vs, prevoteSent = False, precommitSent = False,
      node = n, outbox = [], commitLog = []\<rparr>)"

section \<open>Signatures\<close>

definition verifySignature :: "'n bdeps \<Rightarrow> string \<Rightarrow> Signature option \<Rightarrow> string \<Rightarrow> error + unit" where
  "verifySignature D msgHash sig expectedAddr = (case sig of
     None \<Rightarrow> Inl ''missing signature''
   | Some s \<Rightarrow>
       if Scheme s = ''secp256k1'' then
         bindS (checkS (length (sigBytes s) \<noteq> 65) ''invalid secp256k1 signature length'') (\<lambda>_.
         case sigToPub D msgHash (sigBytes s) of
           Inl e \<Rightarrow> Inl (''secp256k1 recover failed: '' @ e)
         | Inr pub \<Rightarrow> checkS (pubkeyToAddress D pub \<noteq> expectedAddr) ''signature address mismatch'')
       else if Scheme s = ''ed25519'' then
         bindS (checkS (length (PublicKey s) \<noteq> 32) ''invalid ed25519 public key length'') (\<lambda>_.
         bindS (checkS (\<not> ed25519Verify D (PublicKey s) msgHash (sigBytes s)) ''invalid ed25519 signature'') (\<lambda>_.
         checkS (drop 12 (keccak256 D (PublicKey s)) \<noteq> expectedAddr) ''signature address mismatch''))
       else Inl ''unsupported signature scheme %q'')"

definition verifySignedVote :: "'n bdeps \<Rightarrow> SignedVote \<Rightarrow> error + unit" where
  "verifySignedVote D v = (case (svVote v, svSignature v) of
     (Some w, Some s) \<Rightarrow> verifySignature D (sha256 D (marshalVote D w)) (svSignature v) (svValidator v)
   | _ \<Rightarrow> Inl ''invalid signed vote'')"

text \<open>The block of a proposal and its header, when neither is missing.\<close>

definition blockOf :: "SignedProposal \<Rightarrow> (Proposal \<times> Block \<times> BlockHeader) option" where
  "blockOf p = (case spProposal p of None \<Rightarrow> None
     | Some pr \<Rightarrow> (case propBlock pr of None \<Rightarrow> None
     | Some b \<Rightarrow> (case Header b of None \<Rightarrow> None | Some hdr \<Rightarrow> Some (pr, b, hdr))))"

definition verifySignedProposal :: "'n bdeps \<Rightarrow> SignedProposal \<Rightarrow> error + unit" where
  "verifySignedProposal D p = (case (spProposal p, spSignature p) of
     (Some pr, Some s) \<Rightarrow> (case blockOf p of
         None \<Rightarrow> Inl ''proposal missing block header''
       | Some (_, _, hdr) \<Rightarrow>
           bindS (checkS (spProposer p \<noteq> bhValidator hdr) ''proposal proposer mismatch'') (\<lambda>_.
           verifySignature D (sha256 D (marshalProposal D pr)) (spSignature p) (spProposer p)))
   | _ \<Rightarrow> Inl ''invalid signed proposal'')"

definition createVote ::
  "'n bdeps \<Rightarrow> u8 \<Rightarrow> string \<Rightarrow> int \<Rightarrow> u64 \<Rightarrow> error + SignedVote" where
  "createVote D t blockHash round height =
     (let v = \<lparr>voteHash = blockHash, voteRound = round, voteType = t, voteHeight = height\<rparr> in
      case signHash D (sha256 D (marshalVote D v)) of
        Inl e \<Rightarrow> Inl (''failed to sign vote: '' @ e)
      | Inr s \<Rightarrow> Inr \<lparr>svVote = Some v, svValidator = myAddr D,
          svSignature = Some \<lparr>Scheme = ''secp256k1'', sigBytes = s, PublicKey = []\<rparr>\<rparr>)"

section \<open>Votes and power\<close>

definition activeBlock :: "'n bft \<Rightarrow> (Block \<times> BlockHeader) option" where
  "activeBlock e = (case activeProposal e of None \<Rightarrow> None
     | Some p \<Rightarrow> map_option snd (blockOf p))"

definition hasTwoThirdsPowerLocked :: "u8 \<Rightarrow> 'n bft \<Rightarrow> bool" where
  "hasTwoThirdsPowerLocked vt e =
     (0 < totalVotingPower e \<and> (case receivedPower e vt of None \<Rightarrow> False
        | Some p \<Rightarrow> (totalVotingPower e * 2 + 2) div 3 \<le> p))"

definition recalculateVotingPowerLocked :: "'n bft \<Rightarrow> 'n bft" where
  "recalculateVotingPowerLocked e = e\<lparr>totalVotingPower := totalWeight (validatorSet e)\<rparr>"

definition resetVoteTrackingLocked :: "'n bft \<Rightarrow> 'n bft" where
  "resetVoteTrackingLocked e =
     e\<lparr>receivedVotes := (\<lambda>_ _. None), receivedPower := [Prevote \<mapsto> 0, Precommit \<mapsto> 0]\<rparr>"

definition resetProposalStateLocked :: "'n bft \<Rightarrow> 'n bft" where
  "resetProposalStateLocked e =
     resetVoteTrackingLocked (e\<lparr>activeProposal := None, prevoteSent := False, precommitSent := False\<rparr>)"

definition weightOf :: "(string \<times> int) list \<Rightarrow> string \<Rightarrow> int" where
  "weightOf vs k = (case map_of vs k of None \<Rightarrow> 0 | Some w \<Rightarrow> w)"

definition acceptProposal :: "SignedProposal \<Rightarrow> 'n bft \<Rightarrow> bool \<times> 'n bft" where
  "acceptProposal p e =
     (if activeProposal e \<noteq> None then (False, e) else (True, e\<lparr>activeProposal := Some p\<rparr>))"

definition recordVote :: "u8 \<Rightarrow> SignedVote \<Rightarrow> 'n bft \<Rightarrow> 'n bft" where
  "recordVote vt v e = (let key = svValidator v in
     e\<lparr>receivedVotes := (receivedVotes e)(vt := (receivedVotes e vt)(key \<mapsto> v)),
       receivedPower := (receivedPower e)(vt \<mapsto>
         (case receivedPower e vt of None \<Rightarrow> 0 | Some p \<Rightarrow> p) + weightOf (validatorSet e) key)\<rparr>)"

definition addVoteIfRelevant ::
  "'n bdeps \<Rightarrow> SignedVote \<Rightarrow> 'n bft \<Rightarrow> (bool \<times> bool \<times> bool) \<times> 'n bft" where
  "addVoteIfRelevant D v e = (case (activeBlock e, svVote v) of
     (Some (_, hdr), Some w) \<Rightarrow> (case headerHash D hdr of
         Inl _ \<Rightarrow> ((False, False, False), e)
       | Inr expectedHash \<Rightarrow>
           if expectedHash \<noteq> voteHash w then ((False, False, False), e)
           else if receivedVotes e (voteType w) (svValidator v) \<noteq> None
           then ((False, hasTwoThirdsPowerLocked Prevote e, hasTwoThirdsPowerLocked Precommit e), e)
           else let e' = recordVote (voteType w) v e
                in ((True, hasTwoThirdsPowerLocked Prevote e', hasTwoThirdsPowerLocked Precommit e'), e'))
   | _ \<Rightarrow> ((False, False, False), e))"

definition broadcastVote :: "'n bdeps \<Rightarrow> SignedVote \<Rightarrow> 'n bft \<Rightarrow> 'n bft" where
  "broadcastVote D v e = (if marshals D (MsgVote v) then e\<lparr>outbox := outbox e @ [MsgVote v]\<rparr> else e)"

text \<open>The vote for nil is stored over the validator's own prevote, without touching the power.\<close>

definition broadcastPrevoteNilLocked :: "'n bdeps \<Rightarrow> 'n bft \<Rightarrow> 'n bft" where
  "broadcastPrevoteNilLocked D e =
     (if \<not> hasBroadcaster D then e
      else case createVote D Prevote [] (stRound e) (stHeight e) of
        Inl _ \<Rightarrow> e
      | Inr v \<Rightarrow> e\<lparr>receivedVotes := (receivedVotes e)(Prevote := (receivedVotes e Prevote)(svValidator v \<mapsto> v)),
          outbox := outbox e @ [if marshals D (MsgVote v) then MsgVote v else MsgEmptyVote]\<rparr>)"

section \<open>The phases of a round\<close>

definition syncHeightWithNodeLocked :: "'n bdeps \<Rightarrow> 'n bft \<Rightarrow> bool \<times> 'n bft" where
  "syncHeightWithNodeLocked D e = (let nodeHeight = getHeight D (node e);
       e1 = e\<lparr>committedBlocks := filter (\<lambda>h. \<not> h \<le> nodeHeight) (committedBlocks e)\<rparr> in
     if stHeight e \<le> nodeHeight then (True, e1\<lparr>stHeight := nodeHeight + 1, stRound := 0\<rparr>) else (False, e1))"

definition refreshValidators :: "'n bdeps \<Rightarrow> 'n bft \<Rightarrow> 'n bft" where
  "refreshValidators D e =
     recalculateVotingPowerLocked (e\<lparr>validatorSet := getValidatorSet D (node e)\<rparr>)"

definition commit :: "'n bdeps \<Rightarrow> 'n bft \<Rightarrow> bool \<times> 'n bft" where
  "commit D e = (case activeBlock e of None \<Rightarrow> (False, e)
     | Some (b, hdr) \<Rightarrow>
         if stHeight e \<in> set (committedBlocks e) then (True, e)
         else if \<not> hasTwoThirdsPowerLocked Precommit e then (False, e)
         else (case commitBlock D b (node e) of
             (Inl _, n) \<Rightarrow> (False, resetProposalStateLocked (broadcastPrevoteNilLocked D (e\<lparr>node := n\<rparr>)))
           | (Inr stored, n) \<Rightarrow> (True, snd (syncHeightWithNodeLocked D (refreshValidators D
               (e\<lparr>node := n, committedBlocks := stHeight e # committedBlocks e,
                  stHeight := stHeight e + 1, stRound := 0, activeProposal := None,
                  prevoteSent := False, precommitSent := False,
                  commitLog := commitLog e @ [\<lparr>cHeight = stHeight e, cRound = stRound e, cBlock = b, cStored = stored,
                    cVotes = receivedVotes e Precommit, cSet = validatorSet e\<rparr>]\<rparr>))))))"

definition precommit :: "'n bdeps \<Rightarrow> 'n bft \<Rightarrow> 'n bft" where
  "precommit D e = (case activeBlock e of None \<Rightarrow> e
     | Some (_, hdr) \<Rightarrow>
         if precommitSent e \<or> \<not> hasTwoThirdsPowerLocked Prevote e then e
         else (case headerHash D hdr of Inl _ \<Rightarrow> e
           | Inr blockHash \<Rightarrow>
             (case createVote D Precommit blockHash (stRound e) (stHeight e) of
                Inl _ \<Rightarrow> e\<lparr>precommitSent := False\<rparr>
              | Inr v \<Rightarrow>
                  (let ((_, _, reachedPrecommit), e1) = addVoteIfRelevant D v (e\<lparr>precommitSent := True\<rparr>);
                       e2 = broadcastVote D v e1
                   in if reachedPrecommit then snd (commit D e2) else e2))))"

definition prevote :: "'n bdeps \<Rightarrow> 'n bft \<Rightarrow> 'n bft" where
  "prevote D e = (case activeBlock e of None \<Rightarrow> e
     | Some (_, hdr) \<Rightarrow>
         if prevoteSent e then e
         else (case headerHash D hdr of Inl _ \<Rightarrow> e
           | Inr blockHash \<Rightarrow>
             (case createVote D Prevote blockHash (stRound e) (stHeight e) of
                Inl _ \<Rightarrow> e\<lparr>prevoteSent := False\<rparr>
              | Inr v \<Rightarrow>
                  (let ((_, reachedPrevote, reachedPrecommit), e1) = addVoteIfRelevant D v (e\<lparr>prevoteSent := True\<rparr>);
                       e2 = broadcastVote D v e1;
                       e3 = (if reachedPrevote then precommit D e2 else e2)
                   in if reachedPrecommit then snd (commit D e3) else e3))))"

definition propose :: "'n bdeps \<Rightarrow> 'n bft \<Rightarrow> (error + unit) \<times> 'n bft" where
  "propose D e = (case createBlock D (getMempool D (node e)) (node e) of
     (Inl err, n) \<Rightarrow> (Inl (''failed to build block: '' @ err), e\<lparr>node := n\<rparr>)
   | (Inr None, n) \<Rightarrow> (Inl ''proposed block missing header'', e\<lparr>node := n\<rparr>)
   | (Inr (Some b), n) \<Rightarrow>
       if Header b = None then (Inl ''proposed block missing header'', e\<lparr>node := n\<rparr>)
       else (let p = \<lparr>propBlock = Some b, propRound = stRound e\<rparr> in
         case signHash D (sha256 D (marshalProposal D p)) of
           Inl err \<Rightarrow> (Inl (''failed to sign proposal: '' @ err), e\<lparr>node := n\<rparr>)
         | Inr s \<Rightarrow>
             (let sp = \<lparr>spProposal = Some p, spProposer = myAddr D,
                        spSignature = Some \<lparr>Scheme = ''secp256k1'', sigBytes = s, PublicKey = []\<rparr>\<rparr>;
                  e1 = snd (acceptProposal sp (e\<lparr>node := n\<rparr>))
              in if \<not> marshals D (MsgProposal sp) then (Inl ''failed to marshal proposal'', e1)
                 else (Inr (), e1\<lparr>outbox := outbox e1 @ [MsgProposal sp]\<rparr>))))"

definition startNewRound :: "'n bdeps \<Rightarrow> 'n bft \<Rightarrow> 'n bft" where
  "startNewRound D e =
     (let (synced, e1) = syncHeightWithNodeLocked D e;
          e2 = (if synced then e1
                else if stHeight e1 \<in> set (committedBlocks e1)
                then snd (syncHeightWithNodeLocked D (e1\<lparr>committedBlocks := removeAll (stHeight e1) (committedBlocks e1),
                       stHeight := stHeight e1 + 1, stRound := 0\<rparr>))
                else e1\<lparr>stRound := wrap64 (stRound e1 + 1)\<rparr>)
      in resetVoteTrackingLocked (refreshValidators D
           (e2\<lparr>activeProposal := None, prevoteSent := False, precommitSent := False\<rparr>)))"

section \<open>The proposer of a round\<close>

text \<open>The validators in the order of their addresses whose account can be read, with the power the
  selection gives them.\<close>

definition candidates :: "'n bdeps \<Rightarrow> 'n bft \<Rightarrow> (string \<times> int) list" where
  "candidates D e = concat (map (\<lambda>k. case getStake D (node e) k of
       Inl _ \<Rightarrow> [] | Inr (stake, engagement) \<Rightarrow> [(k, stake + uint engagement)])
     (sort (map fst (validatorSet e))))"

fun pickByWeight :: "(string \<times> int) list \<Rightarrow> int \<Rightarrow> string option" where
  "pickByWeight [] pick = None"
| "pickByWeight ((a, w) # vs) pick = (if pick < w then Some a else pickByWeight vs (pick - w))"

definition selectProposer :: "'n bdeps \<Rightarrow> int \<Rightarrow> 'n bft \<Rightarrow> string" where
  "selectProposer D round e = (let vs = candidates D e; powerSum = totalWeight vs in
     if vs = [] then []
     else if powerSum = 0 then fst (vs ! nat (round mod int (length vs)))
     else let seed = sha256 D (getLastCommitHash D (node e) @ beBytes 8 (nat (round mod 2 ^ 64))) in
       case pickByWeight vs (int (beValue seed) mod \<bar>powerSum\<bar>) of
         Some a \<Rightarrow> a
       | None \<Rightarrow> fst (hd vs))"

section \<open>Incoming messages\<close>

definition HandleProposal :: "'n bdeps \<Rightarrow> SignedProposal \<Rightarrow> 'n bft \<Rightarrow> (error + unit) \<times> 'n bft" where
  "HandleProposal D p e = (case verifySignedProposal D p of
     Inl err \<Rightarrow> (Inl err, e)
   | Inr _ \<Rightarrow> (case blockOf p of
       None \<Rightarrow> (Inl ''invalid proposal payload'', e)
     | Some (pr, _, hdr) \<Rightarrow>
         if map_of (validatorSet e) (spProposer p) = None then (Inl ''proposal from non-validator %x'', e)
         else if bhHeight hdr \<noteq> stHeight e \<or> propRound pr < stRound e then (Inr (), e)
         else if 16 \<le> length (proposalCh e) then (Inl ''proposal queue full'', e)
         else (Inr (), e\<lparr>proposalCh := proposalCh e @ [p]\<rparr>)))"

text \<open>A send on the full vote channel blocks: the result is then \<open>False\<close> and the call is yet to be made.\<close>

definition HandleVote :: "'n bdeps \<Rightarrow> SignedVote \<Rightarrow> 'n bft \<Rightarrow> (error + bool) \<times> 'n bft" where
  "HandleVote D v e = (case verifySignedVote D v of
     Inl err \<Rightarrow> (Inl err, e)
   | Inr _ \<Rightarrow> (case svVote v of
       None \<Rightarrow> (Inl ''invalid vote payload'', e)
     | Some w \<Rightarrow>
         if map_of (validatorSet e) (svValidator v) = None then (Inl ''vote from non-validator %x'', e)
         else if voteHeight w \<noteq> stHeight e \<or> voteRound w < stRound e then (Inr True, e)
         else if voteCap e \<le> length (voteCh e) then (Inr False, e)
         else (Inr True, e\<lparr>voteCh := voteCh e @ [v]\<rparr>)))"

section \<open>The loop of a round\<close>

text \<open>What \<^verbatim>\<open>runRound\<close> does up to its \<^verbatim>\<open>for\<close>, and the local variables \<^verbatim>\<open>height\<close> and \<^verbatim>\<open>round\<close> it keeps.\<close>

record 'n round_loop =
  loopHeight :: u64
  loopRound :: int
  engine :: "'n bft"

definition enterRound :: "'n bdeps \<Rightarrow> 'n bft \<Rightarrow> 'n round_loop" where
  "enterRound D e = (let e1 = startNewRound D e in
     \<lparr>loopHeight = stHeight e1, loopRound = stRound e1,
      engine = (if selectProposer D (stRound e1) e1 = myAddr D
        then (case propose D e1 of (Inl _, e2) \<Rightarrow> e2 | (Inr _, e2) \<Rightarrow> prevote D e2)
        else e1)\<rparr>)"

datatype round_event = ProposalTimer | PrevoteTimer | PrecommitTimer | CommitTimer | TakeProposal | TakeVote

text \<open>How an iteration of the loop goes on: with \<^verbatim>\<open>return\<close>, with \<^verbatim>\<open>continue\<close>, or with the test at its end.\<close>

datatype loop_exit = LoopReturn | LoopContinue | LoopFall

fun loopCase :: "'n bdeps \<Rightarrow> u64 \<Rightarrow> int \<Rightarrow> round_event \<Rightarrow> 'n bft \<Rightarrow> loop_exit \<times> 'n bft" where
  "loopCase D height round ProposalTimer e = (LoopFall, prevote D e)"
| "loopCase D height round PrevoteTimer e = (LoopFall, precommit D e)"
| "loopCase D height round PrecommitTimer e =
     (case commit D e of (True, e1) \<Rightarrow> (LoopReturn, e1) | (False, e1) \<Rightarrow> (LoopFall, e1))"
| "loopCase D height round CommitTimer e = (LoopReturn, e)"
| "loopCase D height round TakeProposal e = (case proposalCh e of [] \<Rightarrow> (LoopContinue, e)
     | sp # rest \<Rightarrow> (let e1 = e\<lparr>proposalCh := rest\<rparr> in case blockOf sp of
         None \<Rightarrow> (LoopContinue, e1)
       | Some (pr, _, hdr) \<Rightarrow>
           if bhHeight hdr \<noteq> height \<or> propRound pr \<noteq> round then (LoopContinue, e1)
           else (case acceptProposal sp e1 of
               (True, e2) \<Rightarrow> (LoopFall, prevote D e2)
             | (False, e2) \<Rightarrow> (LoopFall, e2))))"
| "loopCase D height round TakeVote e = (case voteCh e of [] \<Rightarrow> (LoopContinue, e)
     | sv # rest \<Rightarrow> (let e1 = e\<lparr>voteCh := rest\<rparr> in case svVote sv of
         None \<Rightarrow> (LoopContinue, e1)
       | Some w \<Rightarrow>
           if voteHeight w \<noteq> height \<or> voteRound w \<noteq> round then (LoopContinue, e1)
           else (let ((_, reachedPrevote, reachedPrecommit), e2) = addVoteIfRelevant D sv e1;
                     e3 = (if reachedPrevote then precommit D e2 else e2)
                 in if reachedPrecommit
                    then (case commit D e3 of (True, e4) \<Rightarrow> (LoopReturn, e4) | (False, e4) \<Rightarrow> (LoopFall, e4))
                    else (LoopFall, e3))))"

text \<open>One iteration; a round that returns is followed by the next, as \<^verbatim>\<open>Start\<close> calls \<^verbatim>\<open>runRound\<close> forever.\<close>

definition runRound :: "'n bdeps \<Rightarrow> round_event \<Rightarrow> 'n round_loop \<Rightarrow> 'n round_loop" where
  "runRound D ev L = (let (ex, e) = loopCase D (loopHeight L) (loopRound L) ev (engine L) in
     if ex = LoopReturn \<or> (ex = LoopFall \<and> loopHeight L \<in> set (committedBlocks e))
     then enterRound D e else L\<lparr>engine := e\<rparr>)"

text \<open>What can happen to a running engine.\<close>

datatype bft_input = InProposal SignedProposal | InVote SignedVote | InLoop round_event

fun bftStep :: "'n bdeps \<Rightarrow> bft_input \<Rightarrow> 'n round_loop \<Rightarrow> 'n round_loop" where
  "bftStep D (InProposal p) L = L\<lparr>engine := snd (HandleProposal D p (engine L))\<rparr>"
| "bftStep D (InVote v) L = L\<lparr>engine := snd (HandleVote D v (engine L))\<rparr>"
| "bftStep D (InLoop ev) L = runRound D ev L"

end
