(* ===== verification/BFTProps.thy ===== *)
theory BFTProps
  imports BFTEngine
begin

text \<open>
  What holds of a running consensus engine, whatever messages it is given: the power it has counted
  is the weight of the validators it has votes of, the votes are verified votes for its current
  proposal, height and round, and a block is handed to the node only with such votes of two thirds
  of the weight. The engine is followed through \<open>engineInv\<close>, which every function of it keeps;
  \<open>bft_reach\<close> are the states reached by messages, loop iterations and changes of the node.
\<close>

section \<open>Weights\<close>

definition weights_ok :: "(string \<times> int) list \<Rightarrow> bool" where
  "weights_ok vs \<longleftrightarrow> distinct (map fst vs) \<and> (\<forall>p\<in>set vs. 0 \<le> snd p)"

text \<open>The weight of the validators with a property.\<close>

definition powerOf :: "(string \<times> int) list \<Rightarrow> (string \<Rightarrow> bool) \<Rightarrow> int" where
  "powerOf vs P = totalWeight (filter (\<lambda>p. P (fst p)) vs)"

lemma totalWeight_simps [simp]: "totalWeight [] = 0" "totalWeight (p # vs) = snd p + totalWeight vs"
  by (simp_all add: totalWeight_def)

lemma powerOf_simps [simp]:
  "powerOf [] P = 0" "powerOf (p # vs) P = (if P (fst p) then snd p else 0) + powerOf vs P"
  by (simp_all add: powerOf_def)

lemma powerOf_none [simp]: "powerOf vs (\<lambda>_. False) = 0"
  by (simp add: powerOf_def)

lemma powerOf_cong: "(\<And>k. k \<in> set (map fst vs) \<Longrightarrow> P k = Q k) \<Longrightarrow> powerOf vs P = powerOf vs Q"
  by (induction vs) auto

lemma powerOf_insert:
  assumes "distinct (map fst vs)" and "\<not> P k"
  shows "powerOf vs (\<lambda>x. x = k \<or> P x) = powerOf vs P + weightOf vs k"
  using assms(1)
proof (induction vs)
  case (Cons p vs)
  show ?case
  proof (cases "fst p = k")
    case True
    with Cons.prems have "k \<notin> set (map fst vs)" by auto
    then have "powerOf vs (\<lambda>x. x = k \<or> P x) = powerOf vs P" by (intro powerOf_cong) metis
    with True assms(2) show ?thesis by (cases p) (simp add: weightOf_def)
  next
    case False
    with Cons show ?thesis by (cases p) (simp add: weightOf_def)
  qed
qed (simp add: weightOf_def)

text \<open>Two sets of validators overlap in at least what they have together beyond the total.\<close>

lemma powerOf_overlap:
  assumes "\<forall>p\<in>set vs. 0 \<le> snd p"
  shows "powerOf vs P + powerOf vs Q \<le> totalWeight vs + powerOf vs (\<lambda>k. P k \<and> Q k)"
  using assms by (induction vs) auto

lemma quorum_threshold:
  assumes "0 < total_power"
  shows "(total_power * 2 + 2) div 3 \<le> p \<longleftrightarrow> 2 * total_power \<le> 3 * (p :: int)"
  by linarith

section \<open>What is assumed of the node and of the key\<close>

text \<open>
  The validator set has distinct addresses and no negative weight (it is a Go map of stakes). A
  signature made with the key verifies under its own address. The node accepts only a block of its
  next height, which then is its height (the first check of \<^verbatim>\<open>Node.CommitBlock\<close>), no other method
  moves it back, and the chain is shorter than \<open>2 ^ 64 - 1\<close> blocks.
\<close>

definition bdeps_ok :: "'n bdeps \<Rightarrow> bool" where
  "bdeps_ok D \<longleftrightarrow> (\<forall>n. weights_ok (getValidatorSet D n))
     \<and> (\<forall>h s. signHash D h = Inr s \<longrightarrow> length s = 65 \<and> (\<exists>p. sigToPub D h s = Inr p \<and> pubkeyToAddress D p = myAddr D))
     \<and> (\<forall>b n u n'. commitBlock D b n = (Inr u, n') \<longrightarrow>
          (\<exists>hdr. Header b = Some hdr \<and> bhHeight hdr = getHeight D n + 1 \<and> getHeight D n < bhHeight hdr
             \<and> getHeight D n' = bhHeight hdr \<and> getHeight D n' < maxUint64))
     \<and> (\<forall>b n x n'. commitBlock D b n = (Inl x, n') \<longrightarrow> getHeight D n' = getHeight D n)
     \<and> (\<forall>t n r n'. createBlock D t n = (r, n') \<longrightarrow> getHeight D n' = getHeight D n)"

lemma bdeps_okD:
  assumes "bdeps_ok D"
  shows "weights_ok (getValidatorSet D n)"
    and "signHash D h = Inr s \<Longrightarrow> length s = 65 \<and> (\<exists>p. sigToPub D h s = Inr p \<and> pubkeyToAddress D p = myAddr D)"
    and "commitBlock D b n = (Inr u, n') \<Longrightarrow>
          \<exists>hdr. Header b = Some hdr \<and> bhHeight hdr = getHeight D n + 1 \<and> getHeight D n < bhHeight hdr
             \<and> getHeight D n' = bhHeight hdr \<and> getHeight D n' < maxUint64"
    and "commitBlock D b n = (Inl x, n') \<Longrightarrow> getHeight D n' = getHeight D n"
    and "createBlock D t n = (r, n') \<Longrightarrow> getHeight D n' = getHeight D n"
  using assms by (simp_all add: bdeps_ok_def)

section \<open>Votes\<close>

text \<open>A verified vote of a validator for a block hash.\<close>

definition vote_for :: "'n bdeps \<Rightarrow> u8 \<Rightarrow> u64 \<Rightarrow> int \<Rightarrow> string \<Rightarrow> string \<Rightarrow> SignedVote \<Rightarrow> bool" where
  "vote_for D vt h r hash k sv \<longleftrightarrow> svValidator sv = k \<and> verifySignedVote D sv = Inr ()
     \<and> svVote sv = Some \<lparr>voteHash = hash, voteRound = r, voteType = vt, voteHeight = h\<rparr>"

lemma createVote_ok:
  assumes "bdeps_ok D" and "createVote D t hash r h = Inr v"
  shows "vote_for D t h r hash (myAddr D) v"
  using assms bdeps_okD(2) [OF assms(1)]
  by (fastforce simp: createVote_def vote_for_def verifySignedVote_def verifySignature_def checkS_def Let_def
      split: sum.splits)

lemma createVote_voteD:
  "createVote D t hash r h = Inr v \<Longrightarrow>
     svVote v = Some \<lparr>voteHash = hash, voteRound = r, voteType = t, voteHeight = h\<rparr> \<and> svValidator v = myAddr D"
  by (auto simp: createVote_def Let_def split: sum.splits)

text \<open>The votes of the engine are for its proposal, and the power is their weight.\<close>

definition votes_ok :: "'n bdeps \<Rightarrow> u64 \<Rightarrow> int \<Rightarrow> 'n bft \<Rightarrow> bool" where
  "votes_ok D h r e \<longleftrightarrow> (\<forall>vt k sv. receivedVotes e vt k = Some sv \<longrightarrow>
     (\<exists>b hdr hash. activeBlock e = Some (b, hdr) \<and> headerHash D hdr = Inr hash \<and> vote_for D vt h r hash k sv))"

definition voters :: "'n bft \<Rightarrow> u8 \<Rightarrow> string \<Rightarrow> bool" where
  "voters e vt k \<longleftrightarrow> receivedVotes e vt k \<noteq> None"

definition tally_ok :: "'n bft \<Rightarrow> bool" where
  "tally_ok e \<longleftrightarrow> (\<forall>vt. (case receivedPower e vt of None \<Rightarrow> 0 | Some p \<Rightarrow> p)
       = powerOf (validatorSet e) (voters e vt))
     \<and> receivedPower e Prevote \<noteq> None \<and> receivedPower e Precommit \<noteq> None"

text \<open>A block was committed with verified precommits of two thirds of the weight.\<close>

definition certified :: "'n bdeps \<Rightarrow> commit_rec \<Rightarrow> bool" where
  "certified D x \<longleftrightarrow> weights_ok (cSet x) \<and> 0 < totalWeight (cSet x)
     \<and> (\<exists>hdr hash. Header (cBlock x) = Some hdr \<and> headerHash D hdr = Inr hash
          \<and> (\<forall>k sv. cVotes x k = Some sv \<longrightarrow> vote_for D Precommit (cHeight x) (cRound x) hash k sv))
     \<and> 2 * totalWeight (cSet x) \<le> 3 * powerOf (cSet x) (\<lambda>k. cVotes x k \<noteq> None)"

section \<open>The invariant\<close>

text \<open>
  \<open>h\<close> and \<open>r\<close> are the height and round of the running loop. As long as the engine is at that height
  its votes count for it. Once it has committed there it is at a greater height although the loop may
  go on; then its node has the height \<open>h\<close> already, and a proposal it still accepts is one of height \<open>h\<close>.
\<close>

definition engineInv :: "'n bdeps \<Rightarrow> u64 \<Rightarrow> int \<Rightarrow> 'n bft \<Rightarrow> bool" where
  "engineInv D h r e \<longleftrightarrow>
     getHeight D (node e) < maxUint64 \<and> stHeight e \<le> getHeight D (node e) + 1 \<and> committedBlocks e = []
     \<and> weights_ok (validatorSet e) \<and> totalVotingPower e = totalWeight (validatorSet e)
     \<and> (\<forall>v\<in>set (voteCh e). verifySignedVote D v = Inr ())
     \<and> (\<forall>x\<in>set (commitLog e). certified D x)
     \<and> (stHeight e = h \<longrightarrow> stRound e = r \<and> votes_ok D h r e \<and> tally_ok e)
     \<and> (stHeight e \<noteq> h \<longrightarrow> h \<le> getHeight D (node e)
          \<and> (\<forall>b hdr. activeBlock e = Some (b, hdr) \<longrightarrow> bhHeight hdr = h))"

lemma blockOf_header: "blockOf p = Some (pr, b, hdr) \<Longrightarrow> Header b = Some hdr"
  by (auto simp: blockOf_def split: option.splits)

lemma activeBlock_header: "activeBlock e = Some (b, hdr) \<Longrightarrow> Header b = Some hdr"
  by (auto simp: activeBlock_def blockOf_header split: option.splits)

text \<open>The counters the code compares and the weight of the voters.\<close>

lemma hasTwoThirds_power:
  assumes "tally_ok e" and "totalVotingPower e = totalWeight (validatorSet e)" and "vt = Prevote \<or> vt = Precommit"
  shows "hasTwoThirdsPowerLocked vt e \<longleftrightarrow> 0 < totalWeight (validatorSet e)
    \<and> 2 * totalWeight (validatorSet e) \<le> 3 * powerOf (validatorSet e) (voters e vt)"
proof -
  obtain p where p: "receivedPower e vt = Some p" using assms by (auto simp: tally_ok_def)
  then have "p = powerOf (validatorSet e) (voters e vt)"
    using assms(1) by (auto simp: tally_ok_def dest: spec [of _ vt])
  with p show ?thesis
    using quorum_threshold [of "totalWeight (validatorSet e)" p] assms(2) by (auto simp: hasTwoThirdsPowerLocked_def)
qed

section \<open>The engine keeps the invariant\<close>

lemmas engine_defs = engineInv_def votes_ok_def tally_ok_def voters_def [abs_def]

lemma reset_tally: "tally_ok (resetVoteTrackingLocked e)"
  by (auto simp: tally_ok_def resetVoteTrackingLocked_def voters_def [abs_def])

lemma broadcastVote_inv [simp]: "engineInv D h r (broadcastVote D v e) = engineInv D h r e"
  by (simp add: engine_defs broadcastVote_def activeBlock_def)

lemma sent_inv [simp]:
  "engineInv D h r (e\<lparr>prevoteSent := b\<rparr>) = engineInv D h r e"
  "engineInv D h r (e\<lparr>precommitSent := b\<rparr>) = engineInv D h r e"
  by (simp_all add: engine_defs activeBlock_def)

lemma queue_inv:
  "engineInv D h r e \<Longrightarrow> engineInv D h r (e\<lparr>proposalCh := ps\<rparr>)"
  "engineInv D h r e \<Longrightarrow> set vs \<subseteq> set (voteCh e) \<union> {v. verifySignedVote D v = Inr ()} \<Longrightarrow> engineInv D h r (e\<lparr>voteCh := vs\<rparr>)"
  by (auto simp: engine_defs activeBlock_def)

lemma voters_record:
  "voters (recordVote vt v e) = (voters e)(vt := (\<lambda>k. k = svValidator v \<or> voters e vt k))"
  by (auto simp: voters_def recordVote_def Let_def fun_eq_iff)

lemma recordVote_tally:
  assumes "tally_ok e" and "weights_ok (validatorSet e)" and "receivedVotes e vt (svValidator v) = None"
  shows "tally_ok (recordVote vt v e)"
proof -
  have "powerOf (validatorSet e) (\<lambda>k. k = svValidator v \<or> voters e vt k)
      = powerOf (validatorSet e) (voters e vt) + weightOf (validatorSet e) (svValidator v)"
    using assms by (intro powerOf_insert) (simp_all add: weights_ok_def voters_def)
  with assms(1) show ?thesis
    unfolding tally_ok_def voters_record by (auto simp: recordVote_def Let_def)
qed

text \<open>A vote that verifies, and is for the height and round of the loop while the engine is there, can
  be counted.\<close>

definition countable_vote :: "'n bdeps \<Rightarrow> u64 \<Rightarrow> int \<Rightarrow> 'n bft \<Rightarrow> SignedVote \<Rightarrow> bool" where
  "countable_vote D h r e v \<longleftrightarrow> verifySignedVote D v = Inr ()
     \<and> (stHeight e = h \<longrightarrow> (\<forall>w. svVote v = Some w \<longrightarrow> voteHeight w = h \<and> voteRound w = r))"

lemma recordVote_inv:
  assumes "engineInv D h r e" and "countable_vote D h r e v" and "activeBlock e = Some (b, hdr)"
    and "headerHash D hdr = Inr (voteHash w)" and "svVote v = Some w"
    and "receivedVotes e (voteType w) (svValidator v) = None"
  shows "engineInv D h r (recordVote (voteType w) v e)"
proof -
  let ?e = "recordVote (voteType w) v e"
  have same: "stHeight ?e = stHeight e" "stRound ?e = stRound e" "node ?e = node e" "validatorSet ?e = validatorSet e"
    "totalVotingPower ?e = totalVotingPower e" "voteCh ?e = voteCh e" "commitLog ?e = commitLog e"
    "committedBlocks ?e = committedBlocks e" "activeBlock ?e = activeBlock e"
    "receivedVotes ?e = (receivedVotes e)(voteType w := (receivedVotes e (voteType w))(svValidator v \<mapsto> v))"
    by (simp_all add: recordVote_def Let_def activeBlock_def)
  have "votes_ok D h r ?e" if "stHeight e = h"
  proof -
    have "w = \<lparr>voteHash = voteHash w, voteRound = r, voteType = voteType w, voteHeight = h\<rparr>"
      using assms(2,5) that by (cases w) (simp add: countable_vote_def)
    then have "vote_for D (voteType w) h r (voteHash w) (svValidator v) v"
      using assms(2,5) by (simp add: vote_for_def countable_vote_def)
    then show ?thesis
      using assms that by (auto simp: votes_ok_def same engineInv_def split: if_splits)
  qed
  moreover have "tally_ok ?e" if "stHeight e = h"
    using assms(1,6) that by (intro recordVote_tally) (simp_all add: engineInv_def)
  ultimately show ?thesis using assms(1) by (simp add: engineInv_def same)
qed

lemma addVote_cases:
  obtains "addVoteIfRelevant D v e = ((False, False, False), e)"
  | w hdr b where "svVote v = Some w" "activeBlock e = Some (b, hdr)" "headerHash D hdr = Inr (voteHash w)"
      "addVoteIfRelevant D v e = ((False, hasTwoThirdsPowerLocked Prevote e, hasTwoThirdsPowerLocked Precommit e), e)"
  | w hdr b where "svVote v = Some w" "activeBlock e = Some (b, hdr)" "headerHash D hdr = Inr (voteHash w)"
      "receivedVotes e (voteType w) (svValidator v) = None"
      "snd (addVoteIfRelevant D v e) = recordVote (voteType w) v e"
proof (cases "activeBlock e")
  case (Some p)
  then obtain b hdr where act: "activeBlock e = Some (b, hdr)" by (cases p) auto
  show ?thesis
  proof (cases "svVote v")
    case (Some w)
    consider x where "headerHash D hdr = Inl x" | hash where "headerHash D hdr = Inr hash" "hash \<noteq> voteHash w"
      | "headerHash D hdr = Inr (voteHash w)" by (cases "headerHash D hdr") auto
    then show ?thesis using act Some that
      by cases (auto simp: addVoteIfRelevant_def Let_def, (cases "receivedVotes e (voteType w) (svValidator v)", auto)?)
  qed (use that in \<open>simp add: addVoteIfRelevant_def act\<close>)
qed (use that in \<open>simp add: addVoteIfRelevant_def\<close>)

lemma addVote_inv:
  assumes "engineInv D h r e" and "countable_vote D h r e v"
  shows "engineInv D h r (snd (addVoteIfRelevant D v e))"
  by (rule addVote_cases [of D v e]) (use assms recordVote_inv [OF assms] in auto)

lemma addVote_same [simp]:
  "stHeight (snd (addVoteIfRelevant D v e)) = stHeight e"
  by (rule addVote_cases [of D v e]) (auto simp: recordVote_def Let_def)

text \<open>A commit: with the quorum in hand the certificate is complete; a proposal accepted after the
  commit is refused by the node.\<close>

lemma commit_certified:
  assumes "engineInv D h r e" and "stHeight e = h" and "activeBlock e = Some (b, hdr)"
    and "hasTwoThirdsPowerLocked Precommit e"
  shows "certified D \<lparr>cHeight = stHeight e, cRound = stRound e, cBlock = b, cStored = stored,
           cVotes = receivedVotes e Precommit, cSet = validatorSet e\<rparr>"
proof -
  have I: "weights_ok (validatorSet e)" "totalVotingPower e = totalWeight (validatorSet e)" "stRound e = r"
    "votes_ok D h r e" "tally_ok e" using assms(1,2) by (simp_all add: engineInv_def)
  have q: "0 < totalWeight (validatorSet e)"
    "2 * totalWeight (validatorSet e) \<le> 3 * powerOf (validatorSet e) (voters e Precommit)"
    using assms(4) hasTwoThirds_power [OF I(5,2), of Precommit] by simp_all
  then have "powerOf (validatorSet e) (voters e Precommit) \<noteq> powerOf (validatorSet e) (\<lambda>_. False)" by auto
  then obtain k sv where "receivedVotes e Precommit k = Some sv" using powerOf_cong by (metis not_Some_eq voters_def)
  then obtain hash where hash: "headerHash D hdr = Inr hash"
    using I(4) assms(3) by (fastforce simp: votes_ok_def)
  moreover have "vote_for D Precommit h r hash k sv" if "receivedVotes e Precommit k = Some sv" for k sv
    using I(4) assms(3) hash that by (fastforce simp: votes_ok_def)
  ultimately show ?thesis
    using I q assms(2) activeBlock_header [OF assms(3)] by (auto simp: certified_def voters_def [abs_def])
qed

lemma word_suc_mono:
  fixes a b :: u64
  assumes "b < maxUint64" and "a \<le> b"
  shows "a + 1 \<le> b + 1"
proof -
  have a: "a < maxUint64" using assms by (rule order.strict_trans1 [rotated])
  have u: "uint (x + 1) = uint x + 1" if "x < maxUint64" for x :: u64
    using that by (simp add: maxUint64_def word_less_def uint_word_ariths)
  show ?thesis using assms(2) by (simp add: word_le_def u [OF a] u [OF assms(1)])
qed

lemma refused_stale:
  assumes "bdeps_ok D" and "engineInv D h r e" and "stHeight e \<noteq> h" and "activeBlock e = Some (b, hdr)"
  shows "commitBlock D b (node e) \<noteq> (Inr u, n)"
proof
  assume "commitBlock D b (node e) = (Inr u, n)"
  then have "getHeight D (node e) < bhHeight hdr"
    using bdeps_okD(3) [OF assms(1)] activeBlock_header [OF assms(4)] by fastforce
  moreover have "bhHeight hdr = h" "h \<le> getHeight D (node e)" using assms by (simp_all add: engineInv_def)
  ultimately show False by simp
qed

lemma reset_inv:
  assumes "engineInv D h r e" and "getHeight D n = getHeight D (node e)"
  shows "engineInv D h r (resetProposalStateLocked (broadcastPrevoteNilLocked D (e\<lparr>node := n\<rparr>)))"
proof -
  obtain m vs where "broadcastPrevoteNilLocked D (e\<lparr>node := n\<rparr>) = e\<lparr>node := n, receivedVotes := vs, outbox := m\<rparr>"
  proof -
    have same: "e\<lparr>node := n\<rparr> = e\<lparr>node := n, receivedVotes := receivedVotes e, outbox := outbox e\<rparr>" by simp
    show thesis
    proof (cases "createVote D Prevote [] (stRound e) (stHeight e)")
      case (Inl x)
      with same show thesis by (intro that [of "outbox e" "receivedVotes e"]) (simp add: broadcastPrevoteNilLocked_def)
    next
      case (Inr v)
      with same that [of "outbox e" "receivedVotes e"] show thesis
        by (cases "hasBroadcaster D") (auto simp: broadcastPrevoteNilLocked_def intro: that)
    qed
  qed
  then show ?thesis
    using assms by (auto simp: engineInv_def resetProposalStateLocked_def reset_tally)
      (simp_all add: resetVoteTrackingLocked_def votes_ok_def activeBlock_def)
qed

text \<open>After a commit the engine is past the height of the loop.\<close>

lemma commit_success_inv:
  assumes "bdeps_ok D" and "engineInv D h r e" and "activeBlock e = Some (b, hdr)"
    and "hasTwoThirdsPowerLocked Precommit e" and "commitBlock D b (node e) = (Inr u, n)"
  shows "engineInv D h r (snd (commit D e))"
proof -
  have I: "getHeight D (node e) < maxUint64" "stHeight e \<le> getHeight D (node e) + 1" "committedBlocks e = []"
    using assms(2) by (simp_all add: engineInv_def)
  have h: "stHeight e = h" using refused_stale [OF assms(1,2) _ assms(3)] assms(5) by blast
  note cert = commit_certified [OF assms(2) h assms(3,4)]
  have n: "getHeight D n = getHeight D (node e) + 1" "getHeight D n < maxUint64"
    using bdeps_okD(3) [OF assms(1,5)] by auto
  have le: "h \<le> getHeight D n" using I(2) n(1) h by simp
  have next_height: "h < h + 1" "h + 1 \<le> getHeight D n + 1"
    using le n(2) word_suc_less(2) [of h] word_suc_mono [OF n(2) le] by auto
  then have ne: "h + 1 \<noteq> h" "getHeight D n + 1 \<noteq> h" using le word_suc_less(2) [OF n(2)] by auto
  show ?thesis
    using assms(2-5) I h n le next_height ne cert bdeps_okD(1) [OF assms(1)]
    by (auto simp: commit_def syncHeightWithNodeLocked_def refreshValidators_def recalculateVotingPowerLocked_def
        engineInv_def Let_def activeBlock_def)
qed

lemma commit_inv:
  assumes "bdeps_ok D" and "engineInv D h r e"
  shows "engineInv D h r (snd (commit D e))"
proof (cases "activeBlock e")
  case (Some p)
  then obtain b hdr where act: "activeBlock e = Some (b, hdr)" by (cases p) auto
  obtain x n where run: "commitBlock D b (node e) = (x, n)" by fastforce
  have "committedBlocks e = []" using assms(2) by (simp add: engineInv_def)
  then show ?thesis
    using act run commit_success_inv [OF assms act] reset_inv [OF assms(2), of n] bdeps_okD(4) [OF assms(1)] assms(2)
    by (cases x; cases "hasTwoThirdsPowerLocked Precommit e") (auto simp: commit_def)
qed (use assms in \<open>simp add: commit_def\<close>)

lemma own_vote_countable:
  assumes "bdeps_ok D" and "engineInv D h r e" and "createVote D t hash (stRound e) (stHeight e) = Inr v"
  shows "countable_vote D h r e v"
  using createVote_ok [OF assms(1,3)] assms(2) by (auto simp: countable_vote_def vote_for_def engineInv_def)

lemma countable_sent [simp]:
  "countable_vote D h r (e\<lparr>precommitSent := b\<rparr>) v = countable_vote D h r e v"
  "countable_vote D h r (e\<lparr>prevoteSent := b\<rparr>) v = countable_vote D h r e v"
  by (simp_all add: countable_vote_def)

lemma precommit_inv:
  assumes "bdeps_ok D" and "engineInv D h r e"
  shows "engineInv D h r (precommit D e)"
proof -
  have "engineInv D h r (snd (addVoteIfRelevant D v (e\<lparr>precommitSent := True\<rparr>)))"
    if "createVote D Precommit hash (stRound e) (stHeight e) = Inr v" for v hash
    using assms own_vote_countable [OF assms that] by (intro addVote_inv) simp_all
  then show ?thesis
    using assms(2) by (auto simp: precommit_def Let_def split_beta intro!: commit_inv [OF assms(1)] split: option.splits sum.splits)
qed

lemma prevote_inv:
  assumes "bdeps_ok D" and "engineInv D h r e"
  shows "engineInv D h r (prevote D e)"
proof -
  have "engineInv D h r (snd (addVoteIfRelevant D v (e\<lparr>prevoteSent := True\<rparr>)))"
    if "createVote D Prevote hash (stRound e) (stHeight e) = Inr v" for v hash
    using assms own_vote_countable [OF assms that] by (intro addVote_inv) simp_all
  then show ?thesis
    using assms(2) by (auto simp: prevote_def Let_def split_beta intro!: commit_inv [OF assms(1)] precommit_inv [OF assms(1)]
      split: option.splits sum.splits)
qed

text \<open>A proposal is accepted only when there is none, and then there are no votes yet.\<close>

lemma acceptProposal_inv:
  assumes "engineInv D h r e" and "stHeight e \<noteq> h \<Longrightarrow> \<exists>pr b hdr. blockOf sp = Some (pr, b, hdr) \<and> bhHeight hdr = h"
  shows "engineInv D h r (snd (acceptProposal sp e))"
proof (cases "activeProposal e")
  case None
  have "receivedVotes e vt k = None" if "stHeight e = h" for vt k
    using assms(1) that None by (cases "receivedVotes e vt k") (auto simp: engineInv_def votes_ok_def activeBlock_def)
  then have "votes_ok D h r (e\<lparr>activeProposal := Some sp\<rparr>)" if "stHeight e = h" using that by (simp add: votes_ok_def)
  moreover have "tally_ok (e\<lparr>activeProposal := Some sp\<rparr>) = tally_ok e" by (simp add: tally_ok_def voters_def [abs_def])
  ultimately show ?thesis
    using assms None by (auto simp: acceptProposal_def engineInv_def activeBlock_def)
qed (use assms in \<open>simp add: acceptProposal_def\<close>)

section \<open>Rounds\<close>

text \<open>A new round starts at the height after the node's, at which nothing is counted yet.\<close>

lemma startNewRound_inv:
  assumes "bdeps_ok D" and "engineInv D h r e" and "e' = startNewRound D e"
  shows "engineInv D (stHeight e') (stRound e') e'"
  using assms bdeps_okD(1) [OF assms(1)] reset_tally
  by (auto simp: startNewRound_def syncHeightWithNodeLocked_def refreshValidators_def recalculateVotingPowerLocked_def
      engineInv_def Let_def votes_ok_def resetVoteTrackingLocked_def split: if_splits)

lemma propose_inv:
  assumes "bdeps_ok D" and "engineInv D (stHeight e) r e"
  shows "engineInv D (stHeight e) r (snd (propose D e))"
proof -
  have node: "engineInv D (stHeight e) r (e\<lparr>node := n\<rparr>)" if "createBlock D t (node e) = (x, n)" for t x n
    using assms(2) bdeps_okD(5) [OF assms(1) that] by (simp add: engine_defs activeBlock_def)
  have out: "engineInv D h r (s\<lparr>outbox := m\<rparr>) = engineInv D h r s" for s m h
    by (simp add: engine_defs activeBlock_def)
  show ?thesis
    by (auto simp: propose_def Let_def out intro: node intro!: acceptProposal_inv
      split: prod.splits sum.splits option.splits)
qed

lemma enterRound_inv:
  assumes "bdeps_ok D" and "engineInv D h r e" and "L = enterRound D e"
  shows "engineInv D (loopHeight L) (loopRound L) (engine L)"
proof -
  let ?e = "startNewRound D e"
  note s = startNewRound_inv [OF assms(1,2) refl]
  have "engineInv D (stHeight ?e) (stRound ?e) (snd (propose D ?e))" by (rule propose_inv [OF assms(1) s])
  then show ?thesis
    using s by (auto simp: assms(3) enterRound_def Let_def split: prod.splits sum.splits intro!: prevote_inv [OF assms(1)])
qed

lemma loopCase_inv:
  assumes "bdeps_ok D" and "engineInv D h r e" and "loopCase D h r ev e = (ex, e')"
  shows "engineInv D h r e'"
proof (cases ev)
  case TakeProposal
  note q = queue_inv(1) [OF assms(2)]
  show ?thesis
  proof (cases "proposalCh e")
    case (Cons sp rest)
    have a: "engineInv D h r (snd (acceptProposal sp (e\<lparr>proposalCh := rest\<rparr>)))"
      if "blockOf sp = Some (pr, b, hdr)" "bhHeight hdr = h" for pr b hdr
      using that by (intro acceptProposal_inv q) auto
    then show ?thesis
      using assms(3) TakeProposal Cons q [of rest]
      by (auto simp: Let_def intro: prevote_inv [OF assms(1)] split: option.splits if_splits prod.splits bool.splits)
  qed (use assms TakeProposal in auto)
next
  case TakeVote
  show ?thesis
  proof (cases "voteCh e")
    case (Cons sv rest)
    let ?e = "e\<lparr>voteCh := rest\<rparr>"
    have q: "engineInv D h r ?e" using Cons by (intro queue_inv(2) [OF assms(2)]) auto
    have "countable_vote D h r ?e sv" if "svVote sv = Some w" "voteHeight w = h" "voteRound w = r" for w
      using assms(2) Cons that by (simp add: countable_vote_def engineInv_def)
    then have a: "engineInv D h r (snd (addVoteIfRelevant D sv ?e))"
      if "svVote sv = Some w" "voteHeight w = h" "voteRound w = r" for w
      using that by (intro addVote_inv q) auto
    obtain b1 b2 b3 e2 where add: "addVoteIfRelevant D sv ?e = ((b1, b2, b3), e2)" by (metis prod_cases3 surj_pair)
    then show ?thesis
      using assms(3) TakeVote Cons q a commit_inv [OF assms(1)] precommit_inv [OF assms(1)]
      by (auto simp: Let_def split: option.splits if_splits prod.splits bool.splits) (metis snd_conv)+
  qed (use assms TakeVote in auto)
next
  case PrecommitTimer
  then show ?thesis using assms commit_inv [OF assms(1,2)] by (auto split: prod.splits bool.splits)
qed (use assms prevote_inv precommit_inv in auto)

section \<open>Reachable states\<close>

text \<open>
  A running engine: it starts its first round, takes messages from the network, which may be anything,
  and iterations of its loop, of which the timers may fire at any time; the node may learn blocks from
  elsewhere between two steps.
\<close>

inductive bft_reach :: "'n bdeps \<Rightarrow> 'n round_loop \<Rightarrow> bool" for D where
  start: "getHeight D n < maxUint64 \<Longrightarrow> bft_reach D (enterRound D (NewEngine D n))"
| step: "bft_reach D L \<Longrightarrow> bft_reach D (bftStep D i L)"
| node: "bft_reach D L \<Longrightarrow> getHeight D (node (engine L)) \<le> getHeight D n \<Longrightarrow> getHeight D n < maxUint64
    \<Longrightarrow> bft_reach D (L\<lparr>engine := (engine L)\<lparr>node := n\<rparr>\<rparr>)"

lemma HandleProposal_inv: "engineInv D h r e \<Longrightarrow> engineInv D h r (snd (HandleProposal D p e))"
  by (auto simp: HandleProposal_def queue_inv split: sum.splits option.splits)

lemma HandleVote_inv: "engineInv D h r e \<Longrightarrow> engineInv D h r (snd (HandleVote D v e))"
  by (auto simp: HandleVote_def intro!: queue_inv(2) split: sum.splits option.splits)

lemma NewEngine_inv:
  assumes "bdeps_ok D" and "getHeight D n < maxUint64"
  shows "engineInv D (getHeight D n + 1) 0 (NewEngine D n)"
  using assms by (auto simp: engine_defs NewEngine_def Let_def bdeps_okD(1))

lemma runRound_inv:
  assumes "bdeps_ok D" and "engineInv D (loopHeight L) (loopRound L) (engine L)"
  shows "engineInv D (loopHeight (runRound D ev L)) (loopRound (runRound D ev L)) (engine (runRound D ev L))"
proof -
  obtain ex e where run: "loopCase D (loopHeight L) (loopRound L) ev (engine L) = (ex, e)" by fastforce
  note inv = loopCase_inv [OF assms run]
  then show ?thesis using enterRound_inv [OF assms(1) inv refl] by (simp add: runRound_def run)
qed

lemma bft_reach_inv:
  assumes "bdeps_ok D" and "bft_reach D L"
  shows "engineInv D (loopHeight L) (loopRound L) (engine L)"
  using assms(2)
proof induction
  case (start n)
  show ?case by (rule enterRound_inv [OF assms(1) NewEngine_inv [OF assms(1) start] refl])
next
  case (step L i)
  then show ?case
    by (cases i) (simp_all add: HandleProposal_inv HandleVote_inv runRound_inv [OF assms(1)])
next
  case (node L n)
  let ?e = "(engine L)\<lparr>node := n\<rparr>"
  have "stHeight (engine L) \<le> getHeight D n + 1"
    using node word_suc_mono [OF node.hyps(3,2)] by (auto simp: engineInv_def)
  with node show ?case by (auto simp: engine_defs activeBlock_def)
qed

text \<open>The engine never remembers a committed height: the entry is deleted by the same call.\<close>

lemma committedBlocks_empty:
  assumes "bdeps_ok D" and "bft_reach D L"
  shows "committedBlocks (engine L) = []"
  using bft_reach_inv [OF assms] by (simp add: engineInv_def)

lemma quorums_overlap:
  assumes "weights_ok vs" and "2 * totalWeight vs \<le> 3 * powerOf vs P" and "2 * totalWeight vs \<le> 3 * powerOf vs Q"
  shows "totalWeight vs \<le> 3 * powerOf vs (\<lambda>k. P k \<and> Q k)"
proof -
  have "powerOf vs P + powerOf vs Q \<le> totalWeight vs + powerOf vs (\<lambda>k. P k \<and> Q k)"
    using assms(1) by (intro powerOf_overlap) (simp add: weights_ok_def)
  then show ?thesis using assms(2,3) by linarith
qed

section \<open>The past of an engine\<close>

text \<open>An engine with messages sent and blocks committed before. No function of the engine reads them.\<close>

definition prior :: "message list \<Rightarrow> commit_rec list \<Rightarrow> 'n bft \<Rightarrow> 'n bft" where
  "prior ms cs e = e\<lparr>outbox := ms @ outbox e, commitLog := cs @ commitLog e\<rparr>"

lemma prior_fields [simp]:
  "validatorSet (prior ms cs e) = validatorSet e" "stHeight (prior ms cs e) = stHeight e"
  "stRound (prior ms cs e) = stRound e" "activeProposal (prior ms cs e) = activeProposal e"
  "receivedVotes (prior ms cs e) = receivedVotes e" "receivedPower (prior ms cs e) = receivedPower e"
  "totalVotingPower (prior ms cs e) = totalVotingPower e" "committedBlocks (prior ms cs e) = committedBlocks e"
  "proposalCh (prior ms cs e) = proposalCh e" "voteCh (prior ms cs e) = voteCh e" "voteCap (prior ms cs e) = voteCap e"
  "prevoteSent (prior ms cs e) = prevoteSent e" "precommitSent (prior ms cs e) = precommitSent e"
  "node (prior ms cs e) = node e" "outbox (prior ms cs e) = ms @ outbox e"
  "commitLog (prior ms cs e) = cs @ commitLog e" "activeBlock (prior ms cs e) = activeBlock e"
  "hasTwoThirdsPowerLocked vt (prior ms cs e) = hasTwoThirdsPowerLocked vt e"
  by (simp_all add: prior_def activeBlock_def hasTwoThirdsPowerLocked_def split: option.splits)

lemma prior_updates:
  "(prior ms cs e)\<lparr>precommitSent := b\<rparr> = prior ms cs (e\<lparr>precommitSent := b\<rparr>)"
  "(prior ms cs e)\<lparr>prevoteSent := b\<rparr> = prior ms cs (e\<lparr>prevoteSent := b\<rparr>)"
  "(prior ms cs e)\<lparr>node := n\<rparr> = prior ms cs (e\<lparr>node := n\<rparr>)"
  "(prior ms cs e)\<lparr>proposalCh := ps\<rparr> = prior ms cs (e\<lparr>proposalCh := ps\<rparr>)"
  "(prior ms cs e)\<lparr>voteCh := vs\<rparr> = prior ms cs (e\<lparr>voteCh := vs\<rparr>)"
  "(prior ms cs e)\<lparr>outbox := ms @ outbox e @ xs\<rparr> = prior ms cs (e\<lparr>outbox := outbox e @ xs\<rparr>)"
  by (simp_all add: prior_def)

lemma prior_small:
  "broadcastVote D v (prior ms cs e) = prior ms cs (broadcastVote D v e)"
  "broadcastPrevoteNilLocked D (prior ms cs e) = prior ms cs (broadcastPrevoteNilLocked D e)"
  "resetProposalStateLocked (prior ms cs e) = prior ms cs (resetProposalStateLocked e)"
  "acceptProposal p (prior ms cs e) = apsnd (prior ms cs) (acceptProposal p e)"
  "addVoteIfRelevant D v (prior ms cs e) = apsnd (prior ms cs) (addVoteIfRelevant D v e)"
  by (auto simp: broadcastVote_def broadcastPrevoteNilLocked_def resetProposalStateLocked_def
      resetVoteTrackingLocked_def acceptProposal_def addVoteIfRelevant_def recordVote_def hasTwoThirdsPowerLocked_def
      prior_def activeBlock_def Let_def split: option.splits sum.splits)

lemma prior_commit: "commit D (prior ms cs e) = apsnd (prior ms cs) (commit D e)"
  by (auto simp: commit_def prior_updates prior_small split: option.splits sum.splits prod.splits)
    (simp add: prior_def syncHeightWithNodeLocked_def refreshValidators_def recalculateVotingPowerLocked_def Let_def)

lemma prior_precommit: "precommit D (prior ms cs e) = prior ms cs (precommit D e)"
  by (auto simp: precommit_def prior_updates prior_small prior_commit Let_def split_beta split: option.splits sum.splits)

lemma prior_prevote: "prevote D (prior ms cs e) = prior ms cs (prevote D e)"
  by (auto simp: prevote_def prior_updates prior_small prior_commit prior_precommit Let_def split_beta
      split: option.splits sum.splits)

lemma prior_select: "selectProposer D r (prior ms cs e) = selectProposer D r e"
  unfolding selectProposer_def candidates_def Let_def prior_fields by (rule refl)

lemma prior_propose: "propose D (prior ms cs e) = apsnd (prior ms cs) (propose D e)"
  by (auto simp: propose_def prior_updates prior_small Let_def split: option.splits sum.splits prod.splits)

lemma prior_startNewRound: "startNewRound D (prior ms cs e) = prior ms cs (startNewRound D e)"
  by (simp add: startNewRound_def syncHeightWithNodeLocked_def refreshValidators_def recalculateVotingPowerLocked_def
      resetVoteTrackingLocked_def prior_def Let_def)

definition priorLoop :: "message list \<Rightarrow> commit_rec list \<Rightarrow> 'n round_loop \<Rightarrow> 'n round_loop" where
  "priorLoop ms cs L = L\<lparr>engine := prior ms cs (engine L)\<rparr>"

lemma prior_enterRound: "enterRound D (prior ms cs e) = priorLoop ms cs (enterRound D e)"
  by (auto simp: enterRound_def priorLoop_def prior_startNewRound prior_select prior_propose prior_prevote Let_def
      split: prod.splits sum.splits)

lemma prior_takeProposal:
  "loopCase D h r TakeProposal (prior ms cs e) = apsnd (prior ms cs) (loopCase D h r TakeProposal e)"
proof (cases "proposalCh e")
  case (Cons sp rest)
  obtain ok e1 where "acceptProposal sp (e\<lparr>proposalCh := rest\<rparr>) = (ok, e1)" by fastforce
  with Cons show ?thesis
    by (cases "blockOf sp"; cases ok) (auto simp: prior_prevote prior_small prior_updates Let_def)
qed simp

lemma prior_takeVote: "loopCase D h r TakeVote (prior ms cs e) = apsnd (prior ms cs) (loopCase D h r TakeVote e)"
proof (cases "voteCh e")
  case (Cons sv rest)
  obtain b1 b2 b3 e2 where add: "addVoteIfRelevant D sv (e\<lparr>voteCh := rest\<rparr>) = ((b1, b2, b3), e2)"
    by (metis prod_cases3 surj_pair)
  let ?e3 = "if b2 then precommit D e2 else e2"
  obtain ok e4 where com: "commit D ?e3 = (ok, e4)" by fastforce
  have e3: "(if b2 then precommit D (prior ms cs e2) else prior ms cs e2) = prior ms cs ?e3"
    by (simp add: prior_precommit)
  show ?thesis
    using Cons add com by (cases "svVote sv"; cases ok) (simp_all add: prior_small prior_updates e3 prior_commit Let_def)
qed simp

lemma prior_loopCase: "loopCase D h r ev (prior ms cs e) = apsnd (prior ms cs) (loopCase D h r ev e)"
proof (cases ev)
  case PrecommitTimer
  obtain ok e1 where "commit D e = (ok, e1)" by fastforce
  then show ?thesis by (cases ok) (simp_all add: PrecommitTimer prior_commit)
next
  case TakeProposal
  then show ?thesis by (simp only: prior_takeProposal)
next
  case TakeVote
  then show ?thesis by (simp only: prior_takeVote)
qed (simp_all add: prior_prevote prior_precommit)

lemma prior_handle:
  "HandleProposal D p (prior ms cs e) = apsnd (prior ms cs) (HandleProposal D p e)"
  "HandleVote D v (prior ms cs e) = apsnd (prior ms cs) (HandleVote D v e)"
  by (cases "verifySignedProposal D p"; cases "blockOf p"; simp add: HandleProposal_def prior_updates split_beta)
    (cases "verifySignedVote D v"; cases "svVote v"; simp add: HandleVote_def prior_updates)

lemma prior_runRound: "runRound D ev (priorLoop ms cs L) = priorLoop ms cs (runRound D ev L)"
proof -
  obtain ex e where "loopCase D (loopHeight L) (loopRound L) ev (engine L) = (ex, e)" by fastforce
  then show ?thesis by (simp add: runRound_def priorLoop_def prior_loopCase prior_enterRound)
qed

lemma prior_step: "bftStep D i (priorLoop ms cs L) = priorLoop ms cs (bftStep D i L)"
  by (cases i) (simp_all add: prior_runRound, simp_all add: priorLoop_def prior_handle)

end
