(* ===== verification/BFTTheorems.thy ===== *)
theory BFTTheorems
  imports BFTProps
begin

text \<open>
  The properties of the consensus engine: what counts as a quorum, agreement within a round, and two
  things a consensus protocol must keep and the engine does not: what it has voted for in earlier
  rounds has no influence on its later votes, and after a block that its node refuses it signs
  further votes of the same height and round.
\<close>

section \<open>Sample networks\<close>

text \<open>Validators of weight 1 and no stake, so that the second, \<open>b\<close>, proposes in round 1 and \<open>c\<close> in
  round 2. The state of a node is its height; it accepts blocks of the next height except those in
  \<open>bad\<close>. A signature repeats the name of the signer.\<close>

definition networkDeps :: "(string \<times> int) list \<Rightarrow> char \<Rightarrow> Block list \<Rightarrow> u64 bdeps" where
  "networkDeps vals me bad = \<lparr>getMempool = (\<lambda>_. []),
     createBlock = (\<lambda>txs n. (Inr (Some \<lparr>Header = Some \<lparr>bhHeight = n + 1, bhTimestamp = 0, PrevHash = [],
        StateRoot = [me], TxRoot = [], bhValidator = [me]\<rparr>, Transactions = txs\<rparr>), n)),
     commitBlock = (\<lambda>b n. case Header b of None \<Rightarrow> (Inl ''block header missing'', n)
        | Some hdr \<Rightarrow> if b \<in> set bad then (Inl ''tx root mismatch'', n)
            else if bhHeight hdr = n + 1 \<and> n < 1000 then (Inr b, n + 1) else (Inl ''block height mismatch'', n)),
     getValidatorSet = (\<lambda>_. vals),
     getStake = (\<lambda>_ _. Inr (0, 0)), getLastCommitHash = (\<lambda>_. []), getHeight = (\<lambda>n. n),
     marshalHeader = (\<lambda>hdr. Inr (StateRoot hdr)), marshalVote = voteHash, marshalProposal = (\<lambda>_. []),
     marshals = (\<lambda>_. True), hasBroadcaster = True,
     sha256 = (\<lambda>b. b), keccak256 = (\<lambda>b. b), sigToPub = (\<lambda>_ s. Inr (take 1 s)), pubkeyToAddress = (\<lambda>p. p),
     ed25519Verify = (\<lambda>_ _ _. False), signHash = (\<lambda>_. Inr (replicate 65 me)), myAddr = [me]\<rparr>"

definition sampleDeps :: "char \<Rightarrow> Block list \<Rightarrow> u64 bdeps" where
  "sampleDeps = networkDeps [(''a'', 1), (''b'', 1), (''c'', 1)]"

text \<open>Four validators, where a quorum is three of four.\<close>

definition fourDeps :: "char \<Rightarrow> Block list \<Rightarrow> u64 bdeps" where
  "fourDeps = networkDeps [(''a'', 1), (''b'', 1), (''c'', 1), (''d'', 1)]"

lemma networkDeps_ok: "weights_ok vals \<Longrightarrow> bdeps_ok (networkDeps vals me bad)"
proof -
  have "n < n + 1 \<and> n + 1 < maxUint64" if "n < 1000" for n :: u64
  proof -
    have "uint maxUint64 = 18446744073709551615" by code_simp
    then have "n < maxUint64" "n + 1 < maxUint64" using that by (simp_all add: word_less_def uint_word_ariths)
    then show ?thesis using word_suc_less(2) by blast
  qed
  moreover assume "weights_ok vals"
  ultimately show ?thesis
    by (auto simp: bdeps_ok_def networkDeps_def split: option.splits if_splits)
qed

lemma sampleDeps_ok: "bdeps_ok (sampleDeps me bad)" and fourDeps_ok: "bdeps_ok (fourDeps me bad)"
  unfolding sampleDeps_def fourDeps_def by (rule networkDeps_ok, simp add: weights_ok_def)+

definition sampleSig :: "char \<Rightarrow> Signature option" where
  "sampleSig who = Some \<lparr>Scheme = ''secp256k1'', sigBytes = replicate 65 who, PublicKey = []\<rparr>"

definition sampleVote :: "char \<Rightarrow> u8 \<Rightarrow> string \<Rightarrow> int \<Rightarrow> SignedVote" where
  "sampleVote who t hash r = \<lparr>svVote = Some \<lparr>voteHash = hash, voteRound = r, voteType = t, voteHeight = 1\<rparr>,
     svValidator = [who], svSignature = sampleSig who\<rparr>"

definition sampleBlock :: "char \<Rightarrow> string \<Rightarrow> Block" where
  "sampleBlock who root = \<lparr>Header = Some \<lparr>bhHeight = 1, bhTimestamp = 0, PrevHash = [], StateRoot = root,
     TxRoot = [], bhValidator = [who]\<rparr>, Transactions = []\<rparr>"

definition sampleProposal :: "char \<Rightarrow> string \<Rightarrow> int \<Rightarrow> SignedProposal" where
  "sampleProposal who root r = \<lparr>spProposal = Some \<lparr>propBlock = Some (sampleBlock who root), propRound = r\<rparr>,
     spProposer = [who], spSignature = sampleSig who\<rparr>"

definition networkStart :: "u64 bdeps \<Rightarrow> u64 round_loop" where
  "networkStart D = enterRound D (NewEngine D 0)"

primrec bftRun :: "'n bdeps \<Rightarrow> bft_input list \<Rightarrow> 'n round_loop \<Rightarrow> 'n round_loop" where
  "bftRun D [] L = L"
| "bftRun D (i # is) L = bftRun D is (bftStep D i L)"

definition blocksOf :: "'n round_loop \<Rightarrow> (u64 \<times> int \<times> Block) list" where
  "blocksOf L = map (\<lambda>x. (cHeight x, cRound x, cBlock x)) (commitLog (engine L))"

definition voteInputs :: "char \<Rightarrow> string \<Rightarrow> bft_input list" where
  "voteInputs who hash = [InVote (sampleVote who Prevote hash 1), InLoop TakeVote,
     InVote (sampleVote who Precommit hash 1), InLoop TakeVote]"

definition proposalInputs :: "char \<Rightarrow> string \<Rightarrow> bft_input list" where
  "proposalInputs who root = [InProposal (sampleProposal who root 1), InLoop TakeProposal]"

lemma bftRun_reach: "bft_reach D L \<Longrightarrow> bft_reach D (bftRun D is L)"
  by (induction "is" arbitrary: L) (simp_all add: bft_reach.step)

lemma networkStart_reach: "bft_reach (networkDeps vals me bad) (networkStart (networkDeps vals me bad))"
proof -
  have "(0 :: u64) < maxUint64" by code_simp
  then show ?thesis unfolding networkStart_def by (intro bft_reach.start) (simp add: networkDeps_def)
qed

lemmas sampleStart_reach = networkStart_reach [of "[(''a'', 1), (''b'', 1), (''c'', 1)]", folded sampleDeps_def]
  and fourStart_reach = networkStart_reach [of "[(''a'', 1), (''b'', 1), (''c'', 1), (''d'', 1)]", folded fourDeps_def]

section \<open>Quorums\<close>

text \<open>The quorum of \<^verbatim>\<open>docs/potso/consensus-integration.md\<close>: strictly more than the two-thirds threshold,
  rounded down.\<close>

definition docQuorum :: "(string \<times> int) list \<Rightarrow> (string \<Rightarrow> bool) \<Rightarrow> bool" where
  "docQuorum vs P \<longleftrightarrow> (2 * totalWeight vs) div 3 < powerOf vs P"

text \<open>
  Property C31 (the counters are the votes). In every reachable state that is still at the height of
  its round, the test on the running totals of prevotes and of precommits holds exactly when the total
  weight is positive and the validators with a recorded vote of that type have the documented quorum,
  strictly more than two thirds of the weight, or exactly two thirds of it, which the documentation
  excludes and the code accepts. Each recorded vote is a verified vote of that validator for the
  current proposal, height and round.
\<close>

theorem bft_power:
  assumes "bdeps_ok D" and "bft_reach D L" and "e = engine L" and "stHeight e = loopHeight L"
    and "vt = Prevote \<or> vt = Precommit"
  shows "(hasTwoThirdsPowerLocked vt e \<longleftrightarrow> 0 < totalWeight (validatorSet e)
      \<and> (docQuorum (validatorSet e) (\<lambda>k. receivedVotes e vt k \<noteq> None)
         \<or> 3 * powerOf (validatorSet e) (\<lambda>k. receivedVotes e vt k \<noteq> None) = 2 * totalWeight (validatorSet e)))
    \<and> (\<forall>k sv. receivedVotes e vt k = Some sv \<longrightarrow> (\<exists>b hdr hash. activeBlock e = Some (b, hdr)
        \<and> headerHash D hdr = Inr hash \<and> svValidator sv = k \<and> verifySignedVote D sv = Inr ()
        \<and> svVote sv = Some \<lparr>voteHash = hash, voteRound = loopRound L, voteType = vt, voteHeight = loopHeight L\<rparr>))"
proof -
  have I: "votes_ok D (loopHeight L) (loopRound L) e" "tally_ok e" "totalVotingPower e = totalWeight (validatorSet e)"
    using bft_reach_inv [OF assms(1,2)] assms(3,4) by (simp_all add: engineInv_def)
  have two: "2 * t \<le> 3 * p \<longleftrightarrow> (2 * t) div 3 < p \<or> 3 * p = 2 * t" for t p :: int by linarith
  show ?thesis
    using hasTwoThirds_power [OF I(2,3) assms(5)] I(1)
    by (simp add: two docQuorum_def voters_def [abs_def] votes_ok_def vote_for_def)
qed

definition samplePrevoted :: "u64 round_loop" where
  "samplePrevoted = bftRun (sampleDeps CHR ''a'' []) (proposalInputs CHR ''b'' ''x'' @ take 2 (voteInputs CHR ''b'' ''x''))
     (networkStart (sampleDeps CHR ''a'' []))"

theorem bft_power_witness:
  "hasTwoThirdsPowerLocked Prevote (engine samplePrevoted)
   \<and> \<not> docQuorum (validatorSet (engine samplePrevoted)) (\<lambda>k. receivedVotes (engine samplePrevoted) Prevote k \<noteq> None)
   \<and> 3 * powerOf (validatorSet (engine samplePrevoted)) (\<lambda>k. receivedVotes (engine samplePrevoted) Prevote k \<noteq> None)
      = 2 * totalWeight (validatorSet (engine samplePrevoted))"
proof -
  have reach: "bft_reach (sampleDeps CHR ''a'' []) samplePrevoted"
    unfolding samplePrevoted_def by (intro bftRun_reach sampleStart_reach)
  have at: "stHeight (engine samplePrevoted) = loopHeight samplePrevoted" by code_simp
  have two: "hasTwoThirdsPowerLocked Prevote (engine samplePrevoted)" by code_simp
  have strict: "\<not> docQuorum (validatorSet (engine samplePrevoted)) (\<lambda>k. receivedVotes (engine samplePrevoted) Prevote k \<noteq> None)"
    by code_simp
  note power = bft_power [OF sampleDeps_ok reach refl at disjI1 [OF refl], THEN conjunct1]
  from iffD1 [OF power two] two strict show ?thesis by blast
qed

section \<open>Agreement within a round\<close>

text \<open>
  Property C30 (agreement within a round). Let two engines, with the same validator set, encoders, hash
  and signature functions, each have committed a block at the same height and round, and let the
  hashes of the blocks differ. Then validators with at least a third of the weight have signed
  precommits for both: each of them has a verified precommit of that height and round for the first
  hash among those the first engine committed with, and one for the second hash among those of the
  second engine.
\<close>

theorem bft_agreement:
  assumes "bdeps_ok D1" and "bft_reach D1 L1" and "x1 \<in> set (commitLog (engine L1))"
    and "bdeps_ok D2" and "bft_reach D2 L2" and "x2 \<in> set (commitLog (engine L2))"
    and "headerHash D1 = headerHash D2" and "verifySignedVote D1 = verifySignedVote D2"
    and "cSet x1 = cSet x2" and "cHeight x1 = cHeight x2" and "cRound x1 = cRound x2"
    and "Header (cBlock x1) = Some hdr1" and "Header (cBlock x2) = Some hdr2"
    and "headerHash D1 hdr1 \<noteq> headerHash D1 hdr2"
  shows "\<exists>hash1 hash2 cheats. hash1 \<noteq> hash2 \<and> totalWeight (cSet x1) \<le> 3 * powerOf (cSet x1) cheats
    \<and> (\<forall>k. cheats k \<longrightarrow> (\<exists>sv1 sv2. cVotes x1 k = Some sv1 \<and> cVotes x2 k = Some sv2
        \<and> verifySignedVote D1 sv1 = Inr () \<and> verifySignedVote D1 sv2 = Inr () \<and> svValidator sv1 = k \<and> svValidator sv2 = k
        \<and> svVote sv1 = Some \<lparr>voteHash = hash1, voteRound = cRound x1, voteType = Precommit, voteHeight = cHeight x1\<rparr>
        \<and> svVote sv2 = Some \<lparr>voteHash = hash2, voteRound = cRound x1, voteType = Precommit, voteHeight = cHeight x1\<rparr>))"
proof -
  have c: "certified D1 x1" "certified D2 x2"
    using bft_reach_inv [OF assms(1,2)] bft_reach_inv [OF assms(4,5)] assms(3,6) by (auto simp: engineInv_def)
  obtain hash1 where h1: "headerHash D1 hdr1 = Inr hash1"
    "\<And>k sv. cVotes x1 k = Some sv \<Longrightarrow> vote_for D1 Precommit (cHeight x1) (cRound x1) hash1 k sv"
    using c(1) assms(12) by (auto simp: certified_def)
  obtain hash2 where h2: "headerHash D2 hdr2 = Inr hash2"
    "\<And>k sv. cVotes x2 k = Some sv \<Longrightarrow> vote_for D2 Precommit (cHeight x2) (cRound x2) hash2 k sv"
    using c(2) assms(13) by (auto simp: certified_def)
  let ?both = "\<lambda>k. cVotes x1 k \<noteq> None \<and> cVotes x2 k \<noteq> None"
  have "totalWeight (cSet x1) \<le> 3 * powerOf (cSet x1) ?both"
    using c assms(9) by (intro quorums_overlap) (simp_all add: certified_def)
  moreover have "hash1 \<noteq> hash2" using assms(7,14) h1(1) h2(1) by auto
  ultimately show ?thesis
    using h1(2) h2(2) assms(8,10,11) by (intro exI [of _ hash1] exI [of _ hash2] exI [of _ ?both]) (auto simp: vote_for_def)
qed

text \<open>Validator \<open>b\<close> proposes two blocks and signs votes for both.\<close>

definition sampleForked :: "char \<Rightarrow> string \<Rightarrow> u64 round_loop" where
  "sampleForked me root = bftRun (sampleDeps me []) (proposalInputs CHR ''b'' root @ voteInputs CHR ''b'' root) (networkStart (sampleDeps me []))"

lemma sampleForked_reach: "bft_reach (sampleDeps me []) (sampleForked me root)"
  unfolding sampleForked_def by (intro bftRun_reach sampleStart_reach)

text \<open>The header of a block of the sample, and a committed record as it is looked for below.\<close>

definition sampleHeader :: "char \<Rightarrow> string \<Rightarrow> BlockHeader" where
  "sampleHeader who root = the (Header (sampleBlock who root))"

definition sampleCommit :: "Block \<Rightarrow> commit_rec \<Rightarrow> bool" where
  "sampleCommit b x \<longleftrightarrow> cHeight x = 1 \<and> cRound x = 1 \<and> cBlock x = b \<and> cSet x = [(''a'', 1), (''b'', 1), (''c'', 1)]"

lemma sampleForked_run:
  "list_ex (sampleCommit (sampleBlock CHR ''b'' ''x'')) (commitLog (engine (sampleForked CHR ''a'' ''x'')))"
  "list_ex (sampleCommit (sampleBlock CHR ''b'' ''y'')) (commitLog (engine (sampleForked CHR ''c'' ''y'')))"
  by code_simp+

theorem bft_agreement_witness:
  "\<exists>x1 x2 cheats. x1 \<in> set (commitLog (engine (sampleForked CHR ''a'' ''x'')))
     \<and> x2 \<in> set (commitLog (engine (sampleForked CHR ''c'' ''y'')))
     \<and> 3 \<le> 3 * powerOf [(''a'', 1), (''b'', 1), (''c'', 1)] cheats
     \<and> (\<forall>k. cheats k \<longrightarrow> cVotes x1 k \<noteq> None \<and> cVotes x2 k \<noteq> None)"
proof -
  let ?A = "sampleForked CHR ''a'' ''x''" and ?C = "sampleForked CHR ''c'' ''y''"
  from sampleForked_run obtain x1 x2 where
    x1: "x1 \<in> set (commitLog (engine ?A))" "sampleCommit (sampleBlock CHR ''b'' ''x'') x1" and
    x2: "x2 \<in> set (commitLog (engine ?C))" "sampleCommit (sampleBlock CHR ''b'' ''y'') x2"
    unfolding list_ex_iff by blast
  have same: "headerHash (sampleDeps CHR ''a'' []) = headerHash (sampleDeps CHR ''c'' [])"
    "verifySignedVote (sampleDeps CHR ''a'' []) = verifySignedVote (sampleDeps CHR ''c'' [])"
    unfolding headerHash_def verifySignedVote_def verifySignature_def sampleDeps_def networkDeps_def bdeps.simps by (rule refl)+
  have eqs: "cSet x1 = cSet x2" "cHeight x1 = cHeight x2" "cRound x1 = cRound x2"
    "Header (cBlock x1) = Some (sampleHeader CHR ''b'' ''x'')" "Header (cBlock x2) = Some (sampleHeader CHR ''b'' ''y'')"
    and T: "cSet x1 = [(''a'', 1), (''b'', 1), (''c'', 1)]"
    using x1(2) x2(2) by (simp_all add: sampleCommit_def sampleHeader_def sampleBlock_def)
  have ne: "headerHash (sampleDeps CHR ''a'' []) (sampleHeader CHR ''b'' ''x'')
      \<noteq> headerHash (sampleDeps CHR ''a'' []) (sampleHeader CHR ''b'' ''y'')" by code_simp
  from bft_agreement [OF sampleDeps_ok sampleForked_reach x1(1) sampleDeps_ok sampleForked_reach x2(1) same eqs ne]
  obtain cheats where c: "totalWeight (cSet x1) \<le> 3 * powerOf (cSet x1) cheats"
    "\<And>k. cheats k \<Longrightarrow> cVotes x1 k \<noteq> None \<and> cVotes x2 k \<noteq> None" by blast
  have "3 \<le> 3 * powerOf [(''a'', 1), (''b'', 1), (''c'', 1)] cheats" using c(1) unfolding T by simp
  with x1(1) x2(1) c(2) show ?thesis by blast
qed


section \<open>Across rounds\<close>

lemma prior_run: "bftRun D is (priorLoop ms cs L) = priorLoop ms cs (bftRun D is L)"
  by (induction "is" arbitrary: L) (simp_all add: prior_step)

text \<open>What an engine keeps when it starts a round: its node, height, round and queues.\<close>

definition carried :: "'n bft \<Rightarrow> 'n bft" where
  "carried e = \<lparr>validatorSet = [], stHeight = stHeight e, stRound = stRound e, activeProposal = None,
     receivedVotes = (\<lambda>_ _. None), receivedPower = Map.empty, totalVotingPower = 0, committedBlocks = committedBlocks e,
     proposalCh = proposalCh e, voteCh = voteCh e, voteCap = voteCap e, prevoteSent = False, precommitSent = False,
     node = node e, outbox = [], commitLog = []\<rparr>"

lemma startNewRound_carried: "startNewRound D e = prior (outbox e) (commitLog e) (startNewRound D (carried e))"
  by (simp add: startNewRound_def syncHeightWithNodeLocked_def refreshValidators_def recalculateVotingPowerLocked_def
      resetVoteTrackingLocked_def prior_def carried_def Let_def)

lemma enterRound_carried: "enterRound D e = priorLoop (outbox e) (commitLog e) (enterRound D (carried e))"
proof -
  have "enterRound D e = enterRound D (prior (outbox e) (commitLog e) (carried e))"
    unfolding enterRound_def using startNewRound_carried [of D e] by (simp add: prior_startNewRound)
  then show ?thesis by (simp add: prior_enterRound)
qed

text \<open>
  Property C32 (no lock on a block). Take two engines with the same node, height, round and queues, whatever
  proposals and votes each of them has accepted, counted, signed and sent so far: one may have
  precommitted a block in the current round and the other may have voted for nothing. From the start of
  the next round on they behave the same: on any sequence of messages and loop events they send the
  same further messages, commit the same further blocks and reach the same height and round. So a
  precommit signed in one round puts no restriction on the votes of the next.
\<close>

theorem bft_no_lock:
  assumes "node e1 = node e2" and "stHeight e1 = stHeight e2" and "stRound e1 = stRound e2"
    and "committedBlocks e1 = committedBlocks e2" and "proposalCh e1 = proposalCh e2" and "voteCh e1 = voteCh e2"
    and "voteCap e1 = voteCap e2"
  shows "\<exists>msgs log L. bftRun D is (enterRound D e1) = priorLoop (outbox e1) (commitLog e1) L
    \<and> bftRun D is (enterRound D e2) = priorLoop (outbox e2) (commitLog e2) L
    \<and> outbox (engine (bftRun D is (enterRound D e1))) = outbox e1 @ msgs
    \<and> outbox (engine (bftRun D is (enterRound D e2))) = outbox e2 @ msgs
    \<and> commitLog (engine (bftRun D is (enterRound D e1))) = commitLog e1 @ log
    \<and> commitLog (engine (bftRun D is (enterRound D e2))) = commitLog e2 @ log"
proof -
  let ?L = "bftRun D is (enterRound D (carried e2))"
  have "carried e1 = carried e2" using assms by (simp add: carried_def)
  then have 1: "bftRun D is (enterRound D e1) = priorLoop (outbox e1) (commitLog e1) ?L"
    using enterRound_carried [of D e1] by (simp add: prior_run)
  have 2: "bftRun D is (enterRound D e2) = priorLoop (outbox e2) (commitLog e2) ?L"
    using enterRound_carried [of D e2] by (simp add: prior_run)
  show ?thesis
    by (rule exI [of _ "outbox (engine ?L)"], rule exI [of _ "commitLog (engine ?L)"], rule exI [of _ ?L])
      (simp add: 1 2, simp add: priorLoop_def)
qed

text \<open>Among four validators, \<open>a\<close> prevotes and precommits the block of \<open>b\<close> in round 1, with the prevotes of \<open>b\<close>
  and \<open>c\<close>. In round 2 it does the same for the block of \<open>c\<close>, with the prevotes of \<open>c\<close> and \<open>d\<close>.\<close>

definition prevotedBy :: "char \<Rightarrow> char list \<Rightarrow> string \<Rightarrow> int \<Rightarrow> bft_input list" where
  "prevotedBy proposer others root r = [InProposal (sampleProposal proposer root r), InLoop TakeProposal]
     @ concat (map (\<lambda>k. [InVote (sampleVote k Prevote root r), InLoop TakeVote]) others)"

definition fourStart :: "u64 round_loop" where
  "fourStart = networkStart (fourDeps CHR ''a'' [])"

definition fourLocked :: "u64 round_loop" where
  "fourLocked = bftRun (fourDeps CHR ''a'' []) (prevotedBy CHR ''b'' [CHR ''b'', CHR ''c''] ''b'' 1) fourStart"

definition fourNext :: "u64 bft \<Rightarrow> u64 round_loop" where
  "fourNext e = bftRun (fourDeps CHR ''a'' []) (prevotedBy CHR ''c'' [CHR ''c'', CHR ''d''] ''c'' 2) (enterRound (fourDeps CHR ''a'' []) e)"

lemma four_run:
  "MsgVote (sampleVote CHR ''a'' Precommit ''b'' 1) \<in> set (outbox (engine fourLocked))"
  "outbox (engine fourStart) = []"
  "MsgVote (sampleVote CHR ''a'' Precommit ''c'' 2) \<in> set (outbox (engine (fourNext (engine fourStart))))"
  by code_simp+

theorem bft_no_lock_witness:
  "MsgVote (sampleVote CHR ''a'' Precommit ''b'' 1) \<in> set (outbox (engine (fourNext (engine fourLocked))))
   \<and> MsgVote (sampleVote CHR ''a'' Precommit ''c'' 2) \<in> set (outbox (engine (fourNext (engine fourLocked))))"
proof -
  have "node (engine fourLocked) = node (engine fourStart)" by code_simp
  moreover have "stHeight (engine fourLocked) = stHeight (engine fourStart)" by code_simp
  moreover have "stRound (engine fourLocked) = stRound (engine fourStart)" by code_simp
  moreover have "committedBlocks (engine fourLocked) = committedBlocks (engine fourStart)" by code_simp
  moreover have "proposalCh (engine fourLocked) = proposalCh (engine fourStart)" by code_simp
  moreover have "voteCh (engine fourLocked) = voteCh (engine fourStart)" by code_simp
  moreover have "voteCap (engine fourLocked) = voteCap (engine fourStart)" by code_simp
  ultimately obtain msgs where
    m: "outbox (engine (fourNext (engine fourLocked))) = outbox (engine fourLocked) @ msgs"
    "outbox (engine (fourNext (engine fourStart))) = outbox (engine fourStart) @ msgs"
    using bft_no_lock [of "engine fourLocked" "engine fourStart" "fourDeps CHR ''a'' []"
        "prevotedBy CHR ''c'' [CHR ''c'', CHR ''d''] ''c'' 2"] unfolding fourNext_def by blast
  have "MsgVote (sampleVote CHR ''a'' Precommit ''c'' 2) \<in> set msgs" using four_run(2,3) unfolding m(2) by simp
  with four_run(1) show ?thesis unfolding m(1) by simp
qed

text \<open>What it leads to: four validators with their engines. A message can be given to an engine only when one
  of the four has broadcast it; the messages may come late or never.\<close>

record net =
  netA :: "u64 round_loop"
  netB :: "u64 round_loop"
  netC :: "u64 round_loop"
  netD :: "u64 round_loop"

definition sentMessages :: "net \<Rightarrow> message list" where
  "sentMessages N = outbox (engine (netA N)) @ outbox (engine (netB N)) @ outbox (engine (netC N)) @ outbox (engine (netD N))"

fun wasSent :: "bft_input \<Rightarrow> net \<Rightarrow> bool" where
  "wasSent (InProposal p) N = (MsgProposal p \<in> set (sentMessages N))"
| "wasSent (InVote v) N = (MsgVote v \<in> set (sentMessages N))"
| "wasSent (InLoop ev) N = True"

definition netStep :: "char \<times> bft_input \<Rightarrow> net \<Rightarrow> net option" where
  "netStep s N = (case s of (who, i) \<Rightarrow>
     if \<not> wasSent i N then None
     else if who = CHR ''a'' then Some (N\<lparr>netA := bftStep (fourDeps CHR ''a'' []) i (netA N)\<rparr>)
     else if who = CHR ''b'' then Some (N\<lparr>netB := bftStep (fourDeps CHR ''b'' []) i (netB N)\<rparr>)
     else if who = CHR ''c'' then Some (N\<lparr>netC := bftStep (fourDeps CHR ''c'' []) i (netC N)\<rparr>)
     else if who = CHR ''d'' then Some (N\<lparr>netD := bftStep (fourDeps CHR ''d'' []) i (netD N)\<rparr>)
     else None)"

primrec netRun :: "(char \<times> bft_input) list \<Rightarrow> net \<Rightarrow> net option" where
  "netRun [] N = Some N"
| "netRun (s # ss) N = (case netStep s N of None \<Rightarrow> None | Some N' \<Rightarrow> netRun ss N')"

definition netStart :: net where
  "netStart = \<lparr>netA = networkStart (fourDeps CHR ''a'' []), netB = networkStart (fourDeps CHR ''b'' []),
     netC = networkStart (fourDeps CHR ''c'' []), netD = networkStart (fourDeps CHR ''d'' [])\<rparr>"

text \<open>In round 1 validator \<open>b\<close> collects the votes of \<open>a\<close>, \<open>b\<close> and \<open>c\<close> for its block and commits it. No precommit
  reaches another validator, and all but \<open>b\<close> go to round 2, where \<open>c\<close> proposes and commits with \<open>a\<close> and \<open>d\<close>.\<close>

definition takes :: "char \<Rightarrow> char list \<Rightarrow> u8 \<Rightarrow> string \<Rightarrow> int \<Rightarrow> (char \<times> bft_input) list" where
  "takes who from t hash r = concat (map (\<lambda>k. [(who, InVote (sampleVote k t hash r)), (who, InLoop TakeVote)]) from)"

definition hears :: "char \<Rightarrow> char \<Rightarrow> int \<Rightarrow> (char \<times> bft_input) list" where
  "hears who proposer r = [(who, InProposal (sampleProposal proposer [proposer] r)), (who, InLoop TakeProposal)]"

definition roundOne :: "(char \<times> bft_input) list" where
  "roundOne = hears CHR ''a'' CHR ''b'' 1 @ hears CHR ''c'' CHR ''b'' 1
     @ takes CHR ''a'' [CHR ''b'', CHR ''c''] Prevote ''b'' 1 @ takes CHR ''c'' [CHR ''b'', CHR ''a''] Prevote ''b'' 1
     @ takes CHR ''b'' [CHR ''a'', CHR ''c''] Prevote ''b'' 1 @ takes CHR ''b'' [CHR ''a'', CHR ''c''] Precommit ''b'' 1"

definition roundTwo :: "(char \<times> bft_input) list" where
  "roundTwo = [(CHR ''a'', InLoop CommitTimer), (CHR ''c'', InLoop CommitTimer), (CHR ''d'', InLoop CommitTimer)]
     @ hears CHR ''a'' CHR ''c'' 2 @ hears CHR ''d'' CHR ''c'' 2
     @ takes CHR ''a'' [CHR ''c'', CHR ''d''] Prevote ''c'' 2 @ takes CHR ''d'' [CHR ''c'', CHR ''a''] Prevote ''c'' 2
     @ takes CHR ''c'' [CHR ''a'', CHR ''d''] Prevote ''c'' 2 @ takes CHR ''c'' [CHR ''a'', CHR ''d''] Precommit ''c'' 2"

lemma fork_of_correct_validators:
  "case netRun (roundOne @ roundTwo) netStart of None \<Rightarrow> False
   | Some N \<Rightarrow> blocksOf (netB N) = [(1, 1, sampleBlock CHR ''b'' ''b'')] \<and> blocksOf (netC N) = [(1, 2, sampleBlock CHR ''c'' ''c'')]"
  by code_simp

section \<open>After a refused block\<close>

text \<open>Nothing that was sent is taken back.\<close>

lemma outbox_grows:
  "set (outbox e) \<subseteq> set (outbox (snd (commit D e)))" "set (outbox e) \<subseteq> set (outbox (precommit D e))"
  "set (outbox e) \<subseteq> set (outbox (prevote D e))"
proof -
  have e: "e = prior (outbox e) [] (e\<lparr>outbox := []\<rparr>)" by (simp add: prior_def)
  show "set (outbox e) \<subseteq> set (outbox (snd (commit D e)))" by (subst (2) e) (simp add: prior_commit)
  show "set (outbox e) \<subseteq> set (outbox (precommit D e))" by (subst (2) e) (simp add: prior_precommit)
  show "set (outbox e) \<subseteq> set (outbox (prevote D e))" by (subst (2) e) (simp add: prior_prevote)
qed

lemma prevote_sends:
  assumes "activeBlock e = Some (b, hdr)" and "\<not> prevoteSent e" and "headerHash D hdr = Inr hash"
    and "createVote D Prevote hash (stRound e) (stHeight e) = Inr v" and "marshals D (MsgVote v)"
  shows "MsgVote v \<in> set (outbox (prevote D e))"
proof -
  obtain b1 b2 b3 e1 where add: "addVoteIfRelevant D v (e\<lparr>prevoteSent := True\<rparr>) = ((b1, b2, b3), e1)"
    by (metis prod_cases3 surj_pair)
  let ?e2 = "broadcastVote D v e1" let ?e3 = "if b2 then precommit D ?e2 else ?e2"
  have "prevote D e = (if b3 then snd (commit D ?e3) else ?e3)"
    using assms add by (simp add: prevote_def Let_def)
  moreover have "MsgVote v \<in> set (outbox ?e2)" using assms(5) by (simp add: broadcastVote_def)
  ultimately show ?thesis using outbox_grows(1) [of ?e3 D] outbox_grows(2) [of ?e2 D] by (auto split: if_splits)
qed

text \<open>A vote that completes the precommit quorum changes nothing else the engine goes by.\<close>

lemma addVote_reached:
  assumes "addVoteIfRelevant D v e = ((added, rp, True), e2)"
  shows "hasTwoThirdsPowerLocked Precommit e2" and "activeBlock e2 = activeBlock e" and "precommitSent e2 = precommitSent e"
    and "stHeight e2 = stHeight e" and "stRound e2 = stRound e" and "node e2 = node e"
    and "committedBlocks e2 = committedBlocks e" and "proposalCh e2 = proposalCh e" and "outbox e2 = outbox e"
  using assms by (auto simp: addVoteIfRelevant_def recordVote_def activeBlock_def Let_def split: option.splits sum.splits if_splits)

text \<open>The engine can sign and its messages can be encoded and sent.\<close>

definition can_send :: "'n bdeps \<Rightarrow> bool" where
  "can_send D \<longleftrightarrow> (\<forall>h. \<exists>s. signHash D h = Inr s) \<and> (\<forall>m. marshals D m) \<and> hasBroadcaster D"

lemma can_vote:
  assumes "can_send D"
  obtains v where "createVote D t hash r h = Inr v"
proof -
  obtain s where "signHash D (sha256 D (marshalVote D \<lparr>voteHash = hash, voteRound = r, voteType = t, voteHeight = h\<rparr>)) = Inr s"
    using assms unfolding can_send_def by blast
  then show ?thesis by (intro that) (simp add: createVote_def)
qed

text \<open>The state after the node has refused the block.\<close>

lemma refused_state:
  assumes "can_send D" and "createVote D Prevote [] (stRound e) (stHeight e) = Inr v"
    and "e' = resetProposalStateLocked (broadcastPrevoteNilLocked D (e\<lparr>node := n\<rparr>))"
  shows "activeProposal e' = None" and "prevoteSent e' = False" and "stHeight e' = stHeight e" and "stRound e' = stRound e"
    and "proposalCh e' = proposalCh e" and "committedBlocks e' = committedBlocks e" and "outbox e' = outbox e @ [MsgVote v]"
  using assms by (simp_all add: can_send_def resetProposalStateLocked_def resetVoteTrackingLocked_def broadcastPrevoteNilLocked_def)

lemma takeVote_refused:
  assumes "bdeps_ok D" and "bft_reach D L" and "can_send D" and "activeBlock (engine L) = Some (b, hdr)"
    and "precommitSent (engine L)" and "voteCh (engine L) = sv # votes" and "svVote sv = Some w"
    and "voteHeight w = loopHeight L" and "voteRound w = loopRound L"
    and "addVoteIfRelevant D sv ((engine L)\<lparr>voteCh := votes\<rparr>) = ((added, rp, True), e2)"
    and "commitBlock D b (node (engine L)) = (Inl err, n)"
  shows "bftStep D (InLoop TakeVote) L
    = L\<lparr>engine := resetProposalStateLocked (broadcastPrevoteNilLocked D (e2\<lparr>node := n\<rparr>))\<rparr>"
proof -
  note e2 = addVote_reached [OF assms(10)]
  have none: "committedBlocks e2 = []" using committedBlocks_empty [OF assms(1,2)] e2(7) by simp
  have pre: "(if rp then precommit D e2 else e2) = e2"
    using e2(2,3) assms(4,5) by (simp add: precommit_def activeBlock_def)
  have com: "commit D e2 = (False, resetProposalStateLocked (broadcastPrevoteNilLocked D (e2\<lparr>node := n\<rparr>)))"
    using e2(1,2,6) none assms(4,11) by (simp add: commit_def activeBlock_def)
  obtain v where "createVote D Prevote [] (stRound e2) (stHeight e2) = Inr v" by (rule can_vote [OF assms(3)])
  from refused_state(6) [OF assms(3) this refl] none
  have "committedBlocks (resetProposalStateLocked (broadcastPrevoteNilLocked D (e2\<lparr>node := n\<rparr>))) = []" by simp
  then show ?thesis using assms(6-10) com pre by (simp add: runRound_def Let_def)
qed

lemma takeProposal_sends:
  assumes "bdeps_ok D" and "bft_reach D L" and "activeProposal (engine L) = None" and "\<not> prevoteSent (engine L)"
    and "proposalCh (engine L) = sp # rest" and "blockOf sp = Some (pr, b, hdr)" and "bhHeight hdr = loopHeight L"
    and "propRound pr = loopRound L" and "headerHash D hdr = Inr hash"
    and "createVote D Prevote hash (stRound (engine L)) (stHeight (engine L)) = Inr v" and "marshals D (MsgVote v)"
  shows "insert (MsgVote v) (set (outbox (engine L))) \<subseteq> set (outbox (engine (bftStep D (InLoop TakeProposal) L)))"
proof -
  let ?e = "(engine L)\<lparr>proposalCh := rest, activeProposal := Some sp\<rparr>"
  have run: "loopCase D (loopHeight L) (loopRound L) TakeProposal (engine L) = (LoopFall, prevote D ?e)"
    using assms(3,5-8) by (simp add: acceptProposal_def Let_def)
  have "committedBlocks (prevote D ?e) = []"
    using loopCase_inv [OF assms(1) bft_reach_inv [OF assms(1,2)] run] by (simp add: engineInv_def)
  then have "engine (bftStep D (InLoop TakeProposal) L) = prevote D ?e" using run by (simp add: runRound_def)
  moreover have "MsgVote v \<in> set (outbox (prevote D ?e))"
    using assms by (intro prevote_sends [of _ b hdr _ hash]) (simp_all add: activeBlock_def)
  ultimately show ?thesis using outbox_grows(3) [of ?e D] by simp
qed

text \<open>
  Property C33 (double signing after a refused block). Let an engine that has signed a prevote and a
  precommit for its block take the vote that completes the precommit quorum, let the node refuse the
  block, and let a proposal for the same height and round wait in the queue, from whichever validator. Then
  after the two loop iterations that take the vote and the proposal the engine has sent three verified
  prevotes of its own for this height and round: for the first block, for nil and for the second
  block.
\<close>

theorem bft_double_sign:
  assumes "bdeps_ok D" and "bft_reach D L" and "can_send D" and "stHeight (engine L) = loopHeight L"
    and "activeBlock (engine L) = Some (b1, hdr1)" and "headerHash D hdr1 = Inr hash1"
    and "MsgVote v1 \<in> set (outbox (engine L))"
    and "vote_for D Prevote (loopHeight L) (loopRound L) hash1 (myAddr D) v1" and "precommitSent (engine L)"
    and "voteCh (engine L) = sv # votes" and "svVote sv = Some w"
    and "voteHeight w = loopHeight L" and "voteRound w = loopRound L"
    and "addVoteIfRelevant D sv ((engine L)\<lparr>voteCh := votes\<rparr>) = ((added, rp, True), e2)"
    and "commitBlock D b1 (node (engine L)) = (Inl err, n)"
    and "proposalCh (engine L) = sp # rest" and "blockOf sp = Some (pr, b2, hdr2)" and "headerHash D hdr2 = Inr hash2"
    and "bhHeight hdr2 = loopHeight L" and "propRound pr = loopRound L"
  shows "\<exists>v2 v3. {MsgVote v1, MsgVote v2, MsgVote v3}
        \<subseteq> set (outbox (engine (bftRun D [InLoop TakeVote, InLoop TakeProposal] L)))
    \<and> vote_for D Prevote (loopHeight L) (loopRound L) [] (myAddr D) v2
    \<and> vote_for D Prevote (loopHeight L) (loopRound L) hash2 (myAddr D) v3"
proof -
  let ?h = "loopHeight L" and ?r = "loopRound L"
  note add = addVote_reached [OF assms(14)]
  have at: "stHeight e2 = ?h" "stRound e2 = ?r"
    using bft_reach_inv [OF assms(1,2)] assms(4) add(4,5) by (simp_all add: engineInv_def)
  obtain v2 where v2: "createVote D Prevote [] ?r ?h = Inr v2" by (rule can_vote [OF assms(3)])
  obtain v3 where v3: "createVote D Prevote hash2 ?r ?h = Inr v3" by (rule can_vote [OF assms(3)])
  define e3 where "e3 = resetProposalStateLocked (broadcastPrevoteNilLocked D (e2\<lparr>node := n\<rparr>))"
  note refused = refused_state [OF assms(3) _ e3_def, unfolded at, OF v2]
  have step: "bftStep D (InLoop TakeVote) L = L\<lparr>engine := e3\<rparr>"
    unfolding e3_def by (rule takeVote_refused [OF assms(1-3,5,9-15)])
  have reach: "bft_reach D (L\<lparr>engine := e3\<rparr>)" using bft_reach.step [OF assms(2), of "InLoop TakeVote"] by (simp only: step)
  have "insert (MsgVote v3) (set (outbox e3)) \<subseteq> set (outbox (engine (bftStep D (InLoop TakeProposal) (L\<lparr>engine := e3\<rparr>))))"
    using takeProposal_sends [OF assms(1) reach, of sp rest pr b2 hdr2 hash2 v3]
      assms(3,16-20) refused add(8) v3 by (simp add: can_send_def)
  then have "{MsgVote v1, MsgVote v2, MsgVote v3} \<subseteq> set (outbox (engine (bftRun D [InLoop TakeVote, InLoop TakeProposal] L)))"
    using refused(7) add(9) assms(7) by (auto simp add: step simp del: bftStep.simps)
  then show ?thesis using createVote_ok [OF assms(1) v2] createVote_ok [OF assms(1) v3] by blast
qed

text \<open>The node of \<open>a\<close>, of four validators, refuses the block \<open>x\<close> of \<open>b\<close>, to which \<open>b\<close> and \<open>c\<close> send their votes; a
  proposal of \<open>c\<close>, who is not the proposer of the round, is in the queue.\<close>

definition refusing :: "u64 bdeps" where
  "refusing = fourDeps CHR ''a'' [sampleBlock CHR ''b'' ''x'']"

definition refusalRun :: "u64 round_loop" where
  "refusalRun = bftRun refusing (prevotedBy CHR ''b'' [CHR ''b'', CHR ''c''] ''x'' 1
     @ [InVote (sampleVote CHR ''b'' Precommit ''x'' 1), InLoop TakeVote,
        InVote (sampleVote CHR ''c'' Precommit ''x'' 1), InProposal (sampleProposal CHR ''c'' ''y'' 1)]) (networkStart refusing)"

lemma refusal_state:
  "stHeight (engine refusalRun) = 1" "loopHeight refusalRun = 1" "loopRound refusalRun = 1"
  "activeBlock (engine refusalRun) = Some (sampleBlock CHR ''b'' ''x'', sampleHeader CHR ''b'' ''x'')"
  "MsgVote (sampleVote CHR ''a'' Prevote ''x'' 1) \<in> set (outbox (engine refusalRun))"
  "precommitSent (engine refusalRun)" "voteCh (engine refusalRun) = [sampleVote CHR ''c'' Precommit ''x'' 1]"
  "proposalCh (engine refusalRun) = [sampleProposal CHR ''c'' ''y'' 1]" "node (engine refusalRun) = 0"
  "snd (snd (fst (addVoteIfRelevant refusing (sampleVote CHR ''c'' Precommit ''x'' 1) ((engine refusalRun)\<lparr>voteCh := []\<rparr>))))"
  by code_simp+

theorem bft_double_sign_witness:
  "\<exists>v2 v3. {MsgVote (sampleVote CHR ''a'' Prevote ''x'' 1), MsgVote v2, MsgVote v3}
       \<subseteq> set (outbox (engine (bftRun refusing [InLoop TakeVote, InLoop TakeProposal] refusalRun)))
     \<and> vote_for refusing Prevote 1 1 [] ''a'' v2 \<and> vote_for refusing Prevote 1 1 ''y'' ''a'' v3"
proof -
  have D: "bdeps_ok refusing" unfolding refusing_def by (rule fourDeps_ok)
  have reach: "bft_reach refusing refusalRun"
    unfolding refusalRun_def refusing_def by (intro bftRun_reach fourStart_reach)
  have send: "can_send refusing" and me: "myAddr refusing = ''a''"
    by (simp_all add: can_send_def refusing_def fourDeps_def networkDeps_def)
  have v1: "vote_for refusing Prevote 1 1 ''x'' ''a'' (sampleVote CHR ''a'' Prevote ''x'' 1)"
    by (simp add: vote_for_def) code_simp
  obtain added rp e2 where add: "addVoteIfRelevant refusing (sampleVote CHR ''c'' Precommit ''x'' 1) ((engine refusalRun)\<lparr>voteCh := []\<rparr>)
      = ((added, rp, True), e2)" using refusal_state(10) by (metis prod.collapse)
  have bad: "commitBlock refusing (sampleBlock CHR ''b'' ''x'') 0 = (Inl ''tx root mismatch'', 0)" by code_simp
  have hash: "headerHash refusing (sampleHeader CHR ''b'' ''x'') = Inr ''x''"
    "headerHash refusing (sampleHeader CHR ''c'' ''y'') = Inr ''y''" by code_simp+
  show ?thesis
    using bft_double_sign [OF D reach send, unfolded refusal_state me, OF refl refl hash(1) refusal_state(5) v1
        refusal_state(6) refl _ _ _ add bad refl _ hash(2)]
    by (simp add: sampleVote_def sampleProposal_def blockOf_def sampleBlock_def sampleHeader_def)
qed

end
