(* ===== verification/GovStore.thy ===== *)
theory GovStore
  imports Complex_Main Accounts
begin

text \<open>
  The records of the governance module and their store: \<^verbatim>\<open>native/governance/types.go\<close> and the governance,
  parameter, role and weight-snapshot parts of \<^verbatim>\<open>core/state/manager.go\<close>.

  A \<^verbatim>\<open>time.Time\<close> is the number of nanoseconds since 1970; the store keeps seconds. A key made of a
  prefix, a decimal number and an address is the number and the address. The encoder refuses negative
  integers as everywhere (\<open>rlpFails\<close>). What the code takes from \<^verbatim>\<open>encoding/json\<close>, \<^verbatim>\<open>strconv.ParseFloat\<close>,
  the Bech32 address codec and the seed list of the network package is \<open>govdeps\<close>, on which nothing is
  assumed.
\<close>

section \<open>Library functions\<close>

text \<open>A JSON value as \<^verbatim>\<open>Decode\<close> gives it with \<^verbatim>\<open>UseNumber\<close>, and a float64.\<close>

datatype json_value = JNumber string | JString string | JBool bool | JOther

datatype float64 = Finite rat | NotFinite

record SlashingPolicyPayload =
  spEnabled :: bool
  spMaxPenaltyBps :: u32
  spWindowSeconds :: u64
  spMaxSlashWei :: string
  spEvidenceTTL :: u64
  spNotes :: string

record RoleAddressPair =
  rpRole :: string
  rpAddress :: string

record RoleAllowlistPayload =
  raGrant :: "RoleAddressPair list"
  raRevoke :: "RoleAddressPair list"
  raMemo :: string

record TreasuryTransfer =
  ttTo :: string
  ttAmountWei :: string
  ttMemo :: string
  ttKind :: string

record TreasuryDirectivePayload =
  tdSource :: string
  tdTransfers :: "TreasuryTransfer list"
  tdMemo :: string

text \<open>The values in the detail map of an audit entry.\<close>

datatype audit_value = AText string | ANumber int | ABool bool | ATexts "string list" | AMaps "(string \<times> string) list list"

record govdeps = deps +
  jsonObject :: "string \<Rightarrow> error + (string \<times> string) list"
  jsonValue :: "string \<Rightarrow> error + json_value"
  jsonString :: "string \<Rightarrow> error + string"
  jsonStrings :: "string \<Rightarrow> error + string list"
  jsonSlashing :: "string \<Rightarrow> error + SlashingPolicyPayload"
  jsonRoles :: "string \<Rightarrow> error + RoleAllowlistPayload"
  jsonTreasury :: "string \<Rightarrow> error + TreasuryDirectivePayload"
  jsonMarshal :: "(string \<times> audit_value) list \<Rightarrow> error + string"
  parseFloat :: "string \<Rightarrow> error + float64"
  seedsParse :: "string \<Rightarrow> error + unit"
  bech32Decode :: "string \<Rightarrow> error + string"
  bech32Encode :: "address \<Rightarrow> string"

section \<open>Time\<close>

abbreviation second :: int where "second \<equiv> 1000000000"

text \<open>The zero \<^verbatim>\<open>time.Time\<close> is the first second of the year 1.\<close>

definition zeroTime :: int where
  "zeroTime = - 62135596800 * second"

definition unixSeconds :: "int \<Rightarrow> u64" where
  "unixSeconds t = word_of_int (t div second)"

definition fromUnix :: "u64 \<Rightarrow> int" where
  "fromUnix w = sint w * second"

section \<open>Proposals, votes and audit entries\<close>

datatype ProposalStatus = ProposalStatusUnspecified | ProposalStatusDepositPeriod | ProposalStatusVotingPeriod
  | ProposalStatusPassed | ProposalStatusRejected | ProposalStatusFailed | ProposalStatusExpired | ProposalStatusExecuted

primrec statusByte :: "ProposalStatus \<Rightarrow> u8" where
  "statusByte ProposalStatusUnspecified = 0"
| "statusByte ProposalStatusDepositPeriod = 1"
| "statusByte ProposalStatusVotingPeriod = 2"
| "statusByte ProposalStatusPassed = 3"
| "statusByte ProposalStatusRejected = 4"
| "statusByte ProposalStatusFailed = 5"
| "statusByte ProposalStatusExpired = 6"
| "statusByte ProposalStatusExecuted = 7"

text \<open>\<^verbatim>\<open>validProposalStatus\<close> on a byte: the status it stands for, if any.\<close>

definition validProposalStatus :: "u8 \<Rightarrow> ProposalStatus option" where
  "validProposalStatus b =
     (if b = 0 then Some ProposalStatusUnspecified else if b = 1 then Some ProposalStatusDepositPeriod
      else if b = 2 then Some ProposalStatusVotingPeriod else if b = 3 then Some ProposalStatusPassed
      else if b = 4 then Some ProposalStatusRejected else if b = 5 then Some ProposalStatusFailed
      else if b = 6 then Some ProposalStatusExpired else if b = 7 then Some ProposalStatusExecuted
      else None)"

primrec StatusString :: "ProposalStatus \<Rightarrow> string" where
  "StatusString ProposalStatusUnspecified = ''unspecified''"
| "StatusString ProposalStatusDepositPeriod = ''deposit_period''"
| "StatusString ProposalStatusVotingPeriod = ''voting_period''"
| "StatusString ProposalStatusPassed = ''passed''"
| "StatusString ProposalStatusRejected = ''rejected''"
| "StatusString ProposalStatusFailed = ''failed''"
| "StatusString ProposalStatusExpired = ''expired''"
| "StatusString ProposalStatusExecuted = ''executed''"

record GovProposal =
  gpID :: u64
  gpTitle :: string
  gpSummary :: string
  gpMetadataURI :: string
  gpSubmitter :: address
  gpStatus :: ProposalStatus
  gpDeposit :: int
  gpSubmitTime :: int
  gpVotingStart :: int
  gpVotingEnd :: int
  gpTimelockEnd :: int
  gpTarget :: string
  gpProposedChange :: string
  gpQueued :: bool

text \<open>A ballot is a string; the three below are valid.\<close>

definition voteChoiceValid :: "string \<Rightarrow> bool" where
  "voteChoiceValid c \<longleftrightarrow> c = ''yes'' \<or> c = ''no'' \<or> c = ''abstain''"

record GovVote =
  gvProposalID :: u64
  gvVoter :: address
  gvChoice :: string
  gvPowerBps :: u32
  gvTimestamp :: int

record Tally =
  TurnoutBps :: u64
  QuorumBps :: u64
  YesPowerBps :: u64
  NoPowerBps :: u64
  AbstainPowerBps :: u64
  YesRatioBps :: u64
  PassThresholdBps :: u64
  TotalBallots :: u64

record AuditRecord =
  arSequence :: u64
  arTimestamp :: int
  arEvent :: string
  arProposalID :: u64
  arActor :: string
  arDetails :: string

section \<open>Stored forms\<close>

record storedGovernanceProposal =
  sgID :: u64
  sgTitle :: string
  sgSummary :: string
  sgMetadataURI :: string
  sgSubmitter :: address
  sgStatus :: u8
  sgDeposit :: int
  sgSubmitTime :: u64
  sgVotingStart :: u64
  sgVotingEnd :: u64
  sgTimelockEnd :: u64
  sgTarget :: string
  sgProposedChange :: string
  sgQueued :: bool

record storedGovernanceVote =
  svProposalID :: u64
  svoter :: address
  svChoice :: string
  svPowerBps :: u32
  svTimestamp :: u64

record storedGovernanceAudit =
  saSequence :: u64
  saTimestamp :: u64
  saEvent :: string
  saProposalID :: u64
  saActor :: string
  saDetails :: string

definition newStoredGovernanceProposal :: "GovProposal \<Rightarrow> storedGovernanceProposal" where
  "newStoredGovernanceProposal p =
     \<lparr>sgID = gpID p, sgTitle = gpTitle p, sgSummary = gpSummary p, sgMetadataURI = gpMetadataURI p,
      sgSubmitter = gpSubmitter p, sgStatus = statusByte (gpStatus p), sgDeposit = gpDeposit p,
      sgSubmitTime = unixSeconds (gpSubmitTime p), sgVotingStart = unixSeconds (gpVotingStart p),
      sgVotingEnd = unixSeconds (gpVotingEnd p), sgTimelockEnd = unixSeconds (gpTimelockEnd p),
      sgTarget = gpTarget p, sgProposedChange = gpProposedChange p, sgQueued = gpQueued p\<rparr>"

definition toGovernanceProposal :: "storedGovernanceProposal \<Rightarrow> error + GovProposal" where
  "toGovernanceProposal s = (case validProposalStatus (sgStatus s) of
     None \<Rightarrow> Inl ''governance: invalid proposal status''
   | Some status \<Rightarrow> Inr
     \<lparr>gpID = sgID s, gpTitle = sgTitle s, gpSummary = sgSummary s, gpMetadataURI = sgMetadataURI s,
      gpSubmitter = sgSubmitter s, gpStatus = status, gpDeposit = sgDeposit s,
      gpSubmitTime = fromUnix (sgSubmitTime s), gpVotingStart = fromUnix (sgVotingStart s),
      gpVotingEnd = fromUnix (sgVotingEnd s), gpTimelockEnd = fromUnix (sgTimelockEnd s),
      gpTarget = sgTarget s, gpProposedChange = sgProposedChange s, gpQueued = sgQueued s\<rparr>)"

definition newStoredGovernanceVote :: "GovVote \<Rightarrow> storedGovernanceVote" where
  "newStoredGovernanceVote v =
     \<lparr>svProposalID = gvProposalID v, svoter = gvVoter v, svChoice = gvChoice v,
      svPowerBps = gvPowerBps v, svTimestamp = unixSeconds (gvTimestamp v)\<rparr>"

definition toGovernanceVote :: "storedGovernanceVote \<Rightarrow> error + GovVote" where
  "toGovernanceVote s =
     bindS (checkS (\<not> voteChoiceValid (svChoice s)) ''governance: invalid vote choice %q'') (\<lambda>_.
     Inr \<lparr>gvProposalID = svProposalID s, gvVoter = svoter s, gvChoice = svChoice s,
          gvPowerBps = svPowerBps s, gvTimestamp = fromUnix (svTimestamp s)\<rparr>)"

definition newStoredGovernanceAudit :: "AuditRecord \<Rightarrow> storedGovernanceAudit" where
  "newStoredGovernanceAudit r =
     \<lparr>saSequence = arSequence r,
      saTimestamp = (if arTimestamp r = zeroTime then 0 else unixSeconds (arTimestamp r)),
      saEvent = arEvent r, saProposalID = arProposalID r, saActor = trimSpace (arActor r),
      saDetails = trimSpace (arDetails r)\<rparr>"

definition toAuditRecord :: "storedGovernanceAudit \<Rightarrow> AuditRecord" where
  "toAuditRecord s =
     \<lparr>arSequence = saSequence s,
      arTimestamp = (if saTimestamp s \<noteq> 0 then fromUnix (saTimestamp s) else zeroTime),
      arEvent = trimSpace (saEvent s), arProposalID = saProposalID s, arActor = trimSpace (saActor s),
      arDetails = trimSpace (saDetails s)\<rparr>"

section \<open>The store\<close>

text \<open>The weight snapshots are written by the epoch module of POTSO.\<close>

record StoredWeightEntry =
  weAddress :: address
  weStake :: int
  weEngagement :: u64
  weStakeShareBps :: u64
  weEngagementShareBps :: u64
  weWeightBps :: u64

record StoredWeightSnapshot =
  wsEpoch :: u64
  wsTotalStake :: int
  wsTotalEngagement :: u64
  wsEntries :: "StoredWeightEntry list"

record gstate = chain +
  govEscrows :: "address \<rightharpoonup> int"
  govSequence :: "u64 option"
  govProposals :: "u64 \<rightharpoonup> storedGovernanceProposal"
  govVotes :: "u64 \<times> address \<rightharpoonup> storedGovernanceVote"
  govVoteIndex :: "u64 \<rightharpoonup> storedGovernanceVote list"
  govAudits :: "u64 \<rightharpoonup> storedGovernanceAudit"
  govAuditSequence :: "u64 option"
  govParams :: "string \<rightharpoonup> string"
  govRoles :: "string \<rightharpoonup> address list"
  potsoLastEpoch :: "u64 option"
  potsoWeights :: "u64 \<rightharpoonup> StoredWeightSnapshot"

definition escrowOf :: "'x gstate_scheme \<Rightarrow> address \<Rightarrow> int" where
  "escrowOf s a = (case govEscrows s a of None \<Rightarrow> 0 | Some b \<Rightarrow> b)"

definition GovernanceEscrowBalance :: "address \<Rightarrow> ('x gstate_scheme, int) op" where
  "GovernanceEscrowBalance addr = getsE (\<lambda>s. escrowOf s addr)"

definition putEscrow :: "'d deps_scheme \<Rightarrow> address \<Rightarrow> int \<Rightarrow> ('x gstate_scheme, int) op" where
  "putEscrow D addr updated =
     bindE (failIf (rlpFails D [updated]) errRlp) (\<lambda>_.
     bindE (modifyE (\<lambda>s. s\<lparr>govEscrows := (govEscrows s)(addr \<mapsto> updated)\<rparr>)) (\<lambda>_. retE updated))"

definition GovernanceEscrowLock :: "'d deps_scheme \<Rightarrow> address \<Rightarrow> int \<Rightarrow> ('x gstate_scheme, int) op" where
  "GovernanceEscrowLock D addr amount =
     bindE (failIf (amount < 0) ''governance: lock amount must not be negative'') (\<lambda>_.
     bindE (GovernanceEscrowBalance addr) (\<lambda>current. putEscrow D addr (current + amount)))"

definition GovernanceEscrowUnlock :: "'d deps_scheme \<Rightarrow> address \<Rightarrow> int \<Rightarrow> ('x gstate_scheme, int) op" where
  "GovernanceEscrowUnlock D addr amount =
     bindE (failIf (amount < 0) ''governance: unlock amount must not be negative'') (\<lambda>_.
     bindE (GovernanceEscrowBalance addr) (\<lambda>current.
     bindE (failIf (current < amount) ''governance: unlock exceeds escrow balance'') (\<lambda>_.
     putEscrow D addr (current - amount))))"

definition GovernanceNextProposalID :: "('x gstate_scheme, u64) op" where
  "GovernanceNextProposalID =
     bindE (getsE govSequence) (\<lambda>stored.
     bindE (failIf (stored = Some maxUint64) ''governance: proposal sequence overflow'') (\<lambda>_.
     let nxt = (case stored of None \<Rightarrow> 0 | Some c \<Rightarrow> c) + 1 in
     bindE (modifyE (\<lambda>s. s\<lparr>govSequence := Some nxt\<rparr>)) (\<lambda>_. retE nxt)))"

definition GovernancePutProposal :: "'d deps_scheme \<Rightarrow> GovProposal \<Rightarrow> ('x gstate_scheme, unit) op" where
  "GovernancePutProposal D p =
     bindE (failIf (rlpFails D [gpDeposit p]) errRlp) (\<lambda>_.
     modifyE (\<lambda>s. s\<lparr>govProposals := (govProposals s)(gpID p \<mapsto> newStoredGovernanceProposal p)\<rparr>))"

definition GovernanceGetProposal :: "u64 \<Rightarrow> ('x gstate_scheme, GovProposal option) op" where
  "GovernanceGetProposal i =
     bindE (getsE (\<lambda>s. govProposals s i)) (\<lambda>stored. case stored of
       None \<Rightarrow> retE None
     | Some r \<Rightarrow> bindE (liftE (toGovernanceProposal r)) (\<lambda>p. retE (Some p)))"

text \<open>The index keeps one entry per voter: a later ballot replaces the earlier one in its place.\<close>

fun replaceVote :: "storedGovernanceVote \<Rightarrow> storedGovernanceVote list \<Rightarrow> storedGovernanceVote list" where
  "replaceVote r [] = [r]"
| "replaceVote r (v # vs) = (if svoter v = svoter r then r # vs else v # replaceVote r vs)"

definition GovernancePutVote :: "GovVote \<Rightarrow> ('x gstate_scheme, unit) op" where
  "GovernancePutVote v =
     bindE (failIf (\<not> voteChoiceValid (gvChoice v)) ''governance: invalid vote choice'') (\<lambda>_.
     let r = newStoredGovernanceVote v in
     modifyE (\<lambda>s. s\<lparr>govVotes := (govVotes s)((gvProposalID v, gvVoter v) \<mapsto> r),
       govVoteIndex := (govVoteIndex s)(gvProposalID v \<mapsto>
         replaceVote r (case govVoteIndex s (gvProposalID v) of None \<Rightarrow> [] | Some vs \<Rightarrow> vs))\<rparr>))"

primrec toGovernanceVotes :: "storedGovernanceVote list \<Rightarrow> error + GovVote list" where
  "toGovernanceVotes [] = Inr []"
| "toGovernanceVotes (r # rs) = bindS (toGovernanceVote r) (\<lambda>v. bindS (toGovernanceVotes rs) (\<lambda>vs. Inr (v # vs)))"

definition GovernanceListVotes :: "u64 \<Rightarrow> ('x gstate_scheme, GovVote list) op" where
  "GovernanceListVotes i =
     bindE (getsE (\<lambda>s. govVoteIndex s i)) (\<lambda>stored.
     liftE (toGovernanceVotes (case stored of None \<Rightarrow> [] | Some rs \<Rightarrow> rs)))"

definition GovernanceGetVote :: "u64 \<Rightarrow> address \<Rightarrow> ('x gstate_scheme, GovVote option) op" where
  "GovernanceGetVote i voter =
     bindE (getsE (\<lambda>s. govVotes s (i, voter))) (\<lambda>stored. case stored of
       None \<Rightarrow> retE None
     | Some r \<Rightarrow> bindE (liftE (toGovernanceVote r)) (\<lambda>v. retE (Some v)))"

text \<open>\<open>now\<close> is the wall clock the store falls back to for an entry without a time.\<close>

definition GovernanceAppendAudit :: "int \<Rightarrow> AuditRecord \<Rightarrow> ('x gstate_scheme, AuditRecord) op" where
  "GovernanceAppendAudit now r =
     bindE (getsE govAuditSequence) (\<lambda>stored.
     bindE (failIf (stored = Some maxUint64) ''governance: audit sequence overflow'') (\<lambda>_.
     let nxt = (case stored of None \<Rightarrow> 0 | Some c \<Rightarrow> c) + 1;
         entry = newStoredGovernanceAudit (r\<lparr>arSequence := nxt,
           arTimestamp := (if arTimestamp r = zeroTime then now else arTimestamp r)\<rparr>) in
     bindE (modifyE (\<lambda>s. s\<lparr>govAudits := (govAudits s)(nxt \<mapsto> entry), govAuditSequence := Some nxt\<rparr>)) (\<lambda>_.
     retE (toAuditRecord entry))))"

definition ParamStoreSet :: "string \<Rightarrow> string \<Rightarrow> ('x gstate_scheme, unit) op" where
  "ParamStoreSet name value =
     (let trimmed = trimSpace name in
      bindE (failIf (trimmed = []) ''params: key must not be empty'') (\<lambda>_.
      modifyE (\<lambda>s. s\<lparr>govParams := (govParams s)(trimmed \<mapsto> value)\<rparr>)))"

definition ParamStoreGet :: "string \<Rightarrow> ('x gstate_scheme, string option) op" where
  "ParamStoreGet name =
     (let trimmed = trimSpace name in
      bindE (failIf (trimmed = []) ''params: key must not be empty'') (\<lambda>_.
      getsE (\<lambda>s. govParams s trimmed)))"

text \<open>The members of a role in the order of their hexadecimal form, which is the order of the words.\<close>

definition SetRole :: "string \<Rightarrow> address \<Rightarrow> ('x gstate_scheme, unit) op" where
  "SetRole role addr =
     (let trimmed = trimSpace role in
      bindE (failIf (trimmed = []) ''role must not be empty'') (\<lambda>_.
      bindE (getsE (\<lambda>s. case govRoles s trimmed of None \<Rightarrow> [] | Some ms \<Rightarrow> ms)) (\<lambda>members.
      modifyE (\<lambda>s. s\<lparr>govRoles := (govRoles s)(trimmed \<mapsto>
        (if addr \<in> set members then members else sort (members @ [addr])))\<rparr>))))"

definition RemoveRole :: "string \<Rightarrow> address \<Rightarrow> ('x gstate_scheme, unit) op" where
  "RemoveRole role addr =
     (let trimmed = trimSpace role in
      bindE (failIf (trimmed = []) ''role must not be empty'') (\<lambda>_.
      bindE (getsE (\<lambda>s. govRoles s trimmed)) (\<lambda>stored. case stored of
        None \<Rightarrow> retE ()
      | Some members \<Rightarrow>
          if addr \<notin> set members then retE ()
          else (let filtered = filter (\<lambda>m. m \<noteq> addr) members in
            modifyE (\<lambda>s. s\<lparr>govRoles := (govRoles s)(trimmed := (if filtered = [] then None else Some filtered))\<rparr>)))))"

definition HasRole :: "string \<Rightarrow> address \<Rightarrow> 'x gstate_scheme \<Rightarrow> bool" where
  "HasRole role addr s = (case govRoles s (trimSpace role) of None \<Rightarrow> False | Some ms \<Rightarrow> addr \<in> set ms)"

definition MinimumValidatorStake :: "('x gstate_scheme, int) op" where
  "MinimumValidatorStake =
     bindE (ParamStoreGet ''staking.minimumValidatorStake'') (\<lambda>raw.
     let trimmed = trimSpace (case raw of None \<Rightarrow> [] | Some r \<Rightarrow> r) in
     if trimmed = [] then retE 1000
     else case parseBigInt trimmed of
       None \<Rightarrow> throwE ''params: minimum validator stake must be a base-10 integer''
     | Some v \<Rightarrow> if v \<le> 0 then throwE ''params: minimum validator stake must be positive'' else retE v)"

text \<open>The same parameter as the state processor reads it, on every write of an account and at every
  epoch.\<close>

definition minimumValidatorStake :: "('x gstate_scheme, int) op" where
  "minimumValidatorStake =
     bindE (getsE (\<lambda>s. govParams s ''staking.minimumValidatorStake'')) (\<lambda>raw.
     let trimmed = trimSpace (case raw of None \<Rightarrow> [] | Some r \<Rightarrow> r) in
     if trimmed = [] then retE 1000
     else case parseBigInt trimmed of
       None \<Rightarrow> throwE ''minimum validator stake must be a base-10 integer''
     | Some v \<Rightarrow> if v \<le> 0 then throwE ''minimum validator stake must be positive'' else retE v)"

definition SetMinimumValidatorStake :: "int \<Rightarrow> ('x gstate_scheme, unit) op" where
  "SetMinimumValidatorStake v =
     bindE (failIf (v \<le> 0) ''params: minimum validator stake must be positive'') (\<lambda>_.
     ParamStoreSet ''staking.minimumValidatorStake'' (formatInt v))"

end
