(* ===== verification/GovEngine.thy ===== *)
theory GovEngine
  imports GovStore "HOL-Library.List_Lexorder" "HOL-Library.Char_ord"
begin

text \<open>
  The governance engine: \<^verbatim>\<open>native/governance/engine.go\<close>, and the calls of \<^verbatim>\<open>core/node.go\<close> through which it is
  reached. \<open>goveng\<close> holds what \<^verbatim>\<open>SetPolicy\<close> and the setters configure; the clock is its field \<open>gnow\<close>.
  A payload that is a JSON object is the list of its entries with their raw values, in the order in
  which the code happens to visit them.
\<close>

section \<open>Parameters of the engine\<close>

record PolicyBaseline =
  pbQuorumBps :: u32
  pbPassThresholdBps :: u32
  pbVotingPeriodSecs :: u64

record PolicyDelta =
  pdQuorumBps :: "u32 option"
  pdPassThresholdBps :: "u32 option"

record ProposalPolicy =
  ppMinDepositWei :: int
  ppVotingPeriodSeconds :: u64
  ppTimelockSeconds :: u64
  ppAllowedParams :: "string list"
  ppQuorumBps :: u64
  ppPassThresholdBps :: u64
  ppAllowedRoles :: "string list"
  ppTreasuryAllowList :: "address list"

record goveng =
  minDeposit :: int
  votingPeriodSeconds :: u64
  timelockSeconds :: u64
  allowedParams :: "string list"
  allowedRoles :: "string list"
  treasuryAllow :: "address list"
  quorumBps :: u64
  passThresholdBps :: u64
  policyValidator :: "(PolicyBaseline \<Rightarrow> PolicyDelta \<Rightarrow> error + unit) option"
  gnow :: int

definition SetPolicy :: "ProposalPolicy \<Rightarrow> goveng \<Rightarrow> goveng" where
  "SetPolicy p E = E\<lparr>minDeposit := ppMinDepositWei p, votingPeriodSeconds := ppVotingPeriodSeconds p,
     timelockSeconds := ppTimelockSeconds p,
     allowedParams := filter (\<lambda>k. k \<noteq> []) (map trimSpace (ppAllowedParams p)),
     allowedRoles := filter (\<lambda>k. k \<noteq> []) (map trimSpace (ppAllowedRoles p)),
     treasuryAllow := ppTreasuryAllowList p, quorumBps := ppQuorumBps p, passThresholdBps := ppPassThresholdBps p\<rparr>"

section \<open>Reading raw values\<close>

abbreviation maxBasisPoints :: u64 where "maxBasisPoints \<equiv> 10000"
abbreviation maxEmissionWei :: int where "maxEmissionWei \<equiv> 9223372036854775807"
abbreviation maxGovernanceUint :: u64 where "maxGovernanceUint \<equiv> 9007199254740991"

definition isFloatMark :: "char \<Rightarrow> bool" where
  "isFloatMark c \<longleftrightarrow> c = CHR ''.'' \<or> c = CHR ''e'' \<or> c = CHR ''E''"

definition numberText :: "'d govdeps_scheme \<Rightarrow> string \<Rightarrow> error + string" where
  "numberText D raw = (case jsonValue D raw of
     Inl e \<Rightarrow> Inl (''invalid numeric value: '' @ e)
   | Inr (JNumber t) \<Rightarrow> Inr t
   | Inr (JString t) \<Rightarrow> Inr (trimSpace t)
   | Inr _ \<Rightarrow> Inl ''value must be a number or decimal string'')"

definition parseUintRaw :: "'d govdeps_scheme \<Rightarrow> string \<Rightarrow> error + int" where
  "parseUintRaw D raw =
     bindS (numberText D raw) (\<lambda>text0. let text = trimPrefix ''+'' text0 in
     bindS (checkS (text = []) ''value must not be empty'') (\<lambda>_.
     bindS (checkS (list_ex isFloatMark text) ''value must be an integer'') (\<lambda>_.
     bindS (checkS (take 1 text = ''-'') ''value must not be negative'') (\<lambda>_.
     case parseBigInt text of None \<Rightarrow> Inl ''invalid integer encoding'' | Some v \<Rightarrow> Inr v))))"

definition parseUint64Raw :: "'d govdeps_scheme \<Rightarrow> string \<Rightarrow> error + u64" where
  "parseUint64Raw D raw =
     bindS (parseUintRaw D raw) (\<lambda>v.
     bindS (checkS (v < 0 \<or> 2 ^ 64 \<le> v) ''value exceeds uint64 range'') (\<lambda>_.
     bindS (checkS (maxGovernanceUint < word_of_int v) ''value exceeds governance limit %d'') (\<lambda>_.
     Inr (word_of_int v))))"

definition parseFloatRaw :: "'d govdeps_scheme \<Rightarrow> string \<Rightarrow> error + rat" where
  "parseFloatRaw D raw =
     bindS (numberText D raw) (\<lambda>text.
     bindS (checkS (text = []) ''value must not be empty'') (\<lambda>_.
     case parseFloat D text of
       Inl _ \<Rightarrow> Inl ''invalid float encoding''
     | Inr NotFinite \<Rightarrow> Inl ''value must be finite''
     | Inr (Finite q) \<Rightarrow> Inr q))"

definition parseBoolRaw :: "'d govdeps_scheme \<Rightarrow> string \<Rightarrow> error + bool" where
  "parseBoolRaw D raw = (case jsonValue D raw of
     Inl e \<Rightarrow> Inl (''invalid boolean value: '' @ e)
   | Inr (JBool b) \<Rightarrow> Inr b
   | Inr (JString t) \<Rightarrow> (let n = toLower (trimSpace t) in
       if n = ''true'' then Inr True else if n = ''false'' then Inr False
       else Inl ''boolean string must be true or false'')
   | Inr _ \<Rightarrow> Inl ''value must be boolean'')"

definition parseUintString :: "string \<Rightarrow> error + int" where
  "parseUintString value =
     (let t = trimSpace value in
      if t = [] then Inr 0
      else bindS (checkS (list_ex isFloatMark t) ''value must be an integer string'') (\<lambda>_.
      let u = trimPrefix ''+'' t in
      bindS (checkS (take 1 u = ''-'') ''value must not be negative'') (\<lambda>_.
      case parseBigInt u of None \<Rightarrow> Inl ''invalid integer encoding'' | Some v \<Rightarrow> Inr v)))"

section \<open>Validation of parameters\<close>

text \<open>The shapes of the validators: \<^verbatim>\<open>fmt.Errorf("key: %w", err)\<close> around a parser, and a range check.\<close>

definition wrapS :: "string \<Rightarrow> error + 'a \<Rightarrow> error + 'a" where
  "wrapS key r = (case r of Inl e \<Rightarrow> Inl (key @ '': '' @ e) | Inr x \<Rightarrow> Inr x)"

definition uintParam :: "'d govdeps_scheme \<Rightarrow> string \<Rightarrow> (int \<Rightarrow> bool) \<Rightarrow> error \<Rightarrow> string \<Rightarrow> error + unit" where
  "uintParam D key bad msg raw =
     bindS (wrapS key (parseUintRaw D raw)) (\<lambda>v. checkS (bad v) (key @ '': '' @ msg))"

definition uint64Param :: "'d govdeps_scheme \<Rightarrow> string \<Rightarrow> (u64 \<Rightarrow> bool) \<Rightarrow> error \<Rightarrow> string \<Rightarrow> error + unit" where
  "uint64Param D key bad msg raw =
     bindS (wrapS key (parseUint64Raw D raw)) (\<lambda>v. checkS (bad v) (key @ '': '' @ msg))"

definition bpsParam :: "'d govdeps_scheme \<Rightarrow> string \<Rightarrow> string \<Rightarrow> error + unit" where
  "bpsParam D key = uint64Param D key (\<lambda>v. maxBasisPoints < v) ''must be <= %d''"

definition floatParam :: "'d govdeps_scheme \<Rightarrow> string \<Rightarrow> (rat \<Rightarrow> bool) \<Rightarrow> error \<Rightarrow> string \<Rightarrow> error + unit" where
  "floatParam D key bad msg raw =
     bindS (wrapS key (parseFloatRaw D raw)) (\<lambda>v. checkS (bad v) (key @ '': '' @ msg))"

definition boolParam :: "'d govdeps_scheme \<Rightarrow> string \<Rightarrow> string \<Rightarrow> error + unit" where
  "boolParam D key raw = bindS (wrapS key (parseBoolRaw D raw)) (\<lambda>_. Inr ())"

definition textParam :: "'d govdeps_scheme \<Rightarrow> string \<Rightarrow> string \<Rightarrow> error + unit" where
  "textParam D key raw =
     bindS (wrapS key (jsonString D raw)) (\<lambda>v. checkS (trimSpace v = []) (key @ '': must not be empty''))"

abbreviation never :: "'a \<Rightarrow> bool" where "never \<equiv> \<lambda>_. False"

definition feePotsoValidator :: "'d govdeps_scheme \<Rightarrow> string \<Rightarrow> (string \<Rightarrow> error + unit) option" where
  "feePotsoValidator D key =
     (if key = ''fees.baseFee'' then Some (uintParam D key (\<lambda>v. 1000000000000000 < v) ''value exceeds %s wei'')
      else if key = ''potso.weights.AlphaStakeBps'' then Some (bpsParam D key)
      else if key = ''potso.rewards.EmissionPerEpochWei'' then
        Some (uintParam D key (\<lambda>v. maxEmissionWei < v) ''value exceeds %s wei'')
      else if key = ''potso.abuse.MaxUserShareBps'' then Some (bpsParam D key)
      else if key = ''potso.abuse.MinStakeToEarnWei'' then Some (uintParam D key (\<lambda>v. v < 0) ''must be >= 0'')
      else if key = ''potso.abuse.QuadraticTxDampenAfter'' then Some (uint64Param D key never '''')
      else if key = ''potso.abuse.QuadraticTxDampenPower'' then
        Some (uint64Param D key (\<lambda>v. v = 1) ''must be 0 to disable or >= 2 for damping'')
      else if key = ''network.seeds'' then Some (\<lambda>raw. let t = trimSpace raw in
        bindS (checkS (t = []) ''network.seeds: payload must not be empty'') (\<lambda>_.
        wrapS key (seedsParse D t)))
      else if key = ''protocol.feeRateBps'' then Some (bpsParam D key)
      else None)"

definition stakingValidator :: "'d govdeps_scheme \<Rightarrow> string \<Rightarrow> (string \<Rightarrow> error + unit) option" where
  "stakingValidator D key =
     (if key = ''staking.aprBps'' then Some (bpsParam D key)
      else if key = ''staking.payoutPeriodDays'' then Some (uint64Param D key (\<lambda>v. v < 1) ''must be >= 1'')
      else if key = ''staking.unbondingDays'' then Some (uint64Param D key (\<lambda>v. v < 1) ''must be >= 1'')
      else if key = ''staking.minStakeWei'' then Some (uintParam D key never '''')
      else if key = ''staking.maxEmissionPerYearWei'' \<or> key = ''mint.nhb.maxEmissionPerYearWei''
           \<or> key = ''mint.znhb.maxEmissionPerYearWei'' then Some (uintParam D key (\<lambda>v. v < 0) ''must be >= 0'')
      else if key = ''staking.rewardAsset'' then Some (textParam D key)
      else if key = ''staking.compoundDefault'' then Some (boolParam D key)
      else None)"

definition loyaltyValidator :: "'d govdeps_scheme \<Rightarrow> string \<Rightarrow> (string \<Rightarrow> error + unit) option" where
  "loyaltyValidator D key =
     (if key \<in> set [''loyalty.dynamic.targetBps'', ''loyalty.dynamic.minBps'', ''loyalty.dynamic.maxBps''] then Some (bpsParam D key)
      else if key = ''loyalty.dynamic.smoothingStepBps'' then Some (\<lambda>raw.
        bindS (wrapS key (parseUint64Raw D raw)) (\<lambda>v.
        bindS (checkS (v = 0) (key @ '': must be >= 1'')) (\<lambda>_.
        checkS (maxBasisPoints < v) (key @ '': must be <= %d''))))
      else if key = ''loyalty.dynamic.coverageMax'' then Some (floatParam D key (\<lambda>q. q < 0 \<or> 1 < q) ''must be between 0 and 1'')
      else if key = ''loyalty.dynamic.coverageLookbackDays'' then Some (uint64Param D key (\<lambda>v. v = 0) ''must be >= 1'')
      else if key = ''loyalty.dynamic.dailyCapPctOf7dFees'' then
        Some (floatParam D key (\<lambda>q. q < 0 \<or> 1 < q) ''must be between 0 and 1'')
      else if key = ''loyalty.dynamic.dailyCapUsd'' then Some (floatParam D key (\<lambda>q. q < 0) ''must be >= 0'')
      else if key = ''loyalty.dynamic.yearlyCapPctOfInitialSupply'' then
        Some (floatParam D key (\<lambda>q. q < 0 \<or> 100 < q) ''must be between 0 and 100'')
      else if key = ''loyalty.dynamic.priceGuard.pricePair'' then Some (textParam D key)
      else if key = ''loyalty.dynamic.priceGuard.twapWindowSeconds'' then Some (uint64Param D key (\<lambda>v. v = 0) ''must be >= 1'')
      else if key = ''loyalty.dynamic.priceGuard.priceMaxAgeSeconds'' then Some (uint64Param D key (\<lambda>v. v = 0) ''must be >= 1'')
      else if key = ''loyalty.dynamic.priceGuard.maxDeviationBps'' then Some (bpsParam D key)
      else if key = ''loyalty.dynamic.priceGuard.enabled'' then Some (boolParam D key)
      else None)"

definition slashingValidator :: "'d govdeps_scheme \<Rightarrow> string \<Rightarrow> (string \<Rightarrow> error + unit) option" where
  "slashingValidator D key =
     (if key = ''staking.minimumValidatorStake'' then Some (uintParam D key (\<lambda>v. v \<le> 0) ''must be positive'')
      else if key = ''slashing.policy.maxPenaltyBps'' then Some (bpsParam D key)
      else if key = ''slashing.policy.windowSeconds'' then
        Some (uint64Param D key (\<lambda>v. v < 60 \<or> 2592000 < v) ''must be between %d and %d seconds'')
      else if key = ''slashing.policy.evidenceTtlSeconds'' then
        Some (uint64Param D key (\<lambda>v. v < 60 \<or> 7776000 < v) ''must be between %d and %d seconds'')
      else if key = ''slashing.policy.maxSlashWei'' then
        Some (uintParam D key (\<lambda>v. maxEmissionWei < v) ''value exceeds %s'')
      else if key = ''slashing.policy.enabled'' then Some (boolParam D key)
      else None)"

text \<open>One entry of the list of arbitration schemes.\<close>

definition schemeEntry :: "string \<Rightarrow> error + unit" where
  "schemeEntry entry = (let t = toLower (trimSpace entry) in
     if t = ''single'' \<or> t = ''committee'' then Inr ()
     else bindS (checkS (t = []) ''scheme must not be empty'') (\<lambda>_.
       case parseUint 8 t of Inl _ \<Rightarrow> Inl ''unknown scheme %q'' | Inr _ \<Rightarrow> Inr ()))"

primrec schemeEntries :: "string list \<Rightarrow> error + unit" where
  "schemeEntries [] = Inr ()"
| "schemeEntries (e # es) = bindS (schemeEntry e) (\<lambda>_. schemeEntries es)"

definition realmValidator :: "'d govdeps_scheme \<Rightarrow> string \<Rightarrow> (string \<Rightarrow> error + unit) option" where
  "realmValidator D key =
     (if key = ''escrow.realm.MinThreshold'' \<or> key = ''escrow.realm.MaxThreshold'' then
        Some (uint64Param D key (\<lambda>v. v = 0 \<or> 100 < v) ''must be between 1 and 100'')
      else if key = ''escrow.realm.AllowedSchemes'' then Some (\<lambda>raw.
        bindS (case jsonStrings D raw of Inr vs \<Rightarrow> Inr vs
               | Inl _ \<Rightarrow> (case jsonString D raw of Inr v \<Rightarrow> Inr [v] | Inl _ \<Rightarrow> Inl (key @ '': invalid payload''))) (\<lambda>values.
        bindS (checkS (values = []) (key @ '': must not be empty'')) (\<lambda>_.
        wrapS key (schemeEntries values))))
      else None)"

definition govValidator :: "'d govdeps_scheme \<Rightarrow> string \<Rightarrow> (string \<Rightarrow> error + unit) option" where
  "govValidator D key =
     (if key = ''gov.deposit.MinProposalDeposit'' then Some (uintParam D key never '''')
      else if key = ''gov.tally.QuorumBps'' then Some (bpsParam D key)
      else if key = ''gov.tally.ThresholdBps'' then
        Some (uint64Param D key (\<lambda>v. v < 5000 \<or> maxBasisPoints < v) ''must be between 5000 and %d'')
      else if key = ''gov.timelock.DurationSeconds'' then
        Some (uint64Param D key (\<lambda>v. v < 3600 \<or> 2592000 < v) ''must be between 3600 and 2592000 seconds'')
      else None)"

definition orElse :: "'a option \<Rightarrow> 'a option \<Rightarrow> 'a option" where
  "orElse a b = (case a of Some x \<Rightarrow> Some x | None \<Rightarrow> b)"

definition validatorForParam :: "'d govdeps_scheme \<Rightarrow> string \<Rightarrow> (string \<Rightarrow> error + unit) option" where
  "validatorForParam D key =
     orElse (feePotsoValidator D key) (orElse (stakingValidator D key) (orElse (loyaltyValidator D key)
       (orElse (slashingValidator D key) (orElse (realmValidator D key) (govValidator D key)))))"

primrec validateEntries ::
  "'d govdeps_scheme \<Rightarrow> goveng \<Rightarrow> (string \<times> string) list \<Rightarrow> error + (string \<times> string) list" where
  "validateEntries D E [] = Inr []"
| "validateEntries D E (kv # kvs) = (let key = trimSpace (fst kv) in
     bindS (checkS (key = []) ''governance: payload key must not be empty'') (\<lambda>_.
     bindS (checkS (key \<notin> set (allowedParams E)) ''governance: parameter %q not in allow-list'') (\<lambda>_.
     case validatorForParam D key of
       None \<Rightarrow> Inl ''governance: parameter %q missing validation rule''
     | Some validator \<Rightarrow>
         bindS (validator (snd kv)) (\<lambda>_.
         bindS (validateEntries D E kvs) (\<lambda>rest. Inr ((key, snd kv) # rest))))))"

text \<open>The validated map: of entries whose trimmed keys coincide the last one visited stays.\<close>

fun lastEntries :: "(string \<times> string) list \<Rightarrow> (string \<times> string) list" where
  "lastEntries [] = []"
| "lastEntries (kv # kvs) = (if fst kv \<in> fst ` set kvs then lastEntries kvs else kv # lastEntries kvs)"

definition validateParamPayload :: "'d govdeps_scheme \<Rightarrow> goveng \<Rightarrow> string \<Rightarrow> error + (string \<times> string) list" where
  "validateParamPayload D E payloadJSON = (case jsonObject D payloadJSON of
     Inl e \<Rightarrow> Inl (''governance: invalid payload: '' @ e)
   | Inr payload \<Rightarrow>
       bindS (checkS (payload = []) ''governance: payload must contain at least one parameter'') (\<lambda>_.
       bindS (validateEntries D E payload) (\<lambda>validated. Inr (lastEntries validated))))"

section \<open>Payloads of the other kinds\<close>

definition decodeAddress :: "'d govdeps_scheme \<Rightarrow> string \<Rightarrow> error + address" where
  "decodeAddress D addr = (let t = trimSpace addr in
     bindS (checkS (t = []) ''address must not be empty'') (\<lambda>_.
     case bech32Decode D t of
       Inl e \<Rightarrow> Inl (''invalid address %q: '' @ e)
     | Inr b \<Rightarrow> bindS (checkS (length b \<noteq> 20) ''address must be 20 bytes'') (\<lambda>_. Inr (of_nat (beValue b)))))"

record parsedSlashingPolicy =
  psPayload :: SlashingPolicyPayload
  psMaxSlash :: int

definition parseSlashingPolicyPayload :: "'d govdeps_scheme \<Rightarrow> string \<Rightarrow> error + parsedSlashingPolicy" where
  "parseSlashingPolicyPayload D payloadJSON =
     bindS (wrapS ''governance: invalid payload'' (jsonSlashing D payloadJSON)) (\<lambda>p.
     bindS (checkS (spWindowSeconds p < 60 \<or> 2592000 < spWindowSeconds p)
       ''governance: slashing window must be between %d and %d seconds'') (\<lambda>_.
     bindS (checkS (10000 < spMaxPenaltyBps p) ''governance: maxPenaltyBps must be <= %d'') (\<lambda>_.
     bindS (checkS (spEvidenceTTL p = 0) ''governance: evidenceTtlSeconds must be greater than zero'') (\<lambda>_.
     bindS (checkS (spEvidenceTTL p < spWindowSeconds p) ''governance: evidenceTtlSeconds must be >= windowSeconds'') (\<lambda>_.
     bindS (checkS (7776000 < spEvidenceTTL p) ''governance: evidenceTtlSeconds must be <= %d'') (\<lambda>_.
     bindS (wrapS ''governance: invalid maxSlashWei'' (parseUintString (spMaxSlashWei p))) (\<lambda>maxSlash.
     bindS (checkS (maxEmissionWei < maxSlash) ''governance: maxSlashWei must be <= %s'') (\<lambda>_.
     Inr \<lparr>psPayload = p, psMaxSlash = maxSlash\<rparr>))))))))"

type_synonym roleMutation = "string \<times> address"

record parsedRoleAllowlist =
  prGrant :: "roleMutation list"
  prRevoke :: "roleMutation list"
  prMemo :: string

text \<open>The two loops of \<^verbatim>\<open>parseRoleAllowlistPayload\<close>; \<open>what\<close> is the word in their messages.\<close>

primrec parseRoleEntries ::
  "'d govdeps_scheme \<Rightarrow> goveng \<Rightarrow> string \<Rightarrow> RoleAddressPair list \<Rightarrow> error + roleMutation list" where
  "parseRoleEntries D E what [] = Inr []"
| "parseRoleEntries D E what (entry # entries) = (let role = trimSpace (rpRole entry) in
     bindS (checkS (role = []) (''governance: '' @ what @ '' role must not be empty'')) (\<lambda>_.
     bindS (checkS (role \<notin> set (allowedRoles E)) ''governance: role %q not in allow-list'') (\<lambda>_.
     bindS (wrapS (''governance: invalid '' @ what @ '' address'') (decodeAddress D (rpAddress entry))) (\<lambda>addr.
     bindS (parseRoleEntries D E what entries) (\<lambda>rest. Inr ((role, addr) # rest))))))"

definition parseRoleAllowlistPayload ::
  "'d govdeps_scheme \<Rightarrow> goveng \<Rightarrow> string \<Rightarrow> error + parsedRoleAllowlist" where
  "parseRoleAllowlistPayload D E payloadJSON =
     bindS (checkS (allowedRoles E = []) ''governance: role allowlist proposals are disabled'') (\<lambda>_.
     bindS (wrapS ''governance: invalid payload'' (jsonRoles D payloadJSON)) (\<lambda>p.
     bindS (parseRoleEntries D E ''grant'' (raGrant p)) (\<lambda>grant.
     bindS (parseRoleEntries D E ''revoke'' (raRevoke p)) (\<lambda>revoke.
     bindS (checkS (grant = [] \<and> revoke = []) ''governance: role payload must include grant or revoke entries'') (\<lambda>_.
     Inr \<lparr>prGrant = grant, prRevoke = revoke, prMemo = trimSpace (raMemo p)\<rparr>)))))"

record treasuryTransferDecoded =
  tfTo :: address
  tfAmount :: int
  tfMemo :: string
  tfKind :: string

record parsedTreasuryDirective =
  ptSource :: address
  ptTransfers :: "treasuryTransferDecoded list"
  ptMemo :: string
  ptTotal :: int

primrec parseTransfers ::
  "'d govdeps_scheme \<Rightarrow> TreasuryTransfer list \<Rightarrow> error + treasuryTransferDecoded list \<times> int" where
  "parseTransfers D [] = Inr ([], 0)"
| "parseTransfers D (entry # entries) =
     bindS (wrapS ''governance: invalid transfer #%d address'' (decodeAddress D (ttTo entry))) (\<lambda>to.
     bindS (wrapS ''governance: invalid transfer #%d amount'' (parseUintString (ttAmountWei entry))) (\<lambda>amount.
     bindS (checkS (amount \<le> 0) ''governance: transfer #%d amount must be positive'') (\<lambda>_.
     bindS (parseTransfers D entries) (\<lambda>(rest, rest_total).
     Inr (\<lparr>tfTo = to, tfAmount = amount, tfMemo = trimSpace (ttMemo entry), tfKind = trimSpace (ttKind entry)\<rparr> # rest,
          amount + rest_total)))))"

definition parseTreasuryDirectivePayload ::
  "'d govdeps_scheme \<Rightarrow> goveng \<Rightarrow> string \<Rightarrow> error + parsedTreasuryDirective" where
  "parseTreasuryDirectivePayload D E payloadJSON =
     bindS (checkS (treasuryAllow E = []) ''governance: treasury directives are disabled'') (\<lambda>_.
     bindS (wrapS ''governance: invalid payload'' (jsonTreasury D payloadJSON)) (\<lambda>p.
     bindS (wrapS ''governance: invalid source address'' (decodeAddress D (tdSource p))) (\<lambda>src.
     bindS (checkS (src \<notin> set (treasuryAllow E)) ''governance: source %s not in treasury allow-list'') (\<lambda>_.
     bindS (checkS (tdTransfers p = []) ''governance: treasury directive must include at least one transfer'') (\<lambda>_.
     bindS (parseTransfers D (tdTransfers p)) (\<lambda>(transfers, total_wei).
     Inr \<lparr>ptSource = src, ptTransfers = transfers, ptMemo = trimSpace (tdMemo p), ptTotal = total_wei\<rparr>))))))"

section \<open>Policy preflight\<close>

text \<open>A governance value fits 32 bits when it is read (it is at most \<^verbatim>\<open>math.MaxUint32\<close>).\<close>

definition readBps :: "'d govdeps_scheme \<Rightarrow> error \<Rightarrow> string \<Rightarrow> error + u32" where
  "readBps D msg raw =
     bindS (parseUint64Raw D raw) (\<lambda>v.
     bindS (checkS (4294967295 < v) msg) (\<lambda>_. Inr (ucast v)))"

primrec buildPolicyDelta ::
  "'d govdeps_scheme \<Rightarrow> (string \<times> string) list \<Rightarrow> error + PolicyDelta" where
  "buildPolicyDelta D [] = Inr \<lparr>pdQuorumBps = None, pdPassThresholdBps = None\<rparr>"
| "buildPolicyDelta D (kv # kvs) =
     (if fst kv = ''gov.tally.QuorumBps'' then
        bindS (readBps D ''governance: quorum exceeds uint32 bounds'' (snd kv)) (\<lambda>v.
        bindS (buildPolicyDelta D kvs) (\<lambda>d. Inr (d\<lparr>pdQuorumBps := Some v\<rparr>)))
      else if fst kv = ''gov.tally.ThresholdBps'' then
        bindS (readBps D ''governance: threshold exceeds uint32 bounds'' (snd kv)) (\<lambda>v.
        bindS (buildPolicyDelta D kvs) (\<lambda>d. Inr (d\<lparr>pdPassThresholdBps := Some v\<rparr>)))
      else buildPolicyDelta D kvs)"

definition currentBaseline :: "goveng \<Rightarrow> PolicyBaseline" where
  "currentBaseline E = \<lparr>pbQuorumBps = ucast (quorumBps E), pbPassThresholdBps = ucast (passThresholdBps E),
     pbVotingPeriodSecs = (if votingPeriodSeconds E < 3600 then 3600 else votingPeriodSeconds E)\<rparr>"

definition newPolicyInvalidEvent :: "error \<Rightarrow> event" where
  "newPolicyInvalidEvent err = \<lparr>evType = ''gov.policy.invalid'', evAttributes = [''reason'' \<mapsto> err]\<rparr>"

definition preflightPolicyDelta ::
  "'d govdeps_scheme \<Rightarrow> goveng \<Rightarrow> (string \<times> string) list \<Rightarrow> ('x gstate_scheme, unit) op" where
  "preflightPolicyDelta D E payload =
     (if payload = [] then retE () else
      bindE (liftE (buildPolicyDelta D payload)) (\<lambda>delta.
      if pdQuorumBps delta = None \<and> pdPassThresholdBps delta = None then retE ()
      else case policyValidator E of
        None \<Rightarrow> retE ()
      | Some validate \<Rightarrow> (case validate (currentBaseline E) delta of
          Inr _ \<Rightarrow> retE ()
        | Inl err \<Rightarrow> bindE (emitEvent (newPolicyInvalidEvent err)) (\<lambda>_. throwE err))))"


section \<open>Applying a payload\<close>

primrec storeParams :: "(string \<times> string) list \<Rightarrow> ('x gstate_scheme, unit) op" where
  "storeParams [] = retE ()"
| "storeParams (kv # kvs) = bindE (ParamStoreSet (fst kv) (snd kv)) (\<lambda>_. storeParams kvs)"

definition applyParamUpdates :: "'d govdeps_scheme \<Rightarrow> goveng \<Rightarrow> string \<Rightarrow> ('x gstate_scheme, string list) op" where
  "applyParamUpdates D E payloadJSON =
     bindE (liftE (validateParamPayload D E payloadJSON)) (\<lambda>payload.
     bindE (preflightPolicyDelta D E payload) (\<lambda>_.
     bindE (storeParams payload) (\<lambda>_. retE (sort (map fst payload)))))"

definition formatBool :: "bool \<Rightarrow> string" where
  "formatBool b = (if b then ''true'' else ''false'')"

definition applySlashingPolicy ::
  "parsedSlashingPolicy \<Rightarrow> ('x gstate_scheme, (string \<times> audit_value) list) op" where
  "applySlashingPolicy parsed = (let policy = psPayload parsed in
     bindE (ParamStoreSet ''slashing.policy.enabled'' (formatBool (spEnabled policy))) (\<lambda>_.
     bindE (ParamStoreSet ''slashing.policy.maxPenaltyBps'' (formatNat (unat (spMaxPenaltyBps policy)))) (\<lambda>_.
     bindE (ParamStoreSet ''slashing.policy.windowSeconds'' (formatNat (unat (spWindowSeconds policy)))) (\<lambda>_.
     bindE (ParamStoreSet ''slashing.policy.evidenceTtlSeconds'' (formatNat (unat (spEvidenceTTL policy)))) (\<lambda>_.
     bindE (ParamStoreSet ''slashing.policy.maxSlashWei'' (formatInt (psMaxSlash parsed))) (\<lambda>_.
     retE ([(''enabled'', ABool (spEnabled policy)), (''maxPenaltyBps'', ANumber (uint (spMaxPenaltyBps policy))),
        (''windowSeconds'', ANumber (uint (spWindowSeconds policy))), (''maxSlashWei'', AText (formatInt (psMaxSlash parsed))),
        (''evidenceTtlSeconds'', ANumber (uint (spEvidenceTTL policy)))]
        @ (if trimSpace (spNotes policy) \<noteq> [] then [(''notes'', AText (trimSpace (spNotes policy)))] else []))))))))"

primrec setRoles :: "roleMutation list \<Rightarrow> ('x gstate_scheme, unit) op" where
  "setRoles [] = retE ()"
| "setRoles (m # ms) = bindE (SetRole (fst m) (snd m)) (\<lambda>_. setRoles ms)"

primrec removeRoles :: "roleMutation list \<Rightarrow> ('x gstate_scheme, unit) op" where
  "removeRoles [] = retE ()"
| "removeRoles (m # ms) = bindE (RemoveRole (fst m) (snd m)) (\<lambda>_. removeRoles ms)"

definition roleDetail :: "'d govdeps_scheme \<Rightarrow> roleMutation \<Rightarrow> (string \<times> string) list" where
  "roleDetail D m = [(''role'', fst m), (''address'', bech32Encode D (snd m))]"

definition applyRoleAllowlist ::
  "'d govdeps_scheme \<Rightarrow> parsedRoleAllowlist \<Rightarrow> ('x gstate_scheme, (string \<times> audit_value) list) op" where
  "applyRoleAllowlist D parsed =
     bindE (setRoles (prGrant parsed)) (\<lambda>_.
     bindE (removeRoles (prRevoke parsed)) (\<lambda>_.
     retE ([(''grants'', AMaps (map (roleDetail D) (prGrant parsed))), (''revokes'', AMaps (map (roleDetail D) (prRevoke parsed)))]
       @ (if prMemo parsed \<noteq> [] then [(''memo'', AText (prMemo parsed))] else []))))"

definition transferDetail :: "'d govdeps_scheme \<Rightarrow> treasuryTransferDecoded \<Rightarrow> (string \<times> string) list" where
  "transferDetail D t = [(''to'', bech32Encode D (tfTo t)), (''amount'', formatInt (tfAmount t))]
     @ (if tfMemo t \<noteq> [] then [(''memo'', tfMemo t)] else []) @ (if tfKind t \<noteq> [] then [(''kind'', tfKind t)] else [])"

primrec creditTransfers :: "'d deps_scheme \<Rightarrow> treasuryTransferDecoded list \<Rightarrow> ('x gstate_scheme, unit) op" where
  "creditTransfers D [] = retE ()"
| "creditTransfers D (t # ts) =
     bindE (GetAccount D (tfTo t)) (\<lambda>account.
     bindE (PutAccount D (tfTo t) (account\<lparr>BalanceZNHB := BalanceZNHB account + tfAmount t\<rparr>)) (\<lambda>_.
     creditTransfers D ts))"

definition applyTreasuryDirective ::
  "'d govdeps_scheme \<Rightarrow> parsedTreasuryDirective \<Rightarrow> ('x gstate_scheme, (string \<times> audit_value) list) op" where
  "applyTreasuryDirective D parsed =
     bindE (GetAccount D (ptSource parsed)) (\<lambda>source.
     bindE (failIf (BalanceZNHB source < ptTotal parsed) ''governance: treasury insufficient balance'') (\<lambda>_.
     bindE (PutAccount D (ptSource parsed) (source\<lparr>BalanceZNHB := BalanceZNHB source - ptTotal parsed\<rparr>)) (\<lambda>_.
     bindE (creditTransfers D (ptTransfers parsed)) (\<lambda>_.
     retE ([(''source'', AText (bech32Encode D (ptSource parsed))), (''totalWei'', AText (formatInt (ptTotal parsed))),
        (''transfers'', AMaps (map (transferDetail D) (ptTransfers parsed)))]
       @ (if ptMemo parsed \<noteq> [] then [(''memo'', AText (ptMemo parsed))] else []))))))"

section \<open>Events and the audit log\<close>

definition timeAttr :: "string \<Rightarrow> int \<Rightarrow> (string \<rightharpoonup> string) \<Rightarrow> (string \<rightharpoonup> string)" where
  "timeAttr key t attrs = (if t = zeroTime then attrs else attrs(key \<mapsto> formatInt (t div second)))"

abbreviation idText :: "u64 \<Rightarrow> string" where "idText i \<equiv> formatNat (unat i)"

definition newProposedEvent :: "GovProposal \<Rightarrow> event" where
  "newProposedEvent p = \<lparr>evType = ''gov.proposed'', evAttributes =
     timeAttr ''timelockEnd'' (gpTimelockEnd p) (timeAttr ''votingEnd'' (gpVotingEnd p) (timeAttr ''votingStart'' (gpVotingStart p)
       ((if trimSpace (gpTarget p) = [] then (\<lambda>m. m) else (\<lambda>m. m(''kind'' \<mapsto> gpTarget p)))
        [''id'' \<mapsto> idText (gpID p), ''proposer'' \<mapsto> hexEncode (addrBytes (gpSubmitter p)),
         ''deposit'' \<mapsto> formatInt (gpDeposit p)])))\<rparr>"

definition newGovVoteEvent :: "GovVote \<Rightarrow> event" where
  "newGovVoteEvent v = \<lparr>evType = ''gov.vote'', evAttributes =
     timeAttr ''timestamp'' (gvTimestamp v)
       ((if voteChoiceValid (gvChoice v) then (\<lambda>m. m(''choice'' \<mapsto> gvChoice v)) else (\<lambda>m. m))
        [''id'' \<mapsto> idText (gvProposalID v), ''voter'' \<mapsto> hexEncode (addrBytes (gvVoter v)),
         ''powerBps'' \<mapsto> formatNat (unat (gvPowerBps v))])\<rparr>"

definition newFinalizedEvent :: "GovProposal \<Rightarrow> Tally \<Rightarrow> event" where
  "newFinalizedEvent p t = \<lparr>evType = ''gov.finalized'', evAttributes =
     [''id'' \<mapsto> idText (gpID p), ''status'' \<mapsto> StatusString (gpStatus p), ''turnoutBps'' \<mapsto> idText (TurnoutBps t),
      ''quorumBps'' \<mapsto> idText (QuorumBps t), ''yesPowerBps'' \<mapsto> idText (YesPowerBps t), ''noPowerBps'' \<mapsto> idText (NoPowerBps t),
      ''abstainPowerBps'' \<mapsto> idText (AbstainPowerBps t), ''yesRatioBps'' \<mapsto> idText (YesRatioBps t),
      ''passThresholdBps'' \<mapsto> idText (PassThresholdBps t), ''totalBallots'' \<mapsto> idText (TotalBallots t)]\<rparr>"

definition newQueuedEvent :: "GovProposal \<Rightarrow> event" where
  "newQueuedEvent p = \<lparr>evType = ''gov.queued'', evAttributes =
     timeAttr ''timelockEnd'' (gpTimelockEnd p) [''id'' \<mapsto> idText (gpID p)]\<rparr>"

definition newExecutedEvent :: "GovProposal \<Rightarrow> event" where
  "newExecutedEvent p = \<lparr>evType = ''gov.executed'', evAttributes =
     [''id'' \<mapsto> idText (gpID p), ''status'' \<mapsto> StatusString (gpStatus p)]\<rparr>"

definition appendAudit ::
  "'d govdeps_scheme \<Rightarrow> goveng \<Rightarrow> string \<Rightarrow> u64 \<Rightarrow> address option \<Rightarrow> (string \<times> audit_value) list \<Rightarrow> ('x gstate_scheme, unit) op" where
  "appendAudit D E ev proposalID actor details =
     bindE (liftE (jsonMarshal D details)) (\<lambda>payload.
     bindE (GovernanceAppendAudit (gnow E)
       \<lparr>arSequence = 0, arTimestamp = gnow E, arEvent = ev, arProposalID = proposalID,
        arActor = (case actor of None \<Rightarrow> [] | Some a \<Rightarrow> bech32Encode D a), arDetails = payload\<rparr>) (\<lambda>_.
     retE ()))"

section \<open>Submission\<close>

definition isParamKind :: "string \<Rightarrow> bool" where
  "isParamKind kind \<longleftrightarrow> kind = ''param.update_fee_rate'' \<or> kind = ''param.update'' \<or> kind = ''param.emergency_override''"

definition checkPayload :: "'d govdeps_scheme \<Rightarrow> goveng \<Rightarrow> string \<Rightarrow> string \<Rightarrow> ('x gstate_scheme, unit) op" where
  "checkPayload D E kind payloadJSON =
     (if isParamKind kind then
        bindE (liftE (validateParamPayload D E payloadJSON)) (\<lambda>payload. preflightPolicyDelta D E payload)
      else if kind = ''policy.slashing'' then bindE (liftE (parseSlashingPolicyPayload D payloadJSON)) (\<lambda>_. retE ())
      else if kind = ''role.allowlist'' then bindE (liftE (parseRoleAllowlistPayload D E payloadJSON)) (\<lambda>_. retE ())
      else if kind = ''treasury.directive'' then bindE (liftE (parseTreasuryDirectivePayload D E payloadJSON)) (\<lambda>_. retE ())
      else throwE ''governance: unsupported proposal kind %q'')"

text \<open>\<^verbatim>\<open>time.Duration(seconds) * time.Second\<close>, an int64 product.\<close>

definition seconds :: "u64 \<Rightarrow> int" where
  "seconds w = wrap64 (sint w * second)"

definition SubmitProposal ::
  "'d govdeps_scheme \<Rightarrow> goveng \<Rightarrow> address \<Rightarrow> string \<Rightarrow> string \<Rightarrow> int \<Rightarrow> ('x gstate_scheme, u64) op" where
  "SubmitProposal D E proposer kind payloadJSON0 deposit =
     (let proposalKind = trimSpace kind; payloadJSON = trimSpace payloadJSON0 in
      bindE (failIf (proposalKind = []) ''governance: proposal kind must not be empty'') (\<lambda>_.
      bindE (failIf (payloadJSON = []) ''governance: payload must not be empty'') (\<lambda>_.
      bindE (checkPayload D E proposalKind payloadJSON) (\<lambda>_.
      bindE (failIf (deposit < 0) ''governance: deposit must not be negative'') (\<lambda>_.
      bindE (failIf (deposit < minDeposit E) ''governance: deposit below minimum'') (\<lambda>_.
      bindE (GetAccount D proposer) (\<lambda>account.
      bindE (failIf (BalanceZNHB account < deposit) ''governance: insufficient ZNHB balance for deposit'') (\<lambda>_.
      bindE (PutAccount D proposer (account\<lparr>BalanceZNHB := BalanceZNHB account - deposit\<rparr>)) (\<lambda>_.
      bindE (GovernanceEscrowLock D proposer deposit) (\<lambda>_.
      bindE GovernanceNextProposalID (\<lambda>proposalID.
      let votingEnd = gnow E + seconds (votingPeriodSeconds E);
          proposal = \<lparr>gpID = proposalID, gpTitle = [], gpSummary = [], gpMetadataURI = [], gpSubmitter = proposer,
            gpStatus = ProposalStatusVotingPeriod, gpDeposit = deposit, gpSubmitTime = gnow E, gpVotingStart = gnow E,
            gpVotingEnd = votingEnd, gpTimelockEnd = votingEnd + seconds (timelockSeconds E),
            gpTarget = proposalKind, gpProposedChange = payloadJSON, gpQueued = False\<rparr> in
      bindE (GovernancePutProposal D proposal) (\<lambda>_.
      bindE (emitEvent (newProposedEvent proposal)) (\<lambda>_.
      bindE (appendAudit D E ''proposed'' proposalID (Some proposer) [(''kind'', AText proposalKind)]) (\<lambda>_.
      retE proposalID))))))))))))))"

section \<open>Voting\<close>

primrec snapshotPower :: "address \<Rightarrow> StoredWeightEntry list \<Rightarrow> u64" where
  "snapshotPower voter [] = 0"
| "snapshotPower voter (w # ws) = (if weAddress w = voter then weWeightBps w else snapshotPower voter ws)"

definition loadProposal :: "u64 \<Rightarrow> ('x gstate_scheme, GovProposal) op" where
  "loadProposal i =
     bindE (GovernanceGetProposal i) (\<lambda>stored. case stored of
       None \<Rightarrow> throwE ''governance: proposal %d not found'' | Some p \<Rightarrow> retE p)"

definition CastVote :: "'d govdeps_scheme \<Rightarrow> goveng \<Rightarrow> u64 \<Rightarrow> address \<Rightarrow> string \<Rightarrow> ('x gstate_scheme, unit) op" where
  "CastVote D E proposalID voter choice =
     bindE (loadProposal proposalID) (\<lambda>proposal.
     bindE (failIf (gpStatus proposal \<noteq> ProposalStatusVotingPeriod) ''governance: proposal %d not accepting votes'') (\<lambda>_.
     bindE (failIf (gpVotingStart proposal \<noteq> zeroTime \<and> gnow E < gpVotingStart proposal) ''governance: voting has not started'') (\<lambda>_.
     bindE (failIf (gpVotingEnd proposal \<noteq> zeroTime \<and> gpVotingEnd proposal < gnow E) ''governance: voting period closed'') (\<lambda>_.
     let voteChoice = toLower (trimSpace choice) in
     bindE (failIf (\<not> voteChoiceValid voteChoice) ''governance: invalid vote choice %q'') (\<lambda>_.
     bindE (getsE potsoLastEpoch) (\<lambda>epoch. case epoch of
       None \<Rightarrow> throwE ''governance: potso snapshot unavailable''
     | Some ep \<Rightarrow>
       bindE (getsE (\<lambda>s. potsoWeights s ep)) (\<lambda>snapshot. case snapshot of
         None \<Rightarrow> throwE ''governance: potso snapshot unavailable''
       | Some snap \<Rightarrow>
         let power = snapshotPower voter (wsEntries snap) in
         bindE (failIf (power = 0) ''governance: voter has zero voting power'') (\<lambda>_.
         bindE (failIf (4294967295 < power) ''governance: voting power exceeds bounds'') (\<lambda>_.
         let vote = \<lparr>gvProposalID = proposalID, gvVoter = voter, gvChoice = voteChoice, gvPowerBps = ucast power,
               gvTimestamp = gnow E\<rparr> in
         bindE (GovernancePutVote vote) (\<lambda>_.
         bindE (emitEvent (newGovVoteEvent vote)) (\<lambda>_.
         appendAudit D E ''vote'' proposalID (Some voter)
           [(''choice'', AText voteChoice), (''powerBps'', ANumber (uint power))])))))))))))"

section \<open>The tally\<close>

record powers =
  yesPower :: u64
  noPower :: u64
  abstainPower :: u64

primrec countVotes :: "GovVote list \<Rightarrow> powers \<Rightarrow> error + powers" where
  "countVotes [] acc = Inr acc"
| "countVotes (v # vs) acc = (let weight = ucast (gvPowerBps v) :: u64 in
     if gvChoice v = ''yes'' then
       bindS (checkS (maxUint64 - yesPower acc < weight) ''governance: yes tally overflow'') (\<lambda>_.
       countVotes vs (acc\<lparr>yesPower := yesPower acc + weight\<rparr>))
     else if gvChoice v = ''no'' then
       bindS (checkS (maxUint64 - noPower acc < weight) ''governance: no tally overflow'') (\<lambda>_.
       countVotes vs (acc\<lparr>noPower := noPower acc + weight\<rparr>))
     else if gvChoice v = ''abstain'' then
       bindS (checkS (maxUint64 - abstainPower acc < weight) ''governance: abstain tally overflow'') (\<lambda>_.
       countVotes vs (acc\<lparr>abstainPower := abstainPower acc + weight\<rparr>))
     else Inl ''governance: invalid vote choice %q'')"

definition ComputeTally :: "goveng \<Rightarrow> GovVote list \<Rightarrow> error + Tally \<times> ProposalStatus" where
  "ComputeTally E votes =
     bindS (countVotes votes \<lparr>yesPower = 0, noPower = 0, abstainPower = 0\<rparr>) (\<lambda>acc.
     bindS (checkS (maxUint64 - yesPower acc < noPower acc) ''governance: tally overflow'') (\<lambda>_.
     let running = yesPower acc + noPower acc in
     bindS (checkS (maxUint64 - running < abstainPower acc) ''governance: tally overflow'') (\<lambda>_.
     let totalPower = running + abstainPower acc;
         yesDenom = yesPower acc + noPower acc;
         yesRatio = (if yesDenom > 0 then yesPower acc * 10000 div yesDenom else 0) in
     Inr (\<lparr>TurnoutBps = totalPower, QuorumBps = quorumBps E, YesPowerBps = yesPower acc, NoPowerBps = noPower acc,
            AbstainPowerBps = abstainPower acc, YesRatioBps = yesRatio, PassThresholdBps = passThresholdBps E,
            TotalBallots = of_nat (length votes)\<rparr>,
          if quorumBps E \<le> totalPower \<and> passThresholdBps E \<le> yesRatio then ProposalStatusPassed
          else ProposalStatusRejected))))"

section \<open>Finalisation, queue and execution\<close>

definition returnDeposit :: "'d deps_scheme \<Rightarrow> GovProposal \<Rightarrow> ('x gstate_scheme, GovProposal) op" where
  "returnDeposit D proposal =
     bindE (GetAccount D (gpSubmitter proposal)) (\<lambda>account.
     bindE (PutAccount D (gpSubmitter proposal) (account\<lparr>BalanceZNHB := BalanceZNHB account + gpDeposit proposal\<rparr>)) (\<lambda>_.
     bindE (GovernanceEscrowUnlock D (gpSubmitter proposal) (gpDeposit proposal)) (\<lambda>_.
     retE (proposal\<lparr>gpDeposit := 0\<rparr>))))"

definition finalizeDetail :: "ProposalStatus \<Rightarrow> Tally \<Rightarrow> (string \<times> audit_value) list" where
  "finalizeDetail status t = [(''status'', AText (StatusString status)), (''turnoutBps'', ANumber (uint (TurnoutBps t))),
     (''yesPowerBps'', ANumber (uint (YesPowerBps t))), (''noPowerBps'', ANumber (uint (NoPowerBps t))),
     (''abstainPowerBps'', ANumber (uint (AbstainPowerBps t))), (''yesRatioBps'', ANumber (uint (YesRatioBps t))),
     (''totalBallots'', ANumber (uint (TotalBallots t))), (''passThresholdBps'', ANumber (uint (PassThresholdBps t))),
     (''quorumBps'', ANumber (uint (QuorumBps t)))]"

definition Finalize :: "'d govdeps_scheme \<Rightarrow> goveng \<Rightarrow> u64 \<Rightarrow> ('x gstate_scheme, ProposalStatus \<times> Tally) op" where
  "Finalize D E proposalID =
     bindE (loadProposal proposalID) (\<lambda>proposal.
     bindE (failIf (gpStatus proposal \<noteq> ProposalStatusVotingPeriod) ''governance: proposal %d not in voting period'') (\<lambda>_.
     bindE (failIf (gpVotingEnd proposal = zeroTime) ''governance: proposal %d missing voting end'') (\<lambda>_.
     bindE (failIf (gnow E < gpVotingEnd proposal) ''governance: voting still in progress'') (\<lambda>_.
     bindE (GovernanceListVotes proposalID) (\<lambda>votes.
     bindE (liftE (ComputeTally E votes)) (\<lambda>(tally, status).
     bindE (if status = ProposalStatusPassed \<and> gpDeposit proposal > 0 then returnDeposit D proposal else retE proposal) (\<lambda>proposal1.
     let proposal2 = proposal1\<lparr>gpStatus := status\<rparr> in
     bindE (GovernancePutProposal D proposal2) (\<lambda>_.
     bindE (emitEvent (newFinalizedEvent proposal2 tally)) (\<lambda>_.
     bindE (appendAudit D E ''finalized'' proposalID None (finalizeDetail status tally)) (\<lambda>_.
     retE (status, tally)))))))))))"

definition QueueExecution :: "'d govdeps_scheme \<Rightarrow> goveng \<Rightarrow> u64 \<Rightarrow> ('x gstate_scheme, unit) op" where
  "QueueExecution D E proposalID =
     bindE (loadProposal proposalID) (\<lambda>proposal.
     bindE (failIf (gpStatus proposal \<noteq> ProposalStatusPassed) ''governance: proposal %d not passed'') (\<lambda>_.
     bindE (failIf (gpQueued proposal) ''governance: proposal %d already queued'') (\<lambda>_.
     bindE (failIf (gpTimelockEnd proposal = zeroTime) ''governance: proposal %d missing timelock'') (\<lambda>_.
     let queued = proposal\<lparr>gpQueued := True\<rparr> in
     bindE (GovernancePutProposal D queued) (\<lambda>_.
     bindE (emitEvent (newQueuedEvent queued)) (\<lambda>_.
     appendAudit D E ''queued'' proposalID None
       [(''timelockEnd'', ANumber (gpTimelockEnd proposal div second)), (''kind'', AText (trimSpace (gpTarget proposal)))]))))))"

definition applyPayload ::
  "'d govdeps_scheme \<Rightarrow> goveng \<Rightarrow> string \<Rightarrow> string \<Rightarrow> ('x gstate_scheme, (string \<times> audit_value) list) op" where
  "applyPayload D E target change =
     (if isParamKind target then
        bindE (applyParamUpdates D E change) (\<lambda>keys. retE [(''keys'', ATexts keys)])
      else if target = ''policy.slashing'' then
        bindE (liftE (parseSlashingPolicyPayload D change)) applySlashingPolicy
      else if target = ''role.allowlist'' then
        bindE (liftE (parseRoleAllowlistPayload D E change)) (applyRoleAllowlist D)
      else if target = ''treasury.directive'' then
        bindE (liftE (parseTreasuryDirectivePayload D E change)) (applyTreasuryDirective D)
      else throwE ''governance: proposal %d has unsupported target %q'')"

definition Execute :: "'d govdeps_scheme \<Rightarrow> goveng \<Rightarrow> u64 \<Rightarrow> ('x gstate_scheme, unit) op" where
  "Execute D E proposalID =
     bindE (loadProposal proposalID) (\<lambda>proposal.
     bindE (failIf (gpStatus proposal = ProposalStatusExecuted) ''governance: proposal %d already executed'') (\<lambda>_.
     bindE (failIf (gpStatus proposal \<noteq> ProposalStatusPassed) ''governance: proposal %d not executable'') (\<lambda>_.
     bindE (failIf (\<not> gpQueued proposal) ''governance: proposal %d not queued'') (\<lambda>_.
     bindE (failIf (gpTimelockEnd proposal \<noteq> zeroTime \<and> gnow E < gpTimelockEnd proposal) ''governance: timelock not yet elapsed'') (\<lambda>_.
     bindE (failIf (trimSpace (gpProposedChange proposal) = []) ''governance: proposal %d has empty payload'') (\<lambda>_.
     let target = trimSpace (gpTarget proposal) in
     bindE (failIf (target = []) ''governance: proposal %d missing target'') (\<lambda>_.
     bindE (applyPayload D E target (gpProposedChange proposal)) (\<lambda>detail.
     let executed = proposal\<lparr>gpStatus := ProposalStatusExecuted\<rparr> in
     bindE (GovernancePutProposal D executed) (\<lambda>_.
     bindE (emitEvent (newExecutedEvent executed)) (\<lambda>_.
     appendAudit D E ''executed'' proposalID None ((''kind'', AText target) # detail)))))))))))"

section \<open>The calls of the node\<close>

definition GovernancePropose where
  "GovernancePropose D E proposer kind payload deposit =
     bindE (failIf (deposit < 0) ''governance: deposit must not be negative'') (\<lambda>_.
     SubmitProposal D E proposer kind payload deposit)"

definition GovernanceVoteCall where
  "GovernanceVoteCall D E proposalID voter choice = CastVote D E proposalID voter choice"

definition GovernanceFinalize where
  "GovernanceFinalize D E proposalID =
     bindE (Finalize D E proposalID) (\<lambda>(status, tally).
     bindE (loadProposal proposalID) (\<lambda>proposal. retE (proposal, tally)))"

definition GovernanceQueue where
  "GovernanceQueue D E proposalID = bindE (QueueExecution D E proposalID) (\<lambda>_. loadProposal proposalID)"

definition GovernanceExecute where
  "GovernanceExecute D E proposalID = bindE (Execute D E proposalID) (\<lambda>_. loadProposal proposalID)"

text \<open>The listing walks down from the cursor, or from the last identifier.\<close>

primrec listFrom :: "nat \<Rightarrow> u64 \<Rightarrow> nat \<Rightarrow> ('x gstate_scheme, GovProposal list \<times> u64) op" where
  "listFrom 0 current limit = retE ([], 0)"
| "listFrom (Suc fuel) current limit =
     (if current \<ge> 1 \<and> 0 < limit then
        bindE (GovernanceGetProposal current) (\<lambda>stored.
        bindE (listFrom fuel (current - 1) (case stored of None \<Rightarrow> limit | Some _ \<Rightarrow> limit - 1)) (\<lambda>(ps, cursor).
        retE (case stored of None \<Rightarrow> ps | Some p \<Rightarrow> p # ps, cursor)))
      else retE ([], if current \<ge> 1 then current else 0))"

definition GovernanceListProposals :: "u64 \<Rightarrow> int \<Rightarrow> ('x gstate_scheme, GovProposal list \<times> u64) op" where
  "GovernanceListProposals cursor limit0 =
     (let limit = (if limit0 \<le> 0 then 20 else if limit0 > 100 then 100 else nat limit0) in
      bindE (getsE (\<lambda>s. case govSequence s of None \<Rightarrow> 0 | Some c \<Rightarrow> c)) (\<lambda>latest.
      if latest = 0 then retE ([], 0)
      else let start = (if cursor > 0 \<and> cursor \<le> latest then cursor else latest)
           in listFrom (unat start + 1) start limit))"

end
