(* ===== verification/GovProps.thy ===== *)
theory GovProps
  imports GovEngine
begin

text \<open>
  The books of the governance module. \<open>gov_inv\<close> relates the stored proposals to the deposits held
  in escrow and the stored ballots to their index; every call of the node keeps it on every
  outcome, keeps the sum of all ZNHB balances and all deposits, and changes a stored proposal only
  by a step of \<open>moves\<close>.
\<close>

section \<open>The books\<close>

definition depositOf :: "address \<Rightarrow> u64 \<Rightarrow> storedGovernanceProposal \<Rightarrow> int" where
  "depositOf a i p = (if sgSubmitter p = a then sgDeposit p else 0)"

definition depositsOf :: "address \<Rightarrow> 'x gstate_scheme \<Rightarrow> int" where
  "depositsOf a s = msum (depositOf a) (govProposals s)"

definition totalZNHB :: "'d deps_scheme \<Rightarrow> 'x gstate_scheme \<Rightarrow> int" where
  "totalZNHB D s = totalSupply D ZNHB s + allOf (escrowOf s)"

definition proposal_ok :: "u64 option \<Rightarrow> u64 \<Rightarrow> storedGovernanceProposal \<Rightarrow> bool" where
  "proposal_ok n i p \<longleftrightarrow> sgID p = i \<and> 0 \<le> sgDeposit p \<and> validProposalStatus (sgStatus p) \<noteq> None
     \<and> (sgQueued p \<longrightarrow> fromUnix (sgTimelockEnd p) \<noteq> zeroTime) \<and> (case n of None \<Rightarrow> False | Some m \<Rightarrow> i \<le> m)"

definition proposals_ok :: "'x gstate_scheme \<Rightarrow> bool" where
  "proposals_ok s \<longleftrightarrow> (\<forall>i p. govProposals s i = Some p \<longrightarrow> proposal_ok (govSequence s) i p)"

definition ballotsOf :: "'x gstate_scheme \<Rightarrow> u64 \<Rightarrow> storedGovernanceVote list" where
  "ballotsOf s i = (case govVoteIndex s i of None \<Rightarrow> [] | Some vs \<Rightarrow> vs)"

definition ballots_ok :: "'x gstate_scheme \<Rightarrow> bool" where
  "ballots_ok s \<longleftrightarrow> (\<forall>i. distinct (map svoter (ballotsOf s i))
     \<and> (\<forall>v. v \<in> set (ballotsOf s i) \<longleftrightarrow> govVotes s (i, svoter v) = Some v)
     \<and> (\<forall>a v. govVotes s (i, a) = Some v \<longrightarrow> svoter v = a \<and> svProposalID v = i \<and> voteChoiceValid (svChoice v)))"

definition gov_inv :: "'d deps_scheme \<Rightarrow> 'x gstate_scheme \<Rightarrow> bool" where
  "gov_inv D s \<longleftrightarrow> chain_inv D s \<and> proposals_ok s \<and> ballots_ok s \<and> (\<forall>a. depositsOf a s \<le> escrowOf s a)"

text \<open>What the invariant and the theorems read of a state, and what an execution changes besides.\<close>

definition books :: "'d deps_scheme \<Rightarrow> 'x gstate_scheme \<Rightarrow> _" where
  "books D s = (acctOf D s, govEscrows s, govSequence s, govProposals s, govVotes s, govVoteIndex s)"

definition settings :: "'x gstate_scheme \<Rightarrow> _" where
  "settings s = (govParams s, govRoles s)"

lemma booksD:
  assumes "books D t = books D s"
  shows "acctOf D t = acctOf D s" "govEscrows t = govEscrows s" "govSequence t = govSequence s"
    "govProposals t = govProposals s" "govVotes t = govVotes s" "govVoteIndex t = govVoteIndex s"
  using assms by (simp_all add: books_def)

lemma books_total: "books D t = books D s \<Longrightarrow> totalZNHB D t = totalZNHB D s"
  by (simp add: totalZNHB_def totalSupply_def coinBalance_def escrowOf_def allOf_def books_def)

lemma books_inv: "books D t = books D s \<Longrightarrow> gov_inv D t = gov_inv D s"
  by (simp add: gov_inv_def chain_inv_def proposals_ok_def ballots_ok_def ballotsOf_def depositsOf_def escrowOf_def
      books_def)

lemma finite_u64 [simp]: "finite (A :: u64 set)"
  by (rule finite_subset [OF subset_UNIV finite])

lemma depositsOf_upd:
  "govProposals t = (govProposals s)(i \<mapsto> p) \<Longrightarrow>
     depositsOf a t = depositsOf a s - oval (depositOf a) (govProposals s) i + depositOf a i p"
  by (simp add: depositsOf_def msum_upd)

lemma depositsOf_ge:
  assumes "proposals_ok s" and "govProposals s i = Some p"
  shows "sgDeposit p \<le> depositsOf (sgSubmitter p) s"
proof -
  have "depositOf (sgSubmitter p) i p \<le> depositsOf (sgSubmitter p) s"
    unfolding depositsOf_def using assms
    by (intro msum_single_le) (auto simp: proposals_ok_def proposal_ok_def depositOf_def)
  then show ?thesis by (simp add: depositOf_def)
qed

lemma depositsOf_nonneg: "proposals_ok s \<Longrightarrow> 0 \<le> depositsOf a s"
  unfolding depositsOf_def msum_def
  by (intro sum_nonneg) (auto simp: proposals_ok_def proposal_ok_def depositOf_def)

lemma escrow_nonneg: "gov_inv D s \<Longrightarrow> 0 \<le> escrowOf s a"
  using depositsOf_nonneg [of s a] by (auto simp: gov_inv_def dest: spec [of _ a])

section \<open>Operations that leave the books alone\<close>

lemma acctOf_events: "acctOf D (s\<lparr>events := es\<rparr>) = acctOf D s"
  by (simp add: acctOf_def account_defs run_defs fun_eq_iff)

lemma acctOf_gov:
  "acctOf D (s\<lparr>govAudits := x, govAuditSequence := y\<rparr>) = acctOf D s"
  "acctOf D (s\<lparr>govParams := p\<rparr>) = acctOf D s"
  "acctOf D (s\<lparr>govRoles := r\<rparr>) = acctOf D s"
  "acctOf D (s\<lparr>govEscrows := e\<rparr>) = acctOf D s"
  "acctOf D (s\<lparr>govSequence := q\<rparr>) = acctOf D s"
  "acctOf D (s\<lparr>govProposals := ps\<rparr>) = acctOf D s"
  "acctOf D (s\<lparr>govVotes := vs, govVoteIndex := vi\<rparr>) = acctOf D s"
  by (simp_all add: acctOf_def account_defs run_defs fun_eq_iff)

lemma books_emit [frame_rules]: "frame (books D) (emitEvent ev)"
  unfolding emitEvent_def by (rule frame_modifyE) (simp add: books_def acctOf_events)

lemma settings_emit [frame_rules]: "frame settings (emitEvent ev)"
  unfolding emitEvent_def by (rule frame_modifyE) (simp add: settings_def)

lemma books_ParamStoreSet [frame_rules]: "frame (books D) (ParamStoreSet k v)"
  unfolding ParamStoreSet_def by (rule frame_rules frame_modifyE | simp add: books_def acctOf_gov)+

lemma books_SetRole [frame_rules]: "frame (books D) (SetRole r a)"
  unfolding SetRole_def by (rule frame_rules frame_modifyE | simp add: books_def acctOf_gov)+

lemma books_RemoveRole [frame_rules]: "frame (books D) (RemoveRole r a)"
  unfolding RemoveRole_def by (rule frame_rules frame_modifyE | simp add: books_def acctOf_gov)+

lemma books_appendAudit [frame_rules]: "frame (books D) (appendAudit D' E ev i actor details)"
  unfolding appendAudit_def GovernanceAppendAudit_def
  by (rule frame_rules frame_modifyE | simp add: books_def acctOf_gov)+

lemma settings_appendAudit [frame_rules]: "frame settings (appendAudit D E ev i actor details)"
  unfolding appendAudit_def GovernanceAppendAudit_def
  by (rule frame_rules frame_modifyE | simp add: settings_def)+

lemma frame_preflight:
  "(\<And>ev. frame f (emitEvent ev)) \<Longrightarrow> frame f (preflightPolicyDelta D E payload)"
  unfolding preflightPolicyDelta_def
  by (auto intro!: frame_rules split: option.splits sum.splits)

lemma frame_checkPayload:
  "(\<And>ev. frame f (emitEvent ev)) \<Longrightarrow> frame f (checkPayload D E kind payload)"
  unfolding checkPayload_def by (intro frame_rules frame_preflight)

lemma books_storeParams [frame_rules]: "frame (books D) (storeParams kvs)"
  by (induction kvs) (auto intro!: frame_rules)

lemma books_setRoles [frame_rules]: "frame (books D) (setRoles ms)"
  by (induction ms) (auto intro!: frame_rules)

lemma books_removeRoles [frame_rules]: "frame (books D) (removeRoles ms)"
  by (induction ms) (auto intro!: frame_rules)

section \<open>Balances\<close>

lemma gov_more:
  assumes "chain.more t = chain.more s"
  shows "govEscrows t = govEscrows s" "govSequence t = govSequence s" "govProposals t = govProposals s"
    "govVotes t = govVotes s" "govVoteIndex t = govVoteIndex s" "settings t = settings s"
  using assms by (cases s rule: gstate.cases_scheme; cases t rule: gstate.cases_scheme; simp add: settings_def)+

lemma BalanceZNHB_coin: "BalanceZNHB (acctOf D s a) = coinBalance D ZNHB s a"
  by (simp add: coinBalance_def)

lemma chain_inv_nonneg: "chain_inv D s \<Longrightarrow> 0 \<le> coinBalance D c s a"
  using al.bal_nonneg [of D s c a] by (simp add: al_bal_fun)

text \<open>Writing a ZNHB balance that is not negative cannot fail.\<close>

lemma wp_PutZNHB:
  assumes "chain_inv D s" and "0 \<le> v"
    and "\<And>t. chain_inv D t \<Longrightarrow> coinBalance D ZNHB t = (coinBalance D ZNHB s)(a := v) \<Longrightarrow>
      chain.more t = chain.more s \<Longrightarrow> Q () t"
  shows "wp (PutAccount D a (acctOf D s a\<lparr>BalanceZNHB := v\<rparr>)) Q R s"
proof -
  let ?acc = "setCoin ZNHB v (acctOf D s a)"
  have inv: "acct_fits (acctOf D s a)" and D: "deps_ok D" using assms(1) by (simp_all add: chain_inv_def)
  have nonneg: "acct_nonneg ?acc"
    by (rule acct_nonneg_setCoin) (use inv assms(2) in \<open>simp_all add: acct_fits_def\<close>)
  then have "acct_fits ?acc" using inv by (simp add: acct_fits_def)
  then have ok: "\<exists>t. PutAccount D a ?acc s = (Inr (), t)" using PutAccount_fits [OF D] by blast
  have "wp (PutAccount D a ?acc) Q (\<lambda>_ _. True) s"
    by (rule wp_PutAccount [OF assms(1) nonneg]) (use assms(3) in auto)
  with ok have "wp (PutAccount D a ?acc) Q R s" by (auto simp: wp_def)
  then show ?thesis by simp
qed

definition creditsOf :: "treasuryTransferDecoded list \<Rightarrow> address \<Rightarrow> int" where
  "creditsOf ts a = sum_list (map tfAmount (filter (\<lambda>t. tfTo t = a) ts))"

abbreviation amounts :: "treasuryTransferDecoded list \<Rightarrow> int" where
  "amounts ts \<equiv> sum_list (map tfAmount ts)"

lemma allOf_creditsOf: "allOf (\<lambda>a. b a + creditsOf ts a) = allOf b + amounts ts"
proof (induction ts)
  case Nil
  then show ?case by (simp add: creditsOf_def)
next
  case (Cons t ts)
  have "(\<lambda>a. b a + creditsOf (t # ts) a) =
      (\<lambda>a. b a + creditsOf ts a)(tfTo t := b (tfTo t) + creditsOf ts (tfTo t) + tfAmount t)"
    by (auto simp: creditsOf_def fun_eq_iff)
  then show ?case using Cons by (simp add: allOf_upd)
qed

lemma wp_creditTransfers:
  assumes "chain_inv D s" and "\<forall>t\<in>set ts. 0 \<le> tfAmount t"
    and "\<And>t. chain_inv D t \<Longrightarrow> coinBalance D ZNHB t = (\<lambda>a. coinBalance D ZNHB s a + creditsOf ts a) \<Longrightarrow>
      chain.more t = chain.more s \<Longrightarrow> Q () t"
  shows "wp (creditTransfers D ts) Q R s"
  using assms
proof (induction ts arbitrary: s)
  case Nil
  then show ?case by (simp add: wp_simps creditsOf_def)
next
  case (Cons x ts)
  have "wp (PutAccount D (tfTo x) (acctOf D s (tfTo x)\<lparr>BalanceZNHB := coinBalance D ZNHB s (tfTo x) + tfAmount x\<rparr>))
      (\<lambda>_. wp (creditTransfers D ts) Q R) R s"
  proof (rule wp_PutZNHB [OF Cons.prems(1)])
    show "0 \<le> coinBalance D ZNHB s (tfTo x) + tfAmount x"
      using Cons.prems(2) chain_inv_nonneg [OF Cons.prems(1), of ZNHB] by (simp add: add_nonneg_nonneg)
  next
    fix t
    assume t: "chain_inv D t"
      "coinBalance D ZNHB t = (coinBalance D ZNHB s)(tfTo x := coinBalance D ZNHB s (tfTo x) + tfAmount x)"
      "chain.more t = chain.more s"
    show "wp (creditTransfers D ts) Q R t"
    proof (rule Cons.IH [OF t(1)])
      show "\<forall>t\<in>set ts. 0 \<le> tfAmount t" using Cons.prems(2) by simp
      show "Q () u" if "chain_inv D u" "coinBalance D ZNHB u = (\<lambda>a. coinBalance D ZNHB t a + creditsOf ts a)"
        "chain.more u = chain.more t" for u
        using that t(2,3) by (intro Cons.prems(3)) (auto simp: fun_eq_iff creditsOf_def)
    qed
  qed
  then show ?case by (simp add: wp_simps wp_GetAccount BalanceZNHB_coin)
qed

lemma parseTransfers_total:
  "parseTransfers D es = Inr (ts, n) \<Longrightarrow> n = amounts ts \<and> (\<forall>t\<in>set ts. 0 < tfAmount t)"
  by (induction es arbitrary: ts n) (auto split: prod.splits)

lemma parseTreasury_total:
  "parseTreasuryDirectivePayload D E p = Inr d \<Longrightarrow>
     ptTotal d = amounts (ptTransfers d) \<and> (\<forall>t\<in>set (ptTransfers d). 0 < tfAmount t)
     \<and> ptSource d \<in> set (treasuryAllow E)"
  by (auto simp: parseTreasuryDirectivePayload_def dest: parseTransfers_total split: prod.splits)

section \<open>Applying a payload\<close>

definition applied :: "'d deps_scheme \<Rightarrow> 'x gstate_scheme \<Rightarrow> 'x gstate_scheme \<Rightarrow> bool" where
  "applied D s t \<longleftrightarrow> chain_inv D t \<and> totalSupply D ZNHB t = totalSupply D ZNHB s \<and> snd (books D t) = snd (books D s)"

definition untouched :: "'d deps_scheme \<Rightarrow> 'x gstate_scheme \<Rightarrow> 'x gstate_scheme \<Rightarrow> bool" where
  "untouched D s t \<longleftrightarrow> books D t = books D s \<and> settings t = settings s"

lemma untouched_refl [simp]: "untouched D s s"
  by (simp add: untouched_def)

lemma applied_frame:
  assumes "frame (books D) m" and "chain_inv D s" and "m s = (r, t)"
  shows "applied D s t"
proof -
  have b: "books D t = books D s" using assms(1,3) by (rule frameD)
  with assms(2) show ?thesis
    by (auto simp: applied_def books_def chain_inv_def totalSupply_def coinBalance_def)
qed

text \<open>A step that touches no balance either applies or, when it cannot fail, has applied.\<close>

lemma wp_applied:
  assumes "frame (books D) m" and "chain_inv D s" and "\<And>e t. m s \<noteq> (Inl e, t)"
  shows "wp m (\<lambda>_ t. applied D s t) R s"
  using applied_frame [OF assms(1,2)] assms(3) by (intro wpI) auto

lemma ParamStoreSet_ok:
  "trimSpace k \<noteq> [] \<Longrightarrow> ParamStoreSet k v s = (Inr (), s\<lparr>govParams := (govParams s)(trimSpace k \<mapsto> v)\<rparr>)"
  by (simp add: ParamStoreSet_def Let_def modifyE_def)

lemma storeParams_ok:
  assumes "\<forall>kv\<in>set kvs. fst kv \<noteq> [] \<and> trimSpace (fst kv) = fst kv" and "distinct (map fst kvs)"
  shows "storeParams kvs s = (Inr (), s\<lparr>govParams := govParams s ++ map_of kvs\<rparr>)"
  using assms
proof (induction kvs arbitrary: s)
  case Nil
  then show ?case by (simp add: retE_def)
next
  case (Cons kv kvs)
  have "fst kv \<notin> dom (map_of kvs)" using Cons.prems(2) by (auto simp: dom_map_of_conv_image_fst)
  then have eq: "(govParams s)(fst kv \<mapsto> snd kv) ++ map_of kvs = govParams s ++ map_of (kv # kvs)"
    by (auto simp: fun_eq_iff map_add_def domIff split: option.splits)
  have "storeParams (kv # kvs) s = storeParams kvs (s\<lparr>govParams := (govParams s)(fst kv \<mapsto> snd kv)\<rparr>)"
    using Cons.prems(1) by (simp add: run_bindE(1) [OF ParamStoreSet_ok])
  also have "\<dots> = (Inr (), s\<lparr>govParams := (govParams s)(fst kv \<mapsto> snd kv) ++ map_of kvs\<rparr>)"
    using Cons by simp
  finally show ?case by (simp only: eq)
qed

lemma lastEntries_keys: "fst ` set (lastEntries kvs) = fst ` set kvs \<and> distinct (map fst (lastEntries kvs))"
  by (induction kvs) auto

lemma validateEntries_keys:
  "validateEntries D E kvs = Inr vs \<Longrightarrow>
     list_all (\<lambda>k. k \<noteq> [] \<and> trimSpace k = k \<and> k \<in> set (allowedParams E)) (map fst vs)"
  by (induction kvs arbitrary: vs) (auto simp: Let_def split: option.splits)

lemma validateParamPayload_keys:
  assumes "validateParamPayload D E p = Inr vs"
  shows "\<forall>kv\<in>set vs. fst kv \<noteq> [] \<and> trimSpace (fst kv) = fst kv" and "distinct (map fst vs)"
    and "\<forall>kv\<in>set vs. fst kv \<in> set (allowedParams E)"
proof -
  from assms obtain kvs ws where "validateEntries D E kvs = Inr ws" and vs: "vs = lastEntries ws"
    by (auto simp: validateParamPayload_def split: sum.splits)
  from validateEntries_keys [OF this(1)]
  have all: "\<forall>k\<in>fst ` set ws. k \<noteq> [] \<and> trimSpace k = k \<and> k \<in> set (allowedParams E)"
    by (auto simp: list_all_iff)
  have keys: "fst kv \<in> fst ` set ws" if "kv \<in> set vs" for kv
  proof -
    have "fst kv \<in> fst ` set (lastEntries ws)" using that unfolding vs by (rule imageI)
    then show ?thesis using lastEntries_keys [of ws] by simp
  qed
  show "\<forall>kv\<in>set vs. fst kv \<noteq> [] \<and> trimSpace (fst kv) = fst kv"
    by (intro ballI conjI) (use bspec [OF all keys] in simp_all)
  show "\<forall>kv\<in>set vs. fst kv \<in> set (allowedParams E)"
    by (intro ballI) (use bspec [OF all keys] in simp)
  show "distinct (map fst vs)" unfolding vs by (rule lastEntries_keys [THEN conjunct2])
qed


lemma wp_untouched:
  assumes "frame (books D) m" and "frame settings m" and "\<And>x t. untouched D s t \<Longrightarrow> Q x t"
    and "\<And>e t. untouched D s t \<Longrightarrow> R e t"
  shows "wp m Q R s"
proof (rule wpI)
  show "Q x t" if "m s = (Inr x, t)" for x t
    by (rule assms(3)) (simp add: untouched_def frameD [OF assms(1) that] frameD [OF assms(2) that])
  show "R e t" if "m s = (Inl e, t)" for e t
    by (rule assms(4)) (simp add: untouched_def frameD [OF assms(1) that] frameD [OF assms(2) that])
qed

lemma untouched_inv: "untouched D s t \<Longrightarrow> chain_inv D t = chain_inv D s"
  by (simp add: untouched_def chain_inv_def books_def)

lemma applied_trans: "untouched D s u \<Longrightarrow> applied D u t \<Longrightarrow> applied D s t"
  by (auto simp: untouched_def applied_def books_def totalSupply_def coinBalance_def)

lemma wp_applyParamUpdates:
  assumes "chain_inv D s"
  shows "wp (applyParamUpdates D E change) (\<lambda>_. applied D s) (\<lambda>_. untouched D s) s"
proof (cases "validateParamPayload D E change")
  case (Inl e)
  then show ?thesis by (simp add: applyParamUpdates_def wp_simps)
next
  case (Inr vs)
  have "wp (preflightPolicyDelta D E vs)
      (\<lambda>_. wp (bindE (storeParams vs) (\<lambda>_. retE (sort (map fst vs)))) (\<lambda>_. applied D s) (\<lambda>_. untouched D s))
      (\<lambda>_. untouched D s) s"
  proof (rule wp_untouched [OF frame_preflight frame_preflight])
    fix x t
    assume t: "untouched D s t"
    have "wp (storeParams vs) (\<lambda>_. applied D t) (\<lambda>_. untouched D s) t"
      by (rule wp_applied [OF books_storeParams])
        (simp_all add: assms untouched_inv [OF t] storeParams_ok [OF validateParamPayload_keys(1,2) [OF Inr]])
    then show "wp (bindE (storeParams vs) (\<lambda>_. retE (sort (map fst vs)))) (\<lambda>_. applied D s) (\<lambda>_. untouched D s) t"
      unfolding wp_simps by (rule wp_mono) (auto intro: applied_trans [OF t])
  qed (rule books_emit settings_emit | assumption)+
  with Inr show ?thesis by (simp add: applyParamUpdates_def wp_simps)
qed

lemma bindE_noerr:
  "(\<And>e t. m s \<noteq> (Inl e, t)) \<Longrightarrow> (\<And>x t e u. f x t \<noteq> (Inl e, u)) \<Longrightarrow> bindE m f s \<noteq> (Inl e, u)"
  by (simp add: run_simps)

lemma wp_applySlashingPolicy:
  assumes "chain_inv D s"
  shows "wp (applySlashingPolicy parsed) (\<lambda>_. applied D s) R s"
proof (rule wp_applied [OF _ assms])
  show "frame (books D) (applySlashingPolicy parsed)"
    unfolding applySlashingPolicy_def by (intro frame_rules)
  have keys: "trimSpace ''slashing.policy.enabled'' \<noteq> []" "trimSpace ''slashing.policy.maxPenaltyBps'' \<noteq> []"
    "trimSpace ''slashing.policy.windowSeconds'' \<noteq> []" "trimSpace ''slashing.policy.evidenceTtlSeconds'' \<noteq> []"
    "trimSpace ''slashing.policy.maxSlashWei'' \<noteq> []"
    by code_simp+
  show "applySlashingPolicy parsed s \<noteq> (Inl e, t)" for e t
    unfolding applySlashingPolicy_def Let_def
    by (intro bindE_noerr) (simp_all only: ParamStoreSet_ok [OF keys(1)] ParamStoreSet_ok [OF keys(2)]
        ParamStoreSet_ok [OF keys(3)] ParamStoreSet_ok [OF keys(4)] ParamStoreSet_ok [OF keys(5)] retE_err
        prod.inject sum.distinct simp_thms)
qed

lemma SetRole_ok: "trimSpace r \<noteq> [] \<Longrightarrow> SetRole r a s \<noteq> (Inl e, t)"
  by (simp add: SetRole_def Let_def run_simps)

lemma RemoveRole_ok: "trimSpace r \<noteq> [] \<Longrightarrow> RemoveRole r a s \<noteq> (Inl e, t)"
  by (auto simp: RemoveRole_def Let_def run_simps split: option.splits if_splits)

lemma setRoles_ok: "\<forall>m\<in>set ms. trimSpace (fst m) \<noteq> [] \<Longrightarrow> setRoles ms s \<noteq> (Inl e, t)"
  by (induction ms arbitrary: s) (auto simp: run_simps SetRole_ok)

lemma removeRoles_ok: "\<forall>m\<in>set ms. trimSpace (fst m) \<noteq> [] \<Longrightarrow> removeRoles ms s \<noteq> (Inl e, t)"
  by (induction ms arbitrary: s) (auto simp: run_simps RemoveRole_ok)

lemma parseRoleEntries_roles:
  "parseRoleEntries D E w es = Inr ms \<Longrightarrow> list_all (\<lambda>m. trimSpace (fst m) \<noteq> [] \<and> fst m \<in> set (allowedRoles E)) ms"
  by (induction es arbitrary: ms) (auto simp: Let_def)

lemma wp_applyRoleAllowlist:
  assumes "chain_inv D s" and "parseRoleAllowlistPayload D' E change = Inr parsed"
  shows "wp (applyRoleAllowlist D' parsed) (\<lambda>_. applied D s) R s"
proof (rule wp_applied [OF _ assms(1)])
  show "frame (books D) (applyRoleAllowlist D' parsed)"
    unfolding applyRoleAllowlist_def by (intro frame_rules)
  from assms(2) have "\<forall>m\<in>set (prGrant parsed). trimSpace (fst m) \<noteq> []" "\<forall>m\<in>set (prRevoke parsed). trimSpace (fst m) \<noteq> []"
    by (force simp: parseRoleAllowlistPayload_def list_all_iff dest!: parseRoleEntries_roles)+
  then show "applyRoleAllowlist D' parsed s \<noteq> (Inl e, t)" for e t
    by (simp add: applyRoleAllowlist_def run_simps setRoles_ok removeRoles_ok)
qed

text \<open>A treasury directive moves the sum of its transfers out of the source and each transfer to its
  recipient, or refuses and changes nothing.\<close>

lemma wp_treasury:
  assumes "chain_inv D s" and "parseTreasuryDirectivePayload D' E change = Inr parsed"
    and "ptTotal parsed \<le> coinBalance D ZNHB s (ptSource parsed) \<Longrightarrow>
      \<forall>x t. chain_inv D t \<longrightarrow> chain.more t = chain.more s \<longrightarrow>
       coinBalance D ZNHB t = (\<lambda>a. ((coinBalance D ZNHB s)(ptSource parsed := coinBalance D ZNHB s (ptSource parsed)
         - ptTotal parsed)) a + creditsOf (ptTransfers parsed) a) \<longrightarrow> Q x t"
    and "R ''governance: treasury insufficient balance'' s"
  shows "wp (applyTreasuryDirective D parsed) Q R s"
proof (cases "coinBalance D ZNHB s (ptSource parsed) < ptTotal parsed")
  case True
  then show ?thesis using assms(4) by (simp add: applyTreasuryDirective_def wp_simps wp_GetAccount BalanceZNHB_coin)
next
  case False
  let ?src = "ptSource parsed"
  have pos: "\<forall>t\<in>set (ptTransfers parsed). 0 \<le> tfAmount t"
    using parseTreasury_total [OF assms(2)] by (auto intro: order.strict_implies_order)
  have "wp (PutAccount D ?src (acctOf D s ?src\<lparr>BalanceZNHB := coinBalance D ZNHB s ?src - ptTotal parsed\<rparr>))
      (\<lambda>_. wp (creditTransfers D (ptTransfers parsed)) (\<lambda>_ t. \<forall>x. Q x t) R) R s"
  proof (rule wp_PutZNHB [OF assms(1)])
    show "0 \<le> coinBalance D ZNHB s ?src - ptTotal parsed" using False by simp
    show "wp (creditTransfers D (ptTransfers parsed)) (\<lambda>_ t. \<forall>x. Q x t) R t"
      if "chain_inv D t" "coinBalance D ZNHB t = (coinBalance D ZNHB s)(?src := coinBalance D ZNHB s ?src - ptTotal parsed)"
        "chain.more t = chain.more s" for t
      by (rule wp_creditTransfers [OF that(1) pos]) (use assms(3) False that(2,3) in auto)
  qed
  then have "wp (PutAccount D ?src (acctOf D s ?src\<lparr>BalanceZNHB := coinBalance D ZNHB s ?src - ptTotal parsed\<rparr>))
      (\<lambda>_. wp (creditTransfers D (ptTransfers parsed)) (\<lambda>_. Q x) R) R s" for x
    by (rule wp_mono) (auto elim: wp_mono)
  then show ?thesis unfolding applyTreasuryDirective_def wp_simps wp_GetAccount BalanceZNHB_coin using False by simp
qed

lemma treasury_total:
  assumes "parseTreasuryDirectivePayload D' E change = Inr parsed"
  shows "allOf (\<lambda>a. (b(ptSource parsed := b (ptSource parsed) - ptTotal parsed)) a + creditsOf (ptTransfers parsed) a) = allOf b"
  using parseTreasury_total [OF assms] unfolding allOf_creditsOf allOf_upd by simp

lemma wp_applyTreasuryDirective:
  assumes "chain_inv D s" and "parseTreasuryDirectivePayload D' E change = Inr parsed"
  shows "wp (applyTreasuryDirective D parsed) (\<lambda>_. applied D s) (\<lambda>_. untouched D s) s"
proof (rule wp_treasury [OF assms], intro allI impI)
  fix t
  assume t: "chain_inv D t" "chain.more t = chain.more s"
    "coinBalance D ZNHB t = (\<lambda>a. ((coinBalance D ZNHB s)(ptSource parsed := coinBalance D ZNHB s (ptSource parsed)
       - ptTotal parsed)) a + creditsOf (ptTransfers parsed) a)"
  show "applied D s t"
    unfolding applied_def totalSupply_allOf t(3) treasury_total [OF assms(2)]
    using t(1) gov_more [OF t(2)] by (simp add: books_def)
qed simp

lemma wp_ifI: "(b \<Longrightarrow> wp m Q R s) \<Longrightarrow> (\<not> b \<Longrightarrow> wp n Q R s) \<Longrightarrow> wp (if b then m else n) Q R s"
  by simp

lemma wp_applyPayload:
  assumes "chain_inv D s"
  shows "wp (applyPayload D E target change) (\<lambda>_. applied D s) (\<lambda>_. untouched D s) s"
  unfolding applyPayload_def
proof (intro wp_ifI)
  show "wp (bindE (applyParamUpdates D E change) (\<lambda>keys. retE [(''keys'', ATexts keys)])) (\<lambda>_. applied D s) (\<lambda>_. untouched D s) s"
    unfolding wp_simps by (rule wp_applyParamUpdates [OF assms])
  show "wp (bindE (liftE (parseSlashingPolicyPayload D change)) applySlashingPolicy) (\<lambda>_. applied D s) (\<lambda>_. untouched D s) s"
    by (cases "parseSlashingPolicyPayload D change") (simp_all add: wp_simps wp_applySlashingPolicy [OF assms])
  show "wp (bindE (liftE (parseRoleAllowlistPayload D E change)) (applyRoleAllowlist D)) (\<lambda>_. applied D s) (\<lambda>_. untouched D s) s"
    by (cases "parseRoleAllowlistPayload D E change") (simp_all add: wp_simps wp_applyRoleAllowlist [OF assms])
  show "wp (bindE (liftE (parseTreasuryDirectivePayload D E change)) (applyTreasuryDirective D))
      (\<lambda>_. applied D s) (\<lambda>_. untouched D s) s"
    by (cases "parseTreasuryDirectivePayload D E change") (simp_all add: wp_simps wp_applyTreasuryDirective [OF assms])
qed (simp add: wp_throwE)


section \<open>The life of a proposal\<close>

definition decides :: "goveng \<Rightarrow> storedGovernanceVote list \<Rightarrow> ProposalStatus \<Rightarrow> bool" where
  "decides E vs st \<longleftrightarrow> (\<exists>tally. bindS (toGovernanceVotes vs) (ComputeTally E) = Inr (tally, st))"

text \<open>The steps a stored proposal can take under an engine, given the ballots recorded for it.\<close>

inductive moves ::
  "goveng \<Rightarrow> storedGovernanceVote list \<Rightarrow> storedGovernanceProposal \<Rightarrow> storedGovernanceProposal \<Rightarrow> bool" for E vs where
  passed: "sgStatus p = 2 \<Longrightarrow> fromUnix (sgVotingEnd p) \<le> gnow E \<Longrightarrow> decides E vs ProposalStatusPassed \<Longrightarrow>
    moves E vs p (p\<lparr>sgStatus := 3, sgDeposit := 0\<rparr>)"
| rejected: "sgStatus p = 2 \<Longrightarrow> fromUnix (sgVotingEnd p) \<le> gnow E \<Longrightarrow> decides E vs ProposalStatusRejected \<Longrightarrow>
    moves E vs p (p\<lparr>sgStatus := 4\<rparr>)"
| queued: "sgStatus p = 3 \<Longrightarrow> \<not> sgQueued p \<Longrightarrow> moves E vs p (p\<lparr>sgQueued := True\<rparr>)"
| executed: "sgStatus p = 3 \<Longrightarrow> sgQueued p \<Longrightarrow> fromUnix (sgTimelockEnd p) \<le> gnow E \<Longrightarrow>
    moves E vs p (p\<lparr>sgStatus := 7\<rparr>)"

lemma rejected_stuck: "sgStatus p = 4 \<Longrightarrow> \<not> moves E vs p q"
  by (auto elim: moves.cases)

lemma executed_stuck: "sgStatus p = 7 \<Longrightarrow> \<not> moves E vs p q"
  by (auto elim: moves.cases)

lemma validProposalStatus_byte: "validProposalStatus (statusByte st) = Some st"
  by (cases st) (simp_all add: validProposalStatus_def)

lemma statusByte_valid: "validProposalStatus b = Some st \<Longrightarrow> statusByte st = b"
  by (auto simp: validProposalStatus_def split: if_splits)

lemma statusByte_eq [simp]:
  "statusByte st = 2 \<longleftrightarrow> st = ProposalStatusVotingPeriod" "statusByte st = 3 \<longleftrightarrow> st = ProposalStatusPassed"
  "statusByte st = 4 \<longleftrightarrow> st = ProposalStatusRejected" "statusByte st = 7 \<longleftrightarrow> st = ProposalStatusExecuted"
  by (cases st; simp)+

lemma unix_round [simp]: "unixSeconds (fromUnix w) = w"
  by (simp add: unixSeconds_def fromUnix_def)

text \<open>A proposal that was read: what is stored is its stored form.\<close>

definition loaded :: "storedGovernanceProposal \<Rightarrow> GovProposal \<Rightarrow> bool" where
  "loaded r p \<longleftrightarrow> toGovernanceProposal r = Inr p"

lemma loadedD:
  assumes "loaded r p"
  shows "newStoredGovernanceProposal p = r" "gpID p = sgID r" "sgStatus r = statusByte (gpStatus p)"
    "gpDeposit p = sgDeposit r" "gpSubmitter p = sgSubmitter r" "gpVotingEnd p = fromUnix (sgVotingEnd r)"
    "gpTimelockEnd p = fromUnix (sgTimelockEnd r)" "gpQueued p = sgQueued r" "gpVotingStart p = fromUnix (sgVotingStart r)"
  using assms
  by (auto simp: loaded_def toGovernanceProposal_def newStoredGovernanceProposal_def split: option.splits dest: statusByte_valid)

lemma loaded_stored:
  assumes "loaded r p"
  shows "newStoredGovernanceProposal (p\<lparr>gpStatus := st\<rparr>) = r\<lparr>sgStatus := statusByte st\<rparr>"
    "newStoredGovernanceProposal (p\<lparr>gpDeposit := d, gpStatus := st\<rparr>) = r\<lparr>sgStatus := statusByte st, sgDeposit := d\<rparr>"
    "newStoredGovernanceProposal (p\<lparr>gpQueued := b\<rparr>) = r\<lparr>sgQueued := b\<rparr>"
  using loadedD(1) [OF assms] by (auto simp: newStoredGovernanceProposal_def)

lemma readable: "proposal_ok n i r \<Longrightarrow> \<exists>p. loaded r p"
  by (auto simp: loaded_def proposal_ok_def toGovernanceProposal_def)

lemma wp_loadProposal:
  assumes "proposals_ok s" and "\<And>e. R e s"
    and "\<And>r p. govProposals s i = Some r \<Longrightarrow> proposal_ok (govSequence s) i r \<Longrightarrow> loaded r p \<Longrightarrow> Q p s"
  shows "wp (loadProposal i) Q R s"
proof (cases "govProposals s i")
  case None
  then show ?thesis using assms(2) by (simp add: loadProposal_def GovernanceGetProposal_def wp_simps)
next
  case (Some r)
  then have ok: "proposal_ok (govSequence s) i r" using assms(1) by (simp add: proposals_ok_def)
  then obtain p where "loaded r p" using readable by blast
  with Some ok assms(3) show ?thesis
    by (simp add: loadProposal_def GovernanceGetProposal_def wp_simps loaded_def)
qed

lemma rlp_nonneg: "chain_inv D s \<Longrightarrow> 0 \<le> v \<Longrightarrow> \<not> rlpFails D [v]"
  by (simp add: rlpFails_def chain_inv_def deps_ok_def)

lemma wp_PutProposal:
  assumes "chain_inv D s" and "0 \<le> gpDeposit p"
  shows "wp (GovernancePutProposal D p) Q R s
    = Q () (s\<lparr>govProposals := (govProposals s)(gpID p \<mapsto> newStoredGovernanceProposal p)\<rparr>)"
  by (simp add: GovernancePutProposal_def wp_simps rlp_nonneg [OF assms])

lemma chain_inv_gov [simp]:
  "chain_inv D (s\<lparr>govEscrows := e\<rparr>) = chain_inv D s" "chain_inv D (s\<lparr>govSequence := q\<rparr>) = chain_inv D s"
  "chain_inv D (s\<lparr>govProposals := ps\<rparr>) = chain_inv D s"
  "chain_inv D (s\<lparr>govVotes := vs, govVoteIndex := vi\<rparr>) = chain_inv D s"
  by (simp_all add: chain_inv_def acctOf_gov)

lemma coinBalance_gov [simp]:
  "coinBalance D c (s\<lparr>govEscrows := e\<rparr>) = coinBalance D c s" "coinBalance D c (s\<lparr>govSequence := q\<rparr>) = coinBalance D c s"
  "coinBalance D c (s\<lparr>govProposals := ps\<rparr>) = coinBalance D c s"
  "coinBalance D c (s\<lparr>govVotes := vs, govVoteIndex := vi\<rparr>) = coinBalance D c s"
  by (simp_all add: coinBalance_def acctOf_gov fun_eq_iff)

lemma escrowOf_gov [simp]:
  "escrowOf (s\<lparr>govProposals := ps\<rparr>) = escrowOf s" "escrowOf (s\<lparr>govSequence := q\<rparr>) = escrowOf s"
  "escrowOf (s\<lparr>govVotes := vs, govVoteIndex := vi\<rparr>) = escrowOf s"
  by (simp_all add: escrowOf_def fun_eq_iff)

text \<open>One proposal is stored anew and nothing else of the module but the escrows changes.\<close>

lemma gov_inv_put:
  assumes "gov_inv D s" and "chain_inv D t" and "govProposals t = (govProposals s)(i \<mapsto> q)"
    and "govSequence t = govSequence s" and "govVotes t = govVotes s" and "govVoteIndex t = govVoteIndex s"
    and "proposal_ok (govSequence s) i q"
    and "\<And>a. depositOf a i q - oval (depositOf a) (govProposals s) i \<le> escrowOf t a - escrowOf s a"
  shows "gov_inv D t"
proof -
  have "depositsOf a t \<le> escrowOf t a" for a
  proof -
    have "depositsOf a s \<le> escrowOf s a" using assms(1) by (simp add: gov_inv_def)
    with assms(8) [of a] depositsOf_upd [OF assms(3), of a] show ?thesis by linarith
  qed
  moreover have "proposals_ok t" using assms(1,3,4,7) by (auto simp: gov_inv_def proposals_ok_def)
  moreover have "ballots_ok t" using assms(1,5,6) by (simp add: gov_inv_def ballots_ok_def ballotsOf_def)
  ultimately show ?thesis using assms(2) by (simp add: gov_inv_def)
qed

text \<open>What a call may do: keep the books and the total, and replace one proposal by the result of a
  step.\<close>

definition good :: "'d deps_scheme \<Rightarrow> 'x gstate_scheme \<Rightarrow> 'x gstate_scheme \<Rightarrow> bool" where
  "good D s t \<longleftrightarrow> gov_inv D t \<and> totalZNHB D t = totalZNHB D s"

definition step_of :: "goveng \<Rightarrow> u64 \<Rightarrow> 'x gstate_scheme \<Rightarrow> 'x gstate_scheme \<Rightarrow> bool" where
  "step_of E i s t \<longleftrightarrow> govProposals t = govProposals s \<or>
     (\<exists>p q. govProposals s i = Some p \<and> moves E (ballotsOf s i) p q \<and> govProposals t = (govProposals s)(i \<mapsto> q))"

lemma good_untouched: "gov_inv D s \<Longrightarrow> untouched D s t \<Longrightarrow> good D s t"
  using books_total [of D t s] books_inv [of D t s] by (simp add: untouched_def good_def)

lemma step_untouched: "untouched D s t \<Longrightarrow> step_of E i s t"
  by (simp add: untouched_def step_of_def books_def)

lemma good_after: "untouched D t u \<Longrightarrow> good D s u = good D s t"
  using books_total [of D u t] books_inv [of D u t] by (simp add: untouched_def good_def)

lemma step_after: "untouched D t u \<Longrightarrow> step_of E i s u = step_of E i s t"
  by (simp add: untouched_def step_of_def books_def)


section \<open>The calls\<close>

text \<open>The common end of the handlers: a proposal is stored, then an event and an audit entry are
  written, which may fail but touch nothing of the books.\<close>

lemma wp_store:
  assumes "chain_inv D t" and "0 \<le> gpDeposit q" and "frame (books D) tail" and "frame settings tail"
    and "\<And>x u. untouched D (t\<lparr>govProposals := (govProposals t)(gpID q \<mapsto> newStoredGovernanceProposal q)\<rparr>) u \<Longrightarrow> Q x u"
    and "\<And>e u. untouched D (t\<lparr>govProposals := (govProposals t)(gpID q \<mapsto> newStoredGovernanceProposal q)\<rparr>) u \<Longrightarrow> R e u"
  shows "wp (bindE (GovernancePutProposal D q) (\<lambda>_. tail)) Q R t"
  unfolding wp_bindE wp_PutProposal [OF assms(1,2)]
  by (rule wp_untouched [OF assms(3,4)]) (rule assms(5,6), assumption)+

definition kept :: "'d deps_scheme \<Rightarrow> goveng \<Rightarrow> u64 \<Rightarrow> 'x gstate_scheme \<Rightarrow> 'x gstate_scheme \<Rightarrow> bool" where
  "kept D E i s t \<longleftrightarrow> good D s t \<and> step_of E i s t \<and> settings t = settings s"

lemma kept_refl: "gov_inv D s \<Longrightarrow> kept D E i s s"
  using good_untouched [of D s s] by (simp add: kept_def step_of_def)

lemma kept_after: "untouched D t u \<Longrightarrow> kept D E i s t \<Longrightarrow> kept D E i s u"
  by (simp add: kept_def good_after step_after) (simp add: untouched_def)

lemma totalZNHB_proposals [simp]: "totalZNHB D (s\<lparr>govProposals := ps\<rparr>) = totalZNHB D s"
  by (simp add: totalZNHB_def totalSupply_def coinBalance_def acctOf_gov)

text \<open>Storing the result of a step that keeps the deposit.\<close>

lemma good_step:
  assumes "gov_inv D s" and "govProposals s i = Some r" and "proposal_ok (govSequence s) i q"
    and "chain_inv D t" and "snd (books D t) = snd (books D s)" and "totalSupply D ZNHB t = totalSupply D ZNHB s"
    and "sgDeposit q = sgDeposit r" and "sgSubmitter q = sgSubmitter r"
  shows "good D s (t\<lparr>govProposals := (govProposals t)(i \<mapsto> q)\<rparr>)"
proof -
  let ?u = "t\<lparr>govProposals := (govProposals t)(i \<mapsto> q)\<rparr>"
  note same = assms(5) [unfolded books_def snd_conv prod.inject]
  have "gov_inv D ?u"
    by (rule gov_inv_put [OF assms(1), of _ i q]) (use assms same in \<open>simp_all add: depositOf_def escrowOf_def\<close>)
  moreover have "totalZNHB D ?u = totalZNHB D s"
    using same assms(6) by (simp add: totalZNHB_def totalSupply_allOf) (simp add: escrowOf_def allOf_def)
  ultimately show ?thesis by (simp add: good_def)
qed

lemma proposal_ok_step:
  assumes "proposal_ok n i r" and "moves E vs r q" and "\<not> sgQueued r \<Longrightarrow> fromUnix (sgTimelockEnd r) \<noteq> zeroTime \<or> \<not> sgQueued q"
  shows "proposal_ok n i q"
  using assms(2,1,3) by cases (auto simp: proposal_ok_def validProposalStatus_def)

lemma wp_failIfI:
  "(b \<Longrightarrow> R e s) \<Longrightarrow> (\<not> b \<Longrightarrow> wp (f ()) Q R s) \<Longrightarrow> wp (bindE (failIf b e) f) Q R s"
  by (simp add: wp_bindE wp_failIf)

lemma loaded_id: "loaded r p \<Longrightarrow> proposal_ok n i r \<Longrightarrow> gpID p = i \<and> 0 \<le> gpDeposit p"
  by (simp add: loadedD proposal_ok_def)

lemma gov_invD: "gov_inv D s \<Longrightarrow> chain_inv D s" "gov_inv D s \<Longrightarrow> proposals_ok s" "gov_inv D s \<Longrightarrow> ballots_ok s"
  by (simp_all add: gov_inv_def)

lemma wp_QueueExecution:
  assumes "gov_inv D s"
  shows "wp (QueueExecution D E i) (\<lambda>_. kept D E i s) (\<lambda>_. kept D E i s) s"
proof -
  have main: "wp (bindE (GovernancePutProposal D (p\<lparr>gpQueued := True\<rparr>)) (\<lambda>_. tail)) (\<lambda>_. kept D E i s) (\<lambda>_. kept D E i s) s"
    if r: "govProposals s i = Some r" "proposal_ok (govSequence s) i r" "loaded r p"
      and g: "\<not> gpStatus p \<noteq> ProposalStatusPassed" "\<not> gpQueued p" "gpTimelockEnd p \<noteq> zeroTime"
      and tail: "frame (books D) tail" "frame settings tail" for r p tail
  proof -
    let ?q = "r\<lparr>sgQueued := True\<rparr>"
    have m: "moves E (ballotsOf s i) r ?q" using g loadedD [OF r(3)] by (intro moves.queued) simp_all
    have "good D s (s\<lparr>govProposals := (govProposals s)(i \<mapsto> ?q)\<rparr>)"
      by (rule good_step [OF assms r(1) proposal_ok_step [OF r(2) m] gov_invD(1) [OF assms]])
        (use g loadedD [OF r(3)] in simp_all)
    with m r(1) have k: "kept D E i s (s\<lparr>govProposals := (govProposals s)(i \<mapsto> ?q)\<rparr>)"
      by (auto simp: kept_def step_of_def settings_def)
    show ?thesis
      by (rule wp_store [OF gov_invD(1) [OF assms] _ tail])
        (use loaded_id [OF r(3,2)] k loaded_stored(3) [OF r(3)] in \<open>auto intro: kept_after\<close>)
  qed
  show ?thesis unfolding QueueExecution_def wp_bindE [of "loadProposal i"] Let_def
    by (rule wp_loadProposal [OF gov_invD(2) [OF assms]], rule kept_refl [OF assms])
      (intro wp_failIfI kept_refl [OF assms], rule main, (assumption | intro frame_rules)+)
qed

definition executes :: "goveng \<Rightarrow> u64 \<Rightarrow> 'x gstate_scheme \<Rightarrow> 'x gstate_scheme \<Rightarrow> bool" where
  "executes E i s t \<longleftrightarrow> (\<exists>p. govProposals s i = Some p \<and> sgStatus p = 3 \<and> sgQueued p
     \<and> fromUnix (sgTimelockEnd p) \<le> gnow E \<and> govProposals t = (govProposals s)(i \<mapsto> p\<lparr>sgStatus := 7\<rparr>))"

text \<open>An execution happens as a whole or not at all.\<close>

definition exec_post :: "'d deps_scheme \<Rightarrow> goveng \<Rightarrow> u64 \<Rightarrow> 'x gstate_scheme \<Rightarrow> 'x gstate_scheme \<Rightarrow> bool" where
  "exec_post D E i s t \<longleftrightarrow> good D s t \<and> (untouched D s t \<or> executes E i s t)"

lemma exec_post_untouched: "gov_inv D s \<Longrightarrow> untouched D s t \<Longrightarrow> exec_post D E i s t"
  by (simp add: exec_post_def good_untouched)

lemma exec_step: "exec_post D E i s t \<Longrightarrow> step_of E i s t"
  by (auto simp: exec_post_def executes_def step_of_def untouched_def books_def intro: moves.executed)

lemma wp_Execute:
  assumes "gov_inv D s"
  shows "wp (Execute D E i) (\<lambda>_. exec_post D E i s) (\<lambda>_. exec_post D E i s) s"
proof -
  note inv = gov_invD [OF assms]
  have refl: "exec_post D E i s s" by (rule exec_post_untouched [OF assms]) simp
  have main: "wp (bindE (applyPayload D E target change) (\<lambda>detail.
      bindE (GovernancePutProposal D (p\<lparr>gpStatus := ProposalStatusExecuted\<rparr>)) (\<lambda>_. tail detail)))
      (\<lambda>_. exec_post D E i s) (\<lambda>_. exec_post D E i s) s"
    if r: "govProposals s i = Some r" "proposal_ok (govSequence s) i r" "loaded r p"
      and g: "\<not> gpStatus p \<noteq> ProposalStatusPassed" "\<not> \<not> gpQueued p"
        "\<not> (gpTimelockEnd p \<noteq> zeroTime \<and> gnow E < gpTimelockEnd p)"
      and tail: "\<And>detail. frame (books D) (tail detail)" "\<And>detail. frame settings (tail detail)"
    for r p target change tail
    unfolding wp_bindE [of "applyPayload D E target change"]
  proof (rule wp_mono [OF wp_applyPayload [OF inv(1)]])
    let ?q = "r\<lparr>sgStatus := 7\<rparr>"
    have c: "sgStatus r = 3" "sgQueued r" "fromUnix (sgTimelockEnd r) \<le> gnow E"
      using g r(2) loadedD [OF r(3)] by (auto simp: proposal_ok_def)
    have m: "moves E (ballotsOf s i) r ?q" using c by (rule moves.executed)
    fix detail t
    assume t: "applied D s t"
    then have ps: "govProposals t = govProposals s" by (simp add: applied_def books_def)
    have "good D s (t\<lparr>govProposals := (govProposals t)(i \<mapsto> ?q)\<rparr>)"
      by (rule good_step [OF assms r(1) proposal_ok_step [OF r(2) m]])
        (use t c in \<open>auto simp: applied_def\<close>)
    with c r(1) ps have k: "exec_post D E i s u"
      if "untouched D (t\<lparr>govProposals := (govProposals t)(i \<mapsto> ?q)\<rparr>) u" for u
      using that good_after [OF that, of s] by (auto simp: exec_post_def executes_def untouched_def books_def)
    show "wp (bindE (GovernancePutProposal D (p\<lparr>gpStatus := ProposalStatusExecuted\<rparr>)) (\<lambda>_. tail detail))
        (\<lambda>_. exec_post D E i s) (\<lambda>_. exec_post D E i s) t"
      by (rule wp_store [OF _ _ tail])
        (use loaded_id [OF r(3,2)] k loaded_stored(1) [OF r(3)] t in \<open>auto simp: applied_def\<close>)
  qed (rule exec_post_untouched [OF assms])
  show ?thesis unfolding Execute_def wp_bindE [of "loadProposal i"] Let_def
    by (rule wp_loadProposal [OF inv(2)], rule refl)
      (intro wp_failIfI refl, rule main, (assumption | intro frame_rules)+)
qed

section \<open>Deposits\<close>

lemma escrowOf_put [simp]:
  "escrowOf (s\<lparr>govEscrows := (govEscrows s)(a \<mapsto> v)\<rparr>) = (escrowOf s)(a := v)"
  by (simp add: escrowOf_def fun_eq_iff)

lemma wp_putEscrow:
  assumes "chain_inv D s" and "0 \<le> v"
  shows "wp (putEscrow D a v) Q R s = Q v (s\<lparr>govEscrows := (govEscrows s)(a \<mapsto> v)\<rparr>)"
  by (simp add: putEscrow_def wp_simps rlp_nonneg [OF assms])

text \<open>What a move between a balance and the escrow of the same address leaves.\<close>

definition moved :: "'d deps_scheme \<Rightarrow> address \<Rightarrow> int \<Rightarrow> 'x gstate_scheme \<Rightarrow> 'x gstate_scheme \<Rightarrow> bool" where
  "moved D a v s t \<longleftrightarrow> chain_inv D t \<and> totalZNHB D t = totalZNHB D s
     \<and> coinBalance D ZNHB t = (coinBalance D ZNHB s)(a := coinBalance D ZNHB s a + v)
     \<and> escrowOf t = (escrowOf s)(a := escrowOf s a - v) \<and> govSequence t = govSequence s
     \<and> govProposals t = govProposals s \<and> govVotes t = govVotes s \<and> govVoteIndex t = govVoteIndex s
     \<and> settings t = settings s"

lemma movedI:
  assumes "chain_inv D t" and "coinBalance D ZNHB t = (coinBalance D ZNHB s)(a := coinBalance D ZNHB s a + v)"
    and "chain.more t = chain.more s"
  shows "moved D a v s (t\<lparr>govEscrows := (govEscrows t)(a \<mapsto> escrowOf t a - v)\<rparr>)"
proof -
  note same = gov_more [OF assms(3)]
  have "escrowOf t = escrowOf s" using same by (simp add: escrowOf_def fun_eq_iff)
  then show ?thesis
    using assms(1,2) same(2-6) by (simp add: moved_def totalZNHB_def totalSupply_allOf allOf_upd settings_def)
qed

lemma wp_returnDeposit:
  assumes "gov_inv D s" and "govProposals s i = Some r" and "loaded r p"
    and "\<And>t. moved D (sgSubmitter r) (sgDeposit r) s t \<Longrightarrow> Q (p\<lparr>gpDeposit := 0\<rparr>) t"
  shows "wp (returnDeposit D p) Q R s"
proof -
  note inv = gov_invD [OF assms(1)]
  let ?a = "sgSubmitter r" and ?v = "sgDeposit r"
  have p: "gpSubmitter p = ?a" "gpDeposit p = ?v" using loadedD [OF assms(3)] by simp_all
  have v: "0 \<le> ?v" using inv(2) assms(2) by (simp add: proposals_ok_def proposal_ok_def)
  have le: "?v \<le> escrowOf s ?a"
    using depositsOf_ge [OF inv(2) assms(2)] assms(1) by (auto simp: gov_inv_def intro: order_trans)
  have "wp (PutAccount D ?a (acctOf D s ?a\<lparr>BalanceZNHB := coinBalance D ZNHB s ?a + ?v\<rparr>))
     (\<lambda>_. wp (bindE (GovernanceEscrowUnlock D ?a ?v) (\<lambda>_. retE (p\<lparr>gpDeposit := 0\<rparr>))) Q R) R s"
  proof (rule wp_PutZNHB [OF inv(1)])
    show "0 \<le> coinBalance D ZNHB s ?a + ?v" using v chain_inv_nonneg [OF inv(1)] by (simp add: add_nonneg_nonneg)
    fix t
    assume t: "chain_inv D t" "coinBalance D ZNHB t = (coinBalance D ZNHB s)(?a := coinBalance D ZNHB s ?a + ?v)"
      "chain.more t = chain.more s"
    have "escrowOf t ?a = escrowOf s ?a" using gov_more [OF t(3)] by (simp add: escrowOf_def)
    then show "wp (bindE (GovernanceEscrowUnlock D ?a ?v) (\<lambda>_. retE (p\<lparr>gpDeposit := 0\<rparr>))) Q R t"
      using v le assms(4) [OF movedI [OF t]]
      by (simp add: GovernanceEscrowUnlock_def GovernanceEscrowBalance_def wp_simps wp_putEscrow [OF t(1)])
  qed
  then show ?thesis by (simp add: returnDeposit_def wp_bindE wp_GetAccount p BalanceZNHB_coin)
qed


lemma wp_ListVotes:
  "wp (GovernanceListVotes i) Q R s = (case toGovernanceVotes (ballotsOf s i) of Inl e \<Rightarrow> R e s | Inr vs \<Rightarrow> Q vs s)"
  by (simp add: GovernanceListVotes_def wp_simps ballotsOf_def)

lemma ComputeTally_status:
  "ComputeTally E vs = Inr (tally, st) \<Longrightarrow> st = ProposalStatusPassed \<or> st = ProposalStatusRejected"
  by (auto simp: ComputeTally_def Let_def split: if_splits)

lemma good_moved:
  assumes "gov_inv D s" and "govProposals s i = Some r" and "moved D (sgSubmitter r) (sgDeposit r) s t"
    and "proposal_ok (govSequence s) i q" and "sgSubmitter q = sgSubmitter r" and "sgDeposit q = 0"
  shows "good D s (t\<lparr>govProposals := (govProposals t)(i \<mapsto> q)\<rparr>)"
proof -
  have "gov_inv D (t\<lparr>govProposals := (govProposals t)(i \<mapsto> q)\<rparr>)"
    by (rule gov_inv_put [OF assms(1), of _ i q])
      (use assms in \<open>simp_all add: moved_def depositOf_def\<close>)
  then show ?thesis using assms(3) by (simp add: good_def moved_def)
qed

text \<open>The end of a finalisation, from the state in which the deposit is settled.\<close>

lemma wp_finalize_store:
  assumes "gov_inv D s" and r: "govProposals s i = Some r" "proposal_ok (govSequence s) i r"
    and m: "moves E (ballotsOf s i) r q" and q: "newStoredGovernanceProposal p' = q" "gpID p' = i" "0 \<le> gpDeposit p'"
    and t: "chain_inv D t" "govProposals t = govProposals s" "settings t = settings s"
      "good D s (t\<lparr>govProposals := (govProposals t)(i \<mapsto> q)\<rparr>)"
    and tail: "frame (books D) tail" "frame settings tail"
  shows "wp (bindE (GovernancePutProposal D p') (\<lambda>_. tail)) (\<lambda>_. kept D E i s) (\<lambda>_. kept D E i s) t"
proof -
  have "kept D E i s (t\<lparr>govProposals := (govProposals t)(i \<mapsto> q)\<rparr>)"
    using t m r(1) by (auto simp: kept_def step_of_def settings_def)
  then show ?thesis
    by (intro wp_store [OF t(1) q(3) tail]) (use q in \<open>auto intro: kept_after\<close>)
qed

lemma wp_finalize_tail:
  assumes "gov_inv D s" and r: "govProposals s i = Some r" "proposal_ok (govSequence s) i r" "loaded r p"
    and g: "gpStatus p = ProposalStatusVotingPeriod" "gpVotingEnd p \<le> gnow E" "decides E (ballotsOf s i) st"
      "st = ProposalStatusPassed \<or> st = ProposalStatusRejected"
    and tail: "\<And>p. frame (books D) (tail p)" "\<And>p. frame settings (tail p)"
  shows "wp (bindE (if st = ProposalStatusPassed \<and> gpDeposit p > 0 then returnDeposit D p else retE p) (\<lambda>p1.
      bindE (GovernancePutProposal D (p1\<lparr>gpStatus := st\<rparr>)) (\<lambda>_. tail (p1\<lparr>gpStatus := st\<rparr>))))
      (\<lambda>_. kept D E i s) (\<lambda>_. kept D E i s) s"
proof -
  note inv = gov_invD [OF assms(1)]
  have c: "sgStatus r = 2" "fromUnix (sgVotingEnd r) \<le> gnow E" "gpDeposit p = sgDeposit r" "gpID p = i" "0 \<le> sgDeposit r"
    using g(1,2) loadedD [OF r(3)] loaded_id [OF r(3,2)] by simp_all
  note ok = proposal_ok_step [OF r(2)] and store = wp_finalize_store [OF assms(1) r(1,2)]
  consider (paid) "st = ProposalStatusPassed" "0 < gpDeposit p" | (free) "st = ProposalStatusPassed" "sgDeposit r = 0"
    | (lost) "st = ProposalStatusRejected"
    using g(4) c(3,5) by linarith
  then show ?thesis
  proof cases
    case paid
    let ?q = "r\<lparr>sgStatus := 3, sgDeposit := 0\<rparr>"
    have m: "moves E (ballotsOf s i) r ?q" using c g(3) paid by (intro moves.passed) simp_all
    have "wp (returnDeposit D p) (\<lambda>p1. wp (bindE (GovernancePutProposal D (p1\<lparr>gpStatus := st\<rparr>))
        (\<lambda>_. tail (p1\<lparr>gpStatus := st\<rparr>))) (\<lambda>_. kept D E i s) (\<lambda>_. kept D E i s)) (\<lambda>_. kept D E i s) s"
    proof (rule wp_returnDeposit [OF assms(1) r(1,3)])
      fix t
      assume t: "moved D (sgSubmitter r) (sgDeposit r) s t"
      have "good D s (t\<lparr>govProposals := (govProposals t)(i \<mapsto> ?q)\<rparr>)"
        by (rule good_moved [OF assms(1) r(1) t ok [OF m]]) simp_all
      then show "wp (bindE (GovernancePutProposal D (p\<lparr>gpDeposit := 0\<rparr>\<lparr>gpStatus := st\<rparr>))
          (\<lambda>_. tail (p\<lparr>gpDeposit := 0\<rparr>\<lparr>gpStatus := st\<rparr>))) (\<lambda>_. kept D E i s) (\<lambda>_. kept D E i s) t"
        using t c(4) paid(1) loaded_stored(2) [OF r(3)] by (intro store [OF m _ _ _ _ _ _ _ tail]) (simp_all add: moved_def)
    qed
    with paid show ?thesis by (simp add: wp_bindE)
  next
    case free
    let ?q = "r\<lparr>sgStatus := 3, sgDeposit := 0\<rparr>"
    have m: "moves E (ballotsOf s i) r ?q" using c g(3) free by (intro moves.passed) simp_all
    have "good D s (s\<lparr>govProposals := (govProposals s)(i \<mapsto> ?q)\<rparr>)"
      by (rule good_step [OF assms(1) r(1) ok [OF m] inv(1)]) (use free in simp_all)
    then have "wp (bindE (GovernancePutProposal D (p\<lparr>gpStatus := st\<rparr>)) (\<lambda>_. tail (p\<lparr>gpStatus := st\<rparr>)))
        (\<lambda>_. kept D E i s) (\<lambda>_. kept D E i s) s"
      using c free loaded_stored(1) [OF r(3), of st] inv by (intro store [OF m _ _ _ _ _ _ _ tail]) simp_all
    with free c show ?thesis by simp
  next
    case lost
    let ?q = "r\<lparr>sgStatus := 4\<rparr>"
    have m: "moves E (ballotsOf s i) r ?q" using c g(3) lost by (intro moves.rejected) simp_all
    have "good D s (s\<lparr>govProposals := (govProposals s)(i \<mapsto> ?q)\<rparr>)"
      by (rule good_step [OF assms(1) r(1) ok [OF m] inv(1)]) simp_all
    then have "wp (bindE (GovernancePutProposal D (p\<lparr>gpStatus := st\<rparr>)) (\<lambda>_. tail (p\<lparr>gpStatus := st\<rparr>)))
        (\<lambda>_. kept D E i s) (\<lambda>_. kept D E i s) s"
      using c lost loaded_stored(1) [OF r(3), of st] inv by (intro store [OF m _ _ _ _ _ _ _ tail]) simp_all
    with lost show ?thesis by simp
  qed
qed

lemma wp_Finalize:
  assumes "gov_inv D s"
  shows "wp (Finalize D E i) (\<lambda>_. kept D E i s) (\<lambda>_. kept D E i s) s"
proof -
  note refl = kept_refl [OF assms]
  have main: "wp (bindE (GovernanceListVotes i) (\<lambda>votes. bindE (liftE (ComputeTally E votes)) (\<lambda>(tally, status).
      bindE (if status = ProposalStatusPassed \<and> gpDeposit p > 0 then returnDeposit D p else retE p) (\<lambda>p1.
      bindE (GovernancePutProposal D (p1\<lparr>gpStatus := status\<rparr>)) (\<lambda>_. tail status tally (p1\<lparr>gpStatus := status\<rparr>))))))
      (\<lambda>_. kept D E i s) (\<lambda>_. kept D E i s) s"
    if r: "govProposals s i = Some r" "proposal_ok (govSequence s) i r" "loaded r p"
      and g: "\<not> gpStatus p \<noteq> ProposalStatusVotingPeriod" "\<not> gnow E < gpVotingEnd p"
      and tail: "\<And>st ta p. frame (books D) (tail st ta p)" "\<And>st ta p. frame settings (tail st ta p)" for r p tail
  proof -
    have "wp (bindE (liftE (ComputeTally E votes)) (\<lambda>(tally, status).
      bindE (if status = ProposalStatusPassed \<and> gpDeposit p > 0 then returnDeposit D p else retE p) (\<lambda>p1.
      bindE (GovernancePutProposal D (p1\<lparr>gpStatus := status\<rparr>)) (\<lambda>_. tail status tally (p1\<lparr>gpStatus := status\<rparr>)))))
      (\<lambda>_. kept D E i s) (\<lambda>_. kept D E i s) s"
      if votes: "toGovernanceVotes (ballotsOf s i) = Inr votes" for votes
    proof (cases "ComputeTally E votes")
      case (Inl e)
      then show ?thesis using refl by (simp add: wp_bindE wp_liftE)
    next
      case (Inr res)
      obtain tally st where res: "res = (tally, st)" by (cases res)
      then have "decides E (ballotsOf s i) st" using votes Inr by (auto simp: decides_def)
      then show ?thesis unfolding Inr res bindE_simps prod.case
        by (intro wp_finalize_tail [OF assms r _ _ _ _ tail] ComputeTally_status [OF Inr [unfolded res]])
          (use g in simp_all)
    qed
    with refl show ?thesis unfolding wp_bindE [of "GovernanceListVotes i"] wp_ListVotes by (simp split: sum.split)
  qed
  show ?thesis unfolding Finalize_def wp_bindE [of "loadProposal i"] Let_def
    by (rule wp_loadProposal [OF gov_invD(2) [OF assms]], rule refl)
      (intro wp_failIfI refl, rule main, (assumption | intro frame_rules)+)
qed


end
