(* ===== verification/GovCalls.thy ===== *)
theory GovCalls
  imports GovProps
begin

text \<open>
  Submission and voting, and the calls of the node together: every call, whatever its outcome,
  keeps the invariant and the total, and what it may change of the proposals, the parameters and
  the roles. A history is a list of calls, each with the engine (its policy and clock) that serves it.
\<close>

section \<open>Ballots\<close>

lemma set_replaceVote:
  "distinct (map svoter vs) \<Longrightarrow> set (replaceVote r vs) = insert r {v \<in> set vs. svoter v \<noteq> svoter r}"
  by (induction vs) (auto simp: image_iff)

lemma distinct_replaceVote: "distinct (map svoter vs) \<Longrightarrow> distinct (map svoter (replaceVote r vs))"
proof (induction vs)
  case (Cons v vs)
  then have "svoter v \<notin> svoter ` set (replaceVote r vs)" if "svoter v \<noteq> svoter r"
    using that by (auto simp: set_replaceVote)
  with Cons show ?case by auto
qed simp

definition putBallot :: "storedGovernanceVote \<Rightarrow> 'x gstate_scheme \<Rightarrow> 'x gstate_scheme" where
  "putBallot r s = s\<lparr>govVotes := (govVotes s)((svProposalID r, svoter r) \<mapsto> r),
     govVoteIndex := (govVoteIndex s)(svProposalID r \<mapsto> replaceVote r (ballotsOf s (svProposalID r)))\<rparr>"

lemma ballotsOf_put:
  "ballotsOf (putBallot r s) i = (if i = svProposalID r then replaceVote r (ballotsOf s i) else ballotsOf s i)"
  by (simp add: ballotsOf_def putBallot_def)

lemma ballots_ok_put:
  assumes "ballots_ok s" and "voteChoiceValid (svChoice r)"
  shows "ballots_ok (putBallot r s)"
  using assms unfolding ballots_ok_def ballotsOf_put
  by (auto simp: putBallot_def set_replaceVote distinct_replaceVote)

lemma putBallot_fields [simp]:
  "govProposals (putBallot r s) = govProposals s" "govSequence (putBallot r s) = govSequence s"
  "govEscrows (putBallot r s) = govEscrows s" "settings (putBallot r s) = settings s"
  "acctOf D (putBallot r s) = acctOf D s"
  by (simp_all add: putBallot_def settings_def acctOf_gov)

lemma good_putBallot:
  assumes "gov_inv D s" and "voteChoiceValid (svChoice r)"
  shows "good D s (putBallot r s)"
  using assms ballots_ok_put [OF gov_invD(3) [OF assms(1)] assms(2)]
  by (simp add: good_def gov_inv_def chain_inv_def proposals_ok_def depositsOf_def escrowOf_def totalZNHB_def
      totalSupply_def coinBalance_def allOf_def)

lemma wp_PutVote:
  assumes "voteChoiceValid (gvChoice v)"
  shows "wp (GovernancePutVote v) Q R s = Q () (putBallot (newStoredGovernanceVote v) s)"
  using assms by (simp add: GovernancePutVote_def wp_simps putBallot_def newStoredGovernanceVote_def ballotsOf_def Let_def)

lemma wp_getsOption:
  "R e s \<Longrightarrow> (\<And>y. f s = Some y \<Longrightarrow> wp (g y) Q R s) \<Longrightarrow>
     wp (bindE (getsE f) (\<lambda>x. case x of None \<Rightarrow> throwE e | Some y \<Rightarrow> g y)) Q R s"
  by (simp add: wp_bindE wp_getsE wp_throwE split: option.split)

lemma wp_CastVote:
  assumes "gov_inv D s"
  shows "wp (CastVote D E i voter choice) (\<lambda>_. kept D E i s) (\<lambda>_. kept D E i s) s"
proof -
  note refl = kept_refl [OF assms]
  have main: "wp (bindE (GovernancePutVote v) (\<lambda>_. tail)) (\<lambda>_. kept D E i s) (\<lambda>_. kept D E i s) s"
    if "\<not> \<not> voteChoiceValid (gvChoice v)" "frame (books D) tail" "frame settings tail" for v tail
    unfolding wp_bindE wp_PutVote [OF that(1) [unfolded not_not]]
  proof (rule wp_untouched [OF that(2,3)])
    have "good D s (putBallot (newStoredGovernanceVote v) s)"
      by (rule good_putBallot [OF assms]) (use that(1) in \<open>simp add: newStoredGovernanceVote_def\<close>)
    then have "kept D E i s (putBallot (newStoredGovernanceVote v) s)" by (simp add: kept_def step_of_def)
    then show "kept D E i s t" if "untouched D (putBallot (newStoredGovernanceVote v) s) t" for t
      using that by (rule kept_after [rotated])
    then show "kept D E i s t" if "untouched D (putBallot (newStoredGovernanceVote v) s) t" for t
      using that by blast
  qed
  show ?thesis unfolding CastVote_def wp_bindE [of "loadProposal i"] Let_def
    by (rule wp_loadProposal [OF gov_invD(2) [OF assms]], rule refl)
      (intro wp_failIfI wp_getsOption refl main, simp, (intro frame_rules)+)
qed

section \<open>Submission\<close>

definition admits :: "'x gstate_scheme \<Rightarrow> 'x gstate_scheme \<Rightarrow> bool" where
  "admits s t \<longleftrightarrow> (\<exists>i q. govProposals s i = None \<and> sgStatus q = 2 \<and> \<not> sgQueued q
     \<and> govProposals t = (govProposals s)(i \<mapsto> q))"

definition submit_post :: "'d deps_scheme \<Rightarrow> 'x gstate_scheme \<Rightarrow> 'x gstate_scheme \<Rightarrow> bool" where
  "submit_post D s t \<longleftrightarrow> good D s t \<and> settings t = settings s \<and> (govProposals t = govProposals s \<or> admits s t)"

lemma submit_untouched: "gov_inv D s \<Longrightarrow> untouched D s t \<Longrightarrow> submit_post D s t"
  using good_untouched [of D s t] by (auto simp: submit_post_def untouched_def books_def)

lemma submit_after: "untouched D t u \<Longrightarrow> submit_post D s t \<Longrightarrow> submit_post D s u"
  using good_after [of D t u s] by (auto simp: submit_post_def untouched_def books_def admits_def)

lemma submit_before: "untouched D s u \<Longrightarrow> submit_post D u t \<Longrightarrow> submit_post D s t"
  using books_total [of D u s] by (auto simp: submit_post_def untouched_def books_def admits_def good_def)

lemma inv_locked:
  assumes "gov_inv D s" and "0 \<le> d" and "moved D a (- d) s t"
  shows "gov_inv D t"
proof -
  have "depositsOf b t \<le> escrowOf t b" for b
  proof -
    have "depositsOf b s \<le> escrowOf s b" using assms(1) by (simp add: gov_inv_def)
    then show ?thesis using assms(2,3) by (auto simp: moved_def depositsOf_def)
  qed
  moreover have "proposals_ok t" "ballots_ok t"
    using assms(1,3) by (simp_all add: gov_inv_def moved_def proposals_ok_def ballots_ok_def ballotsOf_def)
  ultimately show ?thesis using assms(3) by (simp add: gov_inv_def moved_def)
qed

lemma wp_lock:
  assumes "gov_inv D s" and "0 \<le> d" and "d \<le> coinBalance D ZNHB s a"
    and "\<And>x t. moved D a (- d) s t \<Longrightarrow> wp (k x) Q R t"
  shows "wp (bindE (PutAccount D a (acctOf D s a\<lparr>BalanceZNHB := coinBalance D ZNHB s a - d\<rparr>)) (\<lambda>_.
      bindE (GovernanceEscrowLock D a d) k)) Q R s"
  unfolding wp_bindE [of "PutAccount D a x" for x]
proof (rule wp_PutZNHB [OF gov_invD(1) [OF assms(1)]])
  show "0 \<le> coinBalance D ZNHB s a - d" using assms(3) by simp
  fix t
  assume t: "chain_inv D t" "coinBalance D ZNHB t = (coinBalance D ZNHB s)(a := coinBalance D ZNHB s a - d)"
    "chain.more t = chain.more s"
  have "escrowOf t a = escrowOf s a" using gov_more [OF t(3)] by (simp add: escrowOf_def)
  then have pos: "0 \<le> escrowOf t a + d" using escrow_nonneg [OF assms(1), of a] assms(2) by simp
  have "moved D a (- d) s (t\<lparr>govEscrows := (govEscrows t)(a \<mapsto> escrowOf t a - - d)\<rparr>)"
    by (rule movedI [OF t(1) _ t(3)]) (use t(2) in simp)
  then show "wp (bindE (GovernanceEscrowLock D a d) k) Q R t"
    using assms(2,4) by (simp add: GovernanceEscrowLock_def GovernanceEscrowBalance_def wp_simps wp_putEscrow [OF t(1) pos])
qed

lemma next_id:
  assumes "proposals_ok s" and "govSequence s \<noteq> Some maxUint64"
  defines "n \<equiv> (case govSequence s of None \<Rightarrow> 0 | Some c \<Rightarrow> c) + 1"
  shows "govProposals s n = None"
    and "govProposals s i = Some p \<Longrightarrow> proposal_ok (Some n) i p"
proof -
  have "c < maxUint64" if "govSequence s = Some c" for c
    using that assms(2) by (auto simp: maxUint64_def word_order.not_eq_extremum)
  note suc = word_suc_less [OF this]
  show old: "proposal_ok (Some n) i p" if "govProposals s i = Some p" for i p
    using that assms(1) suc by (force simp: n_def proposals_ok_def proposal_ok_def split: option.splits)
  show "govProposals s n = None"
  proof (rule ccontr)
    assume "govProposals s n \<noteq> None"
    then obtain p where "proposal_ok (govSequence s) n p" using assms(1) by (auto simp: proposals_ok_def)
    then show False using suc(2) by (auto simp: proposal_ok_def n_def split: option.splits)
  qed
qed

lemma wp_NextProposalID:
  assumes "\<And>e. R e s" and "govSequence s \<noteq> Some maxUint64 \<Longrightarrow>
     let n = (case govSequence s of None \<Rightarrow> 0 | Some c \<Rightarrow> c) + 1 in Q n (s\<lparr>govSequence := Some n\<rparr>)"
  shows "wp GovernanceNextProposalID Q R s"
  using assms by (simp add: GovernanceNextProposalID_def wp_simps Let_def)

lemma wp_admit:
  assumes "gov_inv D s" and "0 \<le> d" and t: "moved D a (- d) s t"
    and p: "\<And>n. gpID (p n) = n" "\<And>n. gpSubmitter (p n) = a" "\<And>n. gpDeposit (p n) = d" "\<And>n. \<not> gpQueued (p n)"
      "\<And>n. gpStatus (p n) = ProposalStatusVotingPeriod"
    and tail: "\<And>n. frame (books D) (tail n)" "\<And>n. frame settings (tail n)"
  shows "wp (bindE GovernanceNextProposalID (\<lambda>n. bindE (GovernancePutProposal D (p n)) (\<lambda>_. tail n)))
     (\<lambda>_. submit_post D s) (\<lambda>_. submit_post D s) t"
  unfolding wp_bindE [of GovernanceNextProposalID]
proof (rule wp_NextProposalID, goal_cases)
  case 1
  then show ?case using inv_locked [OF assms(1,2) t] t by (simp add: submit_post_def good_def moved_def)
next
  case 2
  define n where "n = (case govSequence t of None \<Rightarrow> 0 | Some c \<Rightarrow> c) + 1"
  let ?t = "t\<lparr>govSequence := Some n\<rparr>" and ?q = "newStoredGovernanceProposal (p n)"
  let ?u = "?t\<lparr>govProposals := (govProposals ?t)(n \<mapsto> ?q)\<rparr>"
  have invt: "gov_inv D t" by (rule inv_locked [OF assms(1,2) t])
  note fresh = next_id [OF gov_invD(2) [OF invt] 2, folded n_def]
  have q: "proposal_ok (Some n) n ?q" "sgStatus ?q = 2" "\<not> sgQueued ?q" "sgDeposit ?q = d" "sgSubmitter ?q = a"
    using p assms(2) by (simp_all add: proposal_ok_def newStoredGovernanceProposal_def validProposalStatus_def)
  have "depositsOf b ?u \<le> escrowOf ?u b" for b
  proof -
    have "depositsOf b s \<le> escrowOf s b" using assms(1) by (simp add: gov_inv_def)
    moreover have "depositsOf b ?u = depositsOf b s + depositOf b n ?q"
      using depositsOf_upd [of ?u t n ?q b] fresh(1) t by (simp add: moved_def depositsOf_def)
    ultimately show ?thesis using q(4,5) t by (auto simp: moved_def depositOf_def)
  qed
  moreover have "proposals_ok ?u" using fresh q(1) by (auto simp: proposals_ok_def)
  moreover have "ballots_ok ?u" using gov_invD(3) [OF invt] by (simp add: ballots_ok_def ballotsOf_def)
  ultimately have "gov_inv D ?u" using gov_invD(1) [OF invt] by (simp add: gov_inv_def)
  moreover have "totalZNHB D ?u = totalZNHB D s" using t by (simp add: moved_def totalZNHB_def totalSupply_allOf allOf_upd)
  ultimately have "submit_post D s ?u"
    using t fresh(1) q by (auto simp: submit_post_def good_def admits_def moved_def settings_def)
  then have "wp (bindE (GovernancePutProposal D (p n)) (\<lambda>_. tail n)) (\<lambda>_. submit_post D s) (\<lambda>_. submit_post D s) ?t"
    by (intro wp_store [OF _ _ tail]) (use gov_invD(1) [OF invt] p(1,3) assms(2) in \<open>auto intro: submit_after\<close>)
  then show ?case by (simp add: Let_def n_def)
qed

lemma wp_SubmitProposal:
  assumes "gov_inv D s"
  shows "wp (SubmitProposal D E a kind payload d) (\<lambda>_. submit_post D s) (\<lambda>_. submit_post D s) s"
proof -
  have refl: "submit_post D s s" by (rule submit_untouched [OF assms]) simp
  have main: "wp (bindE (GetAccount D a) (\<lambda>account.
      bindE (failIf (BalanceZNHB account < d) ''governance: insufficient ZNHB balance for deposit'') (\<lambda>_.
      bindE (PutAccount D a (account\<lparr>BalanceZNHB := BalanceZNHB account - d\<rparr>)) (\<lambda>_.
      bindE (GovernanceEscrowLock D a d) (\<lambda>_.
      bindE GovernanceNextProposalID (\<lambda>n. bindE (GovernancePutProposal D (p n)) (\<lambda>_. tail n)))))))
     (\<lambda>_. submit_post D s) (\<lambda>_. submit_post D s) u"
    if u: "untouched D s u" and d: "\<not> d < 0"
      and p: "\<And>n. gpID (p n) = n" "\<And>n. gpSubmitter (p n) = a" "\<And>n. gpDeposit (p n) = d" "\<And>n. \<not> gpQueued (p n)"
        "\<And>n. gpStatus (p n) = ProposalStatusVotingPeriod"
      and tail: "\<And>n. frame (books D) (tail n)" "\<And>n. frame settings (tail n)" for u p tail
    unfolding wp_bindE [of "GetAccount D a"] wp_GetAccount BalanceZNHB_coin
  proof (rule wp_failIfI, rule submit_untouched [OF assms u], rule wp_lock)
    show inv: "gov_inv D u" using assms books_inv [of D u s] u by (simp add: untouched_def)
    fix t
    assume t: "moved D a (- d) u t"
    have "wp (bindE GovernanceNextProposalID (\<lambda>n. bindE (GovernancePutProposal D (p n)) (\<lambda>_. tail n)))
       (\<lambda>_. submit_post D u) (\<lambda>_. submit_post D u) t"
      by (rule wp_admit [OF inv _ t p tail]) (use d in simp)
    then show "wp (bindE GovernanceNextProposalID (\<lambda>n. bindE (GovernancePutProposal D (p n)) (\<lambda>_. tail n)))
       (\<lambda>_. submit_post D s) (\<lambda>_. submit_post D s) t"
      by (rule wp_mono) (rule submit_before [OF u], assumption)+
  qed (use d in simp_all)
  have checked: "wp (checkPayload D E k pl) Q (\<lambda>_. submit_post D s) s" if "\<And>t. untouched D s t \<Longrightarrow> Q () t" for k pl Q
    by (rule wp_untouched [OF frame_checkPayload frame_checkPayload])
      (use that submit_untouched [OF assms] in \<open>auto intro: frame_rules\<close>)
  show ?thesis unfolding SubmitProposal_def Let_def
    apply (intro wp_failIfI refl)
    apply (subst wp_bindE, rule checked)
    apply (intro wp_failIfI, (rule submit_untouched [OF assms], assumption)+)
    apply (rule main, assumption+, simp_all)
     apply (intro frame_rules)+
    done
qed


section \<open>Histories\<close>

datatype govCall =
    CallPropose address string string int
  | CallVote u64 address string
  | CallFinalize u64
  | CallQueue u64
  | CallExecute u64

primrec runGov :: "'d govdeps_scheme \<Rightarrow> goveng \<Rightarrow> govCall \<Rightarrow> ('x gstate_scheme, unit) op" where
  "runGov D E (CallPropose a kind payload d) = bindE (GovernancePropose D E a kind payload d) (\<lambda>_. retE ())"
| "runGov D E (CallVote i voter choice) = GovernanceVoteCall D E i voter choice"
| "runGov D E (CallFinalize i) = bindE (GovernanceFinalize D E i) (\<lambda>_. retE ())"
| "runGov D E (CallQueue i) = bindE (GovernanceQueue D E i) (\<lambda>_. retE ())"
| "runGov D E (CallExecute i) = bindE (GovernanceExecute D E i) (\<lambda>_. retE ())"

abbreviation afterCall :: "'d govdeps_scheme \<Rightarrow> goveng \<Rightarrow> govCall \<Rightarrow> 'x gstate_scheme \<Rightarrow> 'x gstate_scheme" where
  "afterCall D E c s \<equiv> snd (runGov D E c s)"

primrec govRun :: "'d govdeps_scheme \<Rightarrow> (goveng \<times> govCall) list \<Rightarrow> 'x gstate_scheme \<Rightarrow> 'x gstate_scheme" where
  "govRun D [] s = s"
| "govRun D (x # xs) s = govRun D xs (afterCall D (fst x) (snd x) s)"

primrec callTarget :: "govCall \<Rightarrow> u64 option" where
  "callTarget (CallPropose a kind payload d) = None"
| "callTarget (CallVote i voter choice) = None"
| "callTarget (CallFinalize i) = Some i"
| "callTarget (CallQueue i) = Some i"
| "callTarget (CallExecute i) = Some i"

lemma frame_loadProposal [frame_rules]: "frame f (loadProposal i)"
  unfolding loadProposal_def GovernanceGetProposal_def by (intro frame_rules)

lemma wp_snd: "wp m (\<lambda>_. P) (\<lambda>_. P) s \<Longrightarrow> P (snd (m s))"
  by (cases "m s") (auto simp: wp_def split: sum.splits)

text \<open>Reading the proposal back at the end of a call changes nothing.\<close>

lemma wp_then_load:
  assumes "wp m (\<lambda>_. P) (\<lambda>_. P) s" and "\<And>x. frame (\<lambda>s. s) (f x)"
  shows "wp (bindE m f) (\<lambda>_. P) (\<lambda>_. P) s"
  unfolding wp_bindE by (rule wp_mono [OF assms(1)]) (auto intro: wp_frame [OF assms(2)])

lemma proposals_CastVote: "frame govProposals (CastVote D E i voter choice)"
proof -
  have "frame govProposals (emitEvent ev)" for ev
    unfolding emitEvent_def by (rule frame_modifyE) simp
  moreover have "frame govProposals (appendAudit D E k i a ds)" for k i a ds
    unfolding appendAudit_def GovernanceAppendAudit_def by (rule frame_rules frame_modifyE | simp)+
  moreover have "frame govProposals (GovernancePutVote v)" for v
    unfolding GovernancePutVote_def by (rule frame_rules frame_modifyE | simp)+
  ultimately show ?thesis
    unfolding CastVote_def by (intro frame_rules)
qed

text \<open>What one call may do to the proposals, the parameters and the roles.\<close>

primrec callPost :: "'d deps_scheme \<Rightarrow> goveng \<Rightarrow> govCall \<Rightarrow> 'x gstate_scheme \<Rightarrow> 'x gstate_scheme \<Rightarrow> bool" where
  "callPost D E (CallPropose a kind payload d) s t = submit_post D s t"
| "callPost D E (CallVote i voter choice) s t = (good D s t \<and> settings t = settings s \<and> govProposals t = govProposals s)"
| "callPost D E (CallFinalize i) s t = kept D E i s t"
| "callPost D E (CallQueue i) s t = kept D E i s t"
| "callPost D E (CallExecute i) s t = exec_post D E i s t"

lemma runGov_post:
  assumes "gov_inv D s"
  shows "callPost D E c s (afterCall D E c s)"
proof (cases c)
  case (CallPropose a kind payload d)
  have "wp (GovernancePropose D E a kind payload d) (\<lambda>_. submit_post D s) (\<lambda>_. submit_post D s) s"
    unfolding GovernancePropose_def
    by (intro wp_failIfI wp_SubmitProposal [OF assms] submit_untouched [OF assms]) simp
  with CallPropose show ?thesis by (simp add: wp_snd wp_then_load frame_basic)
next
  case (CallVote i voter choice)
  have "kept D E i s (snd (CastVote D E i voter choice s))" by (rule wp_snd [OF wp_CastVote [OF assms]])
  with CallVote show ?thesis
    using proposals_CastVote [unfolded frame_def, rule_format, of D E i voter choice s]
    by (simp add: GovernanceVoteCall_def kept_def)
next
  case (CallFinalize i)
  have "wp (GovernanceFinalize D E i) (\<lambda>_. kept D E i s) (\<lambda>_. kept D E i s) s"
    unfolding GovernanceFinalize_def by (rule wp_then_load [OF wp_Finalize [OF assms]]) (intro frame_rules)
  with CallFinalize show ?thesis by (simp add: wp_snd wp_then_load frame_basic)
next
  case (CallQueue i)
  have "wp (GovernanceQueue D E i) (\<lambda>_. kept D E i s) (\<lambda>_. kept D E i s) s"
    unfolding GovernanceQueue_def by (rule wp_then_load [OF wp_QueueExecution [OF assms]]) (intro frame_rules)
  with CallQueue show ?thesis by (simp add: wp_snd wp_then_load frame_basic)
next
  case (CallExecute i)
  have "wp (GovernanceExecute D E i) (\<lambda>_. exec_post D E i s) (\<lambda>_. exec_post D E i s) s"
    unfolding GovernanceExecute_def by (rule wp_then_load [OF wp_Execute [OF assms]]) (intro frame_rules)
  with CallExecute show ?thesis by (simp add: wp_snd wp_then_load frame_basic)
qed

lemma callPost_good: "callPost D E c s t \<Longrightarrow> good D s t"
  by (cases c) (simp_all add: submit_post_def kept_def exec_post_def)

lemma runGov_good: "gov_inv D s \<Longrightarrow> good D s (afterCall D E c s)"
  using callPost_good [OF runGov_post] .

lemma govRun_good: "gov_inv D s \<Longrightarrow> good D s (govRun D xs s)"
proof (induction xs arbitrary: s)
  case Nil
  then show ?case by (simp add: good_def)
next
  case (Cons x xs)
  let ?t = "afterCall D (fst x) (snd x) s"
  have t: "good D s ?t" by (rule runGov_good [OF Cons.prems])
  then have "good D ?t (govRun D xs ?t)" by (intro Cons.IH) (simp add: good_def)
  with t show ?case by (simp add: good_def)
qed

text \<open>A stored proposal stays or takes a step, and only under a call about it.\<close>

lemma callPost_step:
  assumes "callPost D E c s t" and "govProposals s i = Some p"
  shows "\<exists>q. govProposals t i = Some q \<and> (q = p \<or> callTarget c = Some i \<and> moves E (ballotsOf s i) p q)"
proof (cases c)
  case (CallPropose a kind payload d)
  with assms show ?thesis by (auto simp: submit_post_def admits_def)
next
  case (CallExecute j)
  with assms exec_step [of D E j s t] show ?thesis by (auto simp: step_of_def)
qed (use assms in \<open>auto simp: kept_def step_of_def\<close>)

lemma callPost_settings:
  assumes "callPost D E c s t" and "settings t \<noteq> settings s"
  shows "\<exists>i. c = CallExecute i \<and> executes E i s t"
  using assms by (cases c) (auto simp: submit_post_def kept_def exec_post_def untouched_def)

lemma callPost_new:
  assumes "callPost D E c s t" and "govProposals t i = Some q" and "govProposals s i = None"
  shows "(\<exists>a kind payload d. c = CallPropose a kind payload d) \<and> sgStatus q = 2 \<and> \<not> sgQueued q"
proof (cases c)
  case (CallPropose a kind payload d)
  with assms show ?thesis by (auto simp: submit_post_def admits_def split: if_splits)
next
  case (CallExecute j)
  with assms exec_step [of D E j s t] show ?thesis by (auto simp: step_of_def split: if_splits)
qed (use assms in \<open>auto simp: kept_def step_of_def split: if_splits\<close>)

text \<open>A proposal that can take no further step keeps its record for ever.\<close>

lemma govRun_stuck:
  assumes "gov_inv D s" and "govProposals s i = Some p" and "\<And>E vs q. \<not> moves E vs p q"
  shows "govProposals (govRun D xs s) i = Some p"
  using assms(1,2)
proof (induction xs arbitrary: s)
  case (Cons x xs)
  let ?t = "afterCall D (fst x) (snd x) s"
  have "gov_inv D ?t" using runGov_good [OF Cons.prems(1)] by (simp add: good_def)
  moreover have "govProposals ?t i = Some p"
    using callPost_step [OF runGov_post [OF Cons.prems(1)] Cons.prems(2)] assms(3) by blast
  ultimately show ?case using Cons.IH by simp
qed simp


end
