(* ===== verification/GovTheorems.thy ===== *)
theory GovTheorems
  imports GovCalls
begin

text \<open>
  The tally of a finalisation, what an execution and a rejection leave behind, and the governance
  properties.
\<close>

section \<open>The tally\<close>

definition powerFor :: "string \<Rightarrow> storedGovernanceVote list \<Rightarrow> int" where
  "powerFor c bs = sum_list (map (\<lambda>v. if svChoice v = c then uint (svPowerBps v) else 0) bs)"

definition readVote :: "storedGovernanceVote \<Rightarrow> GovVote" where
  "readVote r = \<lparr>gvProposalID = svProposalID r, gvVoter = svoter r, gvChoice = svChoice r,
     gvPowerBps = svPowerBps r, gvTimestamp = fromUnix (svTimestamp r)\<rparr>"

lemma toGovernanceVote_ok: "voteChoiceValid (svChoice r) \<Longrightarrow> toGovernanceVote r = Inr (readVote r)"
  by (simp add: toGovernanceVote_def readVote_def)

lemma toGovernanceVotes_ok:
  "\<forall>v\<in>set bs. voteChoiceValid (svChoice v) \<Longrightarrow> toGovernanceVotes bs = Inr (map readVote bs)"
  by (induction bs) (simp_all add: toGovernanceVote_ok)

lemma ballots_valid: "ballots_ok s \<Longrightarrow> \<forall>v\<in>set (ballotsOf s i). voteChoiceValid (svChoice v)"
  by (auto simp: ballots_ok_def)

lemma add_fits:
  fixes y w :: u64
  assumes "uint y + uint w < 2 ^ 64"
  shows "\<not> maxUint64 - y < w" and "uint (y + w) = uint y + uint w"
proof -
  have m: "uint (maxUint64 - y) = 2 ^ 64 - 1 - uint y"
  proof -
    have b: "0 \<le> uint y" "uint y \<le> 2 ^ 64 - 1" using uint_lt2p [of y] by simp_all
    have "(2 ^ 64 - 1 - uint y) mod 2 ^ 64 = 2 ^ 64 - 1 - uint y"
    proof (rule mod_pos_pos_trivial)
      show "0 \<le> 2 ^ 64 - 1 - uint y" using b(2) by simp
      show "2 ^ 64 - 1 - uint y < 2 ^ 64" using b(1) by linarith
    qed
    then show ?thesis by (simp add: maxUint64_def uint_word_ariths)
  qed
  show "\<not> maxUint64 - y < w" unfolding word_less_def m using assms by simp
  show "uint (y + w) = uint y + uint w" using assms by (simp add: uint_word_ariths)
qed

lemma powerFor_nonneg: "0 \<le> powerFor c bs"
  unfolding powerFor_def by (intro sum_list_nonneg) auto

lemma powerFor_simps [simp]:
  "powerFor c [] = 0"
  "powerFor c (v # bs) = (if svChoice v = c then uint (svPowerBps v) else 0) + powerFor c bs"
  by (simp_all add: powerFor_def)

lemma uint_weight: "uint (ucast (w :: u32) :: u64) = uint w"
  by (simp add: unsigned_ucast_eq take_bit_int_eq_self_iff uint_bounded order.strict_trans [OF uint_bounded])

lemma countVotes_exact:
  assumes "\<forall>v\<in>set bs. voteChoiceValid (svChoice v)" and "uint (yesPower acc) + powerFor ''yes'' bs < 2 ^ 64"
    and "uint (noPower acc) + powerFor ''no'' bs < 2 ^ 64" and "uint (abstainPower acc) + powerFor ''abstain'' bs < 2 ^ 64"
  shows "\<exists>acc'. countVotes (map readVote bs) acc = Inr acc' \<and> uint (yesPower acc') = uint (yesPower acc) + powerFor ''yes'' bs
     \<and> uint (noPower acc') = uint (noPower acc) + powerFor ''no'' bs
     \<and> uint (abstainPower acc') = uint (abstainPower acc) + powerFor ''abstain'' bs"
  using assms
proof (induction bs arbitrary: acc)
  case (Cons v bs)
  let ?w = "ucast (svPowerBps v) :: u64"
  note nonneg = powerFor_nonneg [of _ bs]
  consider "svChoice v = ''yes''" | "svChoice v = ''no''" | "svChoice v = ''abstain''"
    using Cons.prems(1) by (auto simp: voteChoiceValid_def)
  then show ?case
  proof cases
    case 1
    have "uint (yesPower acc) + uint ?w < 2 ^ 64" using Cons.prems(2) nonneg [of "''yes''"] 1 by (simp add: uint_weight)
    note fits = add_fits [OF this]
    show ?thesis using Cons.IH [of "acc\<lparr>yesPower := yesPower acc + ?w\<rparr>"] Cons.prems 1 fits
      by (simp add: readVote_def checkS_def uint_weight algebra_simps)
  next
    case 2
    have "uint (noPower acc) + uint ?w < 2 ^ 64" using Cons.prems(3) nonneg [of "''no''"] 2 by (simp add: uint_weight)
    note fits = add_fits [OF this]
    show ?thesis using Cons.IH [of "acc\<lparr>noPower := noPower acc + ?w\<rparr>"] Cons.prems 2 fits
      by (simp add: readVote_def checkS_def uint_weight algebra_simps)
  next
    case 3
    have "uint (abstainPower acc) + uint ?w < 2 ^ 64" using Cons.prems(4) nonneg [of "''abstain''"] 3 by (simp add: uint_weight)
    note fits = add_fits [OF this]
    show ?thesis using Cons.IH [of "acc\<lparr>abstainPower := abstainPower acc + ?w\<rparr>"] Cons.prems 3 fits
      by (simp add: readVote_def checkS_def uint_weight algebra_simps)
  qed
qed simp

lemma powerFor_bound:
  "powerFor ''yes'' bs + powerFor ''no'' bs + powerFor ''abstain'' bs \<le> int (length bs) * 4294967295"
proof (induction bs)
  case (Cons v bs)
  have "uint (svPowerBps v) \<le> 4294967295" using uint_lt2p [of "svPowerBps v"] by simp
  with Cons show ?case by (auto simp: algebra_simps)
qed simp

text \<open>The rule of the tally: enough turnout, and enough approval among those who took a side.\<close>

definition passes :: "goveng \<Rightarrow> storedGovernanceVote list \<Rightarrow> bool" where
  "passes E bs \<longleftrightarrow> (let y = powerFor ''yes'' bs; n = powerFor ''no'' bs; a = powerFor ''abstain'' bs in
     uint (quorumBps E) \<le> y + n + a
     \<and> (if 0 < y + n then uint (passThresholdBps E) * (y + n) \<le> y * 10000 else passThresholdBps E = 0))"

definition tally_exact :: "goveng \<Rightarrow> storedGovernanceVote list \<Rightarrow> Tally \<Rightarrow> bool" where
  "tally_exact E bs t \<longleftrightarrow> uint (YesPowerBps t) = powerFor ''yes'' bs \<and> uint (NoPowerBps t) = powerFor ''no'' bs
     \<and> uint (AbstainPowerBps t) = powerFor ''abstain'' bs
     \<and> uint (TurnoutBps t) = powerFor ''yes'' bs + powerFor ''no'' bs + powerFor ''abstain'' bs
     \<and> uint (TotalBallots t) = int (length bs) \<and> QuorumBps t = quorumBps E \<and> PassThresholdBps t = passThresholdBps E"

lemma le_div_iff:
  fixes a b z :: int
  assumes "0 < b"
  shows "z \<le> a div b \<longleftrightarrow> z * b \<le> a"
proof
  have "a div b * b \<le> a" using div_mult_mod_eq [of a b] pos_mod_sign [OF assms, of a] by linarith
  then show "z * b \<le> a" if "z \<le> a div b"
    using mult_right_mono [OF that, of b] assms by linarith
  show "z \<le> a div b" if "z * b \<le> a"
    using zdiv_mono1 [OF that assms] assms by simp
qed

lemma ratio_iff:
  fixes y d thr :: u64
  assumes "0 < uint d" and "uint y * 10000 < 2 ^ 64"
  shows "thr \<le> y * 10000 div d \<longleftrightarrow> uint thr * uint d \<le> uint y * 10000"
proof -
  have "uint (y * 10000 div d) = uint y * 10000 div uint d"
    using assms(2) by (simp add: uint_div uint_word_ariths)
  then show ?thesis using assms(1) by (simp add: word_le_def le_div_iff)
qed

lemma ComputeTally_exact:
  assumes "\<forall>v\<in>set bs. voteChoiceValid (svChoice v)" and "length bs \<le> 262144"
  shows "\<exists>tally. bindS (toGovernanceVotes bs) (ComputeTally E)
     = Inr (tally, if passes E bs then ProposalStatusPassed else ProposalStatusRejected) \<and> tally_exact E bs tally"
proof -
  let ?y = "powerFor ''yes'' bs" and ?n = "powerFor ''no'' bs" and ?a = "powerFor ''abstain'' bs"
  have len: "int (length bs) \<le> 262144" using assms(2) by simp
  have sum: "?y + ?n + ?a \<le> 262144 * 4294967295"
    using powerFor_bound [of bs] len by (intro order_trans [OF powerFor_bound]) simp
  note nonneg = powerFor_nonneg [of "''yes''" bs] powerFor_nonneg [of "''no''" bs] powerFor_nonneg [of "''abstain''" bs]
  have small: "?y < 2 ^ 64" "?n < 2 ^ 64" "?a < 2 ^ 64" "?y + ?n < 2 ^ 64" "?y + ?n + ?a < 2 ^ 64" "?y * 10000 < 2 ^ 64"
    using sum nonneg by simp_all
  obtain acc where acc: "countVotes (map readVote bs) \<lparr>yesPower = 0, noPower = 0, abstainPower = 0\<rparr> = Inr acc"
    "uint (yesPower acc) = ?y" "uint (noPower acc) = ?n" "uint (abstainPower acc) = ?a"
    using countVotes_exact [OF assms(1), of "\<lparr>yesPower = 0, noPower = 0, abstainPower = 0\<rparr>"] small by auto
  have yn: "uint (yesPower acc) + uint (noPower acc) < 2 ^ 64" using acc small by simp
  note f1 = add_fits [OF yn]
  have yna: "uint (yesPower acc + noPower acc) + uint (abstainPower acc) < 2 ^ 64" using acc small f1 by simp
  note f2 = add_fits [OF yna]
  let ?d = "yesPower acc + noPower acc"
  have ratio: "passThresholdBps E \<le> (if ?d > 0 then yesPower acc * 10000 div ?d else 0) \<longleftrightarrow>
      (if 0 < ?y + ?n then uint (passThresholdBps E) * (?y + ?n) \<le> ?y * 10000 else passThresholdBps E = 0)"
    using ratio_iff [of ?d "yesPower acc" "passThresholdBps E"] f1(2) acc small by (simp add: word_less_def word_le_0_iff)
  have quorum: "quorumBps E \<le> ?d + abstainPower acc \<longleftrightarrow> uint (quorumBps E) \<le> ?y + ?n + ?a"
    using f1(2) f2(2) acc by (simp add: word_le_def)
  have "uint (of_nat (length bs) :: u64) = int (length bs)"
    using assms(2) by (simp add: unsigned_of_nat take_bit_nat_eq_self)
  then show ?thesis
    using acc f1 f2 quorum ratio unfolding toGovernanceVotes_ok [OF assms(1)]
    by (simp add: ComputeTally_def Let_def checkS_def tally_exact_def passes_def)
qed

section \<open>What a finalisation does\<close>

definition settled :: "'d deps_scheme \<Rightarrow> goveng \<Rightarrow> u64 \<Rightarrow> storedGovernanceProposal \<Rightarrow> 'x gstate_scheme \<Rightarrow> 'x gstate_scheme \<Rightarrow> bool" where
  "settled D E i p s t \<longleftrightarrow>
     (if passes E (ballotsOf s i) then
        govProposals t = (govProposals s)(i \<mapsto> p\<lparr>sgStatus := 3, sgDeposit := 0\<rparr>)
        \<and> coinBalance D ZNHB t = (coinBalance D ZNHB s)(sgSubmitter p := coinBalance D ZNHB s (sgSubmitter p) + sgDeposit p)
        \<and> escrowOf t = (escrowOf s)(sgSubmitter p := escrowOf s (sgSubmitter p) - sgDeposit p)
      else govProposals t = (govProposals s)(i \<mapsto> p\<lparr>sgStatus := 4\<rparr>)
        \<and> coinBalance D ZNHB t = coinBalance D ZNHB s \<and> escrowOf t = escrowOf s)"

lemma settled_after:
  assumes "untouched D u t" and "settled D E i p s u"
  shows "settled D E i p s t"
proof -
  have b: "acctOf D t = acctOf D u" "govEscrows t = govEscrows u" "govProposals t = govProposals u"
    using assms(1) by (simp_all add: untouched_def books_def)
  have "escrowOf t = escrowOf u" "coinBalance D ZNHB t = coinBalance D ZNHB u"
    using b by (simp_all add: escrowOf_def coinBalance_def fun_eq_iff)
  with assms(2) b(3) show ?thesis by (simp add: settled_def)
qed

lemma wp_settle:
  assumes "gov_inv D s" and r: "govProposals s i = Some r" "proposal_ok (govSequence s) i r" "loaded r p"
    and st: "st = (if passes E (ballotsOf s i) then ProposalStatusPassed else ProposalStatusRejected)"
    and tail: "\<And>p. frame (books D) (tail p)" "\<And>p. frame settings (tail p)"
  shows "wp (bindE (if st = ProposalStatusPassed \<and> gpDeposit p > 0 then returnDeposit D p else retE p) (\<lambda>p1.
      bindE (GovernancePutProposal D (p1\<lparr>gpStatus := st\<rparr>)) (\<lambda>_. tail (p1\<lparr>gpStatus := st\<rparr>))))
      (\<lambda>_. settled D E i r s) (\<lambda>_. settled D E i r s) s"
proof -
  note inv = gov_invD [OF assms(1)]
  have c: "gpDeposit p = sgDeposit r" "gpID p = i" "0 \<le> sgDeposit r"
    using loadedD [OF r(3)] loaded_id [OF r(3,2)] by simp_all
  have direct: "wp (bindE (GovernancePutProposal D (p\<lparr>gpStatus := st\<rparr>)) (\<lambda>_. tail (p\<lparr>gpStatus := st\<rparr>)))
      (\<lambda>_. settled D E i r s) (\<lambda>_. settled D E i r s) s" if "st = ProposalStatusRejected \<or> sgDeposit r = 0"
  proof -
    have "settled D E i r s (s\<lparr>govProposals := (govProposals s)(i \<mapsto> r\<lparr>sgStatus := statusByte st\<rparr>)\<rparr>)"
      using that st by (auto simp: settled_def)
    then show ?thesis
      by (intro wp_store [OF inv(1) _ tail]) (use c loaded_stored(1) [OF r(3)] in \<open>auto intro: settled_after\<close>)
  qed
  show ?thesis
  proof (cases "st = ProposalStatusPassed \<and> 0 < gpDeposit p")
    case True
    have "wp (returnDeposit D p) (\<lambda>p1. wp (bindE (GovernancePutProposal D (p1\<lparr>gpStatus := st\<rparr>))
        (\<lambda>_. tail (p1\<lparr>gpStatus := st\<rparr>))) (\<lambda>_. settled D E i r s) (\<lambda>_. settled D E i r s)) (\<lambda>_. settled D E i r s) s"
    proof (rule wp_returnDeposit [OF assms(1) r(1,3)])
      fix t
      assume t: "moved D (sgSubmitter r) (sgDeposit r) s t"
      then have "settled D E i r s (t\<lparr>govProposals := (govProposals t)(i \<mapsto> r\<lparr>sgStatus := 3, sgDeposit := 0\<rparr>)\<rparr>)"
        using True st by (auto simp: settled_def moved_def split: if_splits)
      then show "wp (bindE (GovernancePutProposal D (p\<lparr>gpDeposit := 0\<rparr>\<lparr>gpStatus := st\<rparr>))
          (\<lambda>_. tail (p\<lparr>gpDeposit := 0\<rparr>\<lparr>gpStatus := st\<rparr>))) (\<lambda>_. settled D E i r s) (\<lambda>_. settled D E i r s) t"
        by (intro wp_store [OF _ _ tail])
          (use t c True loaded_stored(2) [OF r(3)] in \<open>auto simp: moved_def intro: settled_after\<close>)
    qed
    with True show ?thesis by (simp add: wp_bindE)
  next
    case False
    then have "st = ProposalStatusRejected \<or> sgDeposit r = 0" using st c by (auto split: if_splits)
    then show ?thesis unfolding if_not_P [OF False] bindE_simps by (rule direct)
  qed
qed

lemma wp_run: "m s = m' s \<Longrightarrow> wp m' Q R s \<Longrightarrow> wp m Q R s"
  by (simp add: wp_def)

lemma Finalize_effect:
  fixes s :: "'x gstate_scheme"
  assumes "gov_inv D s" and p: "govProposals s i = Some p" "sgStatus p = 2" "fromUnix (sgVotingEnd p) \<noteq> zeroTime"
    "fromUnix (sgVotingEnd p) \<le> gnow E" and len: "length (ballotsOf s i) \<le> 262144"
  shows "wp (Finalize D E i) (\<lambda>_. settled D E i p s) (\<lambda>_. settled D E i p s) s"
    and "Finalize D E i s = (Inr (st, tally), t) \<Longrightarrow> tally_exact E (ballotsOf s i) tally
      \<and> st = (if passes E (ballotsOf s i) then ProposalStatusPassed else ProposalStatusRejected)"
proof -
  note inv = gov_invD [OF assms(1)]
  let ?st = "if passes E (ballotsOf s i) then ProposalStatusPassed else ProposalStatusRejected"
  have ok: "proposal_ok (govSequence s) i p" using inv(2) p(1) by (simp add: proposals_ok_def)
  then obtain pr where pr: "loaded p pr" using readable by blast
  have run: "loadProposal i s = (Inr pr, s)"
    using p(1) pr by (simp add: loadProposal_def GovernanceGetProposal_def run_defs loaded_def)
  have g: "gpStatus pr = ProposalStatusVotingPeriod" "gpVotingEnd pr \<noteq> zeroTime" "\<not> gnow E < gpVotingEnd pr"
    using p loadedD [OF pr] by auto
  note valid = ballots_valid [OF inv(3), of i]
  obtain ta where ta: "ComputeTally E (map readVote (ballotsOf s i)) = Inr (ta, ?st)" "tally_exact E (ballotsOf s i) ta"
    using ComputeTally_exact [OF valid len, of E] toGovernanceVotes_ok [OF valid] by auto
  have votes: "GovernanceListVotes i s = (Inr (map readVote (ballotsOf s i)), s)"
    using toGovernanceVotes_ok [OF valid] by (simp add: GovernanceListVotes_def run_defs ballotsOf_def)
  define m :: "('x gstate_scheme, ProposalStatus \<times> Tally) op" where "m =
    bindE (if ?st = ProposalStatusPassed \<and> gpDeposit pr > 0 then returnDeposit D pr else retE pr) (\<lambda>p1.
     bindE (GovernancePutProposal D (p1\<lparr>gpStatus := ?st\<rparr>)) (\<lambda>_.
     bindE (emitEvent (newFinalizedEvent (p1\<lparr>gpStatus := ?st\<rparr>) ta)) (\<lambda>_.
     bindE (appendAudit D E ''finalized'' i None (finalizeDetail ?st ta)) (\<lambda>_. retE (?st, ta)))))"
  have fin: "Finalize D E i s = m s"
    unfolding m_def Finalize_def run_bindE(1) [where m = "loadProposal i" and s = s, OF run] Let_def
    by (simp only: g failIf_def if_False not_not bindE_simps run_bindE(1) [where m = "GovernanceListVotes i" and s = s, OF votes]
        ta prod.case simp_thms)
  show "wp (Finalize D E i) (\<lambda>_. settled D E i p s) (\<lambda>_. settled D E i p s) s"
    by (rule wp_run [of "Finalize D E i" s m, OF fin], unfold m_def, rule wp_settle [OF assms(1) p(1) ok pr refl]) (intro frame_rules)+
  show "tally_exact E (ballotsOf s i) tally \<and> st = ?st" if "Finalize D E i s = (Inr (st, tally), t)"
    using that ta(2) unfolding fin m_def by (auto simp: bindE_ok retE_ok)
qed


section \<open>Properties\<close>

text \<open>
  Property C34 (governance conserves). Whatever calls the node serves, under whatever policies and
  times and whether or not they fail, the invariant of the module is kept: every proposal is stored
  under its own identifier with a valid status, there is one ballot per voter, and the deposits
  recorded for an address never exceed what is in escrow for it. The sum of all ZNHB balances and all
  escrowed deposits does not change.
\<close>

theorem gov_conservation:
  assumes "gov_inv D s"
  shows "gov_inv D (govRun D xs s) \<and> totalZNHB D (govRun D xs s) = totalZNHB D s"
  using govRun_good [OF assms, of xs] by (simp add: good_def)

text \<open>
  Property C35 (life of a proposal). A call leaves every stored proposal as it is, or it is about that
  proposal and the proposal takes one of four steps: passed or rejected when its voting period is over
  and the recorded ballots decide so, queued when passed, executed when passed, queued and past its
  timelock. The timelock binds proposals of every kind, also a \<^verbatim>\<open>param.emergency_override\<close>, which
  \<^verbatim>\<open>docs/gov/proposal-types.md\<close> exempts from it. A new record appears only by a submission and is open
  for votes. The parameters and the roles change only by such an execution.
\<close>

theorem gov_lifecycle:
  assumes "gov_inv D s"
  shows "(\<forall>i p. govProposals s i = Some p \<longrightarrow> (\<exists>q. govProposals (afterCall D E c s) i = Some q
            \<and> (q = p \<or> callTarget c = Some i \<and> moves E (ballotsOf s i) p q)))
    \<and> (\<forall>i q. govProposals s i = None \<and> govProposals (afterCall D E c s) i = Some q \<longrightarrow>
         (\<exists>a kind payload d. c = CallPropose a kind payload d) \<and> sgStatus q = 2 \<and> \<not> sgQueued q)
    \<and> (settings (afterCall D E c s) \<noteq> settings s \<longrightarrow> (\<exists>i. c = CallExecute i \<and> executes E i s (afterCall D E c s)))"
  using callPost_step [OF runGov_post [OF assms]] callPost_new [OF runGov_post [OF assms]]
    callPost_settings [OF runGov_post [OF assms]]
  by blast

text \<open>The calls of a history that execute a given proposal: those after which anything of the books,
  the parameters or the roles is different.\<close>

primrec executions :: "'d govdeps_scheme \<Rightarrow> u64 \<Rightarrow> (goveng \<times> govCall) list \<Rightarrow> 'x gstate_scheme \<Rightarrow> nat" where
  "executions D i [] s = 0"
| "executions D i (x # xs) s = (let t = afterCall D (fst x) (snd x) s in
     (if snd x = CallExecute i \<and> \<not> untouched D s t then 1 else 0) + executions D i xs t)"

lemma execute_changes:
  assumes "gov_inv D s" and "c = CallExecute i" and "\<not> untouched D s (afterCall D E c s)"
  shows "executes E i s (afterCall D E c s)"
  using runGov_post [OF assms(1), of E c] assms(3) unfolding assms(2) callPost.simps exec_post_def by blast

lemma executed_never:
  assumes "gov_inv D s" and "govProposals s i = Some p" and "sgStatus p = 7"
  shows "executions D i xs s = 0"
  using assms
proof (induction xs arbitrary: s)
  case (Cons x xs)
  let ?t = "afterCall D (fst x) (snd x) s"
  have "gov_inv D ?t" using runGov_good [OF Cons.prems(1)] by (simp add: good_def)
  moreover have "govProposals ?t i = Some p"
    using callPost_step [OF runGov_post [OF Cons.prems(1)] Cons.prems(2)] executed_stuck [OF Cons.prems(3)] by blast
  moreover have "untouched D s ?t" if "snd x = CallExecute i"
    using execute_changes [OF Cons.prems(1) that, of "fst x"] Cons.prems(2,3) by (auto simp: executes_def)
  ultimately show ?case using Cons.IH Cons.prems(3) by (simp add: Let_def)
qed simp

text \<open>
  Property C36 (executed once). In any history at most one of the calls that execute a proposal has an
  effect; every other one leaves balances, escrows, proposals, ballots, parameters and roles as they
  were. After the one that has, the proposal is recorded as executed for good.
\<close>

theorem gov_execute_once:
  assumes "gov_inv D s"
  shows "executions D i xs s \<le> 1
    \<and> (0 < executions D i xs s \<longrightarrow> (\<exists>p. govProposals (govRun D xs s) i = Some p \<and> sgStatus p = 7))"
  using assms
proof (induction xs arbitrary: s)
  case (Cons x xs)
  let ?t = "afterCall D (fst x) (snd x) s"
  have t: "gov_inv D ?t" using runGov_good [OF Cons.prems] by (simp add: good_def)
  show ?case
  proof (cases "snd x = CallExecute i \<and> \<not> untouched D s ?t")
    case True
    then have "executes (fst x) i s ?t" using execute_changes [OF Cons.prems] by blast
    then obtain p where p: "govProposals ?t i = Some p" "sgStatus p = 7" by (auto simp: executes_def)
    then have "executions D i xs ?t = 0" "govProposals (govRun D xs ?t) i = Some p"
      using executed_never [OF t] govRun_stuck [OF t p(1)] executed_stuck by blast+
    with True p(2) show ?thesis by (simp add: Let_def)
  next
    case False
    then show ?thesis
      unfolding executions.simps Let_def if_not_P [OF False] add_0 govRun.simps by (intro Cons.IH t)
  qed
qed simp

text \<open>
  Property C37 (finalisation). Once its voting period is over a proposal in the voting period is decided
  by the ballots recorded for it, up to 2 ^ 18 of them: it passes when the power of all ballots
  reaches the quorum and the yes power reaches the threshold's share, in basis points, of the yes and
  no power. A passed proposal is stored as passed and its deposit goes back from escrow to the
  submitter; any other is stored as rejected and no balance or escrow changes, so nothing of its
  deposit is returned or forfeited (\<^verbatim>\<open>docs/governance/overview.md\<close> returns the deposit of a vetoed proposal and
  forfeits a portion of one that fails quorum). This holds also when the audit entry cannot be written. When the call succeeds it returns that status and the exact sums.
\<close>

theorem finalize_decides:
  assumes "gov_inv D s" and "govProposals s i = Some p" and "sgStatus p = 2"
    and "fromUnix (sgVotingEnd p) \<noteq> zeroTime" and "fromUnix (sgVotingEnd p) \<le> gnow E"
    and "length (ballotsOf s i) \<le> 262144"
  shows "settled D E i p s (snd (Finalize D E i s))
    \<and> (\<forall>st tally t. Finalize D E i s = (Inr (st, tally), t) \<longrightarrow> tally_exact E (ballotsOf s i) tally
        \<and> st = (if passes E (ballotsOf s i) then ProposalStatusPassed else ProposalStatusRejected))"
  using wp_snd [OF Finalize_effect(1) [OF assms]] Finalize_effect(2) [OF assms] by blast

text \<open>
  Property C38 (records stay readable). After any history every proposal that is stored reads back
  without an error and so do the ballots of every proposal; the list has one ballot per voter, and
  looking a voter up gives the ballot of the list.
\<close>

theorem gov_store_typed:
  assumes "gov_inv D s"
  shows "let t = govRun D xs s in
    (\<exists>r. GovernanceGetProposal i t = (Inr r, t) \<and> (r = None \<longleftrightarrow> govProposals t i = None))
    \<and> (\<exists>vs. GovernanceListVotes i t = (Inr vs, t) \<and> distinct (map gvVoter vs)
        \<and> (\<forall>v \<in> set vs. voteChoiceValid (gvChoice v) \<and> gvProposalID v = i
             \<and> GovernanceGetVote i (gvVoter v) t = (Inr (Some v), t)))"
proof -
  define t where "t = govRun D xs s"
  have inv: "gov_inv D t" using govRun_good [OF assms, of xs] by (simp add: t_def good_def)
  note b = gov_invD(3) [OF inv, unfolded ballots_ok_def, THEN spec [of _ i]] and p = gov_invD(2) [OF inv]
  have "\<exists>r. GovernanceGetProposal i t = (Inr r, t) \<and> (r = None \<longleftrightarrow> govProposals t i = None)"
  proof (cases "govProposals t i")
    case (Some q)
    with p have "proposal_ok (govSequence t) i q" by (simp add: proposals_ok_def)
    then obtain pr where "toGovernanceProposal q = Inr pr" using readable unfolding loaded_def by blast
    with Some show ?thesis by (simp add: GovernanceGetProposal_def run_defs)
  qed (simp add: GovernanceGetProposal_def run_defs)
  moreover have "GovernanceListVotes i t = (Inr (map readVote (ballotsOf t i)), t)"
    using toGovernanceVotes_ok [OF ballots_valid [OF gov_invD(3) [OF inv]]]
    by (simp add: GovernanceListVotes_def run_defs ballotsOf_def)
  moreover have "map gvVoter (map readVote (ballotsOf t i)) = map svoter (ballotsOf t i)" by (simp add: readVote_def)
  moreover have "voteChoiceValid (gvChoice v) \<and> gvProposalID v = i \<and> GovernanceGetVote i (gvVoter v) t = (Inr (Some v), t)"
    if v: "v \<in> set (map readVote (ballotsOf t i))" for v
  proof -
    from v obtain r where r: "r \<in> set (ballotsOf t i)" "v = readVote r" by auto
    with b have g: "govVotes t (i, svoter r) = Some r" by blast
    with b have "svProposalID r = i" "voteChoiceValid (svChoice r)" by blast+
    with g r(2) show ?thesis
      using toGovernanceVote_ok [of r] by (simp add: GovernanceGetVote_def run_defs readVote_def)
  qed
  ultimately show ?thesis using b unfolding Let_def t_def [symmetric] by metis
qed

text \<open>
  Property C39 (a rejected deposit is gone). Once a proposal is rejected no sequence of calls of any
  length releases its deposit: the record still names it and the escrow of the submitter still holds
  at least that much.
\<close>

theorem rejected_deposit_locked:
  assumes "gov_inv D s" and "govProposals s i = Some p" and "sgStatus p = 4"
  shows "govProposals (govRun D xs s) i = Some p \<and> sgDeposit p \<le> escrowOf (govRun D xs s) (sgSubmitter p)"
proof -
  let ?t = "govRun D xs s"
  have t: "gov_inv D ?t" using govRun_good [OF assms(1), of xs] by (simp add: good_def)
  have p: "govProposals ?t i = Some p" by (rule govRun_stuck [OF assms(1,2) rejected_stuck [OF assms(3)]])
  have "depositsOf (sgSubmitter p) ?t \<le> escrowOf ?t (sgSubmitter p)" using t by (simp add: gov_inv_def)
  with p depositsOf_ge [OF gov_invD(2) [OF t] p] show ?thesis by simp
qed


abbreviation "stakeKey \<equiv> ''staking.minimumValidatorStake''"
abbreviation quote :: char where "quote \<equiv> CHR 0x22"

lemma trimSpace_quote: "\<exists>r. trimSpace (quote # rest) = quote # r"
proof -
  have n: "\<not> isSpace quote" by (simp add: isSpace_def)
  then have "dropWhile isSpace (rev rest @ [quote]) = dropWhile isSpace (rev rest) @ [quote]"
    by (rule dropWhile_append3)
  with n show ?thesis by (simp add: trimSpace_def)
qed

lemma parseBigInt_quote: "parseBigInt (quote # r) = None"
  by (simp add: parseBigInt_def digitValue_def)

lemma validator_stake:
  "validatorForParam D stakeKey = Some (uintParam D stakeKey (\<lambda>v. v \<le> 0) ''must be positive'')"
  by (simp add: validatorForParam_def orElse_def feePotsoValidator_def stakingValidator_def loyaltyValidator_def
      slashingValidator_def)

lemma trim_stakeKey: "trimSpace stakeKey = stakeKey" "stakeKey \<noteq> ''gov.tally.QuorumBps''" "stakeKey \<noteq> ''gov.tally.ThresholdBps''"
  by code_simp+

text \<open>A positive number as a JSON string.\<close>

abbreviation quoted :: "nat \<Rightarrow> string" where "quoted n \<equiv> quote # formatNat n @ [quote]"

lemma parseUintRaw_quoted:
  assumes "jsonValue D raw = Inr (JString (formatNat n))"
  shows "parseUintRaw D raw = Inr (int n)"
proof -
  obtain c cs where c: "formatNat n = c # cs" by (meson formatNat_nonempty neq_Nil_conv)
  have digit: "x \<noteq> CHR ''+'' \<and> x \<noteq> CHR ''-'' \<and> \<not> isFloatMark x" if "x \<in> set (formatNat n)" for x
    using formatNat_digits [OF that] by (auto simp: isFloatMark_def)
  from digit [of c] c have "trimPrefix ''+'' (formatNat n) = formatNat n" "take 1 (formatNat n) \<noteq> ''-''"
    by (simp_all add: trimPrefix_def)
  moreover have "\<not> list_ex isFloatMark (formatNat n)" using digit by (auto simp: list_ex_iff)
  ultimately show ?thesis
    using assms by (simp add: parseUintRaw_def numberText_def trimSpace_formatNat formatNat_nonempty checkS_def
        parseBigInt_formatNat)
qed

lemma quoted_payload:
  assumes "jsonObject D change = Inr [(stakeKey, raw)]" and "stakeKey \<in> set (allowedParams E)"
    and "jsonValue D raw = Inr (JString (formatNat n))" and "0 < n"
  shows "validateParamPayload D E change = Inr [(stakeKey, raw)]"
    and "preflightPolicyDelta D E [(stakeKey, raw)] s = (Inr (), s)"
proof -
  have "uintParam D stakeKey (\<lambda>v. v \<le> 0) ''must be positive'' raw = Inr ()"
    using parseUintRaw_quoted [OF assms(3)] assms(4) by (simp add: uintParam_def wrapS_def)
  then show "validateParamPayload D E change = Inr [(stakeKey, raw)]"
    using assms(1,2) by (simp add: validateParamPayload_def trim_stakeKey validator_stake checkS_def)
  show "preflightPolicyDelta D E [(stakeKey, raw)] s = (Inr (), s)"
    by (simp add: preflightPolicyDelta_def trim_stakeKey liftE_def retE_def bindE_def)
qed

text \<open>
  Property C40 (a quoted stake cannot be read back). Take the change that sets the minimum validator
  stake to a positive number written as a JSON string, where the JSON decoder reads that text as the
  string between the quotation marks. The check at submission accepts it, its execution succeeds and
  stores the text with its quotation marks, and in the resulting state \<^verbatim>\<open>minimumValidatorStake\<close> of the
  state processor fails.
\<close>

theorem quoted_stake_unreadable:
  assumes "jsonObject D change = Inr [(stakeKey, quoted n)]" and "stakeKey \<in> set (allowedParams E)"
    and "jsonValue D (quoted n) = Inr (JString (formatNat n))" and "0 < n"
  shows "checkPayload D E ''param.update'' change s = (Inr (), s)
    \<and> (\<exists>t. applyParamUpdates D E change s = (Inr [stakeKey], t)
        \<and> minimumValidatorStake t = (Inl ''minimum validator stake must be a base-10 integer'', t))"
proof -
  note q = quoted_payload [OF assms]
  let ?rest = "formatNat n @ [quote]"
  let ?t = "s\<lparr>govParams := govParams s ++ map_of [(stakeKey, quote # ?rest)]\<rparr>"
  have store: "storeParams [(stakeKey, quote # ?rest)] s = (Inr (), ?t)"
    by (rule storeParams_ok) (simp_all add: trim_stakeKey)
  have "checkPayload D E ''param.update'' change s = (Inr (), s)"
    using q by (simp add: checkPayload_def isParamKind_def)
  moreover have "applyParamUpdates D E change s = (Inr [stakeKey], ?t)"
    unfolding applyParamUpdates_def q(1) bindE_simps
      run_bindE(1) [where m = "preflightPolicyDelta D E x" and s = s for x, OF q(2)]
      run_bindE(1) [where m = "storeParams x" and s = s for x, OF store]
    by (simp add: retE_def)
  moreover obtain r where "trimSpace (quote # ?rest) = quote # r" using trimSpace_quote by blast
  then have "minimumValidatorStake ?t = (Inl ''minimum validator stake must be a base-10 integer'', ?t)"
    by (simp add: minimumValidatorStake_def run_defs parseBigInt_quote Let_def)
  ultimately show ?thesis by blast
qed


section \<open>A concrete chain\<close>

text \<open>Address 7 holds 100 ZNHB and has proposed, with a deposit of 10, that the treasury 9 pays 30 to 5;
  address 8 has voted with 6000 basis points. Times are seconds.\<close>

definition refGov :: govdeps where
  "refGov = \<lparr>uint256FromBig = (\<lambda>x. (x mod 2 ^ 256, x < 0 \<or> 2 ^ 256 \<le> x)), rlpBigInt = (\<lambda>x. 0 \<le> x),
     emptyRootHash = 1, emptyCodeHash = 2,
     jsonObject = (\<lambda>_. Inr [(stakeKey, [quote, CHR ''5'', quote])]), jsonValue = (\<lambda>t. Inr (JString (butlast (tl t)))),
     jsonString = (\<lambda>s. Inr s), jsonStrings = (\<lambda>_. Inr []), jsonSlashing = (\<lambda>_. Inl ''unexpected''),
     jsonRoles = (\<lambda>_. Inl ''unexpected''),
     jsonTreasury = (\<lambda>_. Inr \<lparr>tdSource = ''treasury'',
       tdTransfers = [\<lparr>ttTo = ''grantee'', ttAmountWei = ''30'', ttMemo = [], ttKind = []\<rparr>], tdMemo = []\<rparr>),
     jsonMarshal = (\<lambda>_. Inr ''{}''), parseFloat = (\<lambda>_. Inr NotFinite), seedsParse = (\<lambda>_. Inr ()),
     bech32Decode = (\<lambda>s. Inr (if s = ''treasury'' then addrBytes 9 else addrBytes 5)), bech32Encode = (\<lambda>_. ''nhb'')\<rparr>"

definition engineAt :: "int \<Rightarrow> goveng" where
  "engineAt secs = \<lparr>minDeposit = 10, votingPeriodSeconds = 100, timelockSeconds = 50, allowedParams = [stakeKey],
     allowedRoles = [], treasuryAllow = [9], quorumBps = 4000, passThresholdBps = 5000, policyValidator = None,
     gnow = secs * second\<rparr>"

definition sampleProposal :: "u8 \<Rightarrow> storedGovernanceProposal" where
  "sampleProposal st = \<lparr>sgID = 1, sgTitle = [], sgSummary = [], sgMetadataURI = [], sgSubmitter = 7, sgStatus = st,
     sgDeposit = 10, sgSubmitTime = 1000, sgVotingStart = 1000, sgVotingEnd = 1100, sgTimelockEnd = 1150,
     sgTarget = ''treasury.directive'', sgProposedChange = ''x'', sgQueued = False\<rparr>"

definition sampleBallot :: storedGovernanceVote where
  "sampleBallot = \<lparr>svProposalID = 1, svoter = 8, svChoice = ''yes'', svPowerBps = 6000, svTimestamp = 1010\<rparr>"

definition sampleGov :: "u8 \<Rightarrow> gstate" where
  "sampleGov st = \<lparr>stateAccounts = Map.empty,
     accountMetas = [7 \<mapsto> emptyMetadata\<lparr>mBalanceZNHB := 90\<rparr>, 9 \<mapsto> emptyMetadata\<lparr>mBalanceZNHB := 100\<rparr>],
     stakingSnaps = Map.empty, events = [], govEscrows = [7 \<mapsto> 10], govSequence = Some 1,
     govProposals = [1 \<mapsto> sampleProposal st], govVotes = [(1, 8) \<mapsto> sampleBallot], govVoteIndex = [1 \<mapsto> [sampleBallot]],
     govAudits = Map.empty, govAuditSequence = None, govParams = Map.empty, govRoles = Map.empty,
     potsoLastEpoch = None, potsoWeights = Map.empty\<rparr>"

lemma refGov_ok: "deps_ok refGov"
  by (auto simp: deps_ok_def refGov_def)

lemma sampleGov_inv:
  assumes "validProposalStatus st \<noteq> None"
  shows "gov_inv refGov (sampleGov st)"
proof -
  have "acct_fits (acctOf refGov (sampleGov st) a)" for a
    by (simp add: refGov_def sampleGov_def acct_fits_def acct_nonneg_def metaBigInts_def
        accountMeta_def acctOf_def account_defs run_defs assembleAccount_def ensureAccountDefaults_def emptyMetadata_def)
  moreover have "proposals_ok (sampleGov st)"
    using assms by (simp add: proposals_ok_def proposal_ok_def sampleGov_def sampleProposal_def)
  moreover have "depositsOf a (sampleGov st) \<le> escrowOf (sampleGov st) a" for a
    by (simp add: depositsOf_def escrowOf_def sampleGov_def sampleProposal_def msum_upd depositOf_def)
  moreover have "ballots_ok (sampleGov st)"
    by (auto simp: ballots_ok_def ballotsOf_def sampleGov_def sampleBallot_def voteChoiceValid_def)
  ultimately show ?thesis by (simp add: gov_inv_def chain_inv_def refGov_ok)
qed

lemma open_inv: "gov_inv refGov (sampleGov 2)" and lost_inv: "gov_inv refGov (sampleGov 4)"
  by (rule sampleGov_inv, simp add: validProposalStatus_def)+

text \<open>Finalised, queued, executed and executed again; and a submission.\<close>

definition sampleCalls :: "(goveng \<times> govCall) list" where
  "sampleCalls = [(engineAt 1100, CallFinalize 1), (engineAt 1100, CallQueue 1), (engineAt 1150, CallExecute 1),
     (engineAt 1151, CallExecute 1), (engineAt 1152, CallPropose 7 ''treasury.directive'' ''x'' 10)]"

theorem gov_conservation_witness:
  "gov_inv refGov (govRun refGov sampleCalls (sampleGov 2))
   \<and> totalZNHB refGov (govRun refGov sampleCalls (sampleGov 2)) = totalZNHB refGov (sampleGov 2)"
  using gov_conservation [OF open_inv, of sampleCalls] by blast

theorem gov_lifecycle_witness:
  "\<exists>q. govProposals (afterCall refGov (engineAt 1100) (CallFinalize 1) (sampleGov 2)) 1 = Some q
     \<and> (q = sampleProposal 2 \<or> moves (engineAt 1100) [sampleBallot] (sampleProposal 2) q)"
  using gov_lifecycle [OF open_inv, of "engineAt 1100" "CallFinalize 1"]
  by (auto simp: sampleGov_def ballotsOf_def dest: spec [of _ 1] simp del: runGov.simps)

theorem gov_execute_once_witness: "executions refGov 1 sampleCalls (sampleGov 2) \<le> 1"
  using gov_execute_once [OF open_inv, of 1 sampleCalls] by blast

lemma sample_passes: "passes (engineAt 1100) [sampleBallot]"
  by (simp add: passes_def engineAt_def sampleBallot_def)

theorem finalize_decides_witness:
  "govProposals (snd (Finalize refGov (engineAt 1100) 1 (sampleGov 2))) 1 = Some (sampleProposal 3\<lparr>sgDeposit := 0\<rparr>)
   \<and> coinBalance refGov ZNHB (snd (Finalize refGov (engineAt 1100) 1 (sampleGov 2))) 7 = 100
   \<and> escrowOf (snd (Finalize refGov (engineAt 1100) 1 (sampleGov 2))) 7 = 0"
proof -
  have b: "ballotsOf (sampleGov 2) 1 = [sampleBallot]" by (simp add: ballotsOf_def sampleGov_def)
  have p: "govProposals (sampleGov 2) 1 = Some (sampleProposal 2)" by (simp add: sampleGov_def)
  have "settled refGov (engineAt 1100) 1 (sampleProposal 2) (sampleGov 2) (snd (Finalize refGov (engineAt 1100) 1 (sampleGov 2)))"
    by (rule finalize_decides [OF open_inv p, THEN conjunct1])
      (simp_all add: sampleProposal_def fromUnix_def zeroTime_def engineAt_def b)
  moreover have "coinBalance refGov ZNHB (sampleGov 2) 7 = 90" "escrowOf (sampleGov 2) 7 = 10"
    by (simp_all add: coinBalance_def acctOf_def account_defs run_defs assembleAccount_def ensureAccountDefaults_def
        sampleGov_def escrowOf_def)
  ultimately show ?thesis using sample_passes by (simp add: settled_def b sampleProposal_def)
qed

theorem gov_store_typed_witness:
  "\<exists>vs. GovernanceListVotes 1 (govRun refGov sampleCalls (sampleGov 2)) = (Inr vs, govRun refGov sampleCalls (sampleGov 2))
     \<and> distinct (map gvVoter vs)"
  using gov_store_typed [OF open_inv, of sampleCalls 1] unfolding Let_def by blast

theorem rejected_deposit_locked_witness:
  "govProposals (govRun refGov sampleCalls (sampleGov 4)) 1 = Some (sampleProposal 4)
   \<and> 10 \<le> escrowOf (govRun refGov sampleCalls (sampleGov 4)) 7"
  using rejected_deposit_locked [OF lost_inv, of 1 "sampleProposal 4" sampleCalls]
  by (simp add: sampleGov_def sampleProposal_def)

theorem quoted_stake_unreadable_witness:
  "\<exists>t. applyParamUpdates refGov (engineAt 1150) ''x'' (sampleGov 2) = (Inr [stakeKey], t)
     \<and> minimumValidatorStake t = (Inl ''minimum validator stake must be a base-10 integer'', t)"
proof -
  have five: "formatNat 5 = ''5''" by code_simp
  show ?thesis
    using quoted_stake_unreadable [of refGov "''x''" 5 "engineAt 1150" "sampleGov 2"]
    by (simp add: refGov_def engineAt_def five)
qed

end
