(* ===== verification/Spec2Isabelle.thy ===== *)
theory Spec2Isabelle
  imports Common TradeTheorems Milestone LendingCalls BFTTheorems GovTheorems
begin

text \<open>
  A verification of the native modules of the NHB chain, a blockchain node written in Go.

  \<^bold>\<open>The program.\<close> A node keeps a state of accounts in two tokens, NHB and ZNHB, and a number of modules
  that move them: escrows, trades between two escrows, milestone projects, lending pools and governance.
  A module is an engine (\<^verbatim>\<open>native/\<close>) that reads and writes records through the state manager
  (\<^verbatim>\<open>core/state\<close>) and is called by the RPC layer or the node (\<^verbatim>\<open>rpc/modules\<close>, \<^verbatim>\<open>core/node.go\<close>). Blocks are
  agreed on by the consensus engine (\<^verbatim>\<open>consensus/bft\<close>), which sees the node through an interface. The
  development follows that structure: the engines call the account store of \<open>Accounts\<close>, trades call the escrow
  engine, and every module is closed by a relation of reachable states over its calls.

  \<^bold>\<open>How code is modelled.\<close> An operation is a function from a state to an error or a value and the new state
  (\<open>op\<close> of \<open>Prelude\<close>). The state after an error is part of the result, because the RPC path of the node does
  not roll back: what was written before the error stays. A guard of the code is \<open>failIf\<close> with the
  message of the code; messages built with \<^verbatim>\<open>fmt.Errorf\<close> keep their format string. The state of a
  module is a record that extends the record \<open>chain\<close> of the account store, so an operation of one module is
  an operation on the state of another. \<^verbatim>\<open>*big.Int\<close> is \<open>int\<close>; \<^verbatim>\<open>uint8\<close> to \<^verbatim>\<open>uint64\<close>, addresses and hashes are
  words, with the wrap-around of Go; \<^verbatim>\<open>int64\<close> times are \<open>int\<close> with their range as a hypothesis where
  it matters. Byte keys of the store are the typed keys themselves; database errors and nil receivers are
  left out. Third-party code (go-ethereum, \<^verbatim>\<open>uint256\<close>, JSON, Bech32, signature schemes) is a record of
  functions passed to the definitions; what a theorem needs of it is a named hypothesis (\<open>deps_ok\<close>,
  \<open>bdeps_ok\<close>, \<open>rlp_rules\<close>), and every theorem that has one also has a witness with concrete functions.

  \<^bold>\<open>Theories.\<close>

  \<^item> \<open>Prelude\<close>: operations with errors, a weakest precondition \<open>wp\<close> for them, what an operation keeps
    (\<open>keeps\<close>, \<open>frame\<close>), strings and decimal text, sums over maps.

  \<^item> \<open>Common\<close>: the pause guard \<^verbatim>\<open>Guard\<close> and the quotas (\<^verbatim>\<open>native/common\<close>, \<^verbatim>\<open>native/system/quotas\<close>): \<^verbatim>\<open>CheckQuota\<close>,
    \<^verbatim>\<open>Apply\<close>, \<^verbatim>\<open>Load\<close>, \<^verbatim>\<open>Save\<close>, \<^verbatim>\<open>PruneEpoch\<close>. The locale \<open>quota_contract\<close> is what \<^verbatim>\<open>Apply\<close> needs of a store; it is
    interpreted on the quota store. A run of requests adds up exactly, within the caps, and changes
    no other counter.

  \<^item> \<open>Accounts\<close>: \<^verbatim>\<open>GetAccount\<close> and \<^verbatim>\<open>PutAccount\<close> of \<^verbatim>\<open>core/state/accounts.go\<close>, which keep an account in three
    records. The locale \<open>account_ledger\<close> gives balances and supply as the modules use them.

  \<^item> \<open>EscrowTypes\<close>, \<open>EscrowStore\<close>, \<open>EscrowEngine\<close>: \<^verbatim>\<open>native/escrow\<close> types, events and engine and the escrow part of
    \<^verbatim>\<open>core/state/manager.go\<close>: creation, funding, release, refund, expiry, dispute, resolution by the
    mediator and by signed decisions, realms and frozen arbitration policies. \<open>EscrowLedger\<close>, \<open>EscrowProps\<close> and
    \<open>EscrowFunds\<close> hold the invariant of the store (\<open>acct_ok\<close>), that every call keeps it and changes an
    escrow only as \<open>call_allows\<close> says, and what a call does to balances. \<open>EscrowTheorems\<close> has the properties:
    tracked balances, the authorised life cycle with its two departures from the documentation, finality,
    solvency of the vaults, conservation, distribution of a release, quorum of a decision, refundability,
    retries, the round trip of the store, and two faults (a release without treasury, a transfer to oneself).

  \<^item> \<open>TradeEngine\<close>, \<open>TradeProps\<close>, \<open>TradeTheorems\<close>: \<^verbatim>\<open>native/escrow/trade_engine.go\<close>. The invariant \<open>world_ok\<close> ties a trade to
    its two escrows; settlement is atomic and makes exactly the exchange; a dispute is undone by a
    repeated funding notification, after which the settlement goes through.

  \<^item> \<open>Milestone\<close>: projects of legs, \<^verbatim>\<open>native/escrow/engine_milestone.go\<close> and the milestone calls of
    \<^verbatim>\<open>core/node.go\<close>: the life cycle, the loop of a subscription, and that no project can be
    stored, since RLP has no encoding for the \<^verbatim>\<open>int64\<close> fields of its Go type.

  \<^item> \<open>LendingMath\<close>, \<open>LendingEngine\<close>: \<^verbatim>\<open>native/lending\<close>, the lending records of \<^verbatim>\<open>core/state/manager.go\<close> and the
    calls of \<^verbatim>\<open>rpc/modules/lending.go\<close>. \<open>LendingProps\<close> has the invariant \<open>lend_inv\<close> (books against balances),
    \<open>LendingTheorems\<close> the reachable states, solvency, shares, redemption and interest, \<open>LendingCalls\<close> the effects of
    borrowing and collateral withdrawal and two faults (a rejected repayment, self-liquidation).

  \<^item> \<open>BFTEngine\<close>: \<^verbatim>\<open>consensus/bft\<close>, an engine as a step function over messages and loop events. \<open>BFTProps\<close> has
    the invariant of a running engine and that its past messages are never read; \<open>BFTTheorems\<close> what counts as a
    quorum, agreement within a round, the missing lock across rounds and the double vote after a
    refused block.

  \<^item> \<open>GovStore\<close>, \<open>GovEngine\<close>: \<^verbatim>\<open>native/governance\<close>, its records in \<^verbatim>\<open>core/state\<close> and the governance calls of
    \<^verbatim>\<open>core/node.go\<close>: payload validation, submission, votes, tally, finalisation, queue and execution.
    \<open>GovProps\<close> and \<open>GovCalls\<close> have the invariant \<open>gov_inv\<close> and what each call does, \<open>GovTheorems\<close> conservation,
    the life cycle, single execution, the decision of a vote, readable records and two faults (a
    rejected deposit, a quoted stake).

  \<^bold>\<open>Bounds.\<close> Recursion is structural or has a termination proof; no definition runs on fuel. The loop of a
  subscription, \<open>advanceLoop\<close>, is a partial function with value \<open>None\<close> for a loop that does not end,
  and it is proved to end. Where a theorem has a bound it is the one the code's types need: an NHB supply
  below \<open>2 ^ 256\<close> (a larger balance is refused by \<^verbatim>\<open>uint256\<close>), a chain shorter than \<open>2 ^ 64 - 1\<close> blocks, at most
  \<open>2 ^ 18\<close> ballots for a proposal (the products with basis points in the tally then fit in 64 bits), times within
  \<^verbatim>\<open>int64\<close>. The theorems on funds exclude a vault or module account that is also a party: the
  store overwrites one side of a transfer to oneself, which \<open>self_transfer_mints\<close> and
  \<open>self_liquidation\<close> show.

  \<^bold>\<open>Not modelled.\<close> The transaction processor (\<^verbatim>\<open>core/state_transition.go\<close>, over a trie and an EVM of
  go-ethereum) and the modules that live inside it: staking and epochs, POTSO weights, loyalty, swap and oracle,
  payment intents, creators, identity and smaller ones. Block building and import; networking; RPC servers,
  commands, services and clients, which are input and output; configuration and the policy validator, which
  is an argument of the governance engine. Concurrency inside an engine: each call holds the state lock, so
  it is one step; the consensus loop is one goroutine, and the handlers called from others only
  append to its queues. A nil broadcaster, on which the consensus engine panics.
\<close>

end
